(* ===== verification/Prelude.thy ===== *)
theory Prelude
  imports Complex_Main "HOL-Library.Word" "HOL-Library.Char_ord" "HOL-Library.List_Lexorder"
    "HOL-Library.AList"
begin

text \<open>
  The vocabulary the component theories share: Python exceptions as values, insertion-ordered
  dictionaries, byte strings, chunked reads, and the lemma collections the component proofs use.

  A Python \<open>str\<close> is a \<open>string\<close> whose characters are code points below 256; a \<open>bytes\<close> value is
  a list of 8-bit words. A raised exception is the left side of a sum, so every \<open>raise\<close> and every
  \<open>except\<close> clause of the source is a visible branch.
\<close>

named_theorems fl_simps
named_theorems text_simps
named_theorems dict_simps

section \<open>Bytes and exceptions\<close>

type_synonym byte = "8 word"
type_synonym bytes = "byte list"

datatype pyexn =
    ValueError string
  | TypeError
  | KeyError
  | IndexError int
  | RuntimeError string
  | AttributeError
  | OverflowError
  | FileNotFoundError
  | FileExistsError string
  | PermissionError string
  | OSError string
  | SqliteIntegrityError
  | SqliteError
  | ZeroDivisionError
  | InvalidOperation
  | AssertionError
  | StopIteration
  | IncompleteReadError
  | ConnectionError
  | InvalidTag
  | InvalidSignature
  | HTTPException int string
  | IntegrityError string
  | AuthorizationError string
  | AttestationError string
  | LicensePolicyError string
  | VaultError string
  | SystemExit string

type_synonym 'a result = "pyexn + 'a"

text \<open>The \<open>except\<close> clauses name classes; these are the subclass tests the source relies on.\<close>

fun is_ValueError :: "pyexn \<Rightarrow> bool" where
  "is_ValueError (ValueError _) = True"
| "is_ValueError _ = False"

fun is_OSError :: "pyexn \<Rightarrow> bool" where
  "is_OSError FileNotFoundError = True"
| "is_OSError (FileExistsError _) = True"
| "is_OSError (PermissionError _) = True"
| "is_OSError (OSError _) = True"
| "is_OSError ConnectionError = True"
| "is_OSError _ = False"

fun is_RuntimeError :: "pyexn \<Rightarrow> bool" where
  "is_RuntimeError (RuntimeError _) = True"
| "is_RuntimeError (VaultError _) = True"
| "is_RuntimeError _ = False"

fun is_IndexError :: "pyexn \<Rightarrow> bool" where
  "is_IndexError (IndexError _) = True"
| "is_IndexError _ = False"

fun is_AuthorizationError :: "pyexn \<Rightarrow> bool" where
  "is_AuthorizationError (AuthorizationError _) = True"
| "is_AuthorizationError (AttestationError _) = True"
| "is_AuthorizationError _ = False"

definition bindR :: "'a result \<Rightarrow> ('a \<Rightarrow> 'b result) \<Rightarrow> 'b result" where
  "bindR m f = (case m of Inl e \<Rightarrow> Inl e | Inr x \<Rightarrow> f x)"

lemma bindR_simps [simp]:
  "bindR (Inl e) f = Inl e"
  "bindR (Inr x) f = f x"
  by (simp_all add: bindR_def)

lemma bindR_Inr_iff: "bindR m f = Inr y \<longleftrightarrow> (\<exists>x. m = Inr x \<and> f x = Inr y)"
  by (cases m) auto

lemma bindR_Inl_iff: "bindR m f = Inl e \<longleftrightarrow> m = Inl e \<or> (\<exists>x. m = Inr x \<and> f x = Inl e)"
  by (cases m) auto

fun is_ok :: "'a result \<Rightarrow> bool" where
  "is_ok (Inr _) = True"
| "is_ok (Inl _) = False"

section \<open>Dictionaries\<close>

text \<open>
  A Python \<open>dict\<close> keeps insertion order: assigning to a present key keeps its position, a new key
  goes to the end. That is \<^const>\<open>AList.update\<close>; \<open>pop\<close> is \<^const>\<open>AList.delete\<close>.
\<close>

type_synonym ('k, 'v) dict = "('k \<times> 'v) list"

abbreviation dict_ok :: "('k, 'v) dict \<Rightarrow> bool" where
  "dict_ok d \<equiv> distinct (map fst d)"

definition dict_get :: "('k, 'v) dict \<Rightarrow> 'k \<Rightarrow> 'v option" where
  "dict_get d k = map_of d k"

definition dict_get_default :: "('k, 'v) dict \<Rightarrow> 'k \<Rightarrow> 'v \<Rightarrow> 'v" where
  "dict_get_default d k v = (case map_of d k of None \<Rightarrow> v | Some x \<Rightarrow> x)"

definition dict_set :: "'k \<Rightarrow> 'v \<Rightarrow> ('k, 'v) dict \<Rightarrow> ('k, 'v) dict" where
  "dict_set k v d = AList.update k v d"

definition dict_del :: "'k \<Rightarrow> ('k, 'v) dict \<Rightarrow> ('k, 'v) dict" where
  "dict_del k d = AList.delete k d"

text \<open>
  The contract of a keyed store, in terms of the finite map it denotes. Sessions, nonces, access
  rules and cache entries all live in one; their proofs use only these laws.
\<close>

locale keyed_store =
  fixes lookup :: "'s \<Rightarrow> 'k \<Rightarrow> 'v option"
    and store :: "'k \<Rightarrow> 'v \<Rightarrow> 's \<Rightarrow> 's"
    and remove :: "'k \<Rightarrow> 's \<Rightarrow> 's"
    and wf :: "'s \<Rightarrow> bool"
  assumes lookup_store: "lookup (store k v s) k' = (if k' = k then Some v else lookup s k')"
    and lookup_remove: "lookup (remove k s) k' = (if k' = k then None else lookup s k')"
    and wf_store: "wf s \<Longrightarrow> wf (store k v s)"
    and wf_remove: "wf s \<Longrightarrow> wf (remove k s)"
begin

lemma store_same [simp]: "lookup (store k v s) k = Some v"
  by (simp add: lookup_store)

lemma store_other [simp]: "k' \<noteq> k \<Longrightarrow> lookup (store k v s) k' = lookup s k'"
  by (simp add: lookup_store)

lemma remove_same [simp]: "lookup (remove k s) k = None"
  by (simp add: lookup_remove)

lemma remove_other [simp]: "k' \<noteq> k \<Longrightarrow> lookup (remove k s) k' = lookup s k'"
  by (simp add: lookup_remove)

lemma store_store: "lookup (store k v (store k w s)) = lookup (store k v s)"
  by (rule ext) (simp add: lookup_store)

lemma wf_steps:
  "wf s \<Longrightarrow> wf (fold (\<lambda>op. case op of Inl k \<Rightarrow> remove k | Inr (k, v) \<Rightarrow> store k v) ops s)"
  by (induction ops arbitrary: s) (auto simp: wf_store wf_remove split: sum.splits)

end

interpretation dict: keyed_store dict_get dict_set dict_del "\<lambda>d. dict_ok d"
  by unfold_locales
    (auto simp: dict_get_def dict_set_def dict_del_def update_conv delete_conv'
      intro: distinct_update distinct_delete)

lemma dict_get_default_eq:
  "dict_get_default d k v = (case dict_get d k of None \<Rightarrow> v | Some x \<Rightarrow> x)"
  by (simp add: dict_get_default_def dict_get_def)

lemma dict_keys_set [dict_simps]:
  "map fst (dict_set k v d) = (if k \<in> set (map fst d) then map fst d else map fst d @ [k])"
  by (simp add: dict_set_def update_keys)

lemma dict_keys_del [dict_simps]: "map fst (dict_del k d) = filter (\<lambda>x. x \<noteq> k) (map fst d)"
  by (auto simp: dict_del_def AList.delete_keys removeAll_filter_not_eq intro: filter_cong)

lemma length_dict_set [dict_simps]:
  "length (dict_set k v d) = (if k \<in> set (map fst d) then length d else Suc (length d))"
  by (metis dict_keys_set length_map length_append_singleton)

lemma length_dict_del: "length (dict_del k d) \<le> length d"
  by (simp add: dict_del_def length_delete_le)

lemma length_dict_del_in:
  "dict_ok d \<Longrightarrow> k \<in> set (map fst d) \<Longrightarrow> Suc (length (dict_del k d)) = length d"
proof -
  assume ok: "dict_ok d" and k: "k \<in> set (map fst d)"
  have "length (dict_del k d) = length (remove1 k (map fst d))"
    by (metis dict_del_def AList.delete_keys distinct_remove1_removeAll length_map ok)
  moreover have "0 < length (map fst d)"
    using k by (rule length_pos_if_in_set)
  ultimately show ?thesis
    using k by (auto simp add: length_remove1)
qed

lemma dict_get_in: "dict_get d k = Some v \<Longrightarrow> (k, v) \<in> set d"
  by (simp add: dict_get_def map_of_SomeD)

lemma dict_get_iff: "dict_ok d \<Longrightarrow> dict_get d k = Some v \<longleftrightarrow> (k, v) \<in> set d"
  by (simp add: dict_get_def)

lemma dict_get_None_iff: "dict_get d k = None \<longleftrightarrow> k \<notin> set (map fst d)"
  by (simp add: dict_get_def map_of_eq_None_iff)

lemma dict_get_filter:
  "dict_ok d \<Longrightarrow> dict_get (filter P d) k =
     (case dict_get d k of None \<Rightarrow> None | Some v \<Rightarrow> if P (k, v) then Some v else None)"
  unfolding dict_get_def
  by (induction d) (auto split: option.splits simp: map_of_eq_None_iff image_iff)

lemma set_dict_set: "set (dict_set k v d) \<subseteq> insert (k, v) (set d)"
  unfolding dict_set_def by (induction d) auto

lemma those_map_Some [simp]: "those (map (\<lambda>x. Some (f x)) xs) = Some (map f xs)"
  by (induction xs) auto

section \<open>Chunked reads\<close>

text \<open>\<open>iter(lambda: handle.read(n), b"")\<close>: blocks of \<open>n\<close> bytes until an empty read.\<close>

fun chunks :: "nat \<Rightarrow> 'a list \<Rightarrow> 'a list list" where
  "chunks n bs = (if n = 0 \<or> bs = [] then [] else take n bs # chunks n (drop n bs))"

declare chunks.simps [simp del]

lemma chunks_Nil [simp]: "chunks n [] = []"
  by (simp add: chunks.simps)

lemma chunks_unfold: "0 < n \<Longrightarrow> bs \<noteq> [] \<Longrightarrow> chunks n bs = take n bs # chunks n (drop n bs)"
  by (subst chunks.simps) simp

lemma concat_chunks: "0 < n \<Longrightarrow> concat (chunks n bs) = bs"
proof (induction n bs rule: chunks.induct)
  case (1 n bs)
  then show ?case by (cases "bs = []") (simp_all add: chunks_unfold)
qed

lemma chunks_length_le: "c \<in> set (chunks n bs) \<Longrightarrow> 0 < length c \<and> length c \<le> n"
proof (induction n bs rule: chunks.induct)
  case (1 n bs)
  then show ?case
    by (cases "n = 0 \<or> bs = []") (auto simp: chunks.simps [of n bs] split: if_splits)
qed

lemma chunks_eq_Nil: "0 < n \<Longrightarrow> chunks n bs = [] \<longleftrightarrow> bs = []"
  by (subst chunks.simps) simp

section \<open>Lists\<close>

lemma length_concat_replicate: "\<forall>x\<in>set xs. length x = n \<Longrightarrow> length (concat xs) = n * length xs"
  by (induction xs) auto

lemma append_eq_same_length:
  "length a = length c \<Longrightarrow> a @ b = c @ d \<longleftrightarrow> a = c \<and> b = d"
  by simp

lemma sum_list_filter_le:
  fixes f :: "'a \<Rightarrow> nat"
  shows "sum_list (map f (filter P xs)) \<le> sum_list (map f xs)"
  by (induction xs) auto

end
