(* ===== verification/Py_Float.thy ===== *)
theory Py_Float
  imports Prelude
begin

text \<open>
  Python floats as the program uses them: clock readings, time-to-live values and the timestamps
  that arrive in messages. A finite float is the rational number its \<open>repr\<close> shows and arithmetic
  on finite floats is exact (rounding is not modelled); infinities and NaN are separate values with
  Python's comparison rules, so that every comparison with a NaN is false.
\<close>

datatype pyfloat = Fin rat | PInf | NInf | NaN

fun fl_less :: "pyfloat \<Rightarrow> pyfloat \<Rightarrow> bool" where
  "fl_less NaN _ = False"
| "fl_less _ NaN = False"
| "fl_less (Fin a) (Fin b) = (a < b)"
| "fl_less NInf b = (b \<noteq> NInf)"
| "fl_less a PInf = (a \<noteq> PInf)"
| "fl_less _ _ = False"

fun fl_le :: "pyfloat \<Rightarrow> pyfloat \<Rightarrow> bool" where
  "fl_le NaN _ = False"
| "fl_le a b = (fl_less a b \<or> a = b)"

abbreviation fl_gt :: "pyfloat \<Rightarrow> pyfloat \<Rightarrow> bool" where
  "fl_gt a b \<equiv> fl_less b a"

fun fl_neg :: "pyfloat \<Rightarrow> pyfloat" where
  "fl_neg (Fin a) = Fin (- a)"
| "fl_neg PInf = NInf"
| "fl_neg NInf = PInf"
| "fl_neg NaN = NaN"

fun fl_abs :: "pyfloat \<Rightarrow> pyfloat" where
  "fl_abs (Fin a) = Fin \<bar>a\<bar>"
| "fl_abs PInf = PInf"
| "fl_abs NInf = PInf"
| "fl_abs NaN = NaN"

fun fl_add :: "pyfloat \<Rightarrow> pyfloat \<Rightarrow> pyfloat" where
  "fl_add NaN _ = NaN"
| "fl_add _ NaN = NaN"
| "fl_add (Fin a) (Fin b) = Fin (a + b)"
| "fl_add PInf NInf = NaN"
| "fl_add NInf PInf = NaN"
| "fl_add PInf _ = PInf"
| "fl_add _ PInf = PInf"
| "fl_add NInf _ = NInf"
| "fl_add _ NInf = NInf"

definition fl_sub :: "pyfloat \<Rightarrow> pyfloat \<Rightarrow> pyfloat" where
  "fl_sub a b = fl_add a (fl_neg b)"

fun fl_finite :: "pyfloat \<Rightarrow> bool" where
  "fl_finite (Fin _) = True"
| "fl_finite _ = False"

lemma fl_sub_Fin [simp]: "fl_sub (Fin a) (Fin b) = Fin (a - b)"
  by (simp add: fl_sub_def)

lemma fl_sub_special [simp]:
  "fl_sub (Fin a) PInf = NInf" "fl_sub (Fin a) NInf = PInf" "fl_sub x NaN = NaN"
  by (simp_all add: fl_sub_def) (cases x; simp)

lemma fl_less_NaN [simp]: "\<not> fl_less NaN b" "\<not> fl_less a NaN"
  by simp (cases a; simp)

lemma fl_less_Fin_iff: "fl_less (Fin a) b \<longleftrightarrow> (\<exists>r. b = Fin r \<and> a < r) \<or> b = PInf"
  by (cases b) auto

lemma fl_gt_Fin_iff: "fl_less b (Fin a) \<longleftrightarrow> (\<exists>r. b = Fin r \<and> r < a) \<or> b = NInf"
  by (cases b) auto

lemma fl_less_irrefl [simp]: "\<not> fl_less a a"
  by (cases a) auto

lemma fl_less_trans: "fl_less a b \<Longrightarrow> fl_less b c \<Longrightarrow> fl_less a c"
  by (cases a; cases b; cases c) auto

lemma fl_less_le_trans: "fl_less a b \<Longrightarrow> fl_le b c \<Longrightarrow> fl_less a c"
  by (cases a; cases b; cases c) auto

lemma fl_le_less_trans: "fl_le a b \<Longrightarrow> fl_less b c \<Longrightarrow> fl_less a c"
  by (cases a; cases b; cases c) auto

lemma fl_le_Fin [simp]: "fl_le (Fin a) (Fin b) \<longleftrightarrow> a \<le> b"
  by auto

lemma fl_not_less_finite: "\<not> fl_less (Fin a) (Fin b) \<longleftrightarrow> b \<le> a"
  by auto

lemma fl_add_Fin_cases: "fl_add (Fin a) x = (case x of Fin b \<Rightarrow> Fin (a + b) | y \<Rightarrow> y)"
  by (cases x) auto

text \<open>
  The window test \<open>abs(now - ts) > skew\<close>: it is false, so the message passes, exactly when \<open>ts\<close> is
  within the window or is NaN.
\<close>

lemma fl_window:
  "\<not> fl_gt (fl_abs (fl_sub (Fin now) ts)) (Fin skew) \<longleftrightarrow>
     ts = NaN \<or> (\<exists>t. ts = Fin t \<and> \<bar>now - t\<bar> \<le> skew)"
  by (cases ts) auto

end
