(* ===== verification/Nonce_Cache.thy ===== *)
theory Nonce_Cache
  imports Prelude Py_Float
begin

text \<open>
  \<open>NonceCache\<close> of \<open>vault/access.py\<close>: the bounded replay cache that the vault server and the Telepath
  node put in front of every signed message. The contract of a replay guard is a locale; its one
  consequence, that a nonce accepted once is refused until its entry expires whatever happens in
  between, is proved there and reaches the cache by interpretation.
\<close>

section \<open>The cache\<close>

record nonce_cache =
  nc_ttl :: pyfloat
  nc_max :: int
  nc_seen :: "(string \<times> string, pyfloat) dict"

definition nonce_cache_new :: nonce_cache where
  "nonce_cache_new = \<lparr>nc_ttl = Fin 600, nc_max = 100000, nc_seen = []\<rparr>"

text \<open>\<open>now\<close> defaults to the clock.\<close>

definition nc_accept ::
    "nonce_cache \<Rightarrow> string \<Rightarrow> string \<Rightarrow> pyfloat option \<Rightarrow> pyfloat \<Rightarrow> bool \<times> nonce_cache" where
  "nc_accept c pubkey nonce now clock =
     (let current = (case now of None \<Rightarrow> clock | Some t \<Rightarrow> t);
          full = nc_max c \<le> int (length (nc_seen c));
          c1 = (if full then c\<lparr>nc_seen := filter (\<lambda>(key, expiry). fl_gt expiry current) (nc_seen c)\<rparr> else c)
      in if full \<and> nc_max c \<le> int (length (nc_seen c1)) then (False, c1)
         else let key = (pubkey, nonce)
              in if fl_gt (dict_get_default (nc_seen c1) key (Fin 0)) current then (False, c1)
                 else (True, c1\<lparr>nc_seen := dict_set key (fl_add current (nc_ttl c1)) (nc_seen c1)\<rparr>))"

section \<open>The contract of a replay guard\<close>

locale replay_guard =
  fixes accept :: "'s \<Rightarrow> 'k \<Rightarrow> rat \<Rightarrow> bool \<times> 's"
    and remembers :: "'s \<Rightarrow> 'k \<Rightarrow> rat \<Rightarrow> bool"
    and ttl :: "'s \<Rightarrow> rat"
    and ok :: "'s \<Rightarrow> bool"
  assumes ok_accept: "ok s \<Longrightarrow> ok (snd (accept s k t))"
    and accepted_remembered: "ok s \<Longrightarrow> fst (accept s k t) \<Longrightarrow> remembers (snd (accept s k t)) k (t + ttl s)"
    and remembered_refused: "ok s \<Longrightarrow> remembers s k e \<Longrightarrow> t < e \<Longrightarrow> \<not> fst (accept s k t)"
    and remembered_kept: "ok s \<Longrightarrow> remembers s k e \<Longrightarrow> t < e \<Longrightarrow> remembers (snd (accept s k' t)) k e"
begin

primrec after :: "'s \<Rightarrow> ('k \<times> rat) list \<Rightarrow> 's" where
  "after s [] = s"
| "after s (e # es) = after (snd (accept s (fst e) (snd e))) es"

lemma ok_after: "ok s \<Longrightarrow> ok (after s es)"
  by (induction es arbitrary: s) (auto simp: ok_accept)

lemma kept_after:
  "ok s \<Longrightarrow> remembers s k e \<Longrightarrow> \<forall>x\<in>set es. snd x < e \<Longrightarrow> remembers (after s es) k e"
  by (induction es arbitrary: s) (auto simp: ok_accept remembered_kept)

text \<open>However many calls come in between, the second use is refused.\<close>

lemma no_replay:
  assumes "ok s" and "fst (accept s k t0)" and "\<forall>x\<in>set es. snd x < t0 + ttl s" and "t < t0 + ttl s"
  shows "\<not> fst (accept (after (snd (accept s k t0)) es) k t)"
proof -
  have "remembers (after (snd (accept s k t0)) es) k (t0 + ttl s)"
    using assms by (intro kept_after ok_accept accepted_remembered)
  with assms show ?thesis by (intro remembered_refused ok_after ok_accept)
qed

end

section \<open>The cache is a replay guard\<close>

text \<open>Clock readings and the time-to-live are finite, so every expiry is.\<close>

definition nc_ok :: "nonce_cache \<Rightarrow> bool" where
  "nc_ok c \<longleftrightarrow> dict_ok (nc_seen c) \<and> fl_finite (nc_ttl c) \<and> list_all (\<lambda>(k, e). fl_finite e) (nc_seen c)"

definition nc_at :: "nonce_cache \<Rightarrow> string \<times> string \<Rightarrow> rat \<Rightarrow> bool \<times> nonce_cache" where
  "nc_at c k t = nc_accept c (fst k) (snd k) None (Fin t)"

definition nc_remembers :: "nonce_cache \<Rightarrow> string \<times> string \<Rightarrow> rat \<Rightarrow> bool" where
  "nc_remembers c k e \<longleftrightarrow> dict_get (nc_seen c) k = Some (Fin e)"

fun fl_value :: "pyfloat \<Rightarrow> rat" where
  "fl_value (Fin r) = r"
| "fl_value _ = 0"

lemma fl_finite_iff: "fl_finite x \<longleftrightarrow> x = Fin (fl_value x)"
  by (cases x) auto

definition nc_purge :: "nonce_cache \<Rightarrow> rat \<Rightarrow> nonce_cache" where
  "nc_purge c t = (if nc_max c \<le> int (length (nc_seen c))
     then c\<lparr>nc_seen := filter (\<lambda>(key, expiry). fl_gt expiry (Fin t)) (nc_seen c)\<rparr> else c)"

lemma nc_at_unfold:
  "nc_at c k t =
     (let c1 = nc_purge c t
      in if nc_max c \<le> int (length (nc_seen c1)) then (False, c1)
         else if fl_gt (dict_get_default (nc_seen c1) k (Fin 0)) (Fin t) then (False, c1)
         else (True, c1\<lparr>nc_seen := dict_set k (fl_add (Fin t) (nc_ttl c)) (nc_seen c1)\<rparr>))"
  by (auto simp: nc_at_def nc_accept_def nc_purge_def Let_def)

lemma nc_purge_simps [simp]:
  "nc_ttl (nc_purge c t) = nc_ttl c" "nc_max (nc_purge c t) = nc_max c"
  by (simp_all add: nc_purge_def)

lemma nc_purge_ok: "nc_ok c \<Longrightarrow> nc_ok (nc_purge c t)"
  by (auto simp: nc_ok_def nc_purge_def list_all_iff distinct_map_filter)

lemma nc_purge_keeps: "nc_ok c \<Longrightarrow> nc_remembers c k e \<Longrightarrow> t < e \<Longrightarrow> nc_remembers (nc_purge c t) k e"
  by (auto simp: nc_ok_def nc_remembers_def nc_purge_def dict_get_filter)

lemma fl_finite_add: "fl_finite x \<Longrightarrow> fl_finite (fl_add (Fin t) x)"
  by (cases x) auto

lemma nc_ok_set:
  assumes "nc_ok c"
  shows "nc_ok (c\<lparr>nc_seen := dict_set k (fl_add (Fin t) (nc_ttl c)) (nc_seen c)\<rparr>)"
proof -
  have "list_all (\<lambda>(k, e). fl_finite e) (dict_set k (fl_add (Fin t) (nc_ttl c)) (nc_seen c))"
    using assms set_dict_set [of k "fl_add (Fin t) (nc_ttl c)" "nc_seen c"]
    by (auto simp: nc_ok_def list_all_iff fl_finite_add)
  moreover have "dict_ok (dict_set k (fl_add (Fin t) (nc_ttl c)) (nc_seen c))"
    using assms by (intro dict.wf_store) (simp add: nc_ok_def)
  ultimately show ?thesis using assms by (simp add: nc_ok_def)
qed

lemma nc_at_ok: "nc_ok c \<Longrightarrow> nc_ok (snd (nc_at c k t))"
  using nc_ok_set [OF nc_purge_ok, where t = t]
  by (auto simp: nc_at_unfold Let_def nc_purge_ok)

lemma nc_at_accepted:
  assumes "nc_ok c" and "fst (nc_at c k t)"
  shows "nc_remembers (snd (nc_at c k t)) k (t + fl_value (nc_ttl c))"
  using assms by (cases "nc_ttl c") (auto simp: nc_at_unfold nc_remembers_def nc_ok_def Let_def split: if_splits)

lemma nc_at_refused:
  assumes "nc_ok c" and "nc_remembers c k e" and "t < e"
  shows "\<not> fst (nc_at c k t)"
proof -
  have "nc_remembers (nc_purge c t) k e" using assms by (rule nc_purge_keeps)
  then have "dict_get_default (nc_seen (nc_purge c t)) k (Fin 0) = Fin e"
    by (simp add: nc_remembers_def dict_get_default_eq)
  with assms(3) show ?thesis by (simp add: nc_at_unfold Let_def)
qed

lemma nc_at_kept:
  assumes "nc_ok c" and "nc_remembers c k e" and "t < e"
  shows "nc_remembers (snd (nc_at c k' t)) k e"
proof (cases "k' = k")
  case True
  with nc_at_refused [OF assms] nc_purge_keeps [OF assms] show ?thesis
    by (auto simp: nc_at_unfold Let_def split: if_splits)
next
  case False
  with nc_purge_keeps [OF assms] show ?thesis
    by (auto simp: nc_at_unfold Let_def nc_remembers_def)
qed

interpretation nonces: replay_guard nc_at nc_remembers "\<lambda>c. fl_value (nc_ttl c)" nc_ok
  by unfold_locales (fact nc_at_ok nc_at_accepted nc_at_refused nc_at_kept)+

lemma nonce_cache_new_ok [simp]: "nc_ok nonce_cache_new"
  by (simp add: nc_ok_def nonce_cache_new_def)

lemma nc_at_ttl [simp]: "nc_ttl (snd (nc_at c k t)) = nc_ttl c" "nc_max (snd (nc_at c k t)) = nc_max c"
  by (auto simp: nc_at_unfold Let_def)

section \<open>Properties\<close>

text \<open>A run of the cache over clock readings, as the server sees it.\<close>

fun nc_run :: "nonce_cache \<Rightarrow> ((string \<times> string) \<times> rat) list \<Rightarrow> nonce_cache" where
  "nc_run c [] = c"
| "nc_run c ((k, t) # es) = nc_run (snd (nc_at c k t)) es"

lemma nc_run_after: "nc_run c es = nonces.after c es"
  by (induction c es rule: nc_run.induct) simp_all

text \<open>C21: A nonce that the cache accepted at \<open>t0\<close> is refused at every time before \<open>t0 + ttl\<close>, after any
  sequence of other calls made before that time.\<close>

theorem nonce_never_replayed:
  assumes "nc_ok c" and "fst (nc_at c k t0)"
    and "\<forall>x\<in>set es. snd x < t0 + fl_value (nc_ttl c)" and "t < t0 + fl_value (nc_ttl c)"
  shows "\<not> fst (nc_at (nc_run (snd (nc_at c k t0)) es) k t)"
  unfolding nc_run_after using assms by (rule nonces.no_replay)

theorem nonce_never_replayed_witness:
  "\<not> fst (nc_at (nc_run (snd (nc_at nonce_cache_new (''p'', ''n'') 0)) [((''q'', ''n''), 5)]) (''p'', ''n'') 599)"
  by (rule nonce_never_replayed, simp)
    (simp_all add: nc_at_unfold nc_purge_def nonce_cache_new_def dict_get_default_def Let_def)

text \<open>The cache stays within its bound: after any run from a cache of at most \<open>max_entries\<close> entries
  it holds at most that many.\<close>

theorem nonce_cache_bounded:
  assumes "int (length (nc_seen c)) \<le> nc_max c"
  shows "int (length (nc_seen (nc_run c es))) \<le> nc_max (nc_run c es)"
  using assms
proof (induction c es rule: nc_run.induct)
  case (2 c k t es)
  have "length (nc_seen (nc_purge c t)) \<le> length (nc_seen c)"
    by (simp add: nc_purge_def)
  with 2 show ?case
    by (simp add: nc_at_unfold Let_def length_dict_set)
qed simp

theorem nonce_cache_bounded_witness:
  "int (length (nc_seen (nc_run nonce_cache_new [((''p'', ''n''), 1), ((''p'', ''m''), 2)]))) \<le> 100000"
  using nonce_cache_bounded [of nonce_cache_new "[((''p'', ''n''), 1), ((''p'', ''m''), 2)]"]
  by (simp add: nonce_cache_new_def nc_at_unfold nc_purge_def dict_get_default_def dict_set_def Let_def)

text \<open>A refusal has one of two causes: the cache is full of unexpired entries, or the nonce was
  seen and has not expired. A nonce never seen is accepted when there is room.\<close>

theorem nonce_refusal_causes:
  assumes "nc_ok c" and "0 \<le> t"
  shows "\<not> fst (nc_at c k t) \<longleftrightarrow>
     nc_max c \<le> int (length (filter (\<lambda>(key, expiry). fl_gt expiry (Fin t)) (nc_seen c))) \<or>
     (\<exists>e. nc_remembers c k e \<and> t < e)"
proof -
  let ?P = "\<lambda>(key, expiry). fl_gt expiry (Fin t)"
  have len: "int (length (filter ?P (nc_seen c))) \<le> int (length (nc_seen c))"
    by simp
  then have full: "nc_max c \<le> int (length (nc_seen (nc_purge c t))) \<longleftrightarrow>
      nc_max c \<le> int (length (filter ?P (nc_seen c)))"
    by (auto simp: nc_purge_def simp del: length_filter_le)
  have "fl_gt (dict_get_default (nc_seen (nc_purge c t)) k (Fin 0)) (Fin t) \<longleftrightarrow>
      (\<exists>e. nc_remembers c k e \<and> t < e)"
  proof (cases "dict_get (nc_seen c) k")
    case None
    then show ?thesis
      using assms by (auto simp: nc_ok_def nc_purge_def dict_get_default_eq nc_remembers_def dict_get_filter)
  next
    case (Some x)
    then have "fl_finite x"
      using assms(1) dict_get_in [of "nc_seen c" k x] by (auto simp: nc_ok_def list_all_iff)
    then obtain e where "x = Fin e" by (cases x) auto
    with Some assms show ?thesis
      by (auto simp: nc_ok_def nc_purge_def dict_get_default_eq nc_remembers_def dict_get_filter)
  qed
  with full show ?thesis by (auto simp: nc_at_unfold Let_def)
qed

theorem nonce_refusal_causes_witness:
  "fst (nc_at nonce_cache_new (''p'', ''n'') 7)"
proof -
  have "\<not> (\<exists>e. nc_remembers nonce_cache_new (''p'', ''n'') e \<and> 7 < e)"
    by (simp add: nc_remembers_def nonce_cache_new_def dict_get_def)
  moreover have "\<not> nc_max nonce_cache_new
      \<le> int (length (filter (\<lambda>(key, expiry). fl_gt expiry (Fin 7)) (nc_seen nonce_cache_new)))"
    by (simp add: nonce_cache_new_def)
  ultimately show ?thesis
    using nonce_refusal_causes [of nonce_cache_new 7 "(''p'', ''n'')"] by auto
qed

end
