(* ===== verification/Py_Text.thy ===== *)
theory Py_Text
  imports Py_Float
begin

text \<open>
  The text operations of Python's standard library that the program uses: UTF-8 encoding and
  decoding of strings with code points below 256, \<open>bytes.hex\<close> and \<open>bytes.fromhex\<close>, decimal integers,
  prefixes and splitting. Encoders come with their round trips.
\<close>

section \<open>Characters and bytes\<close>

definition code :: "char \<Rightarrow> nat" where
  "code c = of_char c"

definition chr :: "nat \<Rightarrow> char" where
  "chr n = char_of n"

lemma code_less [simp]: "code c < 256"
  by (simp add: code_def)

lemma chr_code [simp]: "chr (code c) = c"
  by (simp add: code_def chr_def)

lemma code_chr [simp]: "n < 256 \<Longrightarrow> code (chr n) = n"
  by (simp add: code_def chr_def)

lemma code_eq_iff [simp]: "code c = code d \<longleftrightarrow> c = d"
  by (simp add: code_def)

definition byte_nat :: "nat \<Rightarrow> byte" where
  "byte_nat n = word_of_nat n"

lemma unat_byte_nat [simp]: "n < 256 \<Longrightarrow> unat (byte_nat n) = n"
  by (simp add: byte_nat_def unat_of_nat)

lemma byte_nat_unat [simp]: "byte_nat (unat b) = b"
  by (simp add: byte_nat_def)

lemma unat_byte_less [simp]: "unat (b :: byte) < 256"
  using unsigned_less [of b, where ?'a = nat] by simp

definition is_ascii :: "string \<Rightarrow> bool" where
  "is_ascii s \<longleftrightarrow> list_all (\<lambda>c. code c < 128) s"

section \<open>UTF-8\<close>

definition utf8_char :: "char \<Rightarrow> bytes" where
  "utf8_char c =
     (if code c < 128 then [byte_nat (code c)]
      else [byte_nat (192 + code c div 64), byte_nat (128 + code c mod 64)])"

definition utf8_encode :: "string \<Rightarrow> bytes" where
  "utf8_encode s = concat (map utf8_char s)"

text \<open>
  Decoding is strict: \<^term>\<open>None\<close> is \<open>UnicodeDecodeError\<close>, or a code point outside the modelled range.
\<close>

fun utf8_decode :: "bytes \<Rightarrow> string option" where
  "utf8_decode [] = Some []"
| "utf8_decode (b # bs) =
     (if unat b < 128 then map_option ((#) (chr (unat b))) (utf8_decode bs)
      else if unat b = 194 \<or> unat b = 195 then
        (case bs of [] \<Rightarrow> None
         | d # ds \<Rightarrow>
             if 128 \<le> unat d \<and> unat d < 192
             then map_option ((#) (chr ((unat b - 192) * 64 + (unat d - 128)))) (utf8_decode ds)
             else None)
      else None)"

lemma utf8_decode_char: "utf8_decode (utf8_char c @ bs) = map_option ((#) c) (utf8_decode bs)"
proof (cases "code c < 128")
  case True
  then show ?thesis by (simp add: utf8_char_def)
next
  case False
  define q where "q = code c div 64"
  define r where "r = code c mod 64"
  have c: "code c = q * 64 + r" by (simp add: q_def r_def)
  have "code c < 256" by simp
  then have "q = 2 \<or> q = 3" and r: "r < 64" and "192 + q < 256" and "128 + r < 256"
    using False unfolding q_def r_def by (auto simp del: code_less)
  then have "utf8_decode (byte_nat (192 + q) # byte_nat (128 + r) # bs) =
      map_option ((#) (chr (q * 64 + r))) (utf8_decode bs)"
    by auto
  then show ?thesis
    using False by (simp add: utf8_char_def flip: q_def r_def) (metis c chr_code)
qed

lemma utf8_roundtrip [simp]: "utf8_decode (utf8_encode s) = Some s"
  by (induction s) (simp_all add: utf8_encode_def utf8_decode_char)

lemma utf8_encode_inj [simp]: "utf8_encode s = utf8_encode t \<longleftrightarrow> s = t"
  by (metis option.inject utf8_roundtrip)

lemma utf8_encode_append: "utf8_encode (s @ t) = utf8_encode s @ utf8_encode t"
  by (simp add: utf8_encode_def)

lemma utf8_encode_Nil [simp]: "utf8_encode [] = []"
  by (simp add: utf8_encode_def)

lemma utf8_encode_eq_Nil [simp]: "utf8_encode s = [] \<longleftrightarrow> s = []"
  by (metis utf8_encode_Nil utf8_encode_inj)

section \<open>Hexadecimal\<close>

definition hex_digit :: "nat \<Rightarrow> char" where
  "hex_digit n = ''0123456789abcdef'' ! n"

definition hex_val :: "char \<Rightarrow> nat option" where
  "hex_val c =
     (if 48 \<le> code c \<and> code c \<le> 57 then Some (code c - 48)
      else if 97 \<le> code c \<and> code c \<le> 102 then Some (code c - 87)
      else if 65 \<le> code c \<and> code c \<le> 70 then Some (code c - 55)
      else None)"

definition is_py_space :: "char \<Rightarrow> bool" where
  "is_py_space c \<longleftrightarrow> code c = 32 \<or> (9 \<le> code c \<and> code c \<le> 13)"

definition hex_byte :: "byte \<Rightarrow> string" where
  "hex_byte b = [hex_digit (unat b div 16), hex_digit (unat b mod 16)]"

definition hex :: "bytes \<Rightarrow> string" where
  "hex bs = concat (map hex_byte bs)"

text \<open>\<open>bytes.fromhex\<close> skips whitespace between byte pairs and takes either letter case.\<close>

fun from_hex :: "string \<Rightarrow> bytes option" where
  "from_hex [] = Some []"
| "from_hex (c # cs) =
     (if is_py_space c then from_hex cs
      else case cs of [] \<Rightarrow> None
        | d # ds \<Rightarrow>
            (case (hex_val c, hex_val d) of
               (Some x, Some y) \<Rightarrow> map_option ((#) (byte_nat (16 * x + y))) (from_hex ds)
             | _ \<Rightarrow> None))"

lemma hex_digit_table:
  "\<forall>n\<in>set [0..<16]. hex_val (hex_digit n) = Some n \<and> \<not> is_py_space (hex_digit n) \<and>
     48 \<le> code (hex_digit n) \<and> code (hex_digit n) < 103"
  by (simp add: upt_rec hex_val_def hex_digit_def is_py_space_def code_def)

lemma hex_val_digit [simp]: "n < 16 \<Longrightarrow> hex_val (hex_digit n) = Some n"
  using hex_digit_table by simp

lemma hex_digit_not_space [simp]: "n < 16 \<Longrightarrow> \<not> is_py_space (hex_digit n)"
  using hex_digit_table by simp

lemma hex_digit_ascii: "n < 16 \<Longrightarrow> 48 \<le> code (hex_digit n) \<and> code (hex_digit n) < 103"
  using hex_digit_table by simp

lemma from_hex_byte [simp]: "from_hex (hex_byte b @ s) = map_option ((#) b) (from_hex s)"
proof -
  have "unat b div 16 < 16"
    using unat_byte_less [of b] by (simp add: less_mult_imp_div_less)
  then show ?thesis by (simp add: hex_byte_def)
qed

lemma from_hex_hex [simp]: "from_hex (hex bs) = Some bs"
  by (induction bs) (simp_all add: hex_def)

lemma hex_inj [simp]: "hex a = hex b \<longleftrightarrow> a = b"
  by (metis from_hex_hex option.inject)

lemma hex_Nil [simp]: "hex [] = []"
  by (simp add: hex_def)

lemma hex_append: "hex (a @ b) = hex a @ hex b"
  by (simp add: hex_def)

lemma length_hex [simp]: "length (hex bs) = 2 * length bs"
  by (induction bs) (simp_all add: hex_def hex_byte_def)

lemma hex_chars: "c \<in> set (hex bs) \<Longrightarrow> \<exists>n<16. c = hex_digit n"
proof (induction bs)
  case (Cons b bs)
  have "unat b div 16 < 16"
    using unat_byte_less [of b] by (simp add: less_mult_imp_div_less)
  moreover have "unat b mod 16 < 16" by simp
  moreover have "c = hex_digit (unat b div 16) \<or> c = hex_digit (unat b mod 16) \<or> c \<in> set (hex bs)"
    using Cons.prems by (auto simp: hex_def hex_byte_def)
  ultimately show ?case
    using Cons.IH by blast
qed (simp add: hex_def)

section \<open>Decimal integers\<close>

definition dec_digit :: "nat \<Rightarrow> char" where
  "dec_digit n = chr (48 + n)"

definition is_digit :: "char \<Rightarrow> bool" where
  "is_digit c \<longleftrightarrow> 48 \<le> code c \<and> code c \<le> 57"

definition digit_val :: "char \<Rightarrow> nat" where
  "digit_val c = code c - 48"

function uint_str :: "int \<Rightarrow> string" where
  "uint_str i = (if i < 10 then [dec_digit (nat i)] else uint_str (i div 10) @ [dec_digit (nat (i mod 10))])"
  by pat_completeness auto
termination
  by (relation "measure nat") auto

declare uint_str.simps [simp del]

definition nat_str :: "nat \<Rightarrow> string" where
  "nat_str n = uint_str (int n)"

definition int_str :: "int \<Rightarrow> string" where
  "int_str i = (if i < 0 then ''-'' @ uint_str (- i) else uint_str i)"

definition digits_int :: "string \<Rightarrow> int" where
  "digits_int ds = foldl (\<lambda>a c. 10 * a + int (digit_val c)) 0 ds"

lemma digit_val_dec [simp]: "n < 10 \<Longrightarrow> digit_val (dec_digit n) = n"
  by (simp add: digit_val_def dec_digit_def)

lemma is_digit_dec [simp]: "n < 10 \<Longrightarrow> is_digit (dec_digit n)"
  by (simp add: is_digit_def dec_digit_def)

lemma digits_int_Nil [simp]: "digits_int [] = 0"
  by (simp add: digits_int_def)

lemma digits_int_snoc [simp]: "digits_int (ds @ [c]) = 10 * digits_int ds + int (digit_val c)"
  by (simp add: digits_int_def)

lemma digits_int_append: "digits_int (a @ b) = digits_int a * 10 ^ length b + digits_int b"
proof (induction b rule: rev_induct)
  case (snoc c b)
  have "digits_int (a @ b @ [c]) = 10 * digits_int (a @ b) + int (digit_val c)"
    using digits_int_snoc [of "a @ b" c] by simp
  then show ?case using snoc by (simp add: algebra_simps)
qed simp

lemma uint_str_roundtrip [simp]: "0 \<le> i \<Longrightarrow> digits_int (uint_str i) = i"
proof (induction i rule: uint_str.induct)
  case (1 i)
  show ?case
  proof (cases "i < 10")
    case True
    then show ?thesis
      using digits_int_snoc [of "[]" "dec_digit (nat i)"] 1 by (simp add: uint_str.simps)
  next
    case False
    then show ?thesis using 1 by (simp add: uint_str.simps [of i])
  qed
qed

lemma uint_str_digits: "0 \<le> i \<Longrightarrow> c \<in> set (uint_str i) \<Longrightarrow> is_digit c"
proof (induction i rule: uint_str.induct)
  case (1 i)
  then show ?case by (cases "i < 10") (auto simp: uint_str.simps [of i])
qed

lemma uint_str_nonempty [simp]: "uint_str i \<noteq> []"
  by (subst uint_str.simps) simp

lemma uint_str_inj: "0 \<le> i \<Longrightarrow> 0 \<le> j \<Longrightarrow> uint_str i = uint_str j \<longleftrightarrow> i = j"
  by (metis uint_str_roundtrip)

lemma uint_str_no_leading_zero: "0 < i \<Longrightarrow> digit_val (hd (uint_str i)) \<noteq> 0"
proof (induction i rule: uint_str.induct)
  case (1 i)
  then show ?case by (cases "i < 10") (auto simp: uint_str.simps [of i])
qed

lemma uint_str_0 [simp]: "uint_str 0 = ''0''"
  by (simp add: uint_str.simps dec_digit_def chr_def char_of_eq_iff)

lemma nat_str_inj [simp]: "nat_str m = nat_str n \<longleftrightarrow> m = n"
  by (simp add: nat_str_def uint_str_inj)

lemma minus_not_digit [simp]: "\<not> is_digit (CHR ''-'')"
  by (simp add: is_digit_def code_def)

lemma hd_uint_str_digit: "0 \<le> i \<Longrightarrow> is_digit (hd (uint_str i))"
  using uint_str_digits [of i "hd (uint_str i)"] by simp

lemma int_str_inj [simp]: "int_str i = int_str j \<longleftrightarrow> i = j"
proof
  assume e: "int_str i = int_str j"
  have h: "0 \<le> k \<Longrightarrow> uint_str k \<noteq> CHR ''-'' # s" for k s
    using hd_uint_str_digit [of k] by (metis list.sel(1) minus_not_digit)
  show "i = j"
  proof (cases "i < 0"; cases "j < 0")
    assume "i < 0" and "j < 0"
    with e show ?thesis by (simp add: int_str_def uint_str_inj)
  next
    assume "i < 0" and "\<not> j < 0"
    with e h [of j] show ?thesis by (simp add: int_str_def) (metis linorder_not_less)
  next
    assume "\<not> i < 0" and "j < 0"
    with e h [of i] show ?thesis by (simp add: int_str_def)
  next
    assume "\<not> i < 0" and "\<not> j < 0"
    with e show ?thesis by (simp add: int_str_def uint_str_inj)
  qed
qed simp

lemma utf8_newline: "utf8_encode t @ [10] = utf8_encode (t @ [CHR 10])"
  by (simp add: utf8_encode_append) (simp add: utf8_encode_def utf8_char_def code_def byte_nat_def)

section \<open>Prefixes\<close>

definition starts_with :: "'a list \<Rightarrow> 'a list \<Rightarrow> bool" where
  "starts_with p s \<longleftrightarrow> take (length p) s = p"

definition remove_prefix :: "'a list \<Rightarrow> 'a list \<Rightarrow> 'a list" where
  "remove_prefix p s = (if starts_with p s then drop (length p) s else s)"

lemma starts_with_append [simp]: "starts_with p (p @ s)"
  by (simp add: starts_with_def)

lemma remove_prefix_append [simp]: "remove_prefix p (p @ s) = s"
  by (simp add: remove_prefix_def)

lemma starts_withD: "starts_with p s \<Longrightarrow> s = p @ drop (length p) s"
  unfolding starts_with_def by (metis append_take_drop_id)

end
