(* ===== verification/Sha256.thy ===== *)
theory Sha256
  imports Py_Text
begin

text \<open>
  SHA-256 and HMAC-SHA256 (FIPS 180-4, RFC 2104) as \<open>hashlib.sha256\<close> and \<open>hmac.new\<close> compute them:
  padding, message schedule and compression on 32-bit words with wrap-around addition. The
  components call \<open>sha256\<close> itself; their proofs use its output length and, where a claim is about
  binding, a hypothesis that the strings actually hashed do not collide.
\<close>

unbundle bit_operations_syntax

type_synonym w32 = "32 word"

section \<open>Bytes and words\<close>

fun bytes_of_nat :: "nat \<Rightarrow> nat \<Rightarrow> bytes" where
  "bytes_of_nat 0 n = []"
| "bytes_of_nat (Suc k) n = bytes_of_nat k (n div 256) @ [byte_nat (n mod 256)]"

fun nat_of_bytes :: "bytes \<Rightarrow> nat" where
  "nat_of_bytes [] = 0"
| "nat_of_bytes (b # bs) = unat b * 256 ^ length bs + nat_of_bytes bs"

lemma length_bytes_of_nat [simp]: "length (bytes_of_nat k n) = k"
  by (induction k arbitrary: n) auto

lemma nat_of_bytes_append: "nat_of_bytes (a @ b) = nat_of_bytes a * 256 ^ length b + nat_of_bytes b"
  by (induction a) (auto simp: algebra_simps power_add)

lemma nat_of_bytes_roundtrip: "n < 256 ^ k \<Longrightarrow> nat_of_bytes (bytes_of_nat k n) = n"
proof (induction k arbitrary: n)
  case (Suc k)
  then have "n div 256 < 256 ^ k" by (simp add: less_mult_imp_div_less mult.commute)
  with Suc.IH show ?case by (simp add: nat_of_bytes_append)
qed simp

lemma nat_of_bytes_bound: "nat_of_bytes bs < 256 ^ length bs"
proof (induction bs)
  case (Cons b bs)
  have b: "unat b + 1 \<le> 256"
    using unat_byte_less [of b] by linarith
  have "unat b * 256 ^ length bs + nat_of_bytes bs < (unat b + 1) * 256 ^ length bs"
    using Cons by simp
  also have "\<dots> \<le> 256 * 256 ^ length bs"
    by (intro mult_right_mono b) simp
  finally show ?case by simp
qed simp

section \<open>The compression function\<close>

definition sha_k :: "w32 list" where
  "sha_k =
    [1116352408, 1899447441, 3049323471, 3921009573, 961987163, 1508970993, 2453635748, 2870763221,
     3624381080, 310598401, 607225278, 1426881987, 1925078388, 2162078206, 2614888103, 3248222580,
     3835390401, 4022224774, 264347078, 604807628, 770255983, 1249150122, 1555081692, 1996064986,
     2554220882, 2821834349, 2952996808, 3210313671, 3336571891, 3584528711, 113926993, 338241895,
     666307205, 773529912, 1294757372, 1396182291, 1695183700, 1986661051, 2177026350, 2456956037,
     2730485921, 2820302411, 3259730800, 3345764771, 3516065817, 3600352804, 4094571909, 275423344,
     430227734, 506948616, 659060556, 883997877, 958139571, 1322822218, 1537002063, 1747873779,
     1955562222, 2024104815, 2227730452, 2361852424, 2428436474, 2756734187, 3204031479, 3329325298]"

type_synonym sha_state = "w32 \<times> w32 \<times> w32 \<times> w32 \<times> w32 \<times> w32 \<times> w32 \<times> w32"

definition sha_init :: sha_state where
  "sha_init = (1779033703, 3144134277, 1013904242, 2773480762,
               1359893119, 2600822924, 528734635, 1541459225)"

definition sha_rotr :: "nat \<Rightarrow> w32 \<Rightarrow> w32" where
  "sha_rotr n x = drop_bit n x OR push_bit (32 - n) x"

definition sha_s0 :: "w32 \<Rightarrow> w32" where
  "sha_s0 x = sha_rotr 7 x XOR sha_rotr 18 x XOR drop_bit 3 x"

definition sha_s1 :: "w32 \<Rightarrow> w32" where
  "sha_s1 x = sha_rotr 17 x XOR sha_rotr 19 x XOR drop_bit 10 x"

definition sha_S0 :: "w32 \<Rightarrow> w32" where
  "sha_S0 x = sha_rotr 2 x XOR sha_rotr 13 x XOR sha_rotr 22 x"

definition sha_S1 :: "w32 \<Rightarrow> w32" where
  "sha_S1 x = sha_rotr 6 x XOR sha_rotr 11 x XOR sha_rotr 25 x"

text \<open>The schedule is kept in reverse: the newest word first.\<close>

fun sha_expand :: "nat \<Rightarrow> w32 list \<Rightarrow> w32 list" where
  "sha_expand 0 ws = ws"
| "sha_expand (Suc n) ws =
     sha_expand n ((sha_s1 (ws ! 1) + ws ! 6 + sha_s0 (ws ! 14) + ws ! 15) # ws)"

fun sha_round :: "sha_state \<Rightarrow> w32 \<times> w32 \<Rightarrow> sha_state" where
  "sha_round (a, b, c, d, e, f, g, h) (k, w) =
     (let t1 = h + sha_S1 e + ((e AND f) XOR (NOT e AND g)) + k + w;
          t2 = sha_S0 a + ((a AND b) XOR (a AND c) XOR (b AND c))
      in (t1 + t2, a, b, c, d + t1, e, f, g))"

definition word_of_bytes :: "bytes \<Rightarrow> w32" where
  "word_of_bytes bs = foldl (\<lambda>w b. push_bit 8 w OR ucast b) 0 bs"

definition bytes_of_word :: "w32 \<Rightarrow> bytes" where
  "bytes_of_word w =
     [ucast (drop_bit 24 w), ucast (drop_bit 16 w), ucast (drop_bit 8 w), ucast w]"

fun sha_add :: "sha_state \<Rightarrow> sha_state \<Rightarrow> sha_state" where
  "sha_add (a, b, c, d, e, f, g, h) (a', b', c', d', e', f', g', h') =
     (a + a', b + b', c + c', d + d', e + e', f + f', g + g', h + h')"

definition sha_block :: "sha_state \<Rightarrow> bytes \<Rightarrow> sha_state" where
  "sha_block s block =
     (let ws = rev (sha_expand 48 (rev (map word_of_bytes (chunks 4 block))))
      in sha_add s (foldl sha_round s (zip sha_k ws)))"

section \<open>Padding, the digest, HMAC\<close>

definition sha_pad :: "bytes \<Rightarrow> bytes" where
  "sha_pad m = m @ 0x80 # replicate (nat ((55 - int (length m)) mod 64)) 0 @ bytes_of_nat 8 (8 * length m)"

fun sha_digest :: "sha_state \<Rightarrow> bytes" where
  "sha_digest (a, b, c, d, e, f, g, h) = concat (map bytes_of_word [a, b, c, d, e, f, g, h])"

definition sha256 :: "bytes \<Rightarrow> bytes" where
  "sha256 m = sha_digest (foldl sha_block sha_init (chunks 64 (sha_pad m)))"

definition hmac_key :: "bytes \<Rightarrow> bytes" where
  "hmac_key k = (let k' = (if 64 < length k then sha256 k else k)
                 in k' @ replicate (64 - length k') 0)"

definition hmac_sha256 :: "bytes \<Rightarrow> bytes \<Rightarrow> bytes" where
  "hmac_sha256 k m =
     sha256 (map (\<lambda>b. b XOR 0x5c) (hmac_key k) @ sha256 (map (\<lambda>b. b XOR 0x36) (hmac_key k) @ m))"

lemma length_sha_digest: "length (sha_digest s) = 32"
  by (cases s rule: sha_digest.cases) (simp add: bytes_of_word_def)

lemma length_sha256 [simp]: "length (sha256 m) = 32"
  by (simp add: sha256_def length_sha_digest)

lemma length_hmac [simp]: "length (hmac_sha256 k m) = 32"
  by (simp add: hmac_sha256_def)

lemma sha256_nonempty [simp]: "sha256 m \<noteq> []"
  by (metis length_sha256 list.size(3) zero_neq_numeral)

text \<open>Padding fills whole blocks, so the block loop reads the message to its end.\<close>

lemma length_sha_pad: "64 dvd length (sha_pad m)"
proof -
  define n where "n = int (length m)"
  have "int (length (sha_pad m)) = n + 9 + (55 - n) mod 64"
    by (simp add: sha_pad_def n_def)
  moreover have "(n + 9 + (55 - n) mod 64) mod 64 = 0"
    by (simp add: mod_simps)
  ultimately have "int (length (sha_pad m)) mod 64 = 0" by simp
  then have "int 64 dvd int (length (sha_pad m))"
    by (simp add: dvd_eq_mod_eq_0)
  then show ?thesis by (simp only: of_nat_dvd_iff)
qed

text \<open>A digest as the text the program stores: 64 lower-case hexadecimal digits.\<close>

definition sha_hex :: "bytes \<Rightarrow> string" where
  "sha_hex bs = hex (sha256 bs)"

lemma length_sha_hex [simp]: "length (sha_hex bs) = 64"
  by (simp add: sha_hex_def)

lemma from_hex_sha_hex [simp]: "from_hex (sha_hex bs) = Some (sha256 bs)"
  by (simp add: sha_hex_def)

lemma sha_hex_eq_iff [simp]: "sha_hex a = sha_hex b \<longleftrightarrow> sha256 a = sha256 b"
  by (simp add: sha_hex_def)

definition no_collision :: "bytes set \<Rightarrow> bool" where
  "no_collision A \<longleftrightarrow> inj_on sha256 A"

lemma no_collisionD: "no_collision A \<Longrightarrow> sha256 x = sha256 y \<Longrightarrow> x \<in> A \<Longrightarrow> y \<in> A \<Longrightarrow> x = y"
  by (auto simp: no_collision_def dest: inj_onD)

lemma no_collision_mono: "no_collision A \<Longrightarrow> B \<subseteq> A \<Longrightarrow> no_collision B"
  by (auto simp: no_collision_def intro: inj_on_subset)

lemma no_collision_single [simp]: "no_collision {x}"
  by (simp add: no_collision_def)

end
