(* ===== verification/Json.thy ===== *)
theory Json
  imports Sha256
begin

text \<open>
  The part of Python's \<open>json\<close> module the program uses: \<open>dumps\<close> with its separators, key sorting,
  ASCII escaping and indentation, and the strict parser behind \<open>loads\<close>. Objects are
  insertion-ordered dictionaries. A float prints as \<open>float.__repr__\<close> prints it (positional between
  1e-4 and 1e16, scientific outside, at least two exponent digits).
\<close>

section \<open>Values\<close>

datatype json =
    JNull
  | JBool bool
  | JInt int
  | JFloat pyfloat
  | JStr string
  | JArr "json list"
  | JObj "(string \<times> json) list"

lemma json_member_size [termination_simp]:
  "(k, v) \<in> set kvs \<Longrightarrow> size v < Suc (size_list (size_prod (\<lambda>_. 0) size) kvs)"
  by (induction kvs) auto

text \<open>\<open>sort_keys=True\<close> sorts the members of every object by key; the sort is stable.\<close>

fun sort_keys :: "json \<Rightarrow> json" where
  "sort_keys (JArr xs) = JArr (map sort_keys xs)"
| "sort_keys (JObj kvs) = JObj (sort_key fst (map (\<lambda>(k, v). (k, sort_keys v)) kvs))"
| "sort_keys v = v"

section \<open>Floats as text\<close>

definition dec_scale :: "rat \<Rightarrow> nat option" where
  "dec_scale r = find (\<lambda>k. snd (quotient_of (r * 10 ^ k)) = 1) [0..<400]"

definition strip_zeros :: "string \<Rightarrow> string" where
  "strip_zeros ds = rev (dropWhile (\<lambda>c. c = CHR ''0'') (rev ds))"

definition float_positional :: "string \<Rightarrow> int \<Rightarrow> string" where
  "float_positional ds p =
     (if p \<le> 0 then ''0.'' @ replicate (nat (- p)) (CHR ''0'') @ ds
      else if int (length ds) \<le> p then ds @ replicate (nat p - length ds) (CHR ''0'') @ ''.0''
      else take (nat p) ds @ ''.'' @ drop (nat p) ds)"

definition exp_digits :: "int \<Rightarrow> string" where
  "exp_digits n = (if n < 10 then ''0'' @ uint_str n else uint_str n)"

definition float_scientific :: "string \<Rightarrow> int \<Rightarrow> string" where
  "float_scientific ds p =
     take 1 ds @ (if 1 < length ds then ''.'' @ drop 1 ds else []) @
     (if p < 1 then ''e-'' else ''e+'') @ exp_digits \<bar>p - 1\<bar>"

text \<open>
  The digits \<open>ds\<close> of the decimal, without trailing zeros, and the position \<open>p\<close> of its point decide
  the form. A rational with no finite decimal expansion is no float; it prints as nothing.
\<close>

definition float_text :: "rat \<Rightarrow> string" where
  "float_text r = (case dec_scale r of None \<Rightarrow> []
     | Some k \<Rightarrow>
        (let m = fst (quotient_of (r * 10 ^ k));
             ds0 = uint_str \<bar>m\<bar>;
             ds = strip_zeros ds0;
             p = int (length ds0) - int k
         in if m = 0 then ''0.0''
            else (if m < 0 then ''-'' else []) @
                 (if - 4 < p \<and> p \<le> 16 then float_positional ds p else float_scientific ds p)))"

fun float_repr :: "pyfloat \<Rightarrow> string" where
  "float_repr (Fin r) = float_text r"
| "float_repr PInf = ''Infinity''"
| "float_repr NInf = ''-Infinity''"
| "float_repr NaN = ''NaN''"

section \<open>Serialisation\<close>

record json_cfg =
  ensure_ascii :: bool
  item_sep :: string
  key_sep :: string
  indent :: "nat option"

definition u_escape :: "char \<Rightarrow> string" where
  "u_escape c = [CHR 92, CHR ''u'', CHR ''0'', CHR ''0''] @ [hex_digit (code c div 16), hex_digit (code c mod 16)]"

definition escape_char :: "bool \<Rightarrow> char \<Rightarrow> string" where
  "escape_char ascii c =
     (if c = CHR 34 then [CHR 92, CHR 34]
      else if c = CHR 92 then [CHR 92, CHR 92]
      else if c = CHR 10 then [CHR 92, CHR ''n'']
      else if c = CHR 13 then [CHR 92, CHR ''r'']
      else if c = CHR 9 then [CHR 92, CHR ''t'']
      else if c = CHR 8 then [CHR 92, CHR ''b'']
      else if c = CHR 12 then [CHR 92, CHR ''f'']
      else if code c < 32 \<or> (ascii \<and> 126 < code c) then u_escape c
      else [c])"

definition quote :: "bool \<Rightarrow> string \<Rightarrow> string" where
  "quote ascii s = CHR 34 # concat (map (escape_char ascii) s) @ [CHR 34]"

definition newline :: "json_cfg \<Rightarrow> nat \<Rightarrow> string" where
  "newline c l = (case indent c of None \<Rightarrow> [] | Some i \<Rightarrow> CHR 10 # replicate (i * l) (CHR 32))"

fun join :: "string \<Rightarrow> string list \<Rightarrow> string" where
  "join sep [] = []"
| "join sep [x] = x"
| "join sep (x # y # xs) = x @ sep @ join sep (y # xs)"

definition bracket :: "json_cfg \<Rightarrow> nat \<Rightarrow> char \<Rightarrow> char \<Rightarrow> string list \<Rightarrow> string" where
  "bracket c l op cl items =
     (if items = [] then [op, cl]
      else op # newline c (Suc l) @ join (item_sep c @ newline c (Suc l)) items @ newline c l @ [cl])"

fun emit :: "json_cfg \<Rightarrow> nat \<Rightarrow> json \<Rightarrow> string" where
  "emit c l JNull = ''null''"
| "emit c l (JBool b) = (if b then ''true'' else ''false'')"
| "emit c l (JInt i) = int_str i"
| "emit c l (JFloat x) = float_repr x"
| "emit c l (JStr s) = quote (ensure_ascii c) s"
| "emit c l (JArr xs) = bracket c l (CHR ''['') (CHR '']'') (map (emit c (Suc l)) xs)"
| "emit c l (JObj kvs) = bracket c l (CHR ''{'') (CHR ''}'')
     (map (\<lambda>(k, v). quote (ensure_ascii c) k @ key_sep c @ emit c (Suc l) v) kvs)"

definition dumps :: "json_cfg \<Rightarrow> json \<Rightarrow> string" where
  "dumps c v = emit c 0 v"

text \<open>The three configurations of the source.\<close>

definition compact_ascii :: json_cfg where
  "compact_ascii = \<lparr>ensure_ascii = True, item_sep = '','', key_sep = '':'', indent = None\<rparr>"

definition compact_utf8 :: json_cfg where
  "compact_utf8 = \<lparr>ensure_ascii = False, item_sep = '','', key_sep = '':'', indent = None\<rparr>"

definition pretty :: json_cfg where
  "pretty = \<lparr>ensure_ascii = True, item_sep = '','', key_sep = '': '', indent = Some 2\<rparr>"

section \<open>Parsing\<close>

definition is_ws :: "char \<Rightarrow> bool" where
  "is_ws c \<longleftrightarrow> code c = 32 \<or> code c = 9 \<or> code c = 10 \<or> code c = 13"

definition skip_ws :: "string \<Rightarrow> string" where
  "skip_ws s = dropWhile is_ws s"

definition simple_escape :: "char \<Rightarrow> char option" where
  "simple_escape e =
     (if e = CHR 34 \<or> e = CHR 92 \<or> e = CHR ''/'' then Some e
      else if e = CHR ''b'' then Some (CHR 8)
      else if e = CHR ''f'' then Some (CHR 12)
      else if e = CHR ''n'' then Some (CHR 10)
      else if e = CHR ''r'' then Some (CHR 13)
      else if e = CHR ''t'' then Some (CHR 9)
      else None)"

definition u_value :: "char \<Rightarrow> char \<Rightarrow> char \<Rightarrow> char \<Rightarrow> char option" where
  "u_value a b c d =
     (case (hex_val a, hex_val b, hex_val c, hex_val d) of
        (Some w, Some x, Some y, Some z) \<Rightarrow>
          (if w = 0 \<and> x = 0 then Some (chr (16 * y + z)) else None)
      | _ \<Rightarrow> None)"

text \<open>
  The body of a string after its opening quote. An escape of a code point of 256 or more is outside
  the modelled range and is refused like a malformed escape.
\<close>

fun p_str :: "string \<Rightarrow> (string \<times> string) option" where
  "p_str [] = None"
| "p_str (c # cs) =
     (if c = CHR 34 then Some ([], cs)
      else if c = CHR 92 then
        (case cs of [] \<Rightarrow> None
         | e # es \<Rightarrow>
            (if e = CHR ''u'' then
               (case es of a # b # x # y # r \<Rightarrow>
                  (case u_value a b x y of None \<Rightarrow> None
                   | Some d \<Rightarrow> map_option (\<lambda>(t, r'). (d # t, r')) (p_str r))
                | _ \<Rightarrow> None)
             else (case simple_escape e of None \<Rightarrow> None
                   | Some d \<Rightarrow> map_option (\<lambda>(t, r'). (d # t, r')) (p_str es))))
      else if code c < 32 then None
      else map_option (\<lambda>(t, r'). (c # t, r')) (p_str cs))"

definition pow10 :: "int \<Rightarrow> rat" where
  "pow10 e = (if 0 \<le> e then 10 ^ nat e else 1 / 10 ^ nat (- e))"

definition p_int_part :: "string \<Rightarrow> (string \<times> string) option" where
  "p_int_part s = (case s of [] \<Rightarrow> None
     | c # cs \<Rightarrow> if c = CHR ''0'' then Some ([c], cs)
                else if is_digit c then Some (takeWhile is_digit s, dropWhile is_digit s)
                else None)"

definition p_frac :: "string \<Rightarrow> string option \<times> string" where
  "p_frac s = (case s of [] \<Rightarrow> (None, s)
     | c # cs \<Rightarrow> if c = CHR ''.'' \<and> takeWhile is_digit cs \<noteq> []
                then (Some (takeWhile is_digit cs), dropWhile is_digit cs) else (None, s))"

definition p_exp :: "string \<Rightarrow> int option \<times> string" where
  "p_exp s = (case s of [] \<Rightarrow> (None, s)
     | c # cs \<Rightarrow> if c = CHR ''e'' \<or> c = CHR ''E'' then
          (let (neg, ds) = (case cs of [] \<Rightarrow> (False, cs)
                 | d # r \<Rightarrow> if d = CHR ''-'' then (True, r)
                           else if d = CHR ''+'' then (False, r) else (False, cs))
           in if takeWhile is_digit ds = [] then (None, s)
              else (Some ((if neg then - 1 else 1) * digits_int (takeWhile is_digit ds)),
                    dropWhile is_digit ds))
        else (None, s))"

definition p_unsigned :: "bool \<Rightarrow> string \<Rightarrow> (json \<times> string) option" where
  "p_unsigned neg s = (case p_int_part s of None \<Rightarrow> None
     | Some (ip, s1) \<Rightarrow>
        (let (fr, s2) = p_frac s1; (ex, s3) = p_exp s2 in
         if fr = None \<and> ex = None
         then Some (JInt ((if neg then - 1 else 1) * digits_int ip), s1)
         else (let f = (case fr of None \<Rightarrow> [] | Some f \<Rightarrow> f);
                   e = (case ex of None \<Rightarrow> 0 | Some e \<Rightarrow> e)
               in Some (JFloat (Fin ((if neg then - 1 else 1) * of_int (digits_int (ip @ f)) *
                                     pow10 (e - int (length f)))), s3))))"

definition p_atom :: "string \<Rightarrow> (json \<times> string) option" where
  "p_atom s =
     (if starts_with ''null'' s then Some (JNull, drop 4 s)
      else if starts_with ''true'' s then Some (JBool True, drop 4 s)
      else if starts_with ''false'' s then Some (JBool False, drop 5 s)
      else if starts_with ''NaN'' s then Some (JFloat NaN, drop 3 s)
      else if starts_with ''Infinity'' s then Some (JFloat PInf, drop 8 s)
      else if starts_with ''-Infinity'' s then Some (JFloat NInf, drop 9 s)
      else if starts_with ''-'' s then p_unsigned True (drop 1 s)
      else p_unsigned False s)"

text \<open>
  The recursive part carries fuel; \<open>loads\<close> gives one more unit than the text is long, and every
  call of \<open>p_val\<close> or of a tail reads at least one character.
\<close>

fun p_val :: "nat \<Rightarrow> string \<Rightarrow> (json \<times> string) option"
  and p_items :: "nat \<Rightarrow> string \<Rightarrow> (json list \<times> string) option"
  and p_members :: "nat \<Rightarrow> string \<Rightarrow> ((string \<times> json) list \<times> string) option" where
  "p_val 0 s = None"
| "p_val (Suc n) s = (case s of [] \<Rightarrow> None
     | c # cs \<Rightarrow>
        (if c = CHR 34 then map_option (\<lambda>(t, r). (JStr t, r)) (p_str cs)
         else if c = CHR ''['' then
           (case skip_ws cs of [] \<Rightarrow> None
            | d # ds \<Rightarrow> if d = CHR '']'' then Some (JArr [], ds)
                       else map_option (\<lambda>(vs, r). (JArr vs, r)) (p_items n (d # ds)))
         else if c = CHR ''{'' then
           (case skip_ws cs of [] \<Rightarrow> None
            | d # ds \<Rightarrow> if d = CHR ''}'' then Some (JObj [], ds)
                       else map_option (\<lambda>(kvs, r). (JObj (fold (\<lambda>(k, v). dict_set k v) kvs []), r))
                              (p_members n (d # ds)))
         else p_atom s))"
| "p_items 0 s = None"
| "p_items (Suc n) s = (case p_val n s of None \<Rightarrow> None
     | Some (v, r) \<Rightarrow>
        (case skip_ws r of [] \<Rightarrow> None
         | d # ds \<Rightarrow> if d = CHR '']'' then Some ([v], ds)
                    else if d = CHR '','' then map_option (\<lambda>(vs, r'). (v # vs, r')) (p_items n (skip_ws ds))
                    else None))"
| "p_members 0 s = None"
| "p_members (Suc n) s = (case s of [] \<Rightarrow> None
     | q # cs \<Rightarrow> if q \<noteq> CHR 34 then None else
        (case p_str cs of None \<Rightarrow> None
         | Some (k, r) \<Rightarrow>
            (case skip_ws r of [] \<Rightarrow> None
             | e # es \<Rightarrow> if e \<noteq> CHR '':'' then None else
                (case p_val n (skip_ws es) of None \<Rightarrow> None
                 | Some (v, r2) \<Rightarrow>
                    (case skip_ws r2 of [] \<Rightarrow> None
                     | d # ds \<Rightarrow>
                        if d = CHR ''}'' then Some ([(k, v)], ds)
                        else if d = CHR '','' then
                          map_option (\<lambda>(kvs, r'). ((k, v) # kvs, r')) (p_members n (skip_ws ds))
                        else None)))))"

definition loads :: "string \<Rightarrow> json option" where
  "loads s = (case p_val (Suc (length s)) (skip_ws s) of None \<Rightarrow> None
     | Some (v, r) \<Rightarrow> if skip_ws r = [] then Some v else None)"

section \<open>Reading values\<close>

text \<open>\<open>d.get(k)\<close> on a parsed object; a value that is no object has no \<open>get\<close>.\<close>

fun obj_get :: "json \<Rightarrow> string \<Rightarrow> json option" where
  "obj_get (JObj kvs) k = dict_get kvs k"
| "obj_get _ k = None"

fun is_obj :: "json \<Rightarrow> bool" where
  "is_obj (JObj _) = True"
| "is_obj _ = False"

end
