(* ===== verification/Request_Nonce.thy ===== *)
theory Request_Nonce
  imports Nonce_Cache Json
begin

text \<open>
  The replay cache as the request handlers use it: with a sender and a nonce that came as JSON values.
\<close>

fun json_text :: "json \<Rightarrow> string" where
  "json_text (JStr s) = s"
| "json_text _ = []"

text \<open>
  \<open>nonces.accept\<close> with the nonce as it came: a list or object is not hashable, which shows when the key
  is looked up, after the cache was purged.
\<close>

definition accept_nonce :: "nonce_cache \<Rightarrow> string \<Rightarrow> json \<Rightarrow> rat \<Rightarrow> bool result \<times> nonce_cache" where
  "accept_nonce c sender nonce now =
     (case nonce of
        JStr n \<Rightarrow> (let (b, c') = nc_at c (sender, n) now in (Inr b, c'))
      | _ \<Rightarrow> (let c1 = nc_purge c now in
              if nc_max c \<le> int (length (nc_seen c1)) then (Inr False, c1) else (Inl TypeError, c1)))"

lemma nc_purge_frame: "nc_ok c \<Longrightarrow> nc_ok (nc_purge c t) \<and> nc_ttl (nc_purge c t) = nc_ttl c"
  by (simp add: nc_purge_ok)

lemma accept_nonce_step:
  assumes "nc_ok c" and "accept_nonce c k nonce now = (r, c')"
  shows "nc_ok c' \<and> nc_ttl c' = nc_ttl c \<and>
     (\<forall>k' e. nc_remembers c k' e \<longrightarrow> now < e \<longrightarrow> nc_remembers c' k' e) \<and>
     (\<forall>n. nonce = JStr n \<longrightarrow> r = Inr True \<longrightarrow> nc_remembers c' (k, n) (now + fl_value (nc_ttl c))) \<and>
     (\<forall>n e. nonce = JStr n \<longrightarrow> nc_remembers c (k, n) e \<longrightarrow> now < e \<longrightarrow> r \<noteq> Inr True)"
proof (cases "\<exists>n. nonce = JStr n")
  case True
  then obtain n where n: "nonce = JStr n" ..
  then have "r = Inr (fst (nc_at c (k, n) now))" "c' = snd (nc_at c (k, n) now)"
    using assms(2) by (auto simp: accept_nonce_def split: prod.splits)
  then show ?thesis
    using n assms(1) nc_at_ok nc_at_kept nc_at_accepted nc_at_refused by auto
next
  case False
  then have "c' = nc_purge c now"
    using assms(2) by (cases nonce) (auto simp: accept_nonce_def Let_def split: if_splits)
  then show ?thesis using False assms(1) nc_purge_frame nc_purge_keeps by auto
qed

end
