(* ===== verification/File_System.thy ===== *)
theory File_System
  imports Json
begin

text \<open>
  The part of the file system the program's stores rely on, and the atomic replacement of a file that
  \<open>VaultStore._atomic_bytes\<close>, \<open>FileObjectStore.put\<close>, \<open>WeightVault._atomic_json\<close> and \<open>ACL.save\<close>
  perform. A write is a sequence of system calls; a crash may stop it between two calls or inside a
  write, and a call may fail with \<open>OSError\<close>, in which case the \<open>finally\<close> block runs. Directories are
  implied by the paths. What a crash can leave behind is the contract of the locale \<open>crash_safe\<close>.
\<close>

section \<open>Files and system calls\<close>

type_synonym path = string
type_synonym files = "(path, bytes) dict"

datatype syscall =
    Create path
  | Write path bytes
  | Rename path path
  | Unlink path

fun syscall_run :: "syscall \<Rightarrow> files \<Rightarrow> files" where
  "syscall_run (Create p) fs = dict_set p [] fs"
| "syscall_run (Write p bs) fs = dict_set p bs fs"
| "syscall_run (Rename p q) fs =
     (case dict_get fs p of None \<Rightarrow> fs | Some bs \<Rightarrow> dict_set q bs (dict_del p fs))"
| "syscall_run (Unlink p) fs = dict_del p fs"

definition run_calls :: "syscall list \<Rightarrow> files \<Rightarrow> files" where
  "run_calls cs fs = fold syscall_run cs fs"

text \<open>What a crash during one call can leave: a write may have stored any prefix.\<close>

fun torn :: "syscall \<Rightarrow> files \<Rightarrow> files list" where
  "torn (Write p bs) fs = map (\<lambda>n. dict_set p (take n bs) fs) [0..<length bs]"
| "torn _ fs = []"

fun crash_states :: "syscall list \<Rightarrow> files \<Rightarrow> files list" where
  "crash_states [] fs = [fs]"
| "crash_states (c # cs) fs = fs # torn c fs @ crash_states cs (syscall_run c fs)"

lemma run_calls_simps [simp]:
  "run_calls [] fs = fs" "run_calls (c # cs) fs = run_calls cs (syscall_run c fs)"
  by (simp_all add: run_calls_def)

section \<open>Replacing a file atomically\<close>

text \<open>
  \<open>mkstemp\<close>, write, flush and fsync, chmod, \<open>os.replace\<close>. \<open>tmp\<close> is the name \<open>mkstemp\<close> returned, a
  file that did not exist before.
\<close>

definition atomic_calls :: "path \<Rightarrow> path \<Rightarrow> bytes \<Rightarrow> syscall list" where
  "atomic_calls tmp p v = [Create tmp, Write tmp v, Rename tmp p]"

text \<open>
  Where an \<open>OSError\<close> strikes: nowhere, in the write (or the flush or fsync after it) with some
  prefix already stored, or in \<open>chmod\<close> or \<open>replace\<close>.
\<close>

datatype io_fault = NoFault | FailWrite nat | FailRename

definition atomic_put :: "io_fault \<Rightarrow> path \<Rightarrow> path \<Rightarrow> bytes \<Rightarrow> files \<Rightarrow> unit result \<times> files" where
  "atomic_put fault tmp p v fs =
     (let finally_unlink = (\<lambda>s. if dict_get s tmp = None then s else syscall_run (Unlink tmp) s)
      in case fault of
           NoFault \<Rightarrow> (Inr (), finally_unlink (run_calls (atomic_calls tmp p v) fs))
         | FailWrite n \<Rightarrow> (Inl (OSError ''write''),
             finally_unlink (run_calls [Create tmp, Write tmp (take n v)] fs))
         | FailRename \<Rightarrow> (Inl (OSError ''replace''),
             finally_unlink (run_calls [Create tmp, Write tmp v] fs)))"

text \<open>\<open>ACL.save\<close> writes a fixed sibling name and has no \<open>finally\<close>.\<close>

definition write_and_replace :: "path \<Rightarrow> path \<Rightarrow> bytes \<Rightarrow> files \<Rightarrow> files" where
  "write_and_replace tmp p v fs = run_calls (atomic_calls tmp p v) fs"

lemma write_and_replace_get:
  "tmp \<noteq> p \<Longrightarrow> dict_get (write_and_replace tmp p v fs) q =
     (if q = p then Some v else if q = tmp then None else dict_get fs q)"
  by (auto simp: write_and_replace_def atomic_calls_def dict.lookup_store dict.lookup_remove)

lemma atomic_put_get:
  assumes "tmp \<noteq> p" and "dict_get fs tmp = None"
  shows "dict_get (snd (atomic_put fault tmp p v fs)) q =
     (if q = p \<and> fault = NoFault then Some v else dict_get fs q)"
  using assms
  by (cases fault)
    (auto simp: atomic_put_def atomic_calls_def Let_def dict.lookup_store dict.lookup_remove)

lemma atomic_put_result [simp]: "is_ok (fst (atomic_put fault tmp p v fs)) \<longleftrightarrow> fault = NoFault"
  by (cases fault) (simp_all add: atomic_put_def Let_def)

section \<open>Crash safety\<close>

locale crash_safe =
  fixes crash :: "path \<Rightarrow> path \<Rightarrow> bytes \<Rightarrow> files \<Rightarrow> files list"
    and completed :: "path \<Rightarrow> path \<Rightarrow> bytes \<Rightarrow> files \<Rightarrow> files"
  assumes crash_target:
      "tmp \<noteq> p \<Longrightarrow> s \<in> set (crash tmp p v fs) \<Longrightarrow> dict_get s p = dict_get fs p \<or> dict_get s p = Some v"
    and crash_other:
      "tmp \<noteq> p \<Longrightarrow> s \<in> set (crash tmp p v fs) \<Longrightarrow> q \<noteq> p \<Longrightarrow> q \<noteq> tmp \<Longrightarrow> dict_get s q = dict_get fs q"
    and completed_target: "tmp \<noteq> p \<Longrightarrow> dict_get (completed tmp p v fs) p = Some v"
    and completed_other:
      "tmp \<noteq> p \<Longrightarrow> q \<noteq> p \<Longrightarrow> q \<noteq> tmp \<Longrightarrow> dict_get (completed tmp p v fs) q = dict_get fs q"
begin

text \<open>A property of whole files that the new contents have survives every crash, outside the
  temporary name.\<close>

lemma crash_keeps:
  assumes "tmp \<noteq> p" and "s \<in> set (crash tmp p v fs)" and "good p v"
    and "\<And>q bs. q \<noteq> tmp \<Longrightarrow> dict_get fs q = Some bs \<Longrightarrow> good q bs"
    and "q \<noteq> tmp" and "dict_get s q = Some bs"
  shows "good q bs"
proof (cases "q = p")
  case True
  then show ?thesis using crash_target [OF assms(1,2)] assms by auto
next
  case False
  then have "dict_get fs q = Some bs" using crash_other [OF assms(1,2) False assms(5)] assms(6) by simp
  then show ?thesis by (rule assms(4) [OF assms(5)])
qed

lemma completed_keeps:
  assumes "tmp \<noteq> p" and "good p v" and "\<And>q bs. q \<noteq> tmp \<Longrightarrow> dict_get fs q = Some bs \<Longrightarrow> good q bs"
    and "q \<noteq> tmp" and "dict_get (completed tmp p v fs) q = Some bs"
  shows "good q bs"
proof (cases "q = p")
  case True
  then show ?thesis using completed_target [OF assms(1)] assms by auto
next
  case False
  then have "dict_get fs q = Some bs" using completed_other [OF assms(1) False assms(4)] assms(5) by simp
  then show ?thesis by (rule assms(3) [OF assms(4)])
qed

end

definition atomic_crashes :: "path \<Rightarrow> path \<Rightarrow> bytes \<Rightarrow> files \<Rightarrow> files list" where
  "atomic_crashes tmp p v fs = crash_states (atomic_calls tmp p v) fs"

lemma atomic_crashes_get:
  assumes "tmp \<noteq> p" and "s \<in> set (atomic_crashes tmp p v fs)"
  shows "dict_get s p = dict_get fs p \<or> dict_get s p = Some v"
    and "q \<noteq> p \<Longrightarrow> q \<noteq> tmp \<Longrightarrow> dict_get s q = dict_get fs q"
  using assms
  by (auto simp: atomic_crashes_def atomic_calls_def dict.lookup_store dict.lookup_remove)

interpretation replace_crash: crash_safe atomic_crashes write_and_replace
  by unfold_locales (auto simp: atomic_crashes_get write_and_replace_get)

definition atomic_put_ok :: "path \<Rightarrow> path \<Rightarrow> bytes \<Rightarrow> files \<Rightarrow> files" where
  "atomic_put_ok tmp p v fs = snd (atomic_put NoFault tmp p v fs)"

lemma atomic_put_ok_get:
  "tmp \<noteq> p \<Longrightarrow> dict_get (atomic_put_ok tmp p v fs) q =
     (if q = p then Some v else if q = tmp then None else dict_get fs q)"
  by (auto simp: atomic_put_ok_def atomic_put_def atomic_calls_def Let_def
      dict.lookup_store dict.lookup_remove)

interpretation put_crash: crash_safe atomic_crashes atomic_put_ok
  by unfold_locales (auto simp: atomic_crashes_get atomic_put_ok_get)

section \<open>Properties\<close>

text \<open>C27: An atomic write that is interrupted anywhere leaves the target with its old or with its whole
  new contents and every other file as it was; only the temporary name can hold a torn file.\<close>

theorem atomic_write_crash:
  assumes "tmp \<noteq> p" and "s \<in> set (crash_states (atomic_calls tmp p v) fs)"
  shows "dict_get s p \<in> {dict_get fs p, Some v} \<and> (\<forall>q. q \<notin> {p, tmp} \<longrightarrow> dict_get s q = dict_get fs q)"
  using replace_crash.crash_target replace_crash.crash_other assms
  unfolding atomic_crashes_def by blast

theorem atomic_write_crash_witness:
  "dict_get [(''t'', [1, 2]), (''p'', [9])] ''p'' \<in> {Some [9], Some [1, 2, 3]}"
proof -
  have "[(''t'', [1, 2]), (''p'', [9])]
      \<in> set (crash_states (atomic_calls ''t'' ''p'' [1, 2, 3]) [(''t'', []), (''p'', [9 :: byte])])"
    by (simp add: atomic_calls_def dict_set_def upt_rec)
  from atomic_write_crash [OF _ this] show ?thesis by (simp add: dict_get_def)
qed

text \<open>C28: An atomic write that returns has stored the whole value; one that raises has changed nothing,
  whichever call failed and however much had been written. The temporary file is gone either way.\<close>

theorem atomic_put_all_or_nothing:
  assumes "tmp \<noteq> p" and "dict_get fs tmp = None"
  shows "let (r, fs') = atomic_put fault tmp p v fs
     in dict_get fs' tmp = None \<and> dict_get fs' p = (if is_ok r then Some v else dict_get fs p) \<and>
        (\<forall>q. q \<noteq> p \<longrightarrow> dict_get fs' q = dict_get fs q)"
  using assms atomic_put_get [OF assms, of fault v] atomic_put_result [of fault tmp p v fs]
  by (cases "atomic_put fault tmp p v fs") auto

theorem atomic_put_all_or_nothing_witness:
  "dict_get (snd (atomic_put (FailWrite 1) ''t'' ''p'' [1, 2] [(''p'', [9])])) ''p'' = Some [9]"
  using atomic_put_all_or_nothing [of "''t''" "''p''" "[(''p'', [9])]" "FailWrite 1" "[1, 2]"]
  by (simp add: dict_get_def atomic_put_def Let_def split: prod.splits)

end
