(* ===== verification/Json_Roundtrip.thy ===== *)
theory Json_Roundtrip
  imports Json
begin

text \<open>
  \<open>loads\<close> reads back what \<open>dumps\<close> writes. The proof goes token by token (strings, integers,
  floats) and then over the structure, with the unread text as a parameter. The consequence the
  components use: the canonical text of a value determines the value, so a signature over the text
  binds every field.
\<close>

section \<open>Well-formed values and configurations\<close>

fun json_ok :: "json \<Rightarrow> bool" where
  "json_ok (JFloat (Fin r)) = (dec_scale r \<noteq> None)"
| "json_ok (JArr xs) = list_all json_ok xs"
| "json_ok (JObj kvs) = (dict_ok kvs \<and> list_all (\<lambda>(k, v). json_ok v) kvs)"
| "json_ok _ = True"

definition good_cfg :: "json_cfg \<Rightarrow> bool" where
  "good_cfg c \<longleftrightarrow>
     (\<exists>w. item_sep c = CHR '','' # w \<and> list_all is_ws w) \<and>
     (\<exists>w. key_sep c = CHR '':'' # w \<and> list_all is_ws w)"

lemma good_cfgs [simp]: "good_cfg compact_ascii" "good_cfg compact_utf8" "good_cfg pretty"
  by (simp_all add: good_cfg_def compact_ascii_def compact_utf8_def pretty_def is_ws_def code_def)

definition delim :: "string \<Rightarrow> bool" where
  "delim s = (case s of [] \<Rightarrow> True
     | c # _ \<Rightarrow> \<not> is_digit c \<and> c \<noteq> CHR ''.'' \<and> c \<noteq> CHR ''e'' \<and> c \<noteq> CHR ''E'')"

lemma delim_Nil [simp]: "delim []"
  by (simp add: delim_def)

lemma delim_Cons: "delim (c # s) \<longleftrightarrow>
    \<not> is_digit c \<and> c \<noteq> CHR ''.'' \<and> c \<noteq> CHR ''e'' \<and> c \<noteq> CHR ''E''"
  by (simp add: delim_def)

lemma newline_ws: "list_all is_ws (newline c l)"
  by (auto simp: newline_def is_ws_def code_def list_all_iff split: option.splits)

lemma ws_delim: "list_all is_ws w \<Longrightarrow> delim s \<Longrightarrow> delim (w @ s)"
  by (cases w) (auto simp: delim_Cons is_ws_def is_digit_def code_def)

lemma skip_ws_append: "list_all is_ws w \<Longrightarrow> skip_ws (w @ s) = skip_ws s"
  by (induction w) (auto simp: skip_ws_def)

lemma skip_ws_hd: "s \<noteq> [] \<Longrightarrow> \<not> is_ws (hd s) \<Longrightarrow> skip_ws s = s"
  by (cases s) (auto simp: skip_ws_def)

lemma skip_ws_Cons: "\<not> is_ws c \<Longrightarrow> skip_ws (c # s) = c # s"
  by (simp add: skip_ws_def)

lemma skip_ws_Nil [simp]: "skip_ws [] = []"
  by (simp add: skip_ws_def)

lemma not_ws [simp]:
  "\<not> is_ws (CHR '','')" "\<not> is_ws (CHR '':'')" "\<not> is_ws (CHR '']'')" "\<not> is_ws (CHR ''}'')"
  "\<not> is_ws (CHR ''['')" "\<not> is_ws (CHR ''{'')" "\<not> is_ws (CHR 34)" "\<not> is_ws (CHR ''-'')"
  by (simp_all add: is_ws_def code_def)

lemma delim_punct [simp]:
  "delim (CHR '','' # s)" "delim (CHR '']'' # s)" "delim (CHR ''}'' # s)"
  by (simp_all add: delim_Cons is_digit_def code_def)

section \<open>Strings\<close>

lemma hex_val_0 [simp]: "hex_val (CHR ''0'') = Some 0"
  by (simp add: hex_val_def code_def)

lemma p_str_escape:
  "p_str (escape_char a c @ s) = map_option (\<lambda>(t, r). (c # t, r)) (p_str s)"
proof -
  have d: "code c div 16 < 16"
    using code_less [of c] by (simp add: less_mult_imp_div_less del: code_less)
  have u: "u_value (CHR ''0'') (CHR ''0'') (hex_digit (code c div 16)) (hex_digit (code c mod 16)) = Some c"
    using d by (simp add: u_value_def)
  have n: "\<not> code c < 32 \<Longrightarrow> c \<noteq> CHR 34 \<Longrightarrow> c \<noteq> CHR 92 \<Longrightarrow>
      p_str (c # s) = map_option (\<lambda>(t, r). (c # t, r)) (p_str s)"
    by simp
  show ?thesis
    unfolding escape_char_def u_escape_def
    using u n by (simp add: simple_escape_def)
qed

lemma p_str_quoted:
  "p_str (concat (map (escape_char a) t) @ CHR 34 # rest) = Some (t, rest)"
  by (induction t) (simp_all add: p_str_escape)

lemma quote_Cons: "quote a t @ s = CHR 34 # concat (map (escape_char a) t) @ CHR 34 # s"
  by (simp add: quote_def)

section \<open>Numbers\<close>

definition int_ok :: "string \<Rightarrow> bool" where
  "int_ok ip \<longleftrightarrow> ip = ''0'' \<or> (ip \<noteq> [] \<and> list_all is_digit ip \<and> hd ip \<noteq> CHR ''0'')"

definition no_digit :: "string \<Rightarrow> bool" where
  "no_digit s = (case s of [] \<Rightarrow> True | c # _ \<Rightarrow> \<not> is_digit c)"

lemma delim_no_digit [simp]: "delim s \<Longrightarrow> no_digit s"
  by (auto simp: delim_def no_digit_def split: list.splits)

lemma not_digit [simp]:
  "\<not> is_digit (CHR ''.'')" "\<not> is_digit (CHR ''e'')" "\<not> is_digit (CHR ''n'')" "\<not> is_digit (CHR ''t'')"
  "\<not> is_digit (CHR ''f'')" "\<not> is_digit (CHR ''N'')" "\<not> is_digit (CHR ''I'')" "\<not> is_digit (CHR ''+'')"
  "\<not> is_digit (CHR 34)" "\<not> is_digit (CHR ''['')" "\<not> is_digit (CHR ''{'')" "\<not> is_digit (CHR '']'')"
  by (simp_all add: is_digit_def code_def)

lemma digit_0 [simp]: "is_digit (CHR ''0'')"
  by (simp add: is_digit_def code_def)

lemma span_digits:
  assumes "list_all is_digit ds" and "no_digit t"
  shows "takeWhile is_digit (ds @ t) = ds" and "dropWhile is_digit (ds @ t) = t"
  using assms by (induction ds) (auto simp: no_digit_def split: list.splits)

lemma p_int_part_ok:
  assumes ip: "int_ok ip" and t: "no_digit t"
  shows "p_int_part (ip @ t) = Some (ip, t)"
proof (cases "ip = ''0''")
  case True
  then show ?thesis by (simp add: p_int_part_def)
next
  case False
  with ip obtain c cs where c: "ip = c # cs" "is_digit c" "c \<noteq> CHR ''0''" "list_all is_digit cs"
    by (cases ip) (auto simp: int_ok_def)
  then show ?thesis using t by (simp add: p_int_part_def span_digits)
qed

lemma p_frac_ok:
  "list_all is_digit f \<Longrightarrow> f \<noteq> [] \<Longrightarrow> no_digit t \<Longrightarrow> p_frac (CHR ''.'' # f @ t) = (Some f, t)"
  by (simp add: p_frac_def span_digits)

lemma p_frac_none: "no_digit t \<Longrightarrow> t = [] \<or> hd t \<noteq> CHR ''.'' \<Longrightarrow> p_frac t = (None, t)"
  by (cases t) (auto simp: p_frac_def)

lemma p_exp_ok:
  "list_all is_digit x \<Longrightarrow> x \<noteq> [] \<Longrightarrow> no_digit t \<Longrightarrow>
     p_exp (CHR ''e'' # CHR ''+'' # x @ t) = (Some (digits_int x), t)"
  "list_all is_digit x \<Longrightarrow> x \<noteq> [] \<Longrightarrow> no_digit t \<Longrightarrow>
     p_exp (CHR ''e'' # CHR ''-'' # x @ t) = (Some (- digits_int x), t)"
  by (simp_all add: p_exp_def span_digits)

lemma p_exp_none: "delim t \<Longrightarrow> p_exp t = (None, t)"
  by (cases t) (auto simp: p_exp_def delim_Cons)

lemma no_digit_simps [simp]:
  "no_digit (CHR ''.'' # s)" "no_digit (CHR ''e'' # s)"
  by (simp_all add: no_digit_def)

lemma int_ok_uint_str: "0 \<le> i \<Longrightarrow> int_ok (uint_str i)"
proof (cases "i = 0")
  case False
  moreover assume "0 \<le> i"
  ultimately have "0 < i" by simp
  then have "hd (uint_str i) \<noteq> CHR ''0''"
    using uint_str_no_leading_zero [of i] by (auto simp: digit_val_def code_def)
  with \<open>0 < i\<close> show ?thesis
    by (auto simp: int_ok_def list_all_iff intro: uint_str_digits [of i])
qed (simp add: int_ok_def)

lemma p_unsigned_int:
  "0 \<le> i \<Longrightarrow> delim t \<Longrightarrow>
     p_unsigned neg (uint_str i @ t) = Some (JInt (if neg then - i else i), t)"
proof -
  assume i: "0 \<le> i" and t: "delim t"
  have "p_frac t = (None, t)"
    using t by (cases t) (auto simp: p_frac_def delim_Cons)
  with i t show ?thesis
    by (simp add: p_unsigned_def p_int_part_ok int_ok_uint_str p_exp_none)
qed

lemma p_atom_digit:
  assumes "s \<noteq> []" and "is_digit (hd s)"
  shows "p_atom s = p_unsigned False s" and "p_atom (CHR ''-'' # s) = p_unsigned True s"
proof -
  obtain c cs where s: "s = c # cs" and c: "is_digit c"
    using assms by (cases s) auto
  have "c \<noteq> CHR ''n'' \<and> c \<noteq> CHR ''t'' \<and> c \<noteq> CHR ''f'' \<and> c \<noteq> CHR ''N'' \<and> c \<noteq> CHR ''I'' \<and> c \<noteq> CHR ''-''"
    using c by (auto simp: is_digit_def code_def)
  then show "p_atom s = p_unsigned False s" and "p_atom (CHR ''-'' # s) = p_unsigned True s"
    by (auto simp: s p_atom_def starts_with_def)
qed

lemma p_atom_int: "delim t \<Longrightarrow> p_atom (int_str i @ t) = Some (JInt i, t)"
  using hd_uint_str_digit [of i] hd_uint_str_digit [of "- i"]
  by (auto simp: int_str_def p_atom_digit p_unsigned_int)

section \<open>Floats\<close>

lemma dec_scaleD: "dec_scale r = Some k \<Longrightarrow> r * 10 ^ k = of_int (fst (quotient_of (r * 10 ^ k)))"
  unfolding dec_scale_def
  by (auto simp: find_Some_iff) (metis div_by_1 of_int_1 prod.collapse quotient_of_div)

lemma strip_zeros_split: "\<exists>n. ds = strip_zeros ds @ replicate n (CHR ''0'')"
proof -
  let ?P = "\<lambda>c. c = CHR ''0''"
  have "rev (rev ds) = rev (dropWhile ?P (rev ds)) @ rev (takeWhile ?P (rev ds))"
    by (metis rev_append takeWhile_dropWhile_id)
  moreover have "takeWhile ?P xs = replicate (length (takeWhile ?P xs)) (CHR ''0'')" for xs
    by (induction xs) auto
  ultimately show ?thesis by (metis rev_replicate rev_rev_ident strip_zeros_def)
qed

lemma digits_zeros [simp]: "digits_int (replicate n (CHR ''0'')) = 0"
proof (induction n)
  case (Suc n)
  have "digits_int (replicate n (CHR ''0'') @ [CHR ''0'']) = 0"
    using Suc by (simp add: digit_val_def code_def del: digits_int_snoc add: digits_int_snoc)
  then show ?case by (simp add: replicate_append_same)
qed simp

lemma digits_zeros_left [simp]: "digits_int (replicate n (CHR ''0'') @ ds) = digits_int ds"
  by (simp add: digits_int_append)

lemma pow10_nonneg: "pow10 (int n) = 10 ^ n"
  by (simp add: pow10_def)

lemma pow10_add_nat: "pow10 (e + int n) = pow10 e * 10 ^ n"
proof (cases "0 \<le> e")
  case True
  then show ?thesis by (simp add: pow10_def nat_add_distrib power_add)
next
  case False
  show ?thesis
  proof (cases "0 \<le> e + int n")
    case True
    then have "n = nat (e + int n) + nat (- e)" using False by linarith
    then have "(10::rat) ^ n = 10 ^ nat (e + int n) * 10 ^ nat (- e)" by (metis power_add)
    then show ?thesis using True False by (simp add: pow10_def)
  next
    case neg: False
    then have "nat (- e) = nat (- (e + int n)) + n" by linarith
    then have "(10::rat) ^ nat (- e) = 10 ^ nat (- (e + int n)) * 10 ^ n" by (metis power_add)
    then show ?thesis using neg False by (simp add: pow10_def)
  qed
qed

definition float_parts :: "string \<Rightarrow> string \<Rightarrow> string" where
  "float_parts ip f = ip @ (if f = [] then [] else CHR ''.'' # f)"

lemma p_unsigned_point:
  assumes "int_ok ip" and "list_all is_digit f" and "f \<noteq> []" and "delim t"
  shows "p_unsigned neg (ip @ CHR ''.'' # f @ t) =
     Some (JFloat (Fin ((if neg then - 1 else 1) * of_int (digits_int (ip @ f)) * pow10 (- int (length f)))), t)"
  using assms by (simp add: p_unsigned_def p_int_part_ok p_frac_ok p_exp_none)

lemma p_unsigned_exp:
  assumes ip: "int_ok ip" and f: "list_all is_digit f" and x: "list_all is_digit x" "x \<noteq> []"
    and t: "delim t"
  shows "p_unsigned neg (float_parts ip f @ CHR ''e'' # CHR ''+'' # x @ t) =
     Some (JFloat (Fin ((if neg then - 1 else 1) * of_int (digits_int (ip @ f)) *
       pow10 (digits_int x - int (length f)))), t)"
    and "p_unsigned neg (float_parts ip f @ CHR ''e'' # CHR ''-'' # x @ t) =
     Some (JFloat (Fin ((if neg then - 1 else 1) * of_int (digits_int (ip @ f)) *
       pow10 (- digits_int x - int (length f)))), t)"
  using assms
  by (auto simp: p_unsigned_def float_parts_def p_int_part_ok p_frac_ok p_frac_none p_exp_ok)

lemma digits_01: "list_all is_digit (exp_digits i)" "exp_digits i \<noteq> []" "digits_int (exp_digits i) = i"
  if "0 \<le> i"
proof -
  have "digits_int (''0'' @ uint_str i) = i"
    using that digits_zeros_left [of 1 "uint_str i"] by simp
  then show "list_all is_digit (exp_digits i)" "exp_digits i \<noteq> []" "digits_int (exp_digits i) = i"
    using that by (auto simp: exp_digits_def list_all_iff dest: uint_str_digits)
qed

text \<open>
  The text of a positive decimal with digits \<open>ds\<close> and point position \<open>p\<close> reads back as
  \<open>ds\<close> times ten to the \<open>p - length ds\<close>.
\<close>

lemma positional_read:
  assumes ds: "ds \<noteq> []" "list_all is_digit ds" "hd ds \<noteq> CHR ''0''" and t: "delim t"
  shows "p_unsigned neg (float_positional ds p @ t) =
     Some (JFloat (Fin ((if neg then - 1 else 1) * of_int (digits_int ds) * pow10 (p - int (length ds)))), t)"
proof -
  let ?z = "\<lambda>n. replicate n (CHR ''0'')"
  have z: "list_all is_digit (?z n)" for n by (simp add: list_all_iff)
  consider "p \<le> 0" | "0 < p" "int (length ds) \<le> p" | "0 < p" "p < int (length ds)" by linarith
  then show ?thesis
  proof cases
    case 1
    have "digits_int (''0'' @ ?z (nat (- p)) @ ds) = digits_int ds"
      using digits_zeros_left [of "Suc (nat (- p))" ds] by simp
    with 1 p_unsigned_point [of "''0''" "?z (nat (- p)) @ ds" t neg] ds z t
    show ?thesis by (simp add: float_positional_def int_ok_def algebra_simps)
  next
    case 2
    define n where "n = nat p - length ds"
    have "int_ok (ds @ ?z n)" using ds z by (simp add: int_ok_def)
    moreover have "digits_int ((ds @ ?z n) @ ''0'') = digits_int ds * 10 ^ Suc n"
      using digits_int_append [of ds "?z (Suc n)"] digits_zeros [of "Suc n"]
      by (simp add: replicate_append_same del: digits_zeros)
    moreover have "p - int (length ds) = - 1 + int (Suc n)" using 2 by (simp add: n_def)
    then have "pow10 (p - int (length ds)) = pow10 (- 1) * 10 ^ Suc n"
      using pow10_add_nat [of "- 1" "Suc n"] by simp
    ultimately show ?thesis
      using 2 t p_unsigned_point [of "ds @ ?z n" "''0''" t neg]
      by (simp add: float_positional_def flip: n_def)
  next
    case 3
    define n where "n = nat p"
    have n: "0 < n" "n < length ds" using 3 by (auto simp: n_def)
    have "take n ds \<noteq> []" "hd (take n ds) = hd ds" using n ds by (auto simp: hd_take)
    then have "int_ok (take n ds)"
      using ds by (auto simp: int_ok_def list_all_iff dest: in_set_takeD)
    moreover have "list_all is_digit (drop n ds)"
      using ds by (auto simp: list_all_iff dest: in_set_dropD)
    ultimately show ?thesis
      using 3 n t p_unsigned_point [of "take n ds" "drop n ds" t neg]
      by (simp add: float_positional_def n_def)
  qed
qed

lemma scientific_read:
  assumes ds: "ds \<noteq> []" "list_all is_digit ds" "hd ds \<noteq> CHR ''0''" and t: "delim t"
  shows "p_unsigned neg (float_scientific ds p @ t) =
     Some (JFloat (Fin ((if neg then - 1 else 1) * of_int (digits_int ds) * pow10 (p - int (length ds)))), t)"
proof -
  obtain c cs where c: "ds = c # cs" "is_digit c" "c \<noteq> CHR ''0''" "list_all is_digit cs"
    using ds by (cases ds) auto
  have ip: "int_ok [c]" using c by (simp add: int_ok_def)
  have e: "\<bar>p - 1\<bar> \<ge> 0" by simp
  have "float_scientific ds p =
      float_parts [c] cs @ CHR ''e'' # (if p < 1 then CHR ''-'' else CHR ''+'') # exp_digits \<bar>p - 1\<bar>"
    by (simp add: float_scientific_def float_parts_def c)
  moreover note p_unsigned_exp [OF ip c(4) digits_01(1,2) [OF e] t, of neg, unfolded digits_01(3) [OF e]]
  ultimately show ?thesis by (cases "p < 1") (simp_all add: c diff_diff_eq)
qed

lemma float_text_read:
  assumes r: "dec_scale r \<noteq> None" and t: "delim t"
  shows "p_atom (float_text r @ t) = Some (JFloat (Fin r), t)"
proof -
  obtain k where k: "dec_scale r = Some k" using r by auto
  define m where "m = fst (quotient_of (r * 10 ^ k))"
  have rm: "r * 10 ^ k = of_int m" using dec_scaleD [OF k] by (simp add: m_def)
  show ?thesis
  proof (cases "m = 0")
    case True
    then have "r = 0" using rm by simp
    then show ?thesis
      using True p_unsigned_point [of "''0''" "''0''" t False] t k p_atom_digit(1) [of "''0.0'' @ t"]
        digits_zeros [of 2]
      by (simp add: float_text_def Let_def int_ok_def numeral_2_eq_2 flip: m_def)
  next
    case False
    define ds0 where "ds0 = uint_str \<bar>m\<bar>"
    define ds where "ds = strip_zeros ds0"
    define p where "p = int (length ds0) - int k"
    obtain n where n: "ds0 = ds @ replicate n (CHR ''0'')"
      using strip_zeros_split [of ds0] by (auto simp: ds_def)
    have h0: "hd ds0 \<noteq> CHR ''0''" and d0: "list_all is_digit ds0"
      using int_ok_uint_str [of "\<bar>m\<bar>"] uint_str_no_leading_zero [of "\<bar>m\<bar>"] False
      by (auto simp: ds0_def int_ok_def digit_val_def code_def)
    have ds: "ds \<noteq> []" "list_all is_digit ds" "hd ds \<noteq> CHR ''0''"
      using n h0 d0 by (cases ds; cases n; auto simp: ds0_def)+
    have "digits_int ds * 10 ^ n = \<bar>m\<bar>"
      using uint_str_roundtrip [of "\<bar>m\<bar>"] n by (simp add: digits_int_append flip: ds0_def)
    then have dm: "of_int (digits_int ds) * 10 ^ n = (of_int \<bar>m\<bar> :: rat)"
      by (metis of_int_mult of_int_numeral of_int_power)
    have "p - int (length ds) = - int k + int n" by (simp add: p_def n)
    then have "of_int (digits_int ds) * pow10 (p - int (length ds)) = of_int \<bar>m\<bar> * pow10 (- int k)"
      using dm pow10_add_nat [of "- int k" n] by simp
    also have "\<dots> = of_int \<bar>m\<bar> / 10 ^ k" by (simp add: pow10_def)
    finally have v: "of_int (digits_int ds) * pow10 (p - int (length ds)) = (of_int \<bar>m\<bar> / 10 ^ k :: rat)" .
    have r: "r = of_int m / 10 ^ k" using rm by (simp add: field_simps)
    define body where
      "body = (if - 4 < p \<and> p \<le> 16 then float_positional ds p else float_scientific ds p)"
    have ft: "float_text r = (if m < 0 then ''-'' else []) @ body"
      using False k by (simp add: float_text_def Let_def body_def p_def ds_def ds0_def m_def)
    have rd: "p_unsigned neg (body @ t) =
        Some (JFloat (Fin ((if neg then - 1 else 1) * (of_int \<bar>m\<bar> / 10 ^ k))), t)" for neg
      using positional_read [OF ds t] scientific_read [OF ds t] v
      by (simp add: body_def mult.assoc)
    obtain d ds' where d: "ds = d # ds'" "is_digit d" using ds by (cases ds) auto
    have hd: "body @ t \<noteq> []" "is_digit (hd (body @ t))"
      using d by (auto simp: body_def float_positional_def float_scientific_def take_Cons' hd_append)
    show ?thesis
    proof (cases "m < 0")
      case True
      then have "p_atom (CHR ''-'' # body @ t) = Some (JFloat (Fin r), t)"
        using rd [of True] p_atom_digit(2) [OF hd] by (simp add: r)
      with True show ?thesis by (simp add: ft)
    next
      case neg: False
      then have "p_atom (body @ t) = Some (JFloat (Fin r), t)"
        using rd [of False] p_atom_digit(1) [OF hd] by (simp add: r)
      with neg show ?thesis by (simp add: ft)
    qed
  qed
qed

section \<open>Values\<close>

lemma p_atom_const:
  "p_atom (''null'' @ t) = Some (JNull, t)" "p_atom (''true'' @ t) = Some (JBool True, t)"
  "p_atom (''false'' @ t) = Some (JBool False, t)" "p_atom (''NaN'' @ t) = Some (JFloat NaN, t)"
  "p_atom (''Infinity'' @ t) = Some (JFloat PInf, t)" "p_atom (''-Infinity'' @ t) = Some (JFloat NInf, t)"
  by (simp_all add: p_atom_def starts_with_def)

definition token_start :: "string \<Rightarrow> bool" where
  "token_start s = (case s of [] \<Rightarrow> False
     | c # _ \<Rightarrow> is_digit c \<or> c \<in> set ''-ntfNI[{'' \<or> c = CHR 34)"

lemma token_start_append: "token_start s \<Longrightarrow> token_start (s @ t)"
  by (cases s) (auto simp: token_start_def)

lemma token_startD:
  assumes "token_start s"
  shows "s \<noteq> []" "\<not> is_ws (hd s)" "hd s \<noteq> CHR '']''" "skip_ws s = s"
proof -
  show "s \<noteq> []" "\<not> is_ws (hd s)" "hd s \<noteq> CHR '']''"
    using assms by (auto simp: token_start_def is_ws_def is_digit_def code_def split: list.splits)
  then show "skip_ws s = s" by (simp add: skip_ws_hd)
qed

lemma token_start_digit: "s \<noteq> [] \<Longrightarrow> is_digit (hd s) \<Longrightarrow> token_start s \<and> token_start (CHR ''-'' # s)"
  by (cases s) (auto simp: token_start_def)

lemma token_start_num:
  assumes "s \<noteq> []" and "p_unsigned neg s = Some x" shows "is_digit (hd s)"
  using assms by (cases s) (auto simp: p_unsigned_def p_int_part_def split: if_splits)

lemma float_text_hd:
  assumes r: "dec_scale r \<noteq> None"
  shows "float_text r \<noteq> []" "is_digit (hd (float_text r)) \<or> hd (float_text r) = CHR ''-''"
proof -
  have a: "p_atom (float_text r) = Some (JFloat (Fin r), [])"
    using float_text_read [OF r delim_Nil] by simp
  show "float_text r \<noteq> []"
    using a by (auto simp: p_atom_def starts_with_def p_unsigned_def p_int_part_def)
  then show "is_digit (hd (float_text r)) \<or> hd (float_text r) = CHR ''-''"
    using a by (cases "float_text r")
      (auto simp: p_atom_def starts_with_def p_unsigned_def p_int_part_def split: if_splits)
qed

lemma float_text_start: "dec_scale r \<noteq> None \<Longrightarrow> token_start (float_text r)"
  using float_text_hd [of r] by (cases "float_text r") (auto simp: token_start_def)

lemma emit_start: "json_ok v \<Longrightarrow> token_start (emit c l v)"
proof (cases v)
  case (JInt i)
  then show ?thesis
    using hd_uint_str_digit [of i] hd_uint_str_digit [of "- i"]
      token_start_digit [of "uint_str i"] token_start_digit [of "uint_str (- i)"]
    by (simp add: int_str_def)
next
  case (JFloat x)
  moreover assume "json_ok v"
  ultimately show ?thesis
    using float_text_start by (cases x) (auto simp: token_start_def)
qed (auto simp: token_start_def quote_def bracket_def)

lemma p_val_atom:
  assumes "c \<noteq> CHR 34" "c \<noteq> CHR ''[''" "c \<noteq> CHR ''{''"
  shows "p_val (Suc n) (c # cs) = p_atom (c # cs)"
  using assms by simp

definition reads :: "json_cfg \<Rightarrow> nat \<Rightarrow> json \<Rightarrow> bool" where
  "reads c l v \<longleftrightarrow> (\<forall>n t. delim t \<longrightarrow> length (emit c l v) < n \<longrightarrow>
     p_val n (emit c l v @ t) = Some (v, t))"

lemma readsD: "reads c l v \<Longrightarrow> delim t \<Longrightarrow> length (emit c l v) < n \<Longrightarrow>
    p_val n (emit c l v @ t) = Some (v, t)"
  by (simp add: reads_def)

lemma sep_skip:
  assumes c: "good_cfg c" and s: "token_start s"
  shows "\<exists>r. item_sep c @ newline c l @ s @ t = CHR '','' # r \<and> skip_ws r = s @ t"
    and "\<exists>r. key_sep c @ s @ t = CHR '':'' # r \<and> skip_ws r = s @ t"
proof -
  have st: "skip_ws (s @ t) = s @ t"
    using s by (intro token_startD) (rule token_start_append)
  obtain w where "item_sep c = CHR '','' # w" "list_all is_ws w"
    using c by (auto simp: good_cfg_def)
  then show "\<exists>r. item_sep c @ newline c l @ s @ t = CHR '','' # r \<and> skip_ws r = s @ t"
    using st newline_ws [of c l] by (auto simp: skip_ws_append)
  obtain w where "key_sep c = CHR '':'' # w" "list_all is_ws w"
    using c by (auto simp: good_cfg_def)
  then show "\<exists>r. key_sep c @ s @ t = CHR '':'' # r \<and> skip_ws r = s @ t"
    using st by (auto simp: skip_ws_append)
qed

lemma length_item_sep: "good_cfg c \<Longrightarrow> 0 < length (item_sep c)"
  by (auto simp: good_cfg_def)

lemma p_items_join:
  assumes c: "good_cfg c" and xs: "xs \<noteq> []" "\<forall>x\<in>set xs. json_ok x \<and> reads c l x"
    and n: "length (join (item_sep c @ newline c l) (map (emit c l) xs)) + 1 < n"
  shows "p_items n (join (item_sep c @ newline c l) (map (emit c l) xs) @ newline c l' @ CHR '']'' # t)
     = Some (xs, t)"
  using xs n
proof (induction xs arbitrary: n)
  case (Cons x xs)
  from Cons.prems obtain m where n: "n = Suc m" by (cases n) auto
  have x: "json_ok x" "reads c l x" using Cons.prems by auto
  show ?case
  proof (cases xs)
    case Nil
    have "delim (newline c l' @ CHR '']'' # t)"
      using ws_delim [OF newline_ws, of "CHR '']'' # t" c l'] by simp
    moreover have "skip_ws (newline c l' @ CHR '']'' # t) = CHR '']'' # t"
      by (simp add: skip_ws_append newline_ws skip_ws_Cons)
    ultimately show ?thesis
      using readsD [OF x(2)] Cons.prems Nil by (simp add: n)
  next
    case (Cons y ys)
    let ?rest = "join (item_sep c @ newline c l) (map (emit c l) xs)"
    have "token_start ?rest"
      using emit_start [of y c l] \<open>\<forall>x\<in>set (_ # _). _\<close> Cons
      by (cases ys) (auto intro: token_start_append)
    then obtain r where r: "item_sep c @ newline c l @ ?rest @ newline c l' @ CHR '']'' # t = CHR '','' # r"
        "skip_ws r = ?rest @ newline c l' @ CHR '']'' # t"
      using sep_skip(1) [OF c] by blast
    have "0 < length (emit c l x)"
      using token_startD(1) [OF emit_start [OF x(1)]] by blast
    moreover have "length (emit c l x) + length (item_sep c) + length ?rest < m"
      using \<open>_ < n\<close> Cons by (simp add: n)
    ultimately have len: "length (emit c l x) < m" "length ?rest + 1 < m"
      using length_item_sep [OF c] by linarith+
    have "p_items m (?rest @ newline c l' @ CHR '']'' # t) = Some (xs, t)"
      using Cons.IH len \<open>\<forall>x\<in>set (_ # _). _\<close> Cons by simp
    then show ?thesis
      using readsD [OF x(2) _ len(1), of "CHR '','' # r"] r Cons
      by (simp add: n skip_ws_Cons)
  qed
qed simp

text \<open>Members of an object: a quoted key, the key separator, a value.\<close>

definition member_text :: "json_cfg \<Rightarrow> nat \<Rightarrow> string \<times> json \<Rightarrow> string" where
  "member_text c l kv = quote (ensure_ascii c) (fst kv) @ key_sep c @ emit c l (snd kv)"

lemma member_start: "token_start (member_text c l kv)"
  by (simp add: member_text_def quote_def token_start_def)

lemma p_member_head:
  assumes c: "good_cfg c" and v: "json_ok v" "reads c l v" and t: "delim t"
    and n: "length (member_text c l (k, v)) < n"
  obtains cs r es where "member_text c l (k, v) @ t = CHR 34 # cs" and "p_str cs = Some (k, r)"
    and "skip_ws r = CHR '':'' # es" and "p_val n (skip_ws es) = Some (v, t)"
proof -
  obtain es where es: "key_sep c @ emit c l v @ t = CHR '':'' # es" "skip_ws es = emit c l v @ t"
    using sep_skip(2) [OF c emit_start [OF v(1)]] by blast
  have "member_text c l (k, v) @ t =
      CHR 34 # concat (map (escape_char (ensure_ascii c)) k) @ CHR 34 # CHR '':'' # es"
    by (simp add: member_text_def quote_Cons es)
  moreover have "p_val n (skip_ws es) = Some (v, t)"
    using n readsD [OF v(2) t] by (simp add: es member_text_def)
  ultimately show thesis
    using p_str_quoted [of "ensure_ascii c" k "CHR '':'' # es"] skip_ws_Cons [of "CHR '':''" es]
    by (intro that) simp_all
qed

lemma p_members_join:
  assumes c: "good_cfg c" and kvs: "kvs \<noteq> []" "\<forall>(k, v)\<in>set kvs. json_ok v \<and> reads c l v"
    and n: "length (join (item_sep c @ newline c l) (map (member_text c l) kvs)) + 1 < n"
  shows "p_members n (join (item_sep c @ newline c l) (map (member_text c l) kvs) @ newline c l' @ CHR ''}'' # t)
     = Some (kvs, t)"
  using kvs n
proof (induction kvs arbitrary: n)
  case (Cons kv kvs)
  obtain k v where kv: "kv = (k, v)" by fastforce
  from Cons.prems obtain m where n: "n = Suc m" by (cases n) auto
  have v: "json_ok v" "reads c l v" using Cons.prems kv by auto
  show ?case
  proof (cases kvs)
    case Nil
    have d: "delim (newline c l' @ CHR ''}'' # t)"
      using ws_delim [OF newline_ws, of "CHR ''}'' # t" c l'] by simp
    have s: "skip_ws (newline c l' @ CHR ''}'' # t) = CHR ''}'' # t"
      by (simp add: skip_ws_append newline_ws skip_ws_Cons)
    have "length (member_text c l (k, v)) < m" using Cons.prems Nil by (simp add: n kv)
    then show ?thesis
      using p_member_head [OF c v d, of k m] s Nil by (fastforce simp: n kv)
  next
    case (Cons kv' kvs')
    let ?rest = "join (item_sep c @ newline c l) (map (member_text c l) kvs)"
    have "token_start ?rest"
      using Cons by (cases kvs') (auto intro: token_start_append member_start)
    then obtain r where r: "item_sep c @ newline c l @ ?rest @ newline c l' @ CHR ''}'' # t = CHR '','' # r"
        "skip_ws r = ?rest @ newline c l' @ CHR ''}'' # t"
      using sep_skip(1) [OF c] by blast
    have "0 < length (member_text c l kv)"
      using token_startD(1) [OF member_start] by blast
    moreover have "length (member_text c l kv) + length (item_sep c) + length ?rest < m"
      using \<open>_ < n\<close> Cons by (simp add: n)
    ultimately have len: "length (member_text c l kv) < m" "length ?rest + 1 < m"
      using length_item_sep [OF c] by linarith+
    have tl: "p_members m (?rest @ newline c l' @ CHR ''}'' # t) = Some (kvs, t)"
      using Cons.IH len \<open>\<forall>(k, v)\<in>set (_ # _). _\<close> Cons by simp
    obtain cs q es where h: "member_text c l kv @ CHR '','' # r = CHR 34 # cs" "p_str cs = Some (k, q)"
        "skip_ws q = CHR '':'' # es" "p_val m (skip_ws es) = Some (v, CHR '','' # r)"
      using p_member_head [OF c v delim_punct(1), of k m] len(1) kv by metis
    have "join (item_sep c @ newline c l) (map (member_text c l) (kv # kvs)) @ newline c l' @ CHR ''}'' # t
        = CHR 34 # cs"
      using h(1) r(1) Cons by simp
    then show ?thesis
      using h tl r by (simp add: n kv skip_ws_Cons)
  qed
qed simp

lemma fold_dict_set_append:
  "dict_ok (d @ kvs) \<Longrightarrow> fold (\<lambda>(k, v). dict_set k v) kvs d = d @ kvs"
proof (induction kvs arbitrary: d)
  case (Cons kv kvs)
  obtain k v where kv: "kv = (k, v)" by fastforce
  have "k \<notin> set (map fst d)" using Cons.prems by (auto simp: kv)
  then have "dict_set k v d = d @ [(k, v)]"
    unfolding dict_set_def by (induction d) auto
  then show ?case using Cons by (simp add: kv)
qed simp

lemma emit_obj: "emit c l (JObj kvs) =
    bracket c l (CHR ''{'') (CHR ''}'') (map (member_text c (Suc l)) kvs)"
proof -
  have "(\<lambda>(k, v). quote (ensure_ascii c) k @ key_sep c @ emit c (Suc l) v) = member_text c (Suc l)"
    by (rule ext) (simp add: member_text_def split_beta)
  then show ?thesis by simp
qed

lemma skip_open:
  assumes "token_start s"
  shows "skip_ws (newline c l @ s @ t) = s @ t"
  using token_startD(4) [OF token_start_append [OF assms]] by (simp add: skip_ws_append newline_ws)

lemma join_start: "xs \<noteq> [] \<Longrightarrow> token_start (hd xs) \<Longrightarrow> token_start (join sep xs)"
  by (cases "(sep, xs)" rule: join.cases) (auto intro: token_start_append)

lemma reads_atom:
  assumes a: "\<And>t. delim t \<Longrightarrow> p_atom (emit c l v @ t) = Some (v, t)"
    and h: "emit c l v \<noteq> []" "hd (emit c l v) \<notin> {CHR 34, CHR ''['', CHR ''{''}"
  shows "reads c l v"
  unfolding reads_def
proof (intro allI impI)
  fix n t
  assume "delim t" and "length (emit c l v) < n"
  then obtain m where n: "n = Suc m" by (cases n) auto
  obtain x xs where "emit c l v = x # xs" using h(1) by (cases "emit c l v") auto
  then show "p_val n (emit c l v @ t) = Some (v, t)"
    using a [OF \<open>delim t\<close>] h(2) by (simp add: n p_val_atom del: p_val.simps)
qed

lemma reads_arr:
  assumes c: "good_cfg c" and xs: "\<forall>x\<in>set xs. json_ok x \<and> reads c (Suc l) x"
  shows "reads c l (JArr xs)"
  unfolding reads_def
proof (intro allI impI)
  fix n t
  assume "delim t" and len: "length (emit c l (JArr xs)) < n"
  then obtain m where n: "n = Suc m" by (cases n) auto
  show "p_val n (emit c l (JArr xs) @ t) = Some (JArr xs, t)"
  proof (cases "xs = []")
    case True
    then show ?thesis by (simp add: n bracket_def skip_ws_Cons)
  next
    case False
    let ?j = "join (item_sep c @ newline c (Suc l)) (map (emit c (Suc l)) xs)"
    have ts: "token_start ?j"
      using False xs by (intro join_start) (auto simp: hd_map emit_start)
    have "p_items m (?j @ newline c l @ CHR '']'' # t) = Some (xs, t)"
      using len False by (intro p_items_join [OF c False xs]) (simp add: n bracket_def)
    then show ?thesis
      using False skip_open [OF ts, of c "Suc l" "newline c l @ CHR '']'' # t"] token_startD [OF ts]
      by (cases ?j) (auto simp: n bracket_def)
  qed
qed

lemma reads_obj:
  assumes c: "good_cfg c" and ok: "dict_ok kvs"
    and kvs: "\<forall>(k, v)\<in>set kvs. json_ok v \<and> reads c (Suc l) v"
  shows "reads c l (JObj kvs)"
  unfolding reads_def
proof (intro allI impI)
  fix n t
  assume "delim t" and len: "length (emit c l (JObj kvs)) < n"
  then obtain m where n: "n = Suc m" by (cases n) auto
  show "p_val n (emit c l (JObj kvs) @ t) = Some (JObj kvs, t)"
  proof (cases "kvs = []")
    case True
    then show ?thesis by (simp add: n bracket_def skip_ws_Cons)
  next
    case False
    let ?j = "join (item_sep c @ newline c (Suc l)) (map (member_text c (Suc l)) kvs)"
    have ts: "token_start ?j"
      using False by (intro join_start) (auto simp: hd_map member_start)
    obtain q j where j: "?j = q # j" "q \<noteq> CHR ''}''"
      using False member_start by (cases kvs; cases "tl kvs") (auto simp: member_text_def quote_def)
    have "p_members m (?j @ newline c l @ CHR ''}'' # t) = Some (kvs, t)"
      using len False by (intro p_members_join [OF c False kvs]) (simp only: n emit_obj, simp add: bracket_def)
    then show ?thesis
      using False skip_open [OF ts, of c "Suc l" "newline c l @ CHR ''}'' # t"] j
        fold_dict_set_append [of "[]" kvs] ok
      by (simp only: n emit_obj) (simp add: bracket_def)
  qed
qed

lemma emit_reads: "json_ok v \<Longrightarrow> good_cfg c \<Longrightarrow> reads c l v"
proof (induction c l v rule: emit.induct)
  case (1 c l)
  show ?case using p_atom_const by (intro reads_atom) simp_all
next
  case (2 c l b)
  show ?case using p_atom_const by (intro reads_atom) (auto split: if_splits)
next
  case (3 c l i)
  have "is_digit (hd (int_str i)) \<or> hd (int_str i) = CHR ''-''" "int_str i \<noteq> []"
    using hd_uint_str_digit [of i] by (auto simp: int_str_def)
  then show ?case by (intro reads_atom) (auto simp: p_atom_int)
next
  case (4 c l x)
  show ?case
  proof (cases x)
    case (Fin r)
    with 4 float_text_hd [of r] float_text_read [of r] show ?thesis
      by (intro reads_atom) auto
  qed (use p_atom_const in \<open>auto intro!: reads_atom\<close>)
next
  case (5 c l s)
  show ?case
    unfolding reads_def
  proof (intro allI impI)
    fix n t
    assume "length (emit c l (JStr s)) < n"
    then obtain m where "n = Suc m" by (cases n) auto
    then show "p_val n (emit c l (JStr s) @ t) = Some (JStr s, t)"
      by (simp add: quote_Cons p_str_quoted)
  qed
next
  case (6 c l xs)
  then show ?case by (intro reads_arr) (auto simp: list_all_iff)
next
  case (7 c l kvs)
  then show ?case by (intro reads_obj) (auto simp: list_all_iff)
qed

text \<open>The round trip, and what it gives: equal texts come from equal values.\<close>

lemma loads_dumps_ws:
  assumes "json_ok v" and "good_cfg c" and w: "list_all is_ws w"
  shows "loads (dumps c v @ w) = Some v"
proof -
  have ts: "token_start (emit c 0 v)" by (rule emit_start [OF assms(1)])
  have "delim w" using ws_delim [OF w delim_Nil] by simp
  then have "p_val (Suc (length (emit c 0 v @ w))) (emit c 0 v @ w) = Some (v, w)"
    using readsD [OF emit_reads [OF assms(1,2), of 0], of w "Suc (length (emit c 0 v @ w))"]
    by (simp del: p_val.simps)
  moreover have "skip_ws w = []" using skip_ws_append [OF w, of "[]"] by simp
  ultimately show ?thesis
    using token_startD(4) [OF token_start_append [OF ts, of w]]
    by (simp add: loads_def dumps_def del: p_val.simps)
qed

lemma loads_dumps: "json_ok v \<Longrightarrow> good_cfg c \<Longrightarrow> loads (dumps c v) = Some v"
  using loads_dumps_ws [of v c "[]"] by simp

lemma dumps_inj:
  "json_ok v \<Longrightarrow> json_ok w \<Longrightarrow> good_cfg c \<Longrightarrow> dumps c v = dumps c w \<longleftrightarrow> v = w"
  by (metis loads_dumps option.inject)

section \<open>Sorted keys\<close>

lemma distinct_sort_key: "distinct (map f (sort_key f xs)) = distinct (map f xs)"
  by (induction xs) (simp_all add: distinct_insort_key)

lemma map_of_sort_key:
  assumes "dict_ok d"
  shows "map_of (sort_key fst d) = map_of d"
proof -
  have "dict_ok (sort_key fst d)" using assms by (simp add: distinct_sort_key)
  then show ?thesis using assms by (simp add: map_of_inject_set)
qed

lemma fst_sorted_values [simp]: "map fst (map (\<lambda>(k :: string, v). (k, sort_keys v)) kvs) = map fst kvs"
  by auto

lemma json_ok_sort_keys [simp]: "json_ok (sort_keys v) = json_ok v"
proof (induction v rule: sort_keys.induct)
  case (2 kvs)
  let ?f = "\<lambda>(k :: string, v). (k, sort_keys v)"
  have "dict_ok (sort_key fst (map ?f kvs)) = dict_ok kvs"
    by (simp only: distinct_sort_key fst_sorted_values)
  then show ?case using 2 by (auto simp: list_all_iff split_beta)
qed (auto simp: list_all_iff)

lemma obj_get_sort_keys:
  assumes "dict_ok kvs"
  shows "obj_get (sort_keys (JObj kvs)) k = map_option sort_keys (obj_get (JObj kvs) k)"
proof -
  have "dict_ok (map (\<lambda>(k :: string, v). (k, sort_keys v)) kvs)"
    by (simp only: fst_sorted_values assms)
  then show ?thesis by (simp add: dict_get_def map_of_sort_key map_of_map)
qed

text \<open>Two objects with the same sorted text agree on every field.\<close>

lemma sorted_dumps_field:
  assumes "json_ok (JObj a)" and "json_ok (JObj b)" and "good_cfg c"
    and "dumps c (sort_keys (JObj a)) = dumps c (sort_keys (JObj b))"
  shows "map_option sort_keys (dict_get a k) = map_option sort_keys (dict_get b k)"
proof -
  have "sort_keys (JObj a) = sort_keys (JObj b)"
    using assms dumps_inj [of "sort_keys (JObj a)" "sort_keys (JObj b)" c]
    by (simp del: sort_keys.simps)
  then show ?thesis
    using obj_get_sort_keys [of a k] obj_get_sort_keys [of b k] assms(1,2)
    by (simp del: sort_keys.simps)
qed

end
