(* ===== verification/Acl.thy ===== *)
theory Acl
  imports File_System Json_Roundtrip
begin

text \<open>
  The allowlist of \<open>vault/access.py\<close>: per model identifier a list of Ed25519 public keys in hex, with
  \<open>*\<close> for all models, kept in a JSON file that every change rewrites through a sibling \<open>.tmp\<close> file.
\<close>

section \<open>Rules and their file\<close>

type_synonym acl_rules = "(string, string list) dict"

record acl =
  acl_path :: path
  acl_rules :: acl_rules

definition acl_json :: "acl_rules \<Rightarrow> json" where
  "acl_json rules = JObj (map (\<lambda>(m, ks). (m, JArr (map JStr ks))) rules)"

definition acl_text :: "acl_rules \<Rightarrow> string" where
  "acl_text rules = dumps pretty (sort_keys (acl_json rules)) @ [CHR 10]"

fun json_string :: "json \<Rightarrow> string option" where
  "json_string (JStr s) = Some s"
| "json_string _ = None"

fun json_strings :: "json \<Rightarrow> string list option" where
  "json_strings (JArr vs) = those (map json_string vs)"
| "json_strings _ = None"

fun acl_of_json :: "json \<Rightarrow> acl_rules option" where
  "acl_of_json (JObj kvs) =
     those (map (\<lambda>(m, v). map_option (Pair m) (json_strings v)) kvs)"
| "acl_of_json _ = None"

text \<open>
  Reading a rules file: \<^term>\<open>None\<close> when the text is not JSON, or is JSON of another shape than the
  one the class itself writes (Python would keep such a value and fail later).
\<close>

definition acl_parse :: "bytes \<Rightarrow> acl_rules option" where
  "acl_parse bs = Option.bind (utf8_decode bs) (\<lambda>t. Option.bind (loads t) acl_of_json)"

definition acl_tmp :: "path \<Rightarrow> path" where
  "acl_tmp p = p @ ''.tmp''"

definition acl_save :: "acl \<Rightarrow> files \<Rightarrow> files" where
  "acl_save a fs = write_and_replace (acl_tmp (acl_path a)) (acl_path a) (utf8_encode (acl_text (acl_rules a))) fs"

definition acl_open :: "path \<Rightarrow> files \<Rightarrow> (acl \<times> files) result" where
  "acl_open p fs =
     (case dict_get fs p of
        Some bs \<Rightarrow> (case acl_parse bs of
            None \<Rightarrow> Inl (ValueError ''acl.json'')
          | Some rules \<Rightarrow> Inr (\<lparr>acl_path = p, acl_rules = rules\<rparr>, fs))
      | None \<Rightarrow> (let a = \<lparr>acl_path = p, acl_rules = []\<rparr> in Inr (a, acl_save a fs)))"

section \<open>Operations\<close>

definition acl_keys :: "acl_rules \<Rightarrow> string \<Rightarrow> string list" where
  "acl_keys rules m = dict_get_default rules m []"

definition acl_allow :: "string \<Rightarrow> string \<Rightarrow> acl \<Rightarrow> files \<Rightarrow> (acl \<times> files) result" where
  "acl_allow m k a fs =
     (case from_hex k of
        None \<Rightarrow> Inl (ValueError ''non-hexadecimal number found in fromhex() arg'')
      | Some raw \<Rightarrow>
          if length raw \<noteq> 32 then Inl (ValueError ''Ed25519 public key must be 32 bytes'')
          else let a' = a\<lparr>acl_rules := dict_set m (sort (remdups (acl_keys (acl_rules a) m @ [k]))) (acl_rules a)\<rparr>
               in Inr (a', acl_save a' fs))"

definition acl_revoke :: "string \<Rightarrow> string \<Rightarrow> acl \<Rightarrow> files \<Rightarrow> acl \<times> files" where
  "acl_revoke m k a fs =
     (let a' = a\<lparr>acl_rules := dict_set m (filter (\<lambda>x. x \<noteq> k) (acl_keys (acl_rules a) m)) (acl_rules a)\<rparr>
      in (a', acl_save a' fs))"

definition is_allowed :: "acl \<Rightarrow> string \<Rightarrow> string \<Rightarrow> bool" where
  "is_allowed a m k \<longleftrightarrow> k \<in> set (acl_keys (acl_rules a) ''*'') \<or> k \<in> set (acl_keys (acl_rules a) m)"

section \<open>The file holds the rules\<close>

definition acl_wf :: "acl \<Rightarrow> bool" where
  "acl_wf a \<longleftrightarrow> dict_ok (acl_rules a)"

lemma acl_json_ok: "dict_ok rules \<Longrightarrow> json_ok (acl_json rules)"
  by (auto simp: acl_json_def list_all_iff split_beta comp_def)

lemma acl_of_json_sorted:
  "acl_of_json (sort_keys (acl_json rules)) = Some (sort_key fst rules)"
proof -
  have strs: "json_strings (sort_keys (JArr (map JStr ks))) = Some ks" for ks
    by (simp add: comp_def)
  have srt: "sort_key fst (map (\<lambda>(m, ks). (m, JArr (map JStr ks))) rs) =
      map (\<lambda>(m, ks). (m, JArr (map JStr ks))) (sort_key fst rs)" for rs :: acl_rules
  proof (induction rs)
    case (Cons r rs)
    have "insort_key fst (case r of (m, ks) \<Rightarrow> (m, JArr (map JStr ks))) (map (\<lambda>(m, ks). (m, JArr (map JStr ks))) xs)
       = map (\<lambda>(m, ks). (m, JArr (map JStr ks))) (insort_key fst r xs)" for xs
      by (induction xs) (auto simp: split_beta)
    with Cons show ?case by simp
  qed simp
  have "map ((\<lambda>(k, v). (k, sort_keys v)) \<circ> (\<lambda>(m, ks). (m, JArr (map JStr ks)))) rules =
      map (\<lambda>(m, ks). (m, JArr (map JStr ks))) rules"
    by (auto simp: comp_def)
  then have "sort_keys (acl_json rules) = JObj (map (\<lambda>(m, ks). (m, JArr (map JStr ks))) (sort_key fst rules))"
    by (simp only: acl_json_def sort_keys.simps list.map_comp srt)
  then show ?thesis
    by (simp add: comp_def split_beta strs del: sort_keys.simps)
qed

lemma acl_parse_text:
  assumes "dict_ok rules"
  shows "acl_parse (utf8_encode (acl_text rules)) = Some (sort_key fst rules)"
proof -
  have "loads (acl_text rules) = Some (sort_keys (acl_json rules))"
    unfolding acl_text_def
    using assms by (intro loads_dumps_ws) (simp_all add: acl_json_ok is_ws_def code_def)
  then show ?thesis by (simp add: acl_parse_def acl_of_json_sorted)
qed

lemma dict_get_sort_key [simp]: "dict_ok d \<Longrightarrow> dict_get (sort_key fst d) = dict_get d"
  by (rule ext) (simp add: dict_get_def map_of_sort_key)

lemma acl_tmp_neq [simp]: "acl_tmp p \<noteq> p" "p \<noteq> acl_tmp p"
  by (auto simp: acl_tmp_def)

lemma acl_save_get:
  "dict_get (acl_save a fs) q = (if q = acl_path a then Some (utf8_encode (acl_text (acl_rules a)))
     else if q = acl_tmp (acl_path a) then None else dict_get fs q)"
  by (simp add: acl_save_def write_and_replace_get)

lemma acl_ops_wf:
  "acl_wf a \<Longrightarrow> acl_allow m k a fs = Inr (a', fs') \<Longrightarrow> acl_wf a'"
  "acl_wf a \<Longrightarrow> acl_wf (fst (acl_revoke m k a fs))"
  by (auto simp: acl_wf_def acl_allow_def acl_revoke_def Let_def dict.wf_store split: option.splits if_splits)

lemma acl_keys_set:
  "acl_keys (dict_set m ks rules) m' = (if m' = m then ks else acl_keys rules m')"
  by (simp add: acl_keys_def dict_get_default_eq dict.lookup_store)

lemma acl_allow_ok_iff:
  "is_ok (acl_allow m k a fs) \<longleftrightarrow> (\<exists>raw. from_hex k = Some raw \<and> length raw = 32)"
  by (auto simp: acl_allow_def Let_def split: option.splits)

section \<open>Sequences of changes\<close>

datatype acl_change = Allow string string | Revoke string string

text \<open>A refused \<open>allow\<close> raises and leaves the rules and the file as they were.\<close>

fun acl_step :: "acl \<times> files \<Rightarrow> acl_change \<Rightarrow> acl \<times> files" where
  "acl_step (a, fs) (Allow m k) = (case acl_allow m k a fs of Inl e \<Rightarrow> (a, fs) | Inr s \<Rightarrow> s)"
| "acl_step (a, fs) (Revoke m k) = acl_revoke m k a fs"

definition acl_saved :: "acl \<times> files \<Rightarrow> bool" where
  "acl_saved s \<longleftrightarrow> acl_wf (fst s) \<and>
     dict_get (snd s) (acl_path (fst s)) = Some (utf8_encode (acl_text (acl_rules (fst s))))"

lemma acl_step_saved: "acl_saved s \<Longrightarrow> acl_saved (acl_step s c)"
  by (cases s; cases c)
    (auto simp: acl_saved_def acl_allow_def acl_revoke_def Let_def acl_wf_def acl_save_get dict.wf_store
      split: option.splits if_splits)

lemma acl_step_path [simp]: "acl_path (fst (acl_step s c)) = acl_path (fst s)"
  by (cases s; cases c) (auto simp: acl_allow_def acl_revoke_def Let_def split: option.splits)

lemma acl_fold_saved: "acl_saved s \<Longrightarrow> acl_saved (fold (\<lambda>c s. acl_step s c) cs s)"
  by (induction cs arbitrary: s) (auto simp: acl_step_saved)

lemma acl_fold_path [simp]: "acl_path (fst (fold (\<lambda>c s. acl_step s c) cs s)) = acl_path (fst s)"
  by (induction cs arbitrary: s) auto

lemma is_allowed_sorted:
  "acl_rules b = sort_key fst (acl_rules a) \<Longrightarrow> dict_ok (acl_rules a) \<Longrightarrow> is_allowed b m k = is_allowed a m k"
  by (simp add: is_allowed_def acl_keys_def dict_get_default_eq)

section \<open>Properties\<close>

text \<open>What the ACL decides survives a restart: after any sequence of changes to a freshly opened
  list, opening its file again succeeds and gives an ACL with the same decision on every model and
  key.\<close>

theorem acl_reopen_same_decisions:
  assumes "acl_open p fs = Inr s" and "dict_get fs p = None"
    and "fold (\<lambda>c s. acl_step s c) changes s = (a, fs')"
  shows "\<exists>b. acl_open p fs' = Inr (b, fs') \<and> (\<forall>m k. is_allowed b m k = is_allowed a m k)"
proof -
  have "acl_saved s" and path: "acl_path (fst s) = p"
    using assms(1,2) by (auto simp: acl_open_def acl_saved_def acl_wf_def acl_save_get Let_def)
  then have saved: "acl_saved (a, fs')" using acl_fold_saved [of s changes] assms(3) by simp
  have at: "acl_path a = p" using acl_fold_path [of changes s] assms(3) path by simp
  with saved have ok: "dict_ok (acl_rules a)"
    and written: "dict_get fs' p = Some (utf8_encode (acl_text (acl_rules a)))"
    by (auto simp: acl_saved_def acl_wf_def at)
  have "acl_open p fs' = Inr (\<lparr>acl_path = p, acl_rules = sort_key fst (acl_rules a)\<rparr>, fs')"
    using acl_parse_text [OF ok] by (simp add: acl_open_def written)
  moreover have "is_allowed \<lparr>acl_path = p, acl_rules = sort_key fst (acl_rules a)\<rparr> m k = is_allowed a m k" for m k
    by (rule is_allowed_sorted) (simp_all add: ok)
  ultimately show ?thesis by blast
qed

definition key_a :: string where
  "key_a = concat (replicate 32 ''aa'')"

lemma from_hex_key_a: "from_hex key_a = Some (replicate 32 170)"
  by code_simp

theorem acl_reopen_same_decisions_witness:
  "\<exists>s a fs'. acl_open ''acl'' [] = Inr s \<and> fold (\<lambda>c s. acl_step s c) [Allow ''m'' key_a] s = (a, fs') \<and>
     (\<exists>b. acl_open ''acl'' fs' = Inr (b, fs') \<and> is_allowed b ''m'' key_a)"
proof -
  obtain s where s: "acl_open ''acl'' [] = Inr s" "acl_rules (fst s) = []"
    by (simp add: acl_open_def Let_def dict_get_def)
  obtain a fs' where a: "fold (\<lambda>c s. acl_step s c) [Allow ''m'' key_a] s = (a, fs')" by fastforce
  then have "is_allowed a ''m'' key_a"
    using s(2) by (cases s) (auto simp: acl_allow_def from_hex_key_a Let_def is_allowed_def acl_keys_set)
  moreover have "\<exists>b. acl_open ''acl'' fs' = Inr (b, fs') \<and> (\<forall>m k. is_allowed b m k = is_allowed a m k)"
    using s(1) _ a by (rule acl_reopen_same_decisions) (simp add: dict_get_def)
  ultimately show ?thesis using s(1) a by blast
qed

text \<open>The decisions after a change: an accepted \<open>allow\<close> adds exactly its key for exactly its model
  (for every model when it is \<open>*\<close>), a rejected one changes nothing, and \<open>revoke\<close> removes the key from
  the named entry only, so that a key listed under \<open>*\<close> stays allowed.\<close>

theorem acl_decisions_after_change:
  "(is_allowed (fst (acl_step (a, fs) (Allow m k))) m' k' \<longleftrightarrow>
       is_allowed a m' k' \<or> (is_ok (acl_allow m k a fs) \<and> k' = k \<and> (m' = m \<or> m = ''*''))) \<and>
   (is_allowed (fst (acl_step (a, fs) (Revoke m k))) m' k' \<longleftrightarrow>
       (k' \<in> set (acl_keys (acl_rules a) ''*'') \<and> \<not> (m = ''*'' \<and> k' = k)) \<or>
       (k' \<in> set (acl_keys (acl_rules a) m') \<and> \<not> (m' = m \<and> k' = k)))"
  by (auto simp: is_allowed_def acl_allow_def acl_revoke_def acl_keys_set Let_def split: option.splits)

text \<open>A crash during \<open>save\<close> leaves a rules file that opens with the old or with the new rules:
  the ACL file is never torn.\<close>

theorem acl_save_crash:
  assumes "acl_wf a" and "acl_wf b" and "acl_path b = acl_path a" and "acl_saved (a, fs)"
    and "s \<in> set (atomic_crashes (acl_tmp (acl_path b)) (acl_path b) (utf8_encode (acl_text (acl_rules b))) fs)"
  shows "\<exists>c. acl_open (acl_path a) s = Inr (c, s) \<and>
     ((\<forall>m k. is_allowed c m k = is_allowed a m k) \<or> (\<forall>m k. is_allowed c m k = is_allowed b m k))"
proof -
  have old: "dict_get fs (acl_path a) = Some (utf8_encode (acl_text (acl_rules a)))"
    using assms(4) by (simp add: acl_saved_def)
  have opens: "\<exists>c. acl_open (acl_path a) s = Inr (c, s) \<and> (\<forall>m k. is_allowed c m k = is_allowed d m k)"
    if "acl_wf d" and "dict_get s (acl_path a) = Some (utf8_encode (acl_text (acl_rules d)))" for d
  proof -
    have "acl_open (acl_path a) s = Inr (\<lparr>acl_path = acl_path a, acl_rules = sort_key fst (acl_rules d)\<rparr>, s)"
      using that by (simp add: acl_open_def acl_wf_def acl_parse_text)
    moreover have "is_allowed \<lparr>acl_path = acl_path a, acl_rules = sort_key fst (acl_rules d)\<rparr> m k = is_allowed d m k" for m k
      using that by (intro is_allowed_sorted) (simp_all add: acl_wf_def)
    ultimately show ?thesis by blast
  qed
  from replace_crash.crash_target [OF acl_tmp_neq(1) assms(5)] assms(3) old
  show ?thesis using opens [OF assms(1)] opens [OF assms(2)] by auto
qed

theorem acl_save_crash_witness:
  "\<exists>c. acl_open ''acl'' (acl_save \<lparr>acl_path = ''acl'', acl_rules = []\<rparr> []) =
     Inr (c, acl_save \<lparr>acl_path = ''acl'', acl_rules = []\<rparr> [])"
proof -
  let ?a = "\<lparr>acl_path = ''acl'', acl_rules = []\<rparr>"
  let ?b = "\<lparr>acl_path = ''acl'', acl_rules = [(''m'', [key_a])]\<rparr>"
  let ?fs = "acl_save ?a []"
  have "acl_saved (?a, ?fs)" by (simp add: acl_saved_def acl_wf_def acl_save_get)
  moreover have "?fs \<in> set (atomic_crashes (acl_tmp (acl_path ?b)) (acl_path ?b) (utf8_encode (acl_text (acl_rules ?b))) ?fs)"
    by (simp add: atomic_crashes_def atomic_calls_def)
  ultimately show ?thesis
    using acl_save_crash [of ?a ?b ?fs ?fs] by (auto simp: acl_wf_def)
qed

definition key_upper :: string where
  "key_upper = concat (replicate 32 ''AA'')"

text \<open>The stored key is compared as text, while \<open>allow\<close> checks it only after \<open>bytes.fromhex\<close>: the
  same public key written in upper case is accepted by \<open>allow\<close> and then never matches the lower-case
  form that signed requests carry.\<close>

theorem acl_upper_case_key_never_matches:
  "from_hex key_upper = from_hex key_a \<and>
   (case acl_allow ''m'' key_upper \<lparr>acl_path = p, acl_rules = []\<rparr> fs of
      Inl e \<Rightarrow> False
    | Inr (a, fs') \<Rightarrow> is_allowed a ''m'' key_upper \<and> \<not> is_allowed a ''m'' (hex (replicate 32 170)))"
proof -
  have up: "from_hex key_upper = Some (replicate 32 170)" by code_simp
  have ne: "hex (replicate 32 170) \<noteq> key_upper" by code_simp
  from up ne show ?thesis
    by (simp add: from_hex_key_a acl_allow_def Let_def is_allowed_def acl_keys_set)
      (simp add: acl_keys_def dict_get_default_eq dict_get_def dict_set_def)
qed

end
