(* ===== verification/Merkle.thy ===== *)
theory Merkle
  imports Json_Roundtrip
begin

text \<open>
  The Merkle helpers of \<open>vault/access.py\<close>: \<open>_hash\<close>, \<open>merkle_root\<close>, \<open>merkle_proof\<close> and
  \<open>verify_merkle\<close>. The level loop is a recursion on the current level; an odd level repeats its last
  node. Completeness, soundness and binding are proved in a locale over any fixed-width digest and
  interpreted at SHA-256. Soundness and binding assume that the strings actually hashed (listed by
  \<open>tree_inputs\<close> and \<open>climb_inputs\<close>) do not collide.
\<close>

section \<open>The functions of the source\<close>

definition hash :: "bytes \<Rightarrow> bytes" where
  "hash v = sha256 v"

definition pad_even :: "'a list \<Rightarrow> 'a list" where
  "pad_even xs = (if odd (length xs) then xs @ [last xs] else xs)"

fun pair_hashes :: "(bytes \<Rightarrow> bytes) \<Rightarrow> bytes list \<Rightarrow> bytes list" where
  "pair_hashes H (a # b # r) = H (a @ b) # pair_hashes H r"
| "pair_hashes H _ = []"

lemma length_pair_hashes [simp]: "length (pair_hashes H xs) = length xs div 2"
  by (induction H xs rule: pair_hashes.induct) auto

lemma length_pad_even: "length (pad_even xs) div 2 = (length xs + 1) div 2"
  by (auto simp: pad_even_def)

definition merkle_level :: "(bytes \<Rightarrow> bytes) \<Rightarrow> bytes list \<Rightarrow> bytes list" where
  "merkle_level H xs = pair_hashes H (pad_even xs)"

lemma length_merkle_level [simp]: "length (merkle_level H xs) = (length xs + 1) div 2"
  by (simp add: merkle_level_def length_pad_even)

function merkle_up :: "(bytes \<Rightarrow> bytes) \<Rightarrow> bytes list \<Rightarrow> bytes list" where
  "merkle_up H xs = (if 1 < length xs then merkle_up H (merkle_level H xs) else xs)"
  by pat_completeness auto
termination
  by (relation "measure (\<lambda>(H, xs). length xs)") auto

declare merkle_up.simps [simp del]

definition merkle_root :: "bytes list \<Rightarrow> bytes" where
  "merkle_root leaves = (if leaves = [] then replicate 32 0 else hd (merkle_up hash leaves))"

text \<open>A proof step is the sibling and the side it stands on, as the strings of the source.\<close>

function proof_steps :: "(bytes \<Rightarrow> bytes) \<Rightarrow> bytes list \<Rightarrow> nat \<Rightarrow> (bytes \<times> string) list" where
  "proof_steps H xs cursor =
     (if 1 < length xs then
        (pad_even xs ! (cursor XOR 1), if cursor mod 2 = 0 then ''right'' else ''left'') #
        proof_steps H (merkle_level H xs) (cursor div 2)
      else [])"
  by pat_completeness auto
termination
  by (relation "measure (\<lambda>(H, xs, c). length xs)") auto

declare proof_steps.simps [simp del]

definition merkle_proof :: "bytes list \<Rightarrow> int \<Rightarrow> (bytes \<times> string) list result" where
  "merkle_proof leaves index =
     (if \<not> (0 \<le> index \<and> index < int (length leaves)) then Inl (IndexError index)
      else Inr (proof_steps hash leaves (nat index)))"

fun climb :: "(bytes \<Rightarrow> bytes) \<Rightarrow> bytes \<Rightarrow> (bytes \<times> string) list \<Rightarrow> bytes" where
  "climb H current [] = current"
| "climb H current ((sibling, side) # p) =
     climb H (if side = ''right'' then H (current @ sibling) else H (sibling @ current)) p"

definition verify_merkle :: "bytes \<Rightarrow> (bytes \<times> string) list \<Rightarrow> bytes \<Rightarrow> bool" where
  "verify_merkle leaf p expected = (climb hash leaf p = expected)"

section \<open>The strings hashed\<close>

fun pair_inputs :: "bytes list \<Rightarrow> bytes list" where
  "pair_inputs (a # b # r) = (a @ b) # pair_inputs r"
| "pair_inputs _ = []"

function tree_inputs :: "(bytes \<Rightarrow> bytes) \<Rightarrow> bytes list \<Rightarrow> bytes list" where
  "tree_inputs H xs =
     (if 1 < length xs then pair_inputs (pad_even xs) @ tree_inputs H (merkle_level H xs) else [])"
  by pat_completeness auto
termination
  by (relation "measure (\<lambda>(H, xs). length xs)") auto

declare tree_inputs.simps [simp del]

fun climb_inputs :: "(bytes \<Rightarrow> bytes) \<Rightarrow> bytes \<Rightarrow> (bytes \<times> string) list \<Rightarrow> bytes list" where
  "climb_inputs H current [] = []"
| "climb_inputs H current ((sibling, side) # p) =
     (let i = (if side = ''right'' then current @ sibling else sibling @ current)
      in i # climb_inputs H (H i) p)"

lemma pair_hashes_map: "pair_hashes H xs = map H (pair_inputs xs)"
  by (induction xs rule: pair_inputs.induct) auto

lemma length_pair_inputs [simp]: "length (pair_inputs xs) = length xs div 2"
  by (induction xs rule: pair_inputs.induct) auto

lemma pair_inputs_nth: "i < length xs div 2 \<Longrightarrow> pair_inputs xs ! i = xs ! (2 * i) @ xs ! (2 * i + 1)"
proof (induction xs arbitrary: i rule: pair_inputs.induct)
  case (1 a b r)
  then show ?case by (cases i) auto
qed auto

lemma pad_even_nth: "i < length xs \<Longrightarrow> pad_even xs ! i = xs ! i"
  by (simp add: pad_even_def nth_append)

lemma length_pad_even_even: "even (length (pad_even xs))"
  by (simp add: pad_even_def)

lemma length_pad_even_ge: "length xs \<le> length (pad_even xs)"
  by (simp add: pad_even_def)

lemma set_pad_even: "xs \<noteq> [] \<Longrightarrow> set (pad_even xs) = set xs"
  by (auto simp: pad_even_def)

lemma pad_even_inj: "length xs = length ys \<Longrightarrow> pad_even xs = pad_even ys \<Longrightarrow> xs = ys"
  by (auto simp: pad_even_def split: if_splits)

text \<open>The pair of level \<open>xs\<close> that position \<open>i\<close> belongs to, by the parity of \<open>i\<close>.\<close>

lemma pair_at:
  assumes "i < length xs"
  shows "i div 2 < length (pair_inputs (pad_even xs))"
    and "pair_inputs (pad_even xs) ! (i div 2) =
      (if i mod 2 = 0 then xs ! i @ pad_even xs ! (i XOR 1) else pad_even xs ! (i XOR 1) @ xs ! i)"
proof -
  have "i < length (pad_even xs)" using assms length_pad_even_ge [of xs] by linarith
  with length_pad_even_even [of xs] have l: "i div 2 < length (pad_even xs) div 2" by auto
  then show "i div 2 < length (pair_inputs (pad_even xs))" by simp
  show "pair_inputs (pad_even xs) ! (i div 2) =
      (if i mod 2 = 0 then xs ! i @ pad_even xs ! (i XOR 1) else pad_even xs ! (i XOR 1) @ xs ! i)"
  proof (cases "i mod 2 = 0")
    case True
    then have "2 * (i div 2) = i" "i XOR 1 = i + 1" by (auto simp: xor_Suc_0_eq)
    with True pair_inputs_nth [OF l] pad_even_nth [OF assms] show ?thesis by simp
  next
    case False
    then have "2 * (i div 2) = i - 1" "2 * (i div 2) + 1 = i" "i XOR 1 = i - 1"
      by (auto simp: xor_Suc_0_eq odd_iff_mod_2_eq_one elim!: oddE)
    with False pair_inputs_nth [OF l] pad_even_nth [OF assms] show ?thesis by simp
  qed
qed

lemma pair_inputs_inj:
  assumes "\<forall>x\<in>set xs. length x = w" and "\<forall>y\<in>set ys. length y = w"
    and "even (length xs)" and "length xs = length ys" and "pair_inputs xs = pair_inputs ys"
  shows "xs = ys"
  using assms
proof (induction xs arbitrary: ys rule: pair_inputs.induct)
  case (1 a b r)
  have "length ys = Suc (Suc (length r))" using "1.prems"(4) by simp
  then obtain c ys' where c: "ys = c # ys'" and "length ys' = Suc (length r)" by (cases ys) auto
  then obtain d s where d: "ys' = d # s" by (cases ys') auto
  have "a @ b = c @ d" and r: "pair_inputs r = pair_inputs s"
    using "1.prems"(5) by (simp_all add: c d)
  have "length a = length c" using "1.prems"(1,2) by (simp add: c d)
  with \<open>a @ b = c @ d\<close> have "a = c \<and> b = d" by simp
  moreover have "r = s"
    by (rule "1.IH") (use "1.prems" r in \<open>simp_all add: c d\<close>)
  ultimately show ?case using c d by simp
qed auto

lemma pair_inputs_members:
  "y \<in> set (pair_inputs xs) \<Longrightarrow> \<exists>a b. y = a @ b \<and> a \<in> set xs \<and> b \<in> set xs"
  by (induction xs rule: pair_inputs.induct) auto

text \<open>All proofs of a tree have the same number of steps.\<close>

definition tree_depth :: "(bytes \<Rightarrow> bytes) \<Rightarrow> bytes list \<Rightarrow> nat" where
  "tree_depth H xs = length (proof_steps H xs 0)"

lemma tree_depth_level: "1 < length xs \<Longrightarrow> tree_depth H xs = Suc (tree_depth H (merkle_level H xs))"
  by (simp add: tree_depth_def proof_steps.simps [of H xs])

section \<open>Any fixed-width digest\<close>

locale digest_fn =
  fixes H :: "bytes \<Rightarrow> bytes" and w :: nat
  assumes width: "length (H x) = w"
begin

lemma level_nth: "i < (length xs + 1) div 2 \<Longrightarrow> merkle_level H xs ! i = H (pair_inputs (pad_even xs) ! i)"
  by (simp add: merkle_level_def pair_hashes_map length_pad_even)

lemma level_width: "\<forall>x\<in>set (merkle_level H xs). length x = w"
  by (auto simp: merkle_level_def pair_hashes_map width)

lemma climb_proof: "i < length xs \<Longrightarrow> climb H (xs ! i) (proof_steps H xs i) = hd (merkle_up H xs)"
proof (induction H xs i rule: proof_steps.induct)
  case (1 H' xs i)
  show ?case
  proof (cases "1 < length xs")
    case True
    have "i div 2 < length (merkle_level H' xs)" using 1(2) by auto
    moreover have "merkle_level H' xs ! (i div 2) = H' (pair_inputs (pad_even xs) ! (i div 2))"
      using pair_at(1) [OF 1(2)] by (simp add: merkle_level_def pair_hashes_map)
    ultimately show ?thesis
      using True 1(1) pair_at(2) [OF 1(2)]
      by (cases "i mod 2 = 0") (simp_all add: proof_steps.simps [of _ xs] merkle_up.simps [of _ xs])
  next
    case False
    then have "xs = [xs ! 0]" "i = 0" using 1(2) by (cases xs; auto)+
    then show ?thesis
      using False by (simp add: proof_steps.simps [of _ xs] merkle_up.simps [of _ xs]) (metis list.sel(1))
  qed
qed

lemma climb_sound:
  assumes "i < length xs" and "length leaf = w" and "\<forall>x\<in>set xs. length x = w"
    and "inj_on H (set (tree_inputs H xs) \<union> set (climb_inputs H leaf p))"
    and "map snd p = map snd (proof_steps H xs i)"
    and "climb H leaf p = hd (merkle_up H xs)"
  shows "leaf = xs ! i"
  using assms
proof (induction "length xs" arbitrary: xs i leaf p rule: less_induct)
  case less
  show ?case
  proof (cases "1 < length xs")
    case True
    let ?L = "merkle_level H xs" and ?side = "if i mod 2 = 0 then ''right'' else ''left''"
    obtain sib q where p: "p = (sib, ?side) # q"
        and q: "map snd q = map snd (proof_steps H ?L (i div 2))"
      using less.prems(5) True by (cases p) (auto simp: proof_steps.simps [of _ xs])
    define inp where "inp = (if i mod 2 = 0 then leaf @ sib else sib @ leaf)"
    have ci: "climb_inputs H leaf p = inp # climb_inputs H (H inp) q"
      by (simp add: p inp_def Let_def)
    have ti: "set (tree_inputs H xs) = set (pair_inputs (pad_even xs)) \<union> set (tree_inputs H ?L)"
      using True by (simp add: tree_inputs.simps [of _ xs])
    have "H inp = ?L ! (i div 2)"
    proof (rule less.hyps)
      show "length ?L < length xs" "i div 2 < length ?L" using True less.prems(1) by auto
      show "length (H inp) = w" by (rule width)
      show "\<forall>x\<in>set ?L. length x = w" by (rule level_width)
      show "inj_on H (set (tree_inputs H ?L) \<union> set (climb_inputs H (H inp) q))"
        using less.prems(4) by (rule inj_on_subset) (auto simp: ci ti)
      show "map snd q = map snd (proof_steps H ?L (i div 2))" by (rule q)
      show "climb H (H inp) q = hd (merkle_up H ?L)"
        using less.prems(6) True by (simp add: p inp_def merkle_up.simps [of _ xs] split: if_splits)
    qed
    also have "\<dots> = H (pair_inputs (pad_even xs) ! (i div 2))"
      using less.prems(1) by (intro level_nth) auto
    finally have same: "H inp = H (pair_inputs (pad_even xs) ! (i div 2))" .
    have "pair_inputs (pad_even xs) ! (i div 2) \<in> set (pair_inputs (pad_even xs))"
      using pair_at(1) [OF less.prems(1)] by (rule nth_mem)
    then have "inp = pair_inputs (pad_even xs) ! (i div 2)"
      by (intro inj_onD [OF less.prems(4) same]) (simp_all add: ci ti)
    then have e: "inp = (if i mod 2 = 0 then xs ! i @ pad_even xs ! (i XOR 1)
        else pad_even xs ! (i XOR 1) @ xs ! i)"
      using pair_at(2) [OF less.prems(1)] by simp
    have "length (xs ! i) = length leaf" using less.prems(1-3) by simp
    with e show ?thesis by (cases "i mod 2 = 0") (simp_all add: inp_def)
  next
    case False
    then have "xs = [xs ! 0]" "i = 0" using less.prems(1) by (cases xs; auto)+
    moreover have "p = []" using less.prems(5) False by (simp add: proof_steps.simps [of _ xs])
    ultimately show ?thesis
      using less.prems(6) False by (simp add: merkle_up.simps [of _ xs]) (metis list.sel(1))
  qed
qed

text \<open>With no condition on the sides: an accepted value is a node as far below the root as its proof is long.\<close>

lemma climb_member:
  assumes "xs \<noteq> []" and "length leaf = w" and "\<forall>x\<in>set xs. length x = w"
    and "inj_on H (set (tree_inputs H xs) \<union> set (climb_inputs H leaf p))"
    and "length p \<le> tree_depth H xs" and "climb H leaf p = hd (merkle_up H xs)"
  shows "leaf \<in> set ((merkle_level H ^^ (tree_depth H xs - length p)) xs)"
  using assms
proof (induction "length xs" arbitrary: xs leaf p rule: less_induct)
  case less
  let ?L = "merkle_level H xs"
  show ?case
  proof (cases "1 < length xs")
    case True
    have depth: "tree_depth H xs = Suc (tree_depth H ?L)" using True by (rule tree_depth_level)
    have smaller: "length ?L < length xs" "?L \<noteq> []" using True length_merkle_level [of H xs] by (auto simp del: length_merkle_level)
    have up: "hd (merkle_up H xs) = hd (merkle_up H ?L)" using True by (simp add: merkle_up.simps [of _ xs])
    have ti: "set (tree_inputs H xs) = set (pair_inputs (pad_even xs)) \<union> set (tree_inputs H ?L)"
      using True by (simp add: tree_inputs.simps [of _ xs])
    show ?thesis
    proof (cases "length p \<le> tree_depth H ?L")
      case short: True
      have "leaf \<in> set ((merkle_level H ^^ (tree_depth H ?L - length p)) ?L)"
      proof (rule less.hyps [OF smaller less.prems(2) level_width _ short])
        show "inj_on H (set (tree_inputs H ?L) \<union> set (climb_inputs H leaf p))"
          using less.prems(4) by (rule inj_on_subset) (auto simp: ti)
        show "climb H leaf p = hd (merkle_up H ?L)" using less.prems(6) up by simp
      qed
      then show ?thesis using short by (simp add: depth Suc_diff_le funpow_swap1)
    next
      case False
      then have full: "length p = Suc (tree_depth H ?L)" using less.prems(5) depth by simp
      then obtain sib side q where p: "p = (sib, side) # q" by (cases p) auto
      define inp where "inp = (if side = ''right'' then leaf @ sib else sib @ leaf)"
      have ci: "climb_inputs H leaf p = inp # climb_inputs H (H inp) q" by (simp add: p inp_def Let_def)
      have "H inp \<in> set ((merkle_level H ^^ (tree_depth H ?L - length q)) ?L)"
      proof (rule less.hyps [OF smaller])
        show "length (H inp) = w" by (rule width)
        show "\<forall>x\<in>set ?L. length x = w" by (rule level_width)
        show "inj_on H (set (tree_inputs H ?L) \<union> set (climb_inputs H (H inp) q))"
          using less.prems(4) by (rule inj_on_subset) (auto simp: ci ti)
        show "length q \<le> tree_depth H ?L" using full p by simp
        show "climb H (H inp) q = hd (merkle_up H ?L)"
          using less.prems(6) up by (simp add: p inp_def split: if_splits)
      qed
      then have "H inp \<in> H ` set (pair_inputs (pad_even xs))"
        using full p by (simp add: merkle_level_def pair_hashes_map)
      then obtain y where y: "y \<in> set (pair_inputs (pad_even xs))" "H inp = H y" by blast
      have "inp = y" by (intro inj_onD [OF less.prems(4) y(2)]) (use y(1) in \<open>simp_all add: ci ti\<close>)
      then obtain a b where ab: "inp = a @ b" "a \<in> set (pad_even xs)" "b \<in> set (pad_even xs)"
        using pair_inputs_members [OF y(1)] by blast
      have mem: "a \<in> set xs" "b \<in> set xs" using ab less.prems(1) by (simp_all add: set_pad_even)
      have "length a = length leaf" "length b = length leaf"
        unfolding less.prems(2) using less.prems(3) mem by blast+
      then have "leaf = a \<or> leaf = b"
        using ab(1) append_eq_append_conv [of leaf a sib b] append_eq_append_conv [of sib a leaf b]
        unfolding inp_def by (cases "side = ''right''") presburger+
      then show ?thesis using mem full by (auto simp: depth)
    qed
  next
    case False
    then have "xs = [xs ! 0]" using less.prems(1) by (cases xs) auto
    moreover have "tree_depth H xs = 0" using False by (simp add: tree_depth_def proof_steps.simps [of H xs])
    ultimately show ?thesis
      using less.prems(5,6) False by (simp add: merkle_up.simps [of _ xs]) (metis list.sel(1) list.set_intros(1))
  qed
qed

lemma root_binds:
  assumes "length xs = length ys" and "\<forall>x\<in>set xs. length x = w" and "\<forall>y\<in>set ys. length y = w"
    and "inj_on H (set (tree_inputs H xs) \<union> set (tree_inputs H ys))"
    and "hd (merkle_up H xs) = hd (merkle_up H ys)"
  shows "xs = ys"
  using assms
proof (induction "length xs" arbitrary: xs ys rule: less_induct)
  case less
  show ?case
  proof (cases "1 < length xs")
    case True
    have y: "1 < length ys" using True less.prems(1) by simp
    have ti: "set (tree_inputs H zs) = set (pair_inputs (pad_even zs)) \<union> set (tree_inputs H (merkle_level H zs))"
      if "1 < length zs" for zs
      using that by (simp add: tree_inputs.simps [of _ zs])
    have "merkle_level H xs = merkle_level H ys"
      by (rule less.hyps)
        (use True y less.prems in \<open>auto simp: ti level_width merkle_up.simps [of _ xs]
          merkle_up.simps [of _ ys] intro: inj_on_subset\<close>)
    then have "pair_inputs (pad_even xs) = pair_inputs (pad_even ys)"
      unfolding merkle_level_def pair_hashes_map
      by (rule map_inj_on) (use less.prems(4) ti [OF True] ti [OF y] in \<open>auto intro: inj_on_subset\<close>)
    moreover have "\<forall>x\<in>set (pad_even xs). length x = w" "\<forall>y\<in>set (pad_even ys). length y = w"
      using less.prems(2,3) set_pad_even [of xs] set_pad_even [of ys] True y by fastforce+
    moreover have "length (pad_even xs) = length (pad_even ys)"
      using less.prems(1) by (simp add: pad_even_def)
    ultimately have "pad_even xs = pad_even ys"
      using pair_inputs_inj length_pad_even_even by blast
    then show ?thesis by (rule pad_even_inj [OF less.prems(1)])
  next
    case False
    then show ?thesis
      using less.prems(1,5) by (cases xs; cases ys) (auto simp: merkle_up.simps)
  qed
qed

end

interpretation sha: digest_fn hash 32
  by unfold_locales (simp add: hash_def)

section \<open>What the source's functions promise\<close>

lemma merkle_root_up: "leaves \<noteq> [] \<Longrightarrow> merkle_root leaves = hd (merkle_up hash leaves)"
  by (simp add: merkle_root_def)

lemma merkle_proof_in_range:
  "0 \<le> i \<Longrightarrow> i < int (length leaves) \<Longrightarrow> merkle_proof leaves i = Inr (proof_steps hash leaves (nat i))"
  by (simp add: merkle_proof_def)

lemma tree_inputs_single [simp]: "tree_inputs H [a] = []"
  by (simp add: tree_inputs.simps)

lemma tree_inputs_pair [simp]: "tree_inputs H [a, b] = [a @ b]"
  by (simp add: tree_inputs.simps [of H "[a, b]"] pad_even_def merkle_level_def)

lemma proof_steps_single [simp]: "proof_steps H [a] i = []"
  by (simp add: proof_steps.simps)

lemma proof_steps_pair [simp]: "proof_steps H [a, b] 0 = [(b, ''right'')]"
  by (simp add: proof_steps.simps [of H "[a, b]"] pad_even_def merkle_level_def)

lemma merkle_root_pair [simp]: "merkle_root [a, b] = hash (a @ b)"
  by (simp add: merkle_root_def merkle_up.simps pad_even_def merkle_level_def)

text \<open>C25: Completeness of Merkle proofs: for every valid index \<open>merkle_proof\<close> returns a proof, and
  \<open>verify_merkle\<close> accepts the leaf at that index with it against \<open>merkle_root\<close> of the leaves.\<close>

theorem merkle_proof_complete:
  assumes "0 \<le> i" and "i < int (length leaves)"
  shows "\<exists>p. merkle_proof leaves i = Inr p \<and> verify_merkle (leaves ! nat i) p (merkle_root leaves)"
proof -
  have "climb hash (leaves ! nat i) (proof_steps hash leaves (nat i)) = merkle_root leaves"
    using sha.climb_proof [of "nat i" leaves] assms by (auto simp: merkle_root_def)
  then show ?thesis using merkle_proof_in_range [OF assms] by (auto simp: verify_merkle_def)
qed

theorem merkle_proof_complete_witness:
  "\<exists>p. merkle_proof [[1], [2], [3]] 2 = Inr p \<and>
     verify_merkle ([[1], [2], [3 :: byte]] ! 2) p (merkle_root [[1], [2], [3]])"
  using merkle_proof_complete [of 2 "[[1], [2], [3]]"] by simp

text \<open>The honest proof pins the position: a 32-byte leaf accepted against the root with the sides of
  position \<open>i\<close> is the leaf stored at \<open>i\<close>, unless two of the strings hashed on the way collide.\<close>

lemma merkle_verify_position:
  assumes "0 \<le> i" and "i < int (length leaves)"
    and "length leaf = 32" and "\<forall>x\<in>set leaves. length x = 32"
    and "merkle_proof leaves i = Inr honest" and "map snd p = map snd honest"
    and "no_collision (set (tree_inputs hash leaves) \<union> set (climb_inputs hash leaf p))"
    and "verify_merkle leaf p (merkle_root leaves)"
  shows "leaf = leaves ! nat i"
proof (rule sha.climb_sound [of _ _ _ p])
  show "inj_on hash (set (tree_inputs hash leaves) \<union> set (climb_inputs hash leaf p))"
    using assms(7) by (simp add: no_collision_def inj_on_def hash_def)
  show "climb hash leaf p = hd (merkle_up hash leaves)"
    using assms(1,2,8) by (auto simp: verify_merkle_def merkle_root_def)
  show "map snd p = map snd (proof_steps hash leaves (nat i))"
    using assms(1,2,5,6) by (simp add: merkle_proof_in_range)
qed (use assms in auto)

text \<open>C24: What \<open>verify_merkle\<close> proves, whatever siblings and sides a proof claims: a 32-byte value accepted
  with a proof that is not longer than the tree's own proofs is a node of the tree, as many levels below
  the root as the proof has steps; so with a proof of the full length it is one of the leaves, unless two of
  the strings hashed collide. The function does not look at the length of the proof, and a shorter one
  does prove an inner node (\<open>merkle_inner_node_verifies\<close>).\<close>

theorem merkle_verify_sound:
  assumes "leaves \<noteq> []" and "length leaf = 32" and "\<forall>x\<in>set leaves. length x = 32"
    and "merkle_proof leaves 0 = Inr honest" and "length p \<le> length honest"
    and "no_collision (set (tree_inputs hash leaves) \<union> set (climb_inputs hash leaf p))"
    and "verify_merkle leaf p (merkle_root leaves)"
  shows "leaf \<in> set ((merkle_level hash ^^ (length honest - length p)) leaves) \<and>
     (length p = length honest \<longrightarrow> leaf \<in> set leaves)"
proof -
  have h: "length honest = tree_depth hash leaves"
    using assms(1,4) by (auto simp: merkle_proof_def tree_depth_def split: if_splits)
  have "leaf \<in> set ((merkle_level hash ^^ (tree_depth hash leaves - length p)) leaves)"
  proof (rule sha.climb_member)
    show "inj_on hash (set (tree_inputs hash leaves) \<union> set (climb_inputs hash leaf p))"
      using assms(6) by (simp add: no_collision_def inj_on_def hash_def)
    show "climb hash leaf p = hd (merkle_up hash leaves)"
      using assms(1,7) by (simp add: verify_merkle_def merkle_root_def)
  qed (use assms(1-3,5) h in simp_all)
  moreover from this have "leaf \<in> set leaves" if "length p = length honest" using that h by simp
  ultimately show ?thesis unfolding h by blast
qed

theorem merkle_verify_sound_witness:
  "replicate 32 (1 :: byte) \<in> set [replicate 32 1, replicate 32 2]"
proof -
  have "replicate 32 (1 :: byte) \<in> set ((merkle_level hash ^^ (length [(replicate 32 (2 :: byte), ''right'')] - 1)) [replicate 32 1, replicate 32 2]) \<and>
     (1 = length [(replicate 32 (2 :: byte), ''right'')] \<longrightarrow> replicate 32 (1 :: byte) \<in> set [replicate 32 1, replicate 32 2])"
    using merkle_verify_sound [of "[replicate 32 1, replicate 32 2]" "replicate 32 1" "[(replicate 32 2, ''right'')]"
        "[(replicate 32 2, ''right'')]"]
    by (simp add: merkle_proof_def verify_merkle_def)
  then show ?thesis by simp
qed

text \<open>The nodes one level up are accepted too, each with its proof in the smaller tree: no length check, no
  tag that tells a leaf from an inner node.\<close>

lemma merkle_inner_node_verifies:
  assumes "1 < length leaves" and "i < length (merkle_level hash leaves)"
  shows "verify_merkle (merkle_level hash leaves ! i) (proof_steps hash (merkle_level hash leaves) i) (merkle_root leaves)"
proof -
  let ?up = "merkle_level hash leaves"
  have "?up \<noteq> []" using assms(2) by (cases ?up) simp_all
  then have "merkle_root leaves = merkle_root ?up"
    using assms(1) by (auto simp: merkle_root_def merkle_up.simps [of _ leaves])
  then show ?thesis
    using sha.climb_proof [OF assms(2)] merkle_root_up [OF \<open>?up \<noteq> []\<close>] by (simp add: verify_merkle_def)
qed

text \<open>C26: The Merkle root commits to the leaf sequence of a given length: two sequences of 32-byte
  leaves of the same length with the same root are equal, unless two hashed strings collide.\<close>

theorem merkle_root_binding:
  assumes "length xs = length ys"
    and "\<forall>x\<in>set xs. length x = 32" and "\<forall>y\<in>set ys. length y = 32"
    and "no_collision (set (tree_inputs hash xs) \<union> set (tree_inputs hash ys))"
    and "merkle_root xs = merkle_root ys"
  shows "xs = ys"
proof (rule sha.root_binds)
  show "inj_on hash (set (tree_inputs hash xs) \<union> set (tree_inputs hash ys))"
    using assms(4) by (simp add: no_collision_def inj_on_def hash_def)
  show "hd (merkle_up hash xs) = hd (merkle_up hash ys)"
    using assms(1,5) by (cases "xs = []") (auto simp: merkle_root_def)
qed (use assms in auto)

theorem merkle_root_binding_witness:
  "[replicate 32 (1 :: byte), replicate 32 2] = [replicate 32 1, replicate 32 (2 :: byte)]"
  by (rule merkle_root_binding) simp_all

text \<open>The root does not fix the length: appending a copy of the last leaf to a level of odd
  length leaves the root unchanged, so a root alone does not identify a leaf sequence.\<close>

theorem merkle_root_repeats_last:
  assumes "odd (length xs)" and "1 < length xs"
  shows "merkle_root (xs @ [last xs]) = merkle_root xs \<and> xs @ [last xs] \<noteq> xs"
proof -
  have "merkle_level hash (xs @ [last xs]) = merkle_level hash xs"
    using assms by (simp add: merkle_level_def pad_even_def)
  then show ?thesis
    using assms by (auto simp: merkle_root_def merkle_up.simps [of _ xs] merkle_up.simps [of _ "xs @ [last xs]"])
qed

theorem merkle_root_repeats_last_witness:
  "merkle_root [[1], [2], [3], [3]] = merkle_root [[1], [2], [3 :: byte]]"
  using merkle_root_repeats_last [of "[[1], [2], [3 :: byte]]"] by simp

lemma merkle_up_widths:
  "xs \<noteq> [] \<Longrightarrow> \<forall>x\<in>set xs. length x = 32 \<Longrightarrow> merkle_up hash xs \<noteq> [] \<and> (\<forall>x\<in>set (merkle_up hash xs). length x = 32)"
proof (induction "length xs" arbitrary: xs rule: less_induct)
  case less
  show ?case
  proof (cases "1 < length xs")
    case True
    have "length (merkle_level hash xs) \<noteq> 0" using True by simp
    then have "merkle_level hash xs \<noteq> []" by (rule contrapos_nn) simp
    moreover have "\<forall>x\<in>set (merkle_level hash xs). length x = 32"
      by (simp add: merkle_level_def pair_hashes_map hash_def)
    ultimately have "merkle_up hash (merkle_level hash xs) \<noteq> [] \<and> (\<forall>x\<in>set (merkle_up hash (merkle_level hash xs)). length x = 32)"
      using True by (intro less.hyps) simp_all
    then show ?thesis using True by (simp add: merkle_up.simps [of hash xs])
  next
    case False
    then have "merkle_up hash xs = xs" by (simp add: merkle_up.simps [of hash xs])
    then show ?thesis using less.prems by metis
  qed
qed

lemma length_merkle_root: "\<forall>x\<in>set xs. length x = 32 \<Longrightarrow> length (merkle_root xs) = 32"
  using merkle_up_widths [of xs] by (auto simp: merkle_root_def)

text \<open>A Merkle proof over at most \<open>2 ^ k\<close> leaves has at most \<open>k\<close> steps.\<close>

theorem merkle_proof_length:
  assumes "length leaves \<le> 2 ^ k" and "merkle_proof leaves i = Inr p"
  shows "length p \<le> k"
proof -
  have "length xs \<le> 2 ^ k \<Longrightarrow> length (proof_steps hash xs c) \<le> k" for xs c
  proof (induction k arbitrary: xs c)
    case 0
    then show ?case by (simp add: proof_steps.simps)
  next
    case (Suc k)
    have "length (proof_steps hash (merkle_level hash xs) (c div 2)) \<le> k"
      using Suc.prems by (intro Suc.IH) simp
    then show ?case by (subst proof_steps.simps) simp
  qed
  then show ?thesis using assms by (auto simp: merkle_proof_def split: if_splits)
qed

theorem merkle_proof_length_witness:
  "length (proof_steps hash [[1], [2], [3], [4 :: byte]] 1) \<le> 2"
  using merkle_proof_length [of "[[1], [2], [3], [4]]" 2 1] by (simp add: merkle_proof_def)

end
