(* ===== verification/Crypto.thy ===== *)
theory Crypto
  imports Merkle
begin

text \<open>
  The third-party \<open>cryptography\<close> package, as parameters of the model: Ed25519 signatures, AES-256-GCM
  and the two key-derivation functions. Nothing about them is defined here; the predicates state the
  documented behaviour the components rely on, and the sample instances, built from SHA-256, show
  that the predicates can hold.
\<close>

section \<open>Ed25519\<close>

record ed25519 =
  ed_public :: "bytes \<Rightarrow> bytes"
  ed_sign :: "bytes \<Rightarrow> bytes \<Rightarrow> bytes"
  ed_load :: "bytes \<Rightarrow> bool"
  ed_verify :: "bytes \<Rightarrow> bytes \<Rightarrow> bytes \<Rightarrow> bool"

text \<open>
  \<open>ed_load\<close> tells whether \<open>from_public_bytes\<close> accepts a raw key (it raises \<open>ValueError\<close> otherwise);
  \<open>ed_verify pk sig msg\<close> whether \<open>verify\<close> returns instead of raising \<open>InvalidSignature\<close>.
\<close>

definition ed_correct :: "ed25519 \<Rightarrow> bool" where
  "ed_correct C \<longleftrightarrow>
     (\<forall>sk. length (ed_public C sk) = 32 \<and> ed_load C (ed_public C sk)) \<and>
     (\<forall>sk m. ed_verify C (ed_public C sk) (ed_sign C sk m) m)"

definition sample_ed :: ed25519 where
  "sample_ed = \<lparr>ed_public = sha256, ed_sign = (\<lambda>sk m. sha256 (sha256 sk @ m)),
     ed_load = (\<lambda>pk. length pk = 32), ed_verify = (\<lambda>pk s m. s = sha256 (pk @ m))\<rparr>"

lemma sample_ed_correct [simp]: "ed_correct sample_ed"
  by (simp add: ed_correct_def sample_ed_def)

lemma ed_correctD:
  assumes "ed_correct C"
  shows "length (ed_public C sk) = 32" and "ed_load C (ed_public C sk)"
    and "ed_verify C (ed_public C sk) (ed_sign C sk m) m"
  using assms by (simp_all add: ed_correct_def)

section \<open>AES-256-GCM\<close>

record aead =
  aead_encrypt :: "bytes \<Rightarrow> bytes \<Rightarrow> bytes \<Rightarrow> bytes \<Rightarrow> bytes"
  aead_decrypt :: "bytes \<Rightarrow> bytes \<Rightarrow> bytes \<Rightarrow> bytes \<Rightarrow> bytes option"

text \<open>
  Arguments in the order of the package: key, nonce, data, associated data. \<^term>\<open>None\<close> is
  \<open>InvalidTag\<close>. A ciphertext is sixteen bytes longer than its plaintext.
\<close>

definition aead_correct :: "aead \<Rightarrow> bool" where
  "aead_correct A \<longleftrightarrow>
     (\<forall>k n p a. aead_decrypt A k n (aead_encrypt A k n p a) a = Some p) \<and>
     (\<forall>k n p a. length (aead_encrypt A k n p a) = length p + 16)"

definition sample_tag :: "bytes \<Rightarrow> bytes \<Rightarrow> bytes \<Rightarrow> bytes \<Rightarrow> bytes" where
  "sample_tag k n p a = take 16 (sha256 (sha256 k @ sha256 n @ sha256 a @ p))"

definition sample_aead :: aead where
  "sample_aead = \<lparr>aead_encrypt = (\<lambda>k n p a. p @ sample_tag k n p a),
     aead_decrypt = (\<lambda>k n c a. let p = take (length c - 16) c
        in if drop (length c - 16) c = sample_tag k n p a then Some p else None)\<rparr>"

lemma length_sample_tag [simp]: "length (sample_tag k n p a) = 16"
  by (simp add: sample_tag_def)

lemma sample_aead_correct [simp]: "aead_correct sample_aead"
  by (simp add: aead_correct_def sample_aead_def Let_def)

lemma aead_correctD:
  assumes "aead_correct A"
  shows "aead_decrypt A k n (aead_encrypt A k n p a) a = Some p"
    and "length (aead_encrypt A k n p a) = length p + 16"
  using assms by (simp_all add: aead_correct_def)

section \<open>Key derivation\<close>

record kdf =
  scrypt_derive :: "bytes \<Rightarrow> bytes \<Rightarrow> bytes"
  hkdf_derive :: "bytes \<Rightarrow> bytes \<Rightarrow> bytes"

text \<open>
  \<open>scrypt_derive salt passphrase\<close> and \<open>hkdf_derive info key\<close>, both of length 32 in the source.
\<close>

definition kdf_correct :: "kdf \<Rightarrow> bool" where
  "kdf_correct K \<longleftrightarrow>
     (\<forall>s p. length (scrypt_derive K s p) = 32) \<and> (\<forall>i k. length (hkdf_derive K i k) = 32)"

definition sample_kdf :: kdf where
  "sample_kdf = \<lparr>scrypt_derive = (\<lambda>s p. sha256 (s @ p)), hkdf_derive = (\<lambda>i k. sha256 (i @ k))\<rparr>"

lemma sample_kdf_correct [simp]: "kdf_correct sample_kdf"
  by (simp add: kdf_correct_def sample_kdf_def)

end
