(* ===== verification/Access.thy ===== *)
theory Access
  imports Crypto
begin

text \<open>
  Signed access requests of \<open>vault/access.py\<close>: the canonical JSON text that is signed, the
  \<open>AccessRequest\<close> data class, signing and verification. Ed25519 is a parameter (theory Crypto); the
  clock and the random identifier that Python draws are arguments.
\<close>

section \<open>Requests\<close>

definition canonical :: "json \<Rightarrow> bytes" where
  "canonical v = utf8_encode (dumps compact_utf8 (sort_keys v))"

record access_request =
  ar_requester :: string
  ar_model :: string
  ar_purpose :: string
  ar_nonce :: string
  ar_timestamp :: pyfloat
  ar_signature :: string

definition ar_unsigned :: "access_request \<Rightarrow> (string, json) dict" where
  "ar_unsigned r =
     [(''requester_pubkey'', JStr (ar_requester r)), (''model_id'', JStr (ar_model r)),
      (''purpose'', JStr (ar_purpose r)), (''nonce'', JStr (ar_nonce r)),
      (''timestamp'', JFloat (ar_timestamp r))]"

definition ar_to_dict :: "access_request \<Rightarrow> (string, json) dict" where
  "ar_to_dict r = ar_unsigned r @ [(''signature'', JStr (ar_signature r))]"

text \<open>\<open>nonce or uuid.uuid4().hex\<close>: an empty nonce is replaced as well.\<close>

definition sign_request ::
    "ed25519 \<Rightarrow> bytes \<Rightarrow> string \<Rightarrow> string \<Rightarrow> string option \<Rightarrow> pyfloat option \<Rightarrow> string \<Rightarrow> pyfloat \<Rightarrow> access_request" where
  "sign_request C sk model purpose nonce timestamp uuid clock =
     (let public = hex (ed_public C sk);
          n = (case nonce of None \<Rightarrow> uuid | Some s \<Rightarrow> if s = [] then uuid else s);
          ts = (case timestamp of None \<Rightarrow> clock | Some t \<Rightarrow> t);
          body = \<lparr>ar_requester = public, ar_model = model, ar_purpose = purpose, ar_nonce = n,
                  ar_timestamp = ts, ar_signature = []\<rparr>
      in body\<lparr>ar_signature := hex (ed_sign C sk (canonical (JObj (ar_unsigned body))))\<rparr>)"

definition signature_ok :: "ed25519 \<Rightarrow> string \<Rightarrow> string \<Rightarrow> bytes \<Rightarrow> bool" where
  "signature_ok C pubkey signature message =
     (case from_hex pubkey of None \<Rightarrow> False
      | Some pk \<Rightarrow> ed_load C pk \<and>
          (case from_hex signature of None \<Rightarrow> False | Some s \<Rightarrow> ed_verify C pk s message))"

definition verify_request :: "ed25519 \<Rightarrow> pyfloat \<Rightarrow> pyfloat \<Rightarrow> access_request \<Rightarrow> bool \<times> string" where
  "verify_request C clock max_skew r =
     (if ar_model r = [] \<or> ar_purpose r = [] \<or> length (ar_nonce r) < 16
        then (False, ''required field is missing or invalid'')
      else if fl_gt (fl_abs (fl_sub clock (ar_timestamp r))) max_skew
        then (False, ''timestamp out of window'')
      else if \<not> signature_ok C (ar_requester r) (ar_signature r) (canonical (JObj (ar_unsigned r)))
        then (False, ''bad signature'')
      else (True, ''ok''))"

section \<open>The signed text\<close>

lemma canonical_inj:
  "json_ok v \<Longrightarrow> json_ok w \<Longrightarrow> canonical v = canonical w \<longleftrightarrow> sort_keys v = sort_keys w"
  by (simp add: canonical_def dumps_inj)

lemma canonical_field:
  assumes "json_ok (JObj a)" and "json_ok (JObj b)" and "canonical (JObj a) = canonical (JObj b)"
  shows "map_option sort_keys (dict_get a k) = map_option sort_keys (dict_get b k)"
  using assms by (intro sorted_dumps_field [where c = compact_utf8])
    (simp_all add: canonical_def del: sort_keys.simps json_ok.simps)

definition text_float :: "pyfloat \<Rightarrow> bool" where
  "text_float x = json_ok (JFloat x)"

lemma text_float_simps [simp]:
  "text_float NaN" "text_float PInf" "text_float NInf" "json_ok (JFloat x) = text_float x"
  by (simp_all add: text_float_def)

lemma text_float_of_int [simp]: "text_float (Fin (of_int n))"
proof -
  have "find (\<lambda>k. snd (quotient_of (of_int n * 10 ^ k)) = 1) [0..<400] \<noteq> None"
    by (subst upt_conv_Cons) (simp_all add: quotient_of_int)
  then show ?thesis unfolding text_float_def json_ok.simps dec_scale_def .
qed

lemma text_float_numeral [simp]: "text_float (Fin (numeral n))" "text_float (Fin 0)" "text_float (Fin 1)"
  using text_float_of_int [of "numeral n"] text_float_of_int [of 0] text_float_of_int [of 1] by simp_all

lemma json_ok_unsigned [simp]: "json_ok (JObj (ar_unsigned r)) = text_float (ar_timestamp r)"
  by (simp add: ar_unsigned_def)

definition same_body :: "access_request \<Rightarrow> access_request \<Rightarrow> bool" where
  "same_body r s \<longleftrightarrow> r\<lparr>ar_signature := []\<rparr> = s\<lparr>ar_signature := []\<rparr>"

lemma canonical_unsigned_inj:
  assumes "text_float (ar_timestamp r)" and "text_float (ar_timestamp s)"
  shows "canonical (JObj (ar_unsigned r)) = canonical (JObj (ar_unsigned s)) \<longleftrightarrow> same_body r s"
proof
  assume eq: "canonical (JObj (ar_unsigned r)) = canonical (JObj (ar_unsigned s))"
  note field = canonical_field [OF _ _ eq, simplified json_ok_unsigned, OF assms]
  have "ar_requester r = ar_requester s" using field [of "''requester_pubkey''"]
    by (simp add: ar_unsigned_def dict_get_def)
  moreover have "ar_model r = ar_model s" using field [of "''model_id''"]
    by (simp add: ar_unsigned_def dict_get_def)
  moreover have "ar_purpose r = ar_purpose s" using field [of "''purpose''"]
    by (simp add: ar_unsigned_def dict_get_def)
  moreover have "ar_nonce r = ar_nonce s" using field [of "''nonce''"]
    by (simp add: ar_unsigned_def dict_get_def)
  moreover have "ar_timestamp r = ar_timestamp s" using field [of "''timestamp''"]
    by (simp add: ar_unsigned_def dict_get_def)
  ultimately show "same_body r s" by (cases r; cases s) (simp add: same_body_def)
next
  assume "same_body r s"
  then have "ar_unsigned (r\<lparr>ar_signature := []\<rparr>) = ar_unsigned (s\<lparr>ar_signature := []\<rparr>)"
    by (simp add: same_body_def)
  then show "canonical (JObj (ar_unsigned r)) = canonical (JObj (ar_unsigned s))"
    by (simp add: ar_unsigned_def)
qed

section \<open>Verification\<close>

lemma signature_ok_hex [simp]:
  "signature_ok C (hex pk) (hex s) m \<longleftrightarrow> ed_load C pk \<and> ed_verify C pk s m"
  by (simp add: signature_ok_def)

lemma verify_request_ok_iff:
  "verify_request C (Fin now) (Fin skew) r = (True, ''ok'') \<longleftrightarrow>
     ar_model r \<noteq> [] \<and> ar_purpose r \<noteq> [] \<and> 16 \<le> length (ar_nonce r) \<and>
     (ar_timestamp r = NaN \<or> (\<exists>t. ar_timestamp r = Fin t \<and> \<bar>now - t\<bar> \<le> skew)) \<and>
     signature_ok C (ar_requester r) (ar_signature r) (canonical (JObj (ar_unsigned r)))"
  unfolding fl_window [symmetric] by (auto simp: verify_request_def)

lemma verify_request_fst: "fst (verify_request C now skew r) \<longleftrightarrow> verify_request C now skew r = (True, ''ok'')"
  by (simp add: verify_request_def)

lemma sign_request_signature:
  assumes "ed_correct C"
  shows "let r = sign_request C sk m p n t u c in
     signature_ok C (ar_requester r) (ar_signature r) (canonical (JObj (ar_unsigned r)))"
  using assms
  by (simp add: sign_request_def Let_def ar_unsigned_def ed_correctD)

lemma sign_request_fields [simp]:
  "ar_requester (sign_request C sk m p n t u c) = hex (ed_public C sk)"
  "ar_model (sign_request C sk m p n t u c) = m"
  "ar_purpose (sign_request C sk m p n t u c) = p"
  "ar_nonce (sign_request C sk m p n t u c) = (case n of None \<Rightarrow> u | Some s \<Rightarrow> if s = [] then u else s)"
  "ar_timestamp (sign_request C sk m p n t u c) = (case t of None \<Rightarrow> c | Some x \<Rightarrow> x)"
  by (simp_all add: sign_request_def Let_def)

section \<open>Properties\<close>

text \<open>A request signed with the defaults (a fresh 32-character identifier, the signer's clock) is
  accepted by every verifier whose clock is within the allowed skew, for any model and purpose that
  are not empty.\<close>

theorem signed_request_verifies:
  assumes "ed_correct C" and "m \<noteq> []" and "p \<noteq> []" and "length uuid = 32" and "\<bar>now - signed_at\<bar> \<le> skew"
  shows "verify_request C (Fin now) (Fin skew) (sign_request C sk m p None None uuid (Fin signed_at))
     = (True, ''ok'')"
  using assms sign_request_signature [OF assms(1), of sk m p None None uuid "Fin signed_at"]
  by (simp add: verify_request_ok_iff Let_def)

theorem signed_request_verifies_witness:
  "verify_request sample_ed (Fin 1010) (Fin 300)
     (sign_request sample_ed [1, 2] ''m'' ''pull'' None None (replicate 32 (CHR ''a'')) (Fin 1000)) = (True, ''ok'')"
  by (rule signed_request_verifies) simp_all

text \<open>C22: What an accepted request says is what the key's holder signed: if the public key verifies
  only signatures on the texts of the requests in \<open>issued\<close>, then every accepted request under that
  key has the requester, model, purpose, nonce and timestamp of one of them.\<close>

theorem accepted_request_was_signed:
  assumes "from_hex (ar_requester r) = Some pk"
    and "\<And>s m. ed_verify C pk s m \<Longrightarrow> \<exists>q\<in>issued. m = canonical (JObj (ar_unsigned q))"
    and "\<And>q. q \<in> issued \<Longrightarrow> text_float (ar_timestamp q)" and "text_float (ar_timestamp r)"
    and "fst (verify_request C now skew r)"
  shows "\<exists>q\<in>issued. same_body r q"
proof -
  have "signature_ok C (ar_requester r) (ar_signature r) (canonical (JObj (ar_unsigned r)))"
    using assms(5) by (simp add: verify_request_def split: if_splits)
  then obtain s where "ed_verify C pk s (canonical (JObj (ar_unsigned r)))"
    using assms(1) by (auto simp: signature_ok_def split: option.splits)
  from assms(2) [OF this] obtain q where q: "q \<in> issued"
      and "canonical (JObj (ar_unsigned r)) = canonical (JObj (ar_unsigned q))" by blast
  then have "same_body r q"
    using canonical_unsigned_inj assms(3) [OF q] assms(4) by blast
  with q show ?thesis by blast
qed

definition one_request :: access_request where
  "one_request = \<lparr>ar_requester = hex (replicate 32 7), ar_model = ''m'', ar_purpose = ''pull'',
     ar_nonce = replicate 16 (CHR ''n''), ar_timestamp = Fin 1000, ar_signature = ''00''\<rparr>"

definition one_request_ed :: ed25519 where
  "one_request_ed = sample_ed\<lparr>ed_verify := (\<lambda>pk s m. m = canonical (JObj (ar_unsigned one_request)))\<rparr>"

theorem accepted_request_was_signed_witness:
  "\<exists>q\<in>{one_request}. same_body one_request q"
proof (rule accepted_request_was_signed [where C = one_request_ed and now = "Fin 1100" and skew = "Fin 300"])
  show "from_hex (ar_requester one_request) = Some (replicate 32 7)" by (simp add: one_request_def)
  have "from_hex ''00'' = Some [0]" by code_simp
  then show "fst (verify_request one_request_ed (Fin 1100) (Fin 300) one_request)"
    by (simp add: verify_request_fst verify_request_ok_iff)
      (simp add: one_request_def signature_ok_def one_request_ed_def sample_ed_def)
qed (simp_all add: one_request_ed_def, simp_all add: one_request_def)

text \<open>The three refusals of \<open>verify_request\<close>, in the order of the code, and acceptance exactly when
  none applies; the window is \<open>\<bar>now - timestamp\<bar> \<le> max_skew_s\<close>, bounds included.\<close>

theorem verify_request_outcomes:
  assumes "ar_timestamp r = Fin t"
  shows "verify_request C (Fin now) (Fin skew) r =
     (let sig_ok = signature_ok C (ar_requester r) (ar_signature r) (canonical (JObj (ar_unsigned r)))
      in if ar_model r = [] \<or> ar_purpose r = [] \<or> length (ar_nonce r) < 16
           then (False, ''required field is missing or invalid'')
         else if t < now - skew \<or> now + skew < t then (False, ''timestamp out of window'')
         else (sig_ok, if sig_ok then ''ok'' else ''bad signature''))"
proof -
  have "(skew < \<bar>now - t\<bar>) = (t < now - skew \<or> now + skew < t)" by linarith
  then show ?thesis by (simp add: verify_request_def assms)
qed

theorem verify_request_outcomes_witness:
  "verify_request one_request_ed (Fin 1301) (Fin 300) one_request = (False, ''timestamp out of window'')"
  using verify_request_outcomes [of one_request 1000 one_request_ed 1301 300]
  by (simp add: one_request_def)

text \<open>A request whose timestamp is NaN passes the freshness test at every clock reading: the
  comparison \<open>abs(time.time() - req.timestamp) > max_skew_s\<close> is false for NaN, so such a request,
  once signed, never expires.\<close>

theorem nan_request_never_expires:
  assumes "ed_correct C" and "m \<noteq> []" and "p \<noteq> []" and "16 \<le> length n"
  shows "verify_request C (Fin now) (Fin skew) (sign_request C sk m p (Some n) (Some NaN) uuid clock)
     = (True, ''ok'')"
proof -
  have "n \<noteq> []" using assms(4) by auto
  with assms sign_request_signature [OF assms(1), of sk m p "Some n" "Some NaN" uuid clock]
  show ?thesis by (simp add: verify_request_ok_iff Let_def)
qed

theorem nan_request_never_expires_witness:
  "verify_request sample_ed (Fin 99999999999) (Fin 300)
     (sign_request sample_ed [1, 2] ''m'' ''pull'' (Some (replicate 16 (CHR ''n''))) (Some NaN) [] (Fin 1000))
     = (True, ''ok'')"
  by (rule nan_request_never_expires) simp_all

end
