(* ===== verification/Linked_Log.thy ===== *)
theory Linked_Log
  imports Prelude
begin

text \<open>
  The contract shared by the program's linked logs, whose entries carry the seal of the entry before
  them and a seal of their own content: what a log verifies to, and that the last seal of a verified
  log determines the whole log. Vault receipts seal with an HMAC, proof events with a digest.
\<close>

locale linked_log =
  fixes seal :: "'e \<Rightarrow> 's" and link :: "'e \<Rightarrow> 's" and stored :: "'e \<Rightarrow> 's" and genesis :: 's
    and content :: "'e \<Rightarrow> 'c" and mac :: "'c \<Rightarrow> 's" and good :: "'e \<Rightarrow> bool"
  assumes seal_content: "seal e = mac (content e)"
    and mac_genesis: "mac c \<noteq> genesis"
    and content_entry: "good e \<Longrightarrow> good f \<Longrightarrow> content e = content f \<Longrightarrow> stored e = stored f \<Longrightarrow> e = f"
begin

primrec valid_from :: "'s \<Rightarrow> 'e list \<Rightarrow> bool" where
  "valid_from p [] = True"
| "valid_from p (e # es) = (link e = p \<and> stored e = seal e \<and> valid_from (stored e) es)"

definition last_seal :: "'s \<Rightarrow> 'e list \<Rightarrow> 's" where
  "last_seal p es = (if es = [] then p else stored (last es))"

lemma last_seal_simps [simp]:
  "last_seal p [] = p" "last_seal p (e # es) = last_seal (stored e) es"
  "last_seal p (es @ [e]) = stored e"
  by (simp_all add: last_seal_def)

lemma valid_from_append: "valid_from p (xs @ ys) \<longleftrightarrow> valid_from p xs \<and> valid_from (last_seal p xs) ys"
  by (induction xs arbitrary: p) auto

lemma valid_from_snoc:
  "valid_from p (es @ [e]) \<longleftrightarrow> valid_from p es \<and> link e = last_seal p es \<and> stored e = seal e"
  by (simp add: valid_from_append)

lemma valid_from_prefix: "valid_from p es \<Longrightarrow> valid_from p (take n es)"
  by (metis append_take_drop_id valid_from_append)

lemma valid_seals: "valid_from p es \<Longrightarrow> e \<in> set es \<Longrightarrow> stored e = mac (content e)"
  by (induction es arbitrary: p) (auto simp: seal_content)

text \<open>The last seal of a valid log determines every entry before it, in content and in order.\<close>

lemma last_seal_determines:
  assumes "valid_from genesis es" and "valid_from genesis fs"
    and "last_seal genesis es = last_seal genesis fs"
    and "inj_on mac (content ` (set es \<union> set fs))"
    and "\<And>e. e \<in> set es \<union> set fs \<Longrightarrow> good e"
  shows "es = fs"
  using assms
proof (induction es arbitrary: fs rule: rev_induct)
  case Nil
  show ?case
  proof (cases fs rule: rev_cases)
    case (snoc fs' f)
    then have "stored f = mac (content f)" using Nil.prems(2) valid_seals by simp
    then show ?thesis using Nil.prems(3) snoc mac_genesis [of "content f"] by simp
  qed simp
next
  case (snoc e es)
  show ?case
  proof (cases fs rule: rev_cases)
    case Nil
    have "stored e = mac (content e)" using snoc.prems(1) valid_seals by simp
    then show ?thesis using snoc.prems(3) Nil mac_genesis [of "content e"] by simp
  next
    case (snoc fs' f)
    have "mac (content e) = mac (content f)"
      using snoc.prems(1-3) valid_seals [of genesis "es @ [e]" e] valid_seals [of genesis fs f]
      by (simp add: snoc)
    then have c: "content e = content f"
      by (rule inj_onD [OF snoc.prems(4)]) (auto simp: snoc)
    have st: "stored e = stored f" using snoc.prems(3) by (simp add: snoc)
    have ef: "e = f" using c st snoc.prems(5) by (intro content_entry) (auto simp: snoc)
    have "es = fs'"
    proof (rule snoc.IH)
      show "valid_from genesis es" "valid_from genesis fs'"
        using snoc.prems(1,2) by (auto simp: snoc valid_from_snoc)
      show "last_seal genesis es = last_seal genesis fs'"
        using snoc.prems(1,2) ef by (simp add: snoc valid_from_snoc)
      show "inj_on mac (content ` (set es \<union> set fs'))"
        using snoc.prems(4) by (rule inj_on_subset) (auto simp: snoc)
    qed (use snoc.prems(5) snoc in auto)
    then show ?thesis by (simp add: snoc ef)
  qed
qed

end

end
