(* ===== verification/Vault_Receipts.thy ===== *)
theory Vault_Receipts
  imports Access Linked_Log
begin

text \<open>
  The audit receipts of \<open>vault/receipts.py\<close>: a table of rows in insertion order, each with the
  signature of the row before it and an HMAC-SHA256 over its own fields. The database is the list of
  its rows; the \<open>UNIQUE\<close> constraint on the identifier is checked at insertion.
\<close>

section \<open>Rows\<close>

record vreceipt =
  vr_id :: string
  vr_ts :: pyfloat
  vr_kind :: string
  vr_model :: string
  vr_actor :: string
  vr_payload :: string
  vr_prev :: string
  vr_sig :: string

record vault_receipts =
  vq_key :: bytes
  vq_rows :: "vreceipt list"

definition vault_receipts_open :: "bytes \<Rightarrow> vreceipt list \<Rightarrow> vault_receipts result" where
  "vault_receipts_open key rows =
     (if length key < 32 then Inl (ValueError ''receipt signing key must be at least 32 bytes'')
      else Inr \<lparr>vq_key = key, vq_rows = rows\<rparr>)"

definition vr_body_json :: "vreceipt \<Rightarrow> json" where
  "vr_body_json r = JArr [JStr (vr_id r), JFloat (vr_ts r), JStr (vr_kind r), JStr (vr_model r),
     JStr (vr_actor r), JStr (vr_payload r), JStr (vr_prev r)]"

definition vr_body :: "vreceipt \<Rightarrow> string" where
  "vr_body r = dumps compact_ascii (vr_body_json r)"

definition vr_sign :: "bytes \<Rightarrow> string \<Rightarrow> string" where
  "vr_sign key body = hex (hmac_sha256 key (utf8_encode body))"

section \<open>Emitting and verifying\<close>

definition vr_last_sig :: "vreceipt list \<Rightarrow> string" where
  "vr_last_sig rows = (if rows = [] then ''genesis'' else vr_sig (last rows))"

definition vr_emit ::
    "string \<Rightarrow> string \<Rightarrow> string \<Rightarrow> (string, json) dict \<Rightarrow> string \<Rightarrow> pyfloat \<Rightarrow> vault_receipts \<Rightarrow>
     (string \<times> vault_receipts) result" where
  "vr_emit kind model actor payload uuid clock st =
     (let row = \<lparr>vr_id = uuid, vr_ts = clock, vr_kind = kind, vr_model = model, vr_actor = actor,
                 vr_payload = dumps compact_ascii (sort_keys (JObj payload)),
                 vr_prev = vr_last_sig (vq_rows st), vr_sig = []\<rparr>;
          signed_row = row\<lparr>vr_sig := vr_sign (vq_key st) (vr_body row)\<rparr>
      in if uuid \<in> set (map vr_id (vq_rows st)) then Inl SqliteIntegrityError
         else Inr (uuid, st\<lparr>vq_rows := vq_rows st @ [signed_row]\<rparr>))"

text \<open>\<open>hmac.compare_digest\<close> on strings raises \<open>TypeError\<close> when one of them is not ASCII.\<close>

fun vr_check :: "bytes \<Rightarrow> string \<Rightarrow> vreceipt list \<Rightarrow> (bool \<times> string) result" where
  "vr_check key previous [] = Inr (True, previous)"
| "vr_check key previous (r # rows) =
     (if vr_prev r \<noteq> previous then Inr (False, ''chain break at '' @ vr_id r)
      else if \<not> is_ascii (vr_sig r) then Inl TypeError
      else if vr_sign key (vr_body r) \<noteq> vr_sig r then Inr (False, ''bad signature at '' @ vr_id r)
      else vr_check key (vr_sig r) rows)"

definition verify_chain :: "vault_receipts \<Rightarrow> (bool \<times> string) result" where
  "verify_chain st = vr_check (vq_key st) ''genesis'' (vq_rows st)"

record receipt_view =
  rv_id :: string
  rv_ts :: pyfloat
  rv_kind :: string
  rv_actor :: string
  rv_payload :: json

definition vr_view :: "vreceipt \<Rightarrow> receipt_view option" where
  "vr_view r = map_option (\<lambda>p. \<lparr>rv_id = vr_id r, rv_ts = vr_ts r, rv_kind = vr_kind r,
     rv_actor = vr_actor r, rv_payload = p\<rparr>) (loads (vr_payload r))"

definition vr_for_model :: "vault_receipts \<Rightarrow> string \<Rightarrow> int \<Rightarrow> receipt_view list result" where
  "vr_for_model st model limit =
     (case those (map vr_view (take (nat (min (max limit 1) 1000))
              (rev (filter (\<lambda>r. vr_model r = model) (vq_rows st))))) of
        None \<Rightarrow> Inl (ValueError ''payload_json'')
      | Some views \<Rightarrow> Inr views)"

definition vr_count :: "vault_receipts \<Rightarrow> int" where
  "vr_count st = int (length (vq_rows st))"

section \<open>The rows form a linked log\<close>

definition vr_good :: "vreceipt \<Rightarrow> bool" where
  "vr_good r \<longleftrightarrow> text_float (vr_ts r)"

lemma vr_body_inj:
  assumes "vr_good r" and "vr_good s" and "vr_body r = vr_body s" and "vr_sig r = vr_sig s"
  shows "r = s"
proof -
  have "vr_body_json r = vr_body_json s"
    using assms(1-3) by (simp add: vr_body_def vr_good_def dumps_inj vr_body_json_def)
  with assms(4) show ?thesis by (cases r; cases s) (simp add: vr_body_json_def)
qed

lemma length_vr_sign [simp]: "length (vr_sign key b) = 64"
  by (simp add: vr_sign_def)

lemma vr_sign_not_genesis [simp]: "vr_sign key b \<noteq> ''genesis''"
proof
  assume "vr_sign key b = ''genesis''"
  then have "length (vr_sign key b) = length ''genesis''" by simp
  then show False by simp
qed

lemma vr_sign_ascii [simp]: "is_ascii (vr_sign key b)"
  using hex_digit_ascii by (fastforce simp: is_ascii_def vr_sign_def list_all_iff dest: hex_chars)

interpretation vlog: linked_log "\<lambda>r. vr_sign key (vr_body r)" vr_prev vr_sig "''genesis''" vr_body "vr_sign key" vr_good
  for key
  by unfold_locales (auto intro: vr_body_inj)

lemma vr_last_sig_eq: "vr_last_sig rows = vlog.last_seal ''genesis'' rows"
  by (simp add: vr_last_sig_def vlog.last_seal_def)

lemma vr_check_True_iff:
  "vr_check key p rows = Inr (True, h) \<longleftrightarrow> vlog.valid_from key p rows \<and> h = vlog.last_seal p rows"
  by (induction rows arbitrary: p) (auto dest: sym [of "vr_sign _ _"])

lemma verify_chain_True_iff:
  "verify_chain st = Inr (True, h) \<longleftrightarrow>
     vlog.valid_from (vq_key st) ''genesis'' (vq_rows st) \<and> h = vr_last_sig (vq_rows st)"
  by (simp add: verify_chain_def vr_check_True_iff vr_last_sig_eq)

lemma vr_emit_cases:
  "vr_emit kind model actor payload uuid clock st = Inr (i, st') \<Longrightarrow>
     \<exists>r. st' = st\<lparr>vq_rows := vq_rows st @ [r]\<rparr> \<and> vr_id r = i \<and> i = uuid \<and> vr_ts r = clock \<and>
       vr_kind r = kind \<and> vr_model r = model \<and> vr_actor r = actor \<and>
       vr_payload r = dumps compact_ascii (sort_keys (JObj payload)) \<and>
       vr_prev r = vr_last_sig (vq_rows st) \<and> vr_sig r = vr_sign (vq_key st) (vr_body r)"
  by (auto simp: vr_emit_def Let_def vr_body_def vr_body_json_def split: if_splits)

lemma vr_emit_valid:
  assumes "vr_emit kind model actor payload uuid clock st = Inr (i, st')"
    and "vlog.valid_from (vq_key st) ''genesis'' (vq_rows st)"
  shows "vlog.valid_from (vq_key st') ''genesis'' (vq_rows st')"
  using vr_emit_cases [OF assms(1)] assms(2)
  by (auto simp: vlog.valid_from_snoc vr_last_sig_eq)

section \<open>Runs\<close>

record emission =
  em_kind :: string
  em_model :: string
  em_actor :: string
  em_payload :: "(string, json) dict"
  em_uuid :: string
  em_clock :: pyfloat

fun vr_run :: "vault_receipts \<Rightarrow> emission list \<Rightarrow> vault_receipts" where
  "vr_run st [] = st"
| "vr_run st (e # es) =
     (case vr_emit (em_kind e) (em_model e) (em_actor e) (em_payload e) (em_uuid e) (em_clock e) st of
        Inl _ \<Rightarrow> vr_run st es
      | Inr (_, st') \<Rightarrow> vr_run st' es)"

lemma vr_run_valid:
  "vlog.valid_from (vq_key st) ''genesis'' (vq_rows st) \<Longrightarrow>
     vlog.valid_from (vq_key (vr_run st es)) ''genesis'' (vq_rows (vr_run st es))"
proof (induction st es rule: vr_run.induct)
  case (2 st e es)
  then show ?case using vr_emit_valid [OF _ "2.prems"] by (auto split: sum.splits prod.splits)
qed simp

lemma vr_run_distinct:
  "distinct (map vr_id (vq_rows st)) \<Longrightarrow> distinct (map vr_id (vq_rows (vr_run st es)))"
proof (induction st es rule: vr_run.induct)
  case (2 st e es)
  show ?case
  proof (cases "em_uuid e \<in> set (map vr_id (vq_rows st))")
    case True
    with 2 show ?thesis by (simp add: vr_emit_def Let_def)
  next
    case False
    with 2 show ?thesis by (simp add: vr_emit_def Let_def)
  qed
qed simp

lemma vr_run_key [simp]: "vq_key (vr_run st es) = vq_key st"
  by (induction st es rule: vr_run.induct) (auto split: sum.splits dest: vr_emit_cases)

section \<open>Properties\<close>

text \<open>A table filled by \<open>emit\<close> alone always verifies, whatever was emitted: \<open>verify_chain\<close> returns
  true and the signature of the last row, and no identifier occurs twice.\<close>

theorem receipts_emitted_verify:
  assumes "vault_receipts_open key [] = Inr st"
  shows "verify_chain (vr_run st es) = Inr (True, vr_last_sig (vq_rows (vr_run st es))) \<and>
     distinct (map vr_id (vq_rows (vr_run st es)))"
proof -
  have "vq_rows st = []" using assms by (auto simp: vault_receipts_open_def split: if_splits)
  then show ?thesis
    using vr_run_valid [of st es] vr_run_distinct [of st es] by (simp add: verify_chain_True_iff)
qed

definition sample_emission :: emission where
  "sample_emission = \<lparr>em_kind = ''vault.open'', em_model = ''m'', em_actor = ''a'',
     em_payload = [(''n'', JInt 1)], em_uuid = ''u'', em_clock = Fin 5\<rparr>"

theorem receipts_emitted_verify_witness:
  "\<exists>st. vault_receipts_open (replicate 32 1) [] = Inr st \<and> vq_rows (vr_run st [sample_emission]) \<noteq> [] \<and>
     (\<exists>h. verify_chain (vr_run st [sample_emission]) = Inr (True, h))"
proof -
  obtain st where st: "vault_receipts_open (replicate 32 1) [] = Inr st"
    by (simp add: vault_receipts_open_def)
  then have "vq_rows (vr_run st [sample_emission]) \<noteq> []"
    by (auto simp: vault_receipts_open_def sample_emission_def vr_emit_def Let_def)
  with st receipts_emitted_verify [OF st, of "[sample_emission]"] show ?thesis by blast
qed

text \<open>C23: The head of a verified chain commits to the whole table: two tables that verify under one key
  to the same head have the same rows, in content and order, unless HMAC-SHA256 collides on the
  texts of their rows. So editing, deleting, inserting or reordering rows before a known head is
  detected.\<close>

theorem receipts_head_commits:
  assumes "verify_chain st = Inr (True, h)" and "verify_chain st' = Inr (True, h)"
    and "vq_key st' = vq_key st"
    and "inj_on (hmac_sha256 (vq_key st)) ((\<lambda>r. utf8_encode (vr_body r)) ` (set (vq_rows st) \<union> set (vq_rows st')))"
    and "\<forall>r\<in>set (vq_rows st) \<union> set (vq_rows st'). text_float (vr_ts r)"
  shows "vq_rows st' = vq_rows st"
proof (rule vlog.last_seal_determines [of "vq_key st"])
  show "vlog.valid_from (vq_key st) ''genesis'' (vq_rows st')" "vlog.valid_from (vq_key st) ''genesis'' (vq_rows st)"
    "vlog.last_seal ''genesis'' (vq_rows st') = vlog.last_seal ''genesis'' (vq_rows st)"
    using assms(1-3) by (auto simp: verify_chain_True_iff vr_last_sig_eq)
  show "inj_on (vr_sign (vq_key st)) (vr_body ` (set (vq_rows st') \<union> set (vq_rows st)))"
    using assms(4) by (auto simp: inj_on_def vr_sign_def)
qed (use assms(5) in \<open>auto simp: vr_good_def\<close>)

definition one_row :: vault_receipts where
  "one_row = vr_run \<lparr>vq_key = replicate 32 1, vq_rows = []\<rparr> [sample_emission]"

lemma one_row_rows: "\<exists>r. vq_rows one_row = [r] \<and> vr_ts r = Fin 5" "vq_key one_row = replicate 32 1"
  by (simp_all add: one_row_def sample_emission_def vr_emit_def Let_def)

lemma one_row_verifies: "\<exists>h. verify_chain one_row = Inr (True, h)"
  using vr_run_valid [of "\<lparr>vq_key = replicate 32 1, vq_rows = []\<rparr>" "[sample_emission]"]
  by (simp add: one_row_def verify_chain_True_iff del: vr_run.simps)

theorem receipts_head_commits_witness:
  "\<exists>h st'. verify_chain one_row = Inr (True, h) \<and> verify_chain st' = Inr (True, h) \<and> vq_rows st' = vq_rows one_row"
proof -
  obtain h where h: "verify_chain one_row = Inr (True, h)" using one_row_verifies by blast
  moreover have "vq_rows one_row = vq_rows one_row"
    using h h refl by (rule receipts_head_commits) (use one_row_rows in auto)
  ultimately show ?thesis by blast
qed

text \<open>The chain alone does not show that its end was cut off: if a table verifies, so does the table
  of its first \<open>n\<close> rows, with another head. Only a reader who knows the head notices.\<close>

theorem receipts_truncation_verifies:
  assumes "verify_chain st = Inr (True, h)"
  shows "verify_chain (st\<lparr>vq_rows := take n (vq_rows st)\<rparr>) = Inr (True, vr_last_sig (take n (vq_rows st)))"
  using assms by (simp add: verify_chain_True_iff vlog.valid_from_prefix)

theorem receipts_truncation_verifies_witness:
  "verify_chain (one_row\<lparr>vq_rows := []\<rparr>) = Inr (True, ''genesis'')"
proof -
  obtain h where "verify_chain one_row = Inr (True, h)" using one_row_verifies by blast
  from receipts_truncation_verifies [OF this, of 0] show ?thesis by (simp add: vr_last_sig_def)
qed

text \<open>What a reader is to see of an emission.\<close>

definition em_view :: "emission \<Rightarrow> receipt_view" where
  "em_view e = \<lparr>rv_id = em_uuid e, rv_ts = em_clock e, rv_kind = em_kind e, rv_actor = em_actor e,
     rv_payload = sort_keys (JObj (em_payload e))\<rparr>"

definition vr_models :: "vreceipt \<Rightarrow> emission \<Rightarrow> bool" where
  "vr_models r e \<longleftrightarrow> vr_model r = em_model e \<and> vr_id r = em_uuid e \<and> vr_view r = Some (em_view e)"

lemma vr_run_models:
  assumes "distinct (map vr_id (vq_rows st) @ map em_uuid es)"
    and "\<And>e. e \<in> set es \<Longrightarrow> json_ok (JObj (em_payload e))"
  shows "\<exists>rows. vq_rows (vr_run st es) = vq_rows st @ rows \<and> list_all2 vr_models rows es"
  using assms
proof (induction st es rule: vr_run.induct)
  case (2 st e es)
  have fresh: "em_uuid e \<notin> set (map vr_id (vq_rows st))" using "2.prems"(1) by auto
  then obtain st' where st': "vr_emit (em_kind e) (em_model e) (em_actor e) (em_payload e) (em_uuid e) (em_clock e) st = Inr (em_uuid e, st')"
    by (auto simp: vr_emit_def Let_def)
  from vr_emit_cases [OF this] obtain r where r: "vq_rows st' = vq_rows st @ [r]" "vr_id r = em_uuid e"
    "vr_ts r = em_clock e" "vr_kind r = em_kind e" "vr_model r = em_model e" "vr_actor r = em_actor e"
    "vr_payload r = dumps compact_ascii (sort_keys (JObj (em_payload e)))"
    by auto
  have "loads (vr_payload r) = Some (sort_keys (JObj (em_payload e)))"
    using "2.prems"(2) [of e] by (simp add: r(7) loads_dumps del: sort_keys.simps json_ok.simps)
  then have "vr_models r e" by (simp add: vr_models_def vr_view_def em_view_def r del: sort_keys.simps)
  moreover have "\<exists>rows. vq_rows (vr_run st' es) = vq_rows st' @ rows \<and> list_all2 vr_models rows es"
    using st' "2.prems" r by (intro "2.IH"(2) [OF st' refl]) auto
  ultimately show ?case by (auto simp: st' r(1))
qed simp

lemma vr_models_filter:
  "list_all2 vr_models rows es \<Longrightarrow>
     map vr_view (filter (\<lambda>r. vr_model r = m) rows) = map (\<lambda>e. Some (em_view e)) (filter (\<lambda>e. em_model e = m) es)"
  by (induction rows es rule: list_all2_induct) (auto simp: vr_models_def)

text \<open>\<open>for_model\<close> on a table filled by \<open>emit\<close> with fresh identifiers returns the newest receipts of
  that model, newest first, at most 1000 and at least one when there is one, whatever limit is asked
  for, each with its payload as it was given (keys sorted).\<close>

theorem receipts_for_model_newest:
  assumes "vault_receipts_open key [] = Inr st" and "distinct (map em_uuid es)"
    and "\<And>e. e \<in> set es \<Longrightarrow> json_ok (JObj (em_payload e))"
  shows "vr_for_model (vr_run st es) m limit =
     Inr (take (nat (min (max limit 1) 1000)) (rev (map em_view (filter (\<lambda>e. em_model e = m) es))))"
proof -
  have "vq_rows st = []" using assms(1) by (auto simp: vault_receipts_open_def split: if_splits)
  then obtain rows where rows: "vq_rows (vr_run st es) = rows" "list_all2 vr_models rows es"
    using vr_run_models [of st es] assms(2,3) by auto
  have "map vr_view (take n (rev (filter (\<lambda>r. vr_model r = m) rows)))
      = map (\<lambda>e. Some (em_view e)) (take n (rev (filter (\<lambda>e. em_model e = m) es)))" for n
    using vr_models_filter [OF rows(2), of m] by (simp add: take_map [symmetric] rev_map [symmetric])
  then show ?thesis by (simp add: vr_for_model_def rows(1) rev_map take_map)
qed

theorem receipts_for_model_newest_witness:
  "vr_for_model one_row ''m'' (- 4) = Inr [em_view sample_emission]"
  using receipts_for_model_newest [of "replicate 32 1" "\<lparr>vq_key = replicate 32 1, vq_rows = []\<rparr>" "[sample_emission]" "''m''" "- 4"]
  by (simp add: one_row_def vault_receipts_open_def sample_emission_def)

end
