(* ===== verification/Manifest.thy ===== *)
theory Manifest
  imports Access
begin

text \<open>
  The schemas of \<open>vault/manifest.py\<close>: \<open>Shard\<close> and \<open>ModelManifest\<close>, their JSON text and its reader. A
  field whose JSON value has another type than the data class declares is a \<open>TypeError\<close> here; Python
  keeps such a value and fails where it is used.
\<close>

section \<open>Typed fields of a JSON object\<close>

definition field_str :: "(string, json) dict \<Rightarrow> string \<Rightarrow> string result" where
  "field_str d k = (case dict_get d k of Some (JStr s) \<Rightarrow> Inr s | _ \<Rightarrow> Inl TypeError)"

definition field_int :: "(string, json) dict \<Rightarrow> string \<Rightarrow> int result" where
  "field_int d k = (case dict_get d k of Some (JInt i) \<Rightarrow> Inr i | _ \<Rightarrow> Inl TypeError)"

definition known_fields :: "string list \<Rightarrow> (string, json) dict \<Rightarrow> bool" where
  "known_fields ks d \<longleftrightarrow> list_all (\<lambda>kv. fst kv \<in> set ks) d"

section \<open>Shards\<close>

record shard =
  sh_index :: int
  sh_plain_hash :: string
  sh_cipher_hash :: string
  sh_plain_bytes :: int
  sh_cipher_bytes :: int
  sh_nonce :: string

definition shard_fields :: "string list" where
  "shard_fields = [''index'', ''plaintext_hash'', ''ciphertext_hash'', ''plaintext_bytes'',
     ''ciphertext_bytes'', ''nonce_hex'']"

definition shard_to_dict :: "shard \<Rightarrow> (string, json) dict" where
  "shard_to_dict s =
     [(''index'', JInt (sh_index s)), (''plaintext_hash'', JStr (sh_plain_hash s)),
      (''ciphertext_hash'', JStr (sh_cipher_hash s)), (''plaintext_bytes'', JInt (sh_plain_bytes s)),
      (''ciphertext_bytes'', JInt (sh_cipher_bytes s)), (''nonce_hex'', JStr (sh_nonce s))]"

definition shard_of_dict :: "(string, json) dict \<Rightarrow> shard result" where
  "shard_of_dict d =
     (if \<not> known_fields shard_fields d then Inl TypeError
      else bindR (field_int d ''index'') (\<lambda>i.
           bindR (field_str d ''plaintext_hash'') (\<lambda>ph.
           bindR (field_str d ''ciphertext_hash'') (\<lambda>ch.
           bindR (field_int d ''plaintext_bytes'') (\<lambda>pb.
           bindR (field_int d ''ciphertext_bytes'') (\<lambda>cb.
           bindR (field_str d ''nonce_hex'') (\<lambda>n.
             Inr \<lparr>sh_index = i, sh_plain_hash = ph, sh_cipher_hash = ch, sh_plain_bytes = pb,
                  sh_cipher_bytes = cb, sh_nonce = n\<rparr>)))))))"

fun shard_of_json :: "json \<Rightarrow> shard result" where
  "shard_of_json (JObj d) = shard_of_dict d"
| "shard_of_json _ = Inl TypeError"

fun mapR :: "('a \<Rightarrow> 'b result) \<Rightarrow> 'a list \<Rightarrow> 'b list result" where
  "mapR f [] = Inr []"
| "mapR f (x # xs) = bindR (f x) (\<lambda>y. bindR (mapR f xs) (\<lambda>ys. Inr (y # ys)))"

section \<open>Manifests\<close>

record manifest =
  mm_model :: string
  mm_source :: string
  mm_license :: string
  mm_size :: int
  mm_n_shards :: int
  mm_root :: string
  mm_key_id :: string
  mm_shards :: "shard list"
  mm_created :: pyfloat
  mm_metadata :: "(string, json) dict"
  mm_version :: int

definition manifest_fields :: "string list" where
  "manifest_fields = [''model_id'', ''source'', ''license'', ''size_bytes'', ''n_shards'', ''merkle_root'',
     ''key_id'', ''shards'', ''created_at'', ''metadata'', ''format_version'']"

definition manifest_to_dict :: "manifest \<Rightarrow> (string, json) dict" where
  "manifest_to_dict m =
     [(''model_id'', JStr (mm_model m)), (''source'', JStr (mm_source m)), (''license'', JStr (mm_license m)),
      (''size_bytes'', JInt (mm_size m)), (''n_shards'', JInt (mm_n_shards m)),
      (''merkle_root'', JStr (mm_root m)), (''key_id'', JStr (mm_key_id m)),
      (''shards'', JArr (map (\<lambda>s. JObj (shard_to_dict s)) (mm_shards m))),
      (''created_at'', JFloat (mm_created m)), (''metadata'', JObj (mm_metadata m)),
      (''format_version'', JInt (mm_version m))]"

definition manifest_to_json :: "manifest \<Rightarrow> string" where
  "manifest_to_json m = dumps pretty (sort_keys (JObj (manifest_to_dict m))) @ [CHR 10]"

definition manifest_shards :: "(string, json) dict \<Rightarrow> shard list result" where
  "manifest_shards d = (case dict_get d ''shards'' of
       None \<Rightarrow> Inr []
     | Some (JArr vs) \<Rightarrow> mapR shard_of_json vs
     | Some _ \<Rightarrow> Inl TypeError)"

definition manifest_created :: "pyfloat \<Rightarrow> (string, json) dict \<Rightarrow> pyfloat result" where
  "manifest_created clock d = (case dict_get d ''created_at'' of
       None \<Rightarrow> Inr clock
     | Some (JFloat t) \<Rightarrow> Inr t
     | Some (JInt i) \<Rightarrow> Inr (Fin (of_int i))
     | Some _ \<Rightarrow> Inl TypeError)"

definition manifest_metadata :: "(string, json) dict \<Rightarrow> (string, json) dict result" where
  "manifest_metadata d = (case dict_get d ''metadata'' of
       None \<Rightarrow> Inr []
     | Some (JObj kvs) \<Rightarrow> Inr kvs
     | Some _ \<Rightarrow> Inl TypeError)"

definition manifest_format :: "(string, json) dict \<Rightarrow> int result" where
  "manifest_format d = (case dict_get d ''format_version'' of
       None \<Rightarrow> Inr 1
     | Some (JInt i) \<Rightarrow> Inr i
     | Some _ \<Rightarrow> Inl TypeError)"

definition manifest_of_dict :: "pyfloat \<Rightarrow> (string, json) dict \<Rightarrow> manifest result" where
  "manifest_of_dict clock d =
     bindR (manifest_shards d) (\<lambda>shards.
       if \<not> known_fields manifest_fields d then Inl TypeError
       else bindR (field_str d ''model_id'') (\<lambda>model.
            bindR (field_str d ''source'') (\<lambda>source.
            bindR (field_str d ''license'') (\<lambda>lic.
            bindR (field_int d ''size_bytes'') (\<lambda>size.
            bindR (field_int d ''n_shards'') (\<lambda>n.
            bindR (field_str d ''merkle_root'') (\<lambda>mroot.
            bindR (field_str d ''key_id'') (\<lambda>key.
            bindR (manifest_created clock d) (\<lambda>created.
            bindR (manifest_metadata d) (\<lambda>meta.
            bindR (manifest_format d) (\<lambda>version.
              Inr \<lparr>mm_model = model, mm_source = source, mm_license = lic, mm_size = size,
                   mm_n_shards = n, mm_root = mroot, mm_key_id = key, mm_shards = shards,
                   mm_created = created, mm_metadata = meta, mm_version = version\<rparr>)))))))))))"

definition manifest_from_json :: "pyfloat \<Rightarrow> string \<Rightarrow> manifest result" where
  "manifest_from_json clock text =
     (case loads text of
        None \<Rightarrow> Inl (ValueError ''JSONDecodeError'')
      | Some (JObj d) \<Rightarrow> manifest_of_dict clock d
      | Some _ \<Rightarrow> Inl AttributeError)"

section \<open>Round trip\<close>

text \<open>The fields are read back by key, so it does not matter that the text lists them sorted.\<close>

definition sorted_dict :: "(string, json) dict \<Rightarrow> (string, json) dict" where
  "sorted_dict d = sort_key fst (map (\<lambda>(k, v). (k, sort_keys v)) d)"

lemma sort_keys_JObj: "sort_keys (JObj d) = JObj (sorted_dict d)"
  by (simp add: sorted_dict_def)

lemma sorted_dict_get:
  "dict_ok d \<Longrightarrow> dict_get (sorted_dict d) k = map_option sort_keys (dict_get d k)"
  using obj_get_sort_keys [of d k] by (simp add: sort_keys_JObj del: sort_keys.simps)

lemma known_fields_sorted [simp]: "known_fields ks (sorted_dict d) = known_fields ks d"
  by (auto simp: known_fields_def sorted_dict_def list_all_iff split_beta)

lemma mapR_eq: "(\<And>x. x \<in> set xs \<Longrightarrow> f x = Inr (g x)) \<Longrightarrow> mapR f xs = Inr (map g xs)"
  by (induction xs) auto

lemma length_mapR: "mapR f xs = Inr ys \<Longrightarrow> length ys = length xs"
  by (induction xs arbitrary: ys) (auto simp: bindR_Inr_iff)

lemma shard_dict_ok [simp]: "dict_ok (shard_to_dict s)" "known_fields shard_fields (shard_to_dict s)"
  by (simp_all add: shard_to_dict_def known_fields_def shard_fields_def)

lemma shard_dict_get:
  "dict_get (shard_to_dict s) ''index'' = Some (JInt (sh_index s))"
  "dict_get (shard_to_dict s) ''plaintext_hash'' = Some (JStr (sh_plain_hash s))"
  "dict_get (shard_to_dict s) ''ciphertext_hash'' = Some (JStr (sh_cipher_hash s))"
  "dict_get (shard_to_dict s) ''plaintext_bytes'' = Some (JInt (sh_plain_bytes s))"
  "dict_get (shard_to_dict s) ''ciphertext_bytes'' = Some (JInt (sh_cipher_bytes s))"
  "dict_get (shard_to_dict s) ''nonce_hex'' = Some (JStr (sh_nonce s))"
  by (simp_all add: shard_to_dict_def dict_get_def)

lemma shard_roundtrip: "shard_of_json (sort_keys (JObj (shard_to_dict s))) = Inr s"
  unfolding sort_keys_JObj shard_of_json.simps shard_of_dict_def known_fields_sorted
  by (simp add: field_str_def field_int_def sorted_dict_get shard_dict_get)

definition manifest_ok :: "manifest \<Rightarrow> bool" where
  "manifest_ok m \<longleftrightarrow> text_float (mm_created m) \<and> json_ok (JObj (mm_metadata m))"

text \<open>Reading gives the metadata with its keys sorted, an equal \<open>dict\<close> in Python.\<close>

definition manifest_norm :: "manifest \<Rightarrow> manifest" where
  "manifest_norm m = m\<lparr>mm_metadata := sorted_dict (mm_metadata m)\<rparr>"

lemma manifest_norm_simps [simp]:
  "mm_model (manifest_norm m) = mm_model m" "mm_shards (manifest_norm m) = mm_shards m"
  "mm_root (manifest_norm m) = mm_root m" "mm_n_shards (manifest_norm m) = mm_n_shards m"
  "mm_key_id (manifest_norm m) = mm_key_id m" "mm_size (manifest_norm m) = mm_size m"
  by (simp_all add: manifest_norm_def)

lemma json_ok_shard: "json_ok (JObj (shard_to_dict s))"
  by (simp add: shard_to_dict_def)

lemma json_ok_manifest:
  "manifest_ok m \<Longrightarrow> json_ok (JObj (manifest_to_dict m))"
  using json_ok_shard by (auto simp: manifest_ok_def manifest_to_dict_def list_all_iff comp_def)

lemma manifest_dict_ok [simp]:
  "dict_ok (manifest_to_dict m)" "known_fields manifest_fields (manifest_to_dict m)"
  by (simp_all add: manifest_to_dict_def known_fields_def manifest_fields_def)

lemma manifest_dict_get:
  "dict_get (manifest_to_dict m) ''model_id'' = Some (JStr (mm_model m))"
  "dict_get (manifest_to_dict m) ''source'' = Some (JStr (mm_source m))"
  "dict_get (manifest_to_dict m) ''license'' = Some (JStr (mm_license m))"
  "dict_get (manifest_to_dict m) ''size_bytes'' = Some (JInt (mm_size m))"
  "dict_get (manifest_to_dict m) ''n_shards'' = Some (JInt (mm_n_shards m))"
  "dict_get (manifest_to_dict m) ''merkle_root'' = Some (JStr (mm_root m))"
  "dict_get (manifest_to_dict m) ''key_id'' = Some (JStr (mm_key_id m))"
  "dict_get (manifest_to_dict m) ''shards'' = Some (JArr (map (\<lambda>s. JObj (shard_to_dict s)) (mm_shards m)))"
  "dict_get (manifest_to_dict m) ''created_at'' = Some (JFloat (mm_created m))"
  "dict_get (manifest_to_dict m) ''metadata'' = Some (JObj (mm_metadata m))"
  "dict_get (manifest_to_dict m) ''format_version'' = Some (JInt (mm_version m))"
  by (simp_all add: manifest_to_dict_def dict_get_def)

lemma shards_read_back: "mapR shard_of_json (map (\<lambda>s. sort_keys (JObj (shard_to_dict s))) ss) = Inr ss"
  by (induction ss) (simp_all add: shard_roundtrip del: sort_keys.simps shard_of_json.simps)

section \<open>Properties\<close>

lemma manifest_read_back:
  assumes "manifest_ok m"
  shows "manifest_from_json clock (manifest_to_json m) = Inr (manifest_norm m)"
proof -
  let ?d = "sorted_dict (manifest_to_dict m)"
  have "loads (manifest_to_json m) = Some (sort_keys (JObj (manifest_to_dict m)))"
    unfolding manifest_to_json_def using json_ok_manifest [OF assms]
    by (intro loads_dumps_ws) (simp_all add: is_ws_def code_def del: sort_keys.simps json_ok.simps)
  moreover have "manifest_shards ?d = Inr (mm_shards m)"
    by (simp add: manifest_shards_def sorted_dict_get manifest_dict_get comp_def shards_read_back
        del: sort_keys.simps(2))
  ultimately show ?thesis
    by (simp add: manifest_from_json_def sort_keys_JObj manifest_of_dict_def field_str_def field_int_def
        manifest_created_def manifest_metadata_def manifest_format_def sorted_dict_get manifest_dict_get
        del: sort_keys.simps(2))
      (simp add: manifest_norm_def)
qed

text \<open>A manifest survives being written and read: \<open>from_json(to_json(m))\<close> is \<open>m\<close>, for every manifest
  whose creation time and metadata have a JSON text.\<close>

theorem manifest_json_roundtrip:
  assumes "manifest_ok m"
  shows "manifest_from_json clock (manifest_to_json m) = Inr (manifest_norm m)"
  using assms by (rule manifest_read_back)

definition sample_manifest :: manifest where
  "sample_manifest = \<lparr>mm_model = ''m'', mm_source = ''s'', mm_license = ''mit'', mm_size = 3, mm_n_shards = 1,
     mm_root = ''00'', mm_key_id = ''k'', mm_shards = [\<lparr>sh_index = 0, sh_plain_hash = ''a'', sh_cipher_hash = ''b'',
       sh_plain_bytes = 3, sh_cipher_bytes = 31, sh_nonce = ''c''\<rparr>], mm_created = Fin 9,
     mm_metadata = [(''z'', JInt 1), (''a'', JNull)], mm_version = 1\<rparr>"

theorem manifest_json_roundtrip_witness:
  "manifest_from_json (Fin 5) (manifest_to_json sample_manifest) = Inr (manifest_norm sample_manifest)"
  by (rule manifest_json_roundtrip) (simp add: manifest_ok_def sample_manifest_def)

end
