(* ===== verification/Vault_Store.thy ===== *)
theory Vault_Store
  imports Manifest File_System
begin

text \<open>
  The encrypted shard store of \<open>vault/store.py\<close>. The files below the vault's root are a dictionary
  from relative paths to contents. AES-GCM, scrypt and HKDF are parameters; the random values Python
  draws (the data key, a nonce per shard and one for the wrapped key, the key identifier, the names of
  temporary files) and the environment are the fields of \<open>vault_env\<close>. Writes succeed here; what a
  failing or interrupted write leaves is proved for \<open>atomic_put\<close> in theory File_System.
\<close>

section \<open>Environment and paths\<close>

record vault_env =
  ve_pass :: "string option"
  ve_aead :: aead
  ve_kdf :: kdf
  ve_data_key :: bytes
  ve_nonce :: "nat \<Rightarrow> bytes"
  ve_key_nonce :: bytes
  ve_uuid :: string
  ve_salt :: bytes
  ve_clock :: pyfloat
  ve_tmp :: "path \<Rightarrow> path"

definition config_path :: path where
  "config_path = ''vault.json''"

definition manifest_path :: "string \<Rightarrow> path" where
  "manifest_path model = ''manifests/'' @ sha_hex (utf8_encode model) @ ''.json''"

definition shard_path :: "string \<Rightarrow> path" where
  "shard_path h = ''shards/'' @ take 2 h @ ''/'' @ take 2 (drop 2 h) @ ''/'' @ h @ ''.bin''"

definition key_path :: "string \<Rightarrow> path" where
  "key_path k = ''keys/'' @ k @ ''.bin''"

definition shard_aad :: "string \<Rightarrow> int \<Rightarrow> string \<Rightarrow> bytes" where
  "shard_aad model i ph =
     canonical (JObj [(''model_id'', JStr model), (''index'', JInt i), (''plaintext_hash'', JStr ph)])"

definition vault_put :: "vault_env \<Rightarrow> path \<Rightarrow> bytes \<Rightarrow> files \<Rightarrow> files" where
  "vault_put E p v fs = atomic_put_ok (ve_tmp E p) p v fs"

section \<open>Configuration and keys\<close>

text \<open>Python's \<open>==\<close> with an integer: \<open>True\<close> and \<open>1.0\<close> are equal to 1.\<close>

fun json_eq_int :: "json \<Rightarrow> int \<Rightarrow> bool" where
  "json_eq_int (JInt i) n = (i = n)"
| "json_eq_int (JBool b) n = ((if b then 1 else 0) = n)"
| "json_eq_int (JFloat (Fin r)) n = (r = of_int n)"
| "json_eq_int _ n = False"

definition read_json :: "files \<Rightarrow> path \<Rightarrow> json result" where
  "read_json fs p = (case dict_get fs p of
       None \<Rightarrow> Inl FileNotFoundError
     | Some bs \<Rightarrow> (case utf8_decode bs of
           None \<Rightarrow> Inl (ValueError ''UnicodeDecodeError'')
         | Some t \<Rightarrow> (case loads t of None \<Rightarrow> Inl (ValueError ''JSONDecodeError'') | Some v \<Rightarrow> Inr v)))"

definition config_salt :: "json \<Rightarrow> bytes result" where
  "config_salt v = (case v of
       JObj d \<Rightarrow> (case dict_get d ''kdf_salt'' of
           None \<Rightarrow> Inl KeyError
         | Some (JStr s) \<Rightarrow> (case from_hex s of
               None \<Rightarrow> Inl (ValueError ''fromhex'') | Some salt \<Rightarrow> Inr salt)
         | Some _ \<Rightarrow> Inl TypeError)
     | _ \<Rightarrow> Inl TypeError)"

definition new_config :: "vault_env \<Rightarrow> int \<Rightarrow> json" where
  "new_config E shard_size = JObj
     [(''format_version'', JInt 1), (''vault_id'', JStr (ve_uuid E)),
      (''kdf'', JStr ''scrypt-n32768-r8-p1''), (''kdf_salt'', JStr (hex (ve_salt E))),
      (''shard_size'', JInt shard_size)]"

definition ensure_config :: "vault_env \<Rightarrow> int \<Rightarrow> files \<Rightarrow> files result" where
  "ensure_config E shard_size fs =
     (if dict_get fs config_path \<noteq> None then
        bindR (read_json fs config_path) (\<lambda>v.
          (case v of
             JObj d \<Rightarrow>
               if (case dict_get d ''format_version'' of None \<Rightarrow> False | Some x \<Rightarrow> json_eq_int x 1)
               then bindR (config_salt v) (\<lambda>salt.
                      if length salt = 16 then Inr fs
                      else Inl (RuntimeError ''unsupported or corrupt vault configuration''))
               else Inl (RuntimeError ''unsupported or corrupt vault configuration'')
           | _ \<Rightarrow> Inl AttributeError))
      else Inr (vault_put E config_path (utf8_encode (dumps pretty (new_config E shard_size)) @ [10]) fs))"

definition vault_open :: "vault_env \<Rightarrow> int \<Rightarrow> files \<Rightarrow> files result" where
  "vault_open E shard_size fs =
     (if shard_size \<le> 0 then Inl (ValueError ''shard_size must be positive'')
      else ensure_config E shard_size fs)"

definition master_key :: "vault_env \<Rightarrow> files \<Rightarrow> bytes result" where
  "master_key E fs =
     (case ve_pass E of
        None \<Rightarrow> Inl (RuntimeError ''set IZETTA_VAULT_PASSPHRASE'')
      | Some pass \<Rightarrow>
          if pass = [] then Inl (RuntimeError ''set IZETTA_VAULT_PASSPHRASE'')
          else bindR (read_json fs config_path) (\<lambda>v.
               bindR (config_salt v) (\<lambda>salt.
                 Inr (scrypt_derive (ve_kdf E) salt (utf8_encode pass)))))"

definition receipt_info :: bytes where
  "receipt_info = utf8_encode ''decillion-vault-receipts-v1''"

definition receipt_key :: "vault_env \<Rightarrow> files \<Rightarrow> bytes result" where
  "receipt_key E fs = bindR (master_key E fs) (\<lambda>k. Inr (hkdf_derive (ve_kdf E) receipt_info k))"

definition wrap_key :: "vault_env \<Rightarrow> string \<Rightarrow> bytes \<Rightarrow> files \<Rightarrow> files result" where
  "wrap_key E key_id data_key fs =
     bindR (master_key E fs) (\<lambda>mk.
       Inr (vault_put E (key_path key_id)
              (ve_key_nonce E @ aead_encrypt (ve_aead E) mk (ve_key_nonce E) data_key (utf8_encode key_id)) fs))"

definition unwrap_key :: "vault_env \<Rightarrow> string \<Rightarrow> files \<Rightarrow> bytes result" where
  "unwrap_key E key_id fs =
     (case dict_get fs (key_path key_id) of
        None \<Rightarrow> Inl FileNotFoundError
      | Some blob \<Rightarrow>
          if length blob < 29 then Inl (RuntimeError ''wrapped key is truncated'')
          else bindR (master_key E fs) (\<lambda>mk.
               (case aead_decrypt (ve_aead E) mk (take 12 blob) (drop 12 blob) (utf8_encode key_id) of
                  None \<Rightarrow> Inl InvalidTag
                | Some k \<Rightarrow> Inr k)))"

section \<open>Writing a model\<close>

definition write_shard :: "vault_env \<Rightarrow> bytes \<Rightarrow> string \<Rightarrow> files \<Rightarrow> unit result \<times> files" where
  "write_shard E blob h fs =
     (case dict_get fs (shard_path h) of
        Some old \<Rightarrow> if old \<noteq> blob then (Inl (RuntimeError ''ciphertext hash collision''), fs) else (Inr (), fs)
      | None \<Rightarrow> (Inr (), vault_put E (shard_path h) blob fs))"

definition seal_shard :: "vault_env \<Rightarrow> string \<Rightarrow> nat \<Rightarrow> bytes \<Rightarrow> bytes \<times> shard" where
  "seal_shard E model i chunk =
     (let ph = sha_hex chunk;
          nonce = ve_nonce E i;
          blob = nonce @ aead_encrypt (ve_aead E) (ve_data_key E) nonce chunk (shard_aad model (int i) ph)
      in (blob, \<lparr>sh_index = int i, sh_plain_hash = ph, sh_cipher_hash = sha_hex blob,
                 sh_plain_bytes = int (length chunk), sh_cipher_bytes = int (length blob),
                 sh_nonce = hex nonce\<rparr>))"

text \<open>The loop over the chunks that \<open>handle.read(shard_size)\<close> returns, from index \<open>i\<close> on.\<close>

fun store_shards :: "vault_env \<Rightarrow> string \<Rightarrow> nat \<Rightarrow> bytes list \<Rightarrow> files \<Rightarrow> shard list result \<times> files" where
  "store_shards E model i [] fs = (Inr [], fs)"
| "store_shards E model i (chunk # rest) fs =
     (let (blob, sh) = seal_shard E model i chunk in
      (case write_shard E blob (sh_cipher_hash sh) fs of
         (Inl e, fs1) \<Rightarrow> (Inl e, fs1)
       | (Inr _, fs1) \<Rightarrow>
           (case store_shards E model (Suc i) rest fs1 of
              (Inl e, fs2) \<Rightarrow> (Inl e, fs2)
            | (Inr shs, fs2) \<Rightarrow> (Inr (sh # shs), fs2))))"

definition hash_bytes :: "string \<Rightarrow> bytes" where
  "hash_bytes h = (case from_hex h of None \<Rightarrow> [] | Some bs \<Rightarrow> bs)"

text \<open>A file given to the vault: the suffix of its name, whether it is a regular file and not a
  symbolic link, and its contents.\<close>

record weight_file =
  wf_suffix :: string
  wf_regular :: bool
  wf_bytes :: bytes

definition lower :: "string \<Rightarrow> string" where
  "lower s = map (\<lambda>c. if 65 \<le> code c \<and> code c \<le> 90 then chr (code c + 32) else c) s"

definition allowed_suffixes :: "string list" where
  "allowed_suffixes = [''.bin'', ''.pt'', ''.safetensors'']"

definition add_file ::
    "vault_env \<Rightarrow> int \<Rightarrow> weight_file \<Rightarrow> string \<Rightarrow> string \<Rightarrow> string \<Rightarrow> (string, json) dict \<Rightarrow> files \<Rightarrow>
     manifest result \<times> files" where
  "add_file E shard_size f model source lic metadata fs =
     (if lower (wf_suffix f) \<notin> set allowed_suffixes
        then (Inl (ValueError ''weight file must end in .safetensors, .pt, or .bin''), fs)
      else if \<not> wf_regular f then (Inl (ValueError ''weight file must be a regular, non-symlink file''), fs)
      else if model = [] \<or> 512 < length model
        then (Inl (ValueError ''model_id is required and must be at most 512 characters''), fs)
      else if dict_get fs (manifest_path model) \<noteq> None
        then (Inl (FileExistsError (''model already exists: '' @ model)), fs)
      else (case store_shards E model 0 (chunks (nat shard_size) (wf_bytes f)) fs of
          (Inl e, fs1) \<Rightarrow> (Inl e, fs1)
        | (Inr shards, fs1) \<Rightarrow>
            if shards = [] then (Inl (ValueError ''weight file is empty''), fs1)
            else let key_id = ''k_'' @ ve_uuid E;
                     m = \<lparr>mm_model = model, mm_source = source, mm_license = lic,
                          mm_size = int (length (wf_bytes f)), mm_n_shards = int (length shards),
                          mm_root = hex (merkle_root (map (\<lambda>s. hash_bytes (sh_cipher_hash s)) shards)),
                          mm_key_id = key_id, mm_shards = shards, mm_created = ve_clock E,
                          mm_metadata = dict_set ''file_sha256'' (JStr (sha_hex (wf_bytes f))) metadata,
                          mm_version = 1\<rparr>
                 in (case wrap_key E key_id (ve_data_key E) fs1 of
                       Inl e \<Rightarrow> (Inl e, fs1)
                     | Inr fs2 \<Rightarrow> (Inr m, vault_put E (manifest_path model) (utf8_encode (manifest_to_json m)) fs2))))"

section \<open>Reading a model\<close>

definition decrypt_shard :: "vault_env \<Rightarrow> manifest \<Rightarrow> shard \<Rightarrow> bytes \<Rightarrow> files \<Rightarrow> bytes result" where
  "decrypt_shard E m s key fs =
     (case dict_get fs (shard_path (sh_cipher_hash s)) of
        None \<Rightarrow> Inl FileNotFoundError
      | Some blob \<Rightarrow>
          if sha_hex blob \<noteq> sh_cipher_hash s \<or> int (length blob) \<noteq> sh_cipher_bytes s
            then Inl (RuntimeError (''shard '' @ int_str (sh_index s) @ '' ciphertext integrity failure''))
          else if hex (take 12 blob) \<noteq> sh_nonce s
            then Inl (RuntimeError (''shard '' @ int_str (sh_index s) @ '' nonce mismatch''))
          else (case aead_decrypt (ve_aead E) key (take 12 blob) (drop 12 blob)
                       (shard_aad (mm_model m) (sh_index s) (sh_plain_hash s)) of
                  None \<Rightarrow> Inl InvalidTag
                | Some plain \<Rightarrow>
                    if sha_hex plain \<noteq> sh_plain_hash s \<or> int (length plain) \<noteq> sh_plain_bytes s
                      then Inl (RuntimeError (''shard '' @ int_str (sh_index s) @ '' plaintext integrity failure''))
                    else Inr plain))"

text \<open>
  A generator: the chunks it yields before it ends, and the exception that ends it, if one does.
\<close>

fun stream_shards :: "vault_env \<Rightarrow> manifest \<Rightarrow> shard list \<Rightarrow> bytes \<Rightarrow> files \<Rightarrow> bytes list \<times> pyexn option" where
  "stream_shards E m [] key fs = ([], None)"
| "stream_shards E m (s # ss) key fs =
     (case decrypt_shard E m s key fs of
        Inl e \<Rightarrow> ([], Some e)
      | Inr chunk \<Rightarrow> (let (rest, e) = stream_shards E m ss key fs in (chunk # rest, e)))"

definition stream_plaintext :: "vault_env \<Rightarrow> manifest \<Rightarrow> files \<Rightarrow> bytes list \<times> pyexn option" where
  "stream_plaintext E m fs =
     (case unwrap_key E (mm_key_id m) fs of
        Inl e \<Rightarrow> ([], Some e)
      | Inr key \<Rightarrow> stream_shards E m (sort_key sh_index (mm_shards m)) key fs)"

definition read_shard_plaintext :: "vault_env \<Rightarrow> manifest \<Rightarrow> int \<Rightarrow> files \<Rightarrow> bytes result" where
  "read_shard_plaintext E m i fs =
     (if \<not> (0 \<le> i \<and> i < mm_n_shards m) then Inl (IndexError i)
      else (case find (\<lambda>s. sh_index s = i) (mm_shards m) of
              None \<Rightarrow> Inl (IndexError i)
            | Some s \<Rightarrow> bindR (unwrap_key E (mm_key_id m) fs) (\<lambda>key. decrypt_shard E m s key fs)))"

definition load_manifest :: "vault_env \<Rightarrow> path \<Rightarrow> files \<Rightarrow> manifest result" where
  "load_manifest E p fs =
     (case dict_get fs p of
        None \<Rightarrow> Inl FileNotFoundError
      | Some bs \<Rightarrow> (case utf8_decode bs of
            None \<Rightarrow> Inl (ValueError ''UnicodeDecodeError'')
          | Some text \<Rightarrow> manifest_from_json (ve_clock E) text))"

definition get_manifest :: "vault_env \<Rightarrow> string \<Rightarrow> files \<Rightarrow> manifest option result" where
  "get_manifest E model fs =
     (if dict_get fs (manifest_path model) = None then Inr None
      else bindR (load_manifest E (manifest_path model) fs) (\<lambda>m.
             Inr (if mm_model m = model then Some m else None)))"

definition ends_with :: "string \<Rightarrow> string \<Rightarrow> bool" where
  "ends_with s suffix \<longleftrightarrow> starts_with (rev suffix) (rev s)"

definition list_manifests :: "vault_env \<Rightarrow> files \<Rightarrow> manifest list result" where
  "list_manifests E fs =
     mapR (\<lambda>p. load_manifest E p fs)
       (sort (filter (\<lambda>p. starts_with ''manifests/'' p \<and> ends_with p ''.json'') (map fst fs)))"

section \<open>Verification and statistics\<close>

definition shard_errors :: "shard \<Rightarrow> files \<Rightarrow> string list \<times> bytes list" where
  "shard_errors s fs =
     (let name = ''shard '' @ int_str (sh_index s) in
      (case dict_get fs (shard_path (sh_cipher_hash s)) of
         None \<Rightarrow> ([name @ '': missing''], [])
       | Some blob \<Rightarrow>
           ((if sha_hex blob \<noteq> sh_cipher_hash s then [name @ '': ciphertext hash mismatch''] else []) @
            (if int (length blob) \<noteq> sh_cipher_bytes s then [name @ '': size mismatch''] else []) @
            (if length blob < 12 \<or> hex (take 12 blob) \<noteq> sh_nonce s then [name @ '': nonce mismatch''] else []),
            if sha_hex blob \<noteq> sh_cipher_hash s then [] else [sha256 blob])))"

definition vault_verify :: "manifest \<Rightarrow> files \<Rightarrow> bool \<times> string list" where
  "vault_verify m fs =
     (let shards = sort_key sh_index (mm_shards m);
          order = (if map sh_index shards \<noteq> [0..mm_n_shards m - 1]
                   then [''shard indexes are not contiguous''] else []);
          found = map (\<lambda>s. shard_errors s fs) shards;
          computed = hex (merkle_root (concat (map snd found)));
          errors = order @ concat (map fst found) @
            (if computed \<noteq> mm_root m
             then [''merkle root mismatch: '' @ computed @ '' != '' @ mm_root m] else [])
      in (errors = [], errors))"

record vault_stats =
  st_models :: int
  st_plaintext :: int
  st_shards :: int
  st_unique :: int
  st_reuse :: int

definition stats :: "vault_env \<Rightarrow> files \<Rightarrow> vault_stats result" where
  "stats E fs =
     bindR (list_manifests E fs) (\<lambda>ms.
       let unique = int (length (filter (\<lambda>p. starts_with ''shards/'' p \<and> ends_with p ''.bin'') (map fst fs)));
           total = sum_list (map mm_n_shards ms)
       in Inr \<lparr>st_models = int (length ms), st_plaintext = sum_list (map mm_size ms),
               st_shards = total, st_unique = unique, st_reuse = max 0 (total - unique)\<rparr>)"

end
