(* ===== verification/Vault_Proofs.thy ===== *)
theory Vault_Proofs
  imports Vault_Store
begin

text \<open>
  What the shard store promises: a model that was added is listed, verifies and streams back byte for
  byte; nothing else in the vault changes; and whatever happens to the files afterwards, what a stream
  yields is what was added.
\<close>

section \<open>Paths and single writes\<close>

definition vault_path :: "path \<Rightarrow> bool" where
  "vault_path q \<longleftrightarrow> q = config_path \<or> (\<exists>x. q = shard_path x \<or> q = manifest_path x \<or> q = key_path x)"

text \<open>What the random values and the parameters are assumed to be.\<close>

definition vault_env_ok :: "vault_env \<Rightarrow> bool" where
  "vault_env_ok E \<longleftrightarrow> aead_correct (ve_aead E) \<and> length (ve_data_key E) = 32 \<and>
     (\<forall>i. length (ve_nonce E i) = 12) \<and> length (ve_key_nonce E) = 12 \<and>
     text_float (ve_clock E) \<and> (\<forall>p q. vault_path q \<longrightarrow> ve_tmp E p \<noteq> q)"

lemma vault_paths [simp]:
  "vault_path config_path" "vault_path (shard_path h)" "vault_path (manifest_path m)" "vault_path (key_path k)"
  by (auto simp: vault_path_def)

lemma path_kinds [simp]:
  "shard_path h \<noteq> manifest_path m" "shard_path h \<noteq> key_path k" "manifest_path m \<noteq> key_path k"
  "manifest_path m \<noteq> shard_path h" "key_path k \<noteq> shard_path h" "key_path k \<noteq> manifest_path m"
  "config_path \<noteq> shard_path h" "config_path \<noteq> manifest_path m" "config_path \<noteq> key_path k"
  "shard_path h \<noteq> config_path" "manifest_path m \<noteq> config_path" "key_path k \<noteq> config_path"
  by (simp_all add: config_path_def shard_path_def manifest_path_def key_path_def)

lemma shard_path_inj:
  "length h = 64 \<Longrightarrow> length h' = 64 \<Longrightarrow> shard_path h = shard_path h' \<longleftrightarrow> h = h'"
  by (auto simp: shard_path_def)

lemma vault_put_get:
  assumes "vault_env_ok E" and "vault_path p" and "vault_path q"
  shows "dict_get (vault_put E p v fs) q = (if q = p then Some v else dict_get fs q)"
  using assms by (auto simp: vault_put_def vault_env_ok_def atomic_put_ok_get)

lemma key_path_inj [simp]: "key_path a = key_path b \<longleftrightarrow> a = b"
  by (simp add: key_path_def)

lemma master_key_cong:
  "dict_get fs config_path = dict_get fs' config_path \<Longrightarrow> master_key E fs = master_key E fs'"
  by (simp add: master_key_def read_json_def split: option.splits)

section \<open>The shard loop\<close>

definition sealed :: "vault_env \<Rightarrow> string \<Rightarrow> nat \<Rightarrow> bytes list \<Rightarrow> (bytes \<times> shard) list" where
  "sealed E model i cs = map (\<lambda>(j, c). seal_shard E model j c) (enumerate i cs)"

lemma sealed_simps [simp]:
  "sealed E model i [] = []"
  "sealed E model i (c # cs) = seal_shard E model i c # sealed E model (Suc i) cs"
  by (simp_all add: sealed_def)

lemma length_sealed [simp]: "length (sealed E model i cs) = length cs"
  by (simp add: sealed_def)

lemma sealed_Nil_iff [simp]: "sealed E model i cs = [] \<longleftrightarrow> cs = []"
  by (cases cs) simp_all

lemma seal_shard_fields:
  "sh_cipher_hash (snd (seal_shard E model i c)) = sha_hex (fst (seal_shard E model i c))"
  "sh_index (snd (seal_shard E model i c)) = int i"
  "sh_plain_hash (snd (seal_shard E model i c)) = sha_hex c"
  by (simp_all add: seal_shard_def Let_def)

lemma sealed_hash: "(b, s) \<in> set (sealed E model i cs) \<Longrightarrow> sh_cipher_hash s = sha_hex b"
  by (induction cs arbitrary: i) (auto simp: seal_shard_fields dest: arg_cong [of _ _ snd] arg_cong [of _ _ fst]
      simp: seal_shard_def Let_def)

lemma sealed_indices: "map (\<lambda>x. sh_index (snd x)) (sealed E model i cs) = map int [i..<i + length cs]"
  by (induction cs arbitrary: i) (simp_all add: seal_shard_fields upt_conv_Cons del: upt_Suc)

lemma write_shard_get:
  assumes "vault_env_ok E" and "write_shard E blob h fs = (Inr u, fs')" and "vault_path q"
  shows "dict_get fs' q = (if q = shard_path h then Some blob else dict_get fs q)"
  using assms by (auto simp: write_shard_def vault_put_get split: option.splits if_splits)

lemma write_shard_keeps:
  assumes "vault_env_ok E" and "write_shard E blob h fs = (r, fs')" and "vault_path q"
    and "dict_get fs q = Some b"
  shows "dict_get fs' q = Some b"
  using assms by (auto simp: write_shard_def vault_put_get split: option.splits if_splits)

lemma write_shard_other:
  assumes "vault_env_ok E" and "write_shard E blob h fs = (r, fs')" and "vault_path q" and "q \<noteq> shard_path h"
  shows "dict_get fs' q = dict_get fs q"
  using assms by (auto simp: write_shard_def vault_put_get split: option.splits if_splits)

lemma store_shards_keeps:
  assumes E: "vault_env_ok E" and q: "vault_path q"
  shows "dict_get fs q = Some b \<Longrightarrow> dict_get (snd (store_shards E model i cs fs)) q = Some b"
proof (induction cs arbitrary: i fs)
  case (Cons chunk rest)
  obtain blob sh where s: "seal_shard E model i chunk = (blob, sh)" by fastforce
  obtain r fs1 where w: "write_shard E blob (sh_cipher_hash sh) fs = (r, fs1)" by fastforce
  have "dict_get fs1 q = Some b" using write_shard_keeps [OF E w q] Cons.prems .
  then show ?case using Cons.IH [of fs1 "Suc i"] s w by (auto split: sum.splits prod.splits)
qed simp

lemma store_shards_other:
  assumes E: "vault_env_ok E" and q: "vault_path q" "\<forall>h. q \<noteq> shard_path h"
  shows "dict_get (snd (store_shards E model i cs fs)) q = dict_get fs q"
proof (induction cs arbitrary: i fs)
  case (Cons chunk rest)
  obtain blob sh where s: "seal_shard E model i chunk = (blob, sh)" by fastforce
  obtain r fs1 where w: "write_shard E blob (sh_cipher_hash sh) fs = (r, fs1)" by fastforce
  have "dict_get fs1 q = dict_get fs q" using write_shard_other [OF E w q(1)] q(2) by simp
  then show ?case using Cons.IH [of "Suc i" fs1] s w by (auto split: sum.splits prod.splits)
qed simp

lemma store_shards_result:
  assumes E: "vault_env_ok E"
  shows "store_shards E model i cs fs = (Inr shs, fs') \<Longrightarrow> shs = map snd (sealed E model i cs) \<and>
     (\<forall>(b, s)\<in>set (sealed E model i cs). dict_get fs' (shard_path (sh_cipher_hash s)) = Some b)"
proof (induction cs arbitrary: i fs shs)
  case (Cons chunk rest)
  obtain blob sh where s: "seal_shard E model i chunk = (blob, sh)" by fastforce
  obtain u fs1 where w: "write_shard E blob (sh_cipher_hash sh) fs = (Inr u, fs1)"
    using Cons.prems s by (auto split: sum.splits prod.splits)
  obtain shs' where r: "store_shards E model (Suc i) rest fs1 = (Inr shs', fs')" "shs = sh # shs'"
    using Cons.prems s w by (auto split: sum.splits prod.splits)
  have "dict_get fs1 (shard_path (sh_cipher_hash sh)) = Some blob"
    using write_shard_get [OF E w] by simp
  then have "dict_get fs' (shard_path (sh_cipher_hash sh)) = Some blob"
    using store_shards_keeps [OF E, of "shard_path (sh_cipher_hash sh)" fs1 blob model "Suc i" rest] r
    by simp
  then show ?case using Cons.IH [OF r(1)] r s by auto
qed simp

text \<open>The loop succeeds when no stored or new blob has the hash of a different one.\<close>

lemma store_shards_succeeds:
  assumes E: "vault_env_ok E"
  shows "(\<And>b s c. (b, s) \<in> set (sealed E model i cs) \<Longrightarrow> dict_get fs (shard_path (sha_hex b)) = Some c \<Longrightarrow> c = b) \<Longrightarrow>
    no_collision (fst ` set (sealed E model i cs)) \<Longrightarrow> \<exists>shs. fst (store_shards E model i cs fs) = Inr shs"
proof (induction cs arbitrary: i fs)
  case (Cons chunk rest)
  obtain blob sh where s: "seal_shard E model i chunk = (blob, sh)" by fastforce
  have h: "sh_cipher_hash sh = sha_hex blob" using seal_shard_fields(1) [of E model i chunk] s by simp
  have "c = blob" if "dict_get fs (shard_path (sha_hex blob)) = Some c" for c
    using Cons.prems(1) [of blob sh c] that s by simp
  then obtain fs1 where w: "write_shard E blob (sha_hex blob) fs = (Inr (), fs1)"
    by (cases "dict_get fs (shard_path (sha_hex blob))") (auto simp: write_shard_def)
  have "c = b" if b: "(b, t) \<in> set (sealed E model (Suc i) rest)"
    and c: "dict_get fs1 (shard_path (sha_hex b)) = Some c" for b t c
  proof (cases "sha_hex b = sha_hex blob")
    case True
    have "b \<in> fst ` set (sealed E model i (chunk # rest))"
      using b by (auto intro: rev_image_eqI)
    moreover have "blob \<in> fst ` set (sealed E model i (chunk # rest))" by (simp add: s)
    ultimately have "b = blob" using True no_collisionD [OF Cons.prems(2), of b blob] by simp
    then show ?thesis using c write_shard_get [OF E w] by simp
  next
    case False
    then have "dict_get fs (shard_path (sha_hex b)) = Some c"
      using c write_shard_get [OF E w] by (simp add: shard_path_inj del: sha_hex_eq_iff)
    then show ?thesis using Cons.prems(1) [of b t c] b by simp
  qed
  moreover have "no_collision (fst ` set (sealed E model (Suc i) rest))"
    using Cons.prems(2) by (rule no_collision_mono) (auto simp: s)
  ultimately obtain shs where "fst (store_shards E model (Suc i) rest fs1) = Inr shs"
    using Cons.IH [of "Suc i" fs1] by blast
  then show ?case using s w h by (auto split: sum.splits prod.splits)
qed simp

section \<open>A stored model\<close>

lemma take_drop_append_12 [simp]: "length n = 12 \<Longrightarrow> take 12 (n @ c) = n \<and> drop 12 (n @ c) = c"
  by simp

lemma decrypt_sealed:
  assumes "vault_env_ok E" and "seal_shard E model i c = (b, s)" and "mm_model m = model"
    and "dict_get fs (shard_path (sh_cipher_hash s)) = Some b"
  shows "decrypt_shard E m s (ve_data_key E) fs = Inr c"
proof -
  have "length (ve_nonce E i) = 12" and A: "aead_correct (ve_aead E)"
    using assms(1) by (simp_all add: vault_env_ok_def)
  with assms(2-4) show ?thesis
    by (auto simp: seal_shard_def Let_def decrypt_shard_def aead_correctD(1) [OF A])
qed

lemma stream_sealed:
  assumes "vault_env_ok E" and "mm_model m = model"
  shows "\<forall>(b, s)\<in>set (sealed E model i cs). dict_get fs (shard_path (sh_cipher_hash s)) = Some b \<Longrightarrow>
     stream_shards E m (map snd (sealed E model i cs)) (ve_data_key E) fs = (cs, None)"
proof (induction cs arbitrary: i)
  case (Cons c cs)
  obtain b s where s: "seal_shard E model i c = (b, s)" by fastforce
  then have "decrypt_shard E m s (ve_data_key E) fs = Inr c"
    using assms Cons.prems by (intro decrypt_sealed) auto
  then show ?case using Cons s by auto
qed simp

text \<open>What the vault holds of a model whose file was \<open>bs\<close>, in shards of \<open>n\<close> bytes.\<close>

definition model_stored :: "vault_env \<Rightarrow> int \<Rightarrow> bytes \<Rightarrow> manifest \<Rightarrow> files \<Rightarrow> bool" where
  "model_stored E n bs m fs \<longleftrightarrow>
     (let cs = chunks (nat n) bs; sl = sealed E (mm_model m) 0 cs in
      mm_shards m = map snd sl \<and> mm_n_shards m = int (length cs) \<and>
      mm_root m = hex (merkle_root (map (\<lambda>x. sha256 (fst x)) sl)) \<and>
      (\<forall>(b, s)\<in>set sl. dict_get fs (shard_path (sh_cipher_hash s)) = Some b) \<and>
      unwrap_key E (mm_key_id m) fs = Inr (ve_data_key E))"

lemma sorted_sealed [simp]: "sort_key sh_index (map snd (sealed E model i cs)) = map snd (sealed E model i cs)"
proof (rule sort_key_id_if_sorted)
  have "map sh_index (map snd (sealed E model i cs)) = map int [i..<i + length cs]"
    using sealed_indices [of E model i cs] by (simp add: comp_def)
  moreover have "sorted (map int [i..<i + length cs])" by (simp add: sorted_map sorted_wrt_upt sorted_wrt_iff_nth_less)
  ultimately show "sorted (map sh_index (map snd (sealed E model i cs)))" by metis
qed

lemma model_stored_streams:
  assumes "vault_env_ok E" and "model_stored E n bs m fs"
  shows "stream_plaintext E m fs = (chunks (nat n) bs, None)"
  using assms stream_sealed [of E m "mm_model m" 0 "chunks (nat n) bs" fs]
  by (auto simp: model_stored_def Let_def stream_plaintext_def)

lemma find_sealed:
  "j < length cs \<Longrightarrow> find (\<lambda>s. sh_index s = int (i + j)) (map snd (sealed E model i cs)) = Some (snd (sealed E model i cs ! j))"
proof (induction cs arbitrary: i j)
  case (Cons c cs)
  show ?case
  proof (cases j)
    case (Suc k)
    then show ?thesis using Cons.IH [of k "Suc i"] Cons.prems by (simp add: seal_shard_fields)
  qed (simp add: seal_shard_fields)
qed simp

lemma sealed_nth: "j < length cs \<Longrightarrow> sealed E model i cs ! j = seal_shard E model (i + j) (cs ! j)"
  by (simp add: sealed_def nth_enumerate_eq)

lemma model_stored_reads:
  assumes "vault_env_ok E" and "model_stored E n bs m fs" and "0 \<le> i" and "nat i < length (chunks (nat n) bs)"
  shows "read_shard_plaintext E m i fs = Inr (chunks (nat n) bs ! nat i)"
proof -
  let ?cs = "chunks (nat n) bs"
  obtain b s where s: "seal_shard E (mm_model m) (nat i) (?cs ! nat i) = (b, s)" by fastforce
  have el: "sealed E (mm_model m) 0 ?cs ! nat i = (b, s)" using s sealed_nth [OF assms(4), of E "mm_model m" 0] by simp
  then have "(b, s) \<in> set (sealed E (mm_model m) 0 ?cs)" using assms(4) nth_mem by (metis length_sealed)
  then have "dict_get fs (shard_path (sh_cipher_hash s)) = Some b"
    using assms(2) by (auto simp: model_stored_def Let_def)
  then have "decrypt_shard E m s (ve_data_key E) fs = Inr (?cs ! nat i)"
    using s by (intro decrypt_sealed [OF assms(1)]) auto
  moreover have "find (\<lambda>s. sh_index s = i) (mm_shards m) = Some s"
    using find_sealed [OF assms(4), of 0 E "mm_model m"] assms(2,3) el by (simp add: model_stored_def Let_def)
  ultimately show ?thesis
    using assms(2-4) by (auto simp: read_shard_plaintext_def model_stored_def Let_def)
qed

lemma shard_errors_sealed:
  assumes "vault_env_ok E" and "seal_shard E model i c = (b, s)"
    and "dict_get fs (shard_path (sh_cipher_hash s)) = Some b"
  shows "shard_errors s fs = ([], [sha256 b])"
proof -
  have "length (ve_nonce E i) = 12" using assms(1) by (simp add: vault_env_ok_def)
  with assms(2,3) show ?thesis by (auto simp: seal_shard_def Let_def shard_errors_def)
qed

lemma sealed_errors:
  assumes "vault_env_ok E"
    and "\<forall>(b, s)\<in>set (sealed E model i cs). dict_get fs (shard_path (sh_cipher_hash s)) = Some b"
  shows "map (\<lambda>s. shard_errors s fs) (map snd (sealed E model i cs)) =
     map (\<lambda>x. ([], [sha256 (fst x)])) (sealed E model i cs)"
  using assms(2)
proof (induction cs arbitrary: i)
  case (Cons c cs)
  obtain b s where "seal_shard E model i c = (b, s)" by fastforce
  with Cons shard_errors_sealed [OF assms(1) this, of fs] show ?case by auto
qed simp

lemma upto_map_int: "[0..int n - 1] = map int [0..<n]"
  by (rule nth_equalityI) auto

lemma concat_singletons [simp]: "concat (map (\<lambda>x. [f x]) xs) = map f xs"
  by (induction xs) auto

lemma vault_verify_intact:
  assumes "vault_env_ok E" and "model_stored E n bs m fs0"
    and st: "\<forall>(b, s)\<in>set (sealed E (mm_model m) 0 (chunks (nat n) bs)).
      dict_get fs (shard_path (sh_cipher_hash s)) = Some b"
  shows "vault_verify m fs = (True, [])"
proof -
  let ?cs = "chunks (nat n) bs"
  let ?sl = "sealed E (mm_model m) 0 ?cs"
  have m: "mm_shards m = map snd ?sl" "mm_n_shards m = int (length ?cs)"
    "mm_root m = hex (merkle_root (map (\<lambda>x. sha256 (fst x)) ?sl))"
    using assms(2) by (auto simp: model_stored_def Let_def)
  have "map sh_index (map snd ?sl) = [0..mm_n_shards m - 1]"
    using sealed_indices [of E "mm_model m" 0 ?cs] by (simp add: m(2) upto_map_int comp_def)
  note idx = this
  show ?thesis
    unfolding vault_verify_def Let_def m(1) sorted_sealed idx sealed_errors [OF assms(1) st]
    by (simp add: comp_def m(3))
qed

lemma model_stored_verifies:
  "vault_env_ok E \<Longrightarrow> model_stored E n bs m fs \<Longrightarrow> vault_verify m fs = (True, [])"
  by (rule vault_verify_intact) (auto simp: model_stored_def Let_def)

section \<open>Adding a model\<close>

lemma add_file_Inr:
  assumes "add_file E n f model source lic md fs = (Inr m, fs')"
  shows "lower (wf_suffix f) \<in> set allowed_suffixes \<and> wf_regular f \<and> model \<noteq> [] \<and> length model \<le> 512 \<and>
     dict_get fs (manifest_path model) = None \<and>
     (\<exists>shards fs1 fs2. store_shards E model 0 (chunks (nat n) (wf_bytes f)) fs = (Inr shards, fs1) \<and> shards \<noteq> [] \<and>
        wrap_key E (''k_'' @ ve_uuid E) (ve_data_key E) fs1 = Inr fs2 \<and>
        m = \<lparr>mm_model = model, mm_source = source, mm_license = lic,
             mm_size = int (length (wf_bytes f)), mm_n_shards = int (length shards),
             mm_root = hex (merkle_root (map (\<lambda>s. hash_bytes (sh_cipher_hash s)) shards)),
             mm_key_id = ''k_'' @ ve_uuid E, mm_shards = shards, mm_created = ve_clock E,
             mm_metadata = dict_set ''file_sha256'' (JStr (sha_hex (wf_bytes f))) md, mm_version = 1\<rparr> \<and>
        fs' = vault_put E (manifest_path model) (utf8_encode (manifest_to_json m)) fs2)"
  using assms unfolding add_file_def
  by (auto simp: Let_def split: if_splits sum.splits prod.splits)

lemma wrap_key_get:
  assumes "vault_env_ok E" and "wrap_key E k d fs = Inr fs'" and "vault_path q"
  shows "dict_get fs' q = (if q = key_path k then dict_get fs' (key_path k) else dict_get fs q)"
  using assms by (auto simp: wrap_key_def bindR_Inr_iff vault_put_get)

lemma unwrap_wrapped:
  assumes "vault_env_ok E" and "wrap_key E k (ve_data_key E) fs = Inr fs1"
    and "dict_get fs' (key_path k) = dict_get fs1 (key_path k)"
    and "dict_get fs' config_path = dict_get fs config_path"
  shows "unwrap_key E k fs' = Inr (ve_data_key E)"
proof -
  obtain mk where mk: "master_key E fs = Inr mk"
    and fs1: "fs1 = vault_put E (key_path k)
      (ve_key_nonce E @ aead_encrypt (ve_aead E) mk (ve_key_nonce E) (ve_data_key E) (utf8_encode k)) fs"
    using assms(2) by (auto simp: wrap_key_def bindR_Inr_iff)
  have A: "aead_correct (ve_aead E)" "length (ve_key_nonce E) = 12" "length (ve_data_key E) = 32"
    using assms(1) by (simp_all add: vault_env_ok_def)
  have "master_key E fs' = Inr mk" using mk master_key_cong [OF assms(4), of E] by simp
  then show ?thesis
    using A assms(3) by (simp add: unwrap_key_def fs1 vault_put_get [OF assms(1)] aead_correctD [OF A(1)])
qed

lemma hash_bytes_sealed: "map (\<lambda>s. hash_bytes (sh_cipher_hash s)) (map snd (sealed E model i cs)) =
    map (\<lambda>x. sha256 (fst x)) (sealed E model i cs)"
  by (auto simp: hash_bytes_def dest: sealed_hash)

lemma add_file_stored:
  assumes E: "vault_env_ok E" and add: "add_file E n f model source lic md fs = (Inr m, fs')"
  shows "model_stored E n (wf_bytes f) m fs'" and "mm_model m = model"
    and "dict_get fs' (manifest_path model) = Some (utf8_encode (manifest_to_json m))"
    and "json_ok (JObj md) \<Longrightarrow> manifest_ok m"
proof -
  let ?cs = "chunks (nat n) (wf_bytes f)" and ?k = "''k_'' @ ve_uuid E"
  from add_file_Inr [OF add] obtain shards fs1 fs2 where
    st: "store_shards E model 0 ?cs fs = (Inr shards, fs1)" and
    wk: "wrap_key E ?k (ve_data_key E) fs1 = Inr fs2" and
    m: "mm_model m = model" "mm_shards m = shards" "mm_n_shards m = int (length shards)" "mm_key_id m = ?k"
      "mm_root m = hex (merkle_root (map (\<lambda>s. hash_bytes (sh_cipher_hash s)) shards))"
      "mm_created m = ve_clock E" "mm_metadata m = dict_set ''file_sha256'' (JStr (sha_hex (wf_bytes f))) md" and
    fs': "fs' = vault_put E (manifest_path model) (utf8_encode (manifest_to_json m)) fs2"
    by auto
  from store_shards_result [OF E st] have shs: "shards = map snd (sealed E model 0 ?cs)"
    and blobs: "\<forall>(b, s)\<in>set (sealed E model 0 ?cs). dict_get fs1 (shard_path (sh_cipher_hash s)) = Some b"
    by auto
  have keep: "dict_get fs' (shard_path h) = dict_get fs1 (shard_path h)" for h
    using wrap_key_get [OF E wk, of "shard_path h"] by (simp add: fs' vault_put_get [OF E])
  have "dict_get fs' config_path = dict_get fs1 config_path"
    using wrap_key_get [OF E wk, of config_path] by (simp add: fs' vault_put_get [OF E])
  then have "unwrap_key E ?k fs' = Inr (ve_data_key E)"
    by (intro unwrap_wrapped [OF E wk]) (simp_all add: fs' vault_put_get [OF E])
  then show "model_stored E n (wf_bytes f) m fs'"
    using blobs by (auto simp: model_stored_def Let_def m shs keep hash_bytes_sealed [unfolded map_map])
  show "mm_model m = model" by (rule m(1))
  show "dict_get fs' (manifest_path model) = Some (utf8_encode (manifest_to_json m))"
    by (simp add: fs' vault_put_get [OF E])
  show "manifest_ok m" if "json_ok (JObj md)"
    using that E set_dict_set [of "''file_sha256''" "JStr (sha_hex (wf_bytes f))" md]
    by (auto simp: manifest_ok_def m vault_env_ok_def dict.wf_store list_all_iff)
qed

lemma model_stored_norm [simp]: "model_stored E n bs (manifest_norm m) fs = model_stored E n bs m fs"
  by (simp add: model_stored_def)

lemma add_file_found:
  assumes "vault_env_ok E" and "add_file E n f model source lic md fs = (Inr m, fs')" and "json_ok (JObj md)"
  shows "get_manifest E model fs' = Inr (Some (manifest_norm m))"
  using add_file_stored(2-4) [OF assms(1,2)] assms(3)
  by (simp add: get_manifest_def load_manifest_def manifest_read_back)

text \<open>Nothing that was in the vault is overwritten, whatever the outcome, but a wrapped key of the same
  identifier.\<close>

lemma add_file_keeps:
  assumes E: "vault_env_ok E" and q: "vault_path q" "q \<noteq> key_path (''k_'' @ ve_uuid E)"
    and b: "dict_get fs q = Some b"
  shows "dict_get (snd (add_file E n f model source lic md fs)) q = Some b"
proof -
  obtain r fs1 where st: "store_shards E model 0 (chunks (nat n) (wf_bytes f)) fs = (r, fs1)" by fastforce
  then have q1: "dict_get fs1 q = Some b" using store_shards_keeps [OF E q(1) b] by (metis snd_conv)
  have q2: "dict_get fs2 q = Some b" if "wrap_key E (''k_'' @ ve_uuid E) (ve_data_key E) fs1 = Inr fs2" for fs2
    using wrap_key_get [OF E that q(1)] q q1 by simp
  show ?thesis
    using q1 q2 b by (auto simp: add_file_def st Let_def vault_put_get [OF E] q(1) split: sum.splits)
qed

section \<open>A sample vault\<close>

definition sample_env :: vault_env where
  "sample_env = \<lparr>ve_pass = Some ''pw'', ve_aead = sample_aead, ve_kdf = sample_kdf, ve_data_key = replicate 32 5,
     ve_nonce = (\<lambda>i. replicate 12 (of_nat i)), ve_key_nonce = replicate 12 1, ve_uuid = ''u'',
     ve_salt = replicate 16 0, ve_clock = Fin 7, ve_tmp = (\<lambda>p. ''t'')\<rparr>"

lemma sample_env_ok [simp]: "vault_env_ok sample_env"
  by (auto simp: vault_env_ok_def sample_env_def vault_path_def config_path_def shard_path_def
      manifest_path_def key_path_def)

definition sample_vault :: files where
  "sample_vault = (case vault_open sample_env 4 [] of Inl _ \<Rightarrow> [] | Inr fs \<Rightarrow> fs)"

lemma sample_vault_get [simp]:
  "vault_path q \<Longrightarrow> dict_get sample_vault q =
     (if q = config_path then Some (utf8_encode (dumps pretty (new_config sample_env 4)) @ [10]) else None)"
  by (simp add: sample_vault_def vault_open_def ensure_config_def vault_put_get dict_get_def [of "[]"])

lemma new_config_ok [simp]: "json_ok (new_config E n)"
  by (simp add: new_config_def)

lemma read_new_config:
  assumes "dict_get fs config_path = Some (utf8_encode (dumps pretty (new_config E n)) @ [10])"
  shows "read_json fs config_path = Inr (new_config E n)"
  using assms by (simp add: read_json_def utf8_newline loads_dumps_ws is_ws_def code_def)

lemma config_salt_new [simp]: "config_salt (new_config E n) = Inr (ve_salt E)"
  by (simp add: config_salt_def new_config_def dict_get_def)

lemma master_key_new:
  assumes "dict_get fs config_path = Some (utf8_encode (dumps pretty (new_config E0 n)) @ [10])"
    and "ve_pass E = Some pass" and "pass \<noteq> []"
  shows "master_key E fs = Inr (scrypt_derive (ve_kdf E) (ve_salt E0) (utf8_encode pass))"
  using assms by (simp add: master_key_def read_new_config)

lemma add_file_succeeds:
  assumes E: "vault_env_ok E" and n: "0 < n" and "wf_bytes f \<noteq> []" and "wf_regular f"
    and "lower (wf_suffix f) \<in> set allowed_suffixes" and "model \<noteq> []" and "length model \<le> 512"
    and "dict_get fs (manifest_path model) = None" and mk: "master_key E fs = Inr mk"
    and fresh: "\<And>b s c. (b, s) \<in> set (sealed E model 0 (chunks (nat n) (wf_bytes f))) \<Longrightarrow>
      dict_get fs (shard_path (sha_hex b)) = Some c \<Longrightarrow> c = b"
    and nc: "no_collision (fst ` set (sealed E model 0 (chunks (nat n) (wf_bytes f))))"
  shows "\<exists>m fs'. add_file E n f model source lic md fs = (Inr m, fs')"
proof -
  let ?cs = "chunks (nat n) (wf_bytes f)"
  have "\<exists>shs. fst (store_shards E model 0 ?cs fs) = Inr shs"
    by (rule store_shards_succeeds [OF E fresh nc])
  then obtain shs fs1 where st: "store_shards E model 0 ?cs fs = (Inr shs, fs1)"
    by (cases "store_shards E model 0 ?cs fs") auto
  have "?cs \<noteq> []" using n assms(3) by (simp add: chunks_eq_Nil)
  then have "shs \<noteq> []" using store_shards_result [OF E st] by auto
  moreover have "dict_get fs1 config_path = dict_get fs config_path"
    using store_shards_other [OF E, of config_path model 0 ?cs fs] st by simp
  then have "master_key E fs1 = Inr mk" using mk master_key_cong by metis
  ultimately show ?thesis using assms by (simp add: add_file_def st wrap_key_def Let_def)
qed

definition sample_file :: weight_file where
  "sample_file = \<lparr>wf_suffix = ''.bin'', wf_regular = True, wf_bytes = [1, 2, 3]\<rparr>"

lemma sample_add:
  "\<exists>m fs'. add_file sample_env 4 sample_file ''m'' ''s'' ''mit'' [] sample_vault = (Inr m, fs')"
proof (rule add_file_succeeds)
  show "master_key sample_env sample_vault =
      Inr (scrypt_derive (ve_kdf sample_env) (ve_salt sample_env) (utf8_encode ''pw''))"
    by (rule master_key_new) (simp_all add: sample_env_def [THEN arg_cong [where f = ve_pass]])
  have "sealed sample_env ''m'' 0 (chunks (nat 4) (wf_bytes sample_file)) =
      [seal_shard sample_env ''m'' 0 [1, 2, 3]]"
    by (simp add: sample_file_def chunks.simps)
  then show "no_collision (fst ` set (sealed sample_env ''m'' 0 (chunks (nat 4) (wf_bytes sample_file))))"
    by simp
qed (simp_all add: sample_file_def lower_def code_def allowed_suffixes_def)

section \<open>Properties\<close>

text \<open>C2: What was added can be read: after \<open>add_file\<close> returned, \<open>get_manifest\<close> finds the model's
  manifest, \<open>verify\<close> accepts it, \<open>stream_plaintext\<close> yields the file's bytes in chunks of the shard
  size and ends without an exception, and \<open>read_shard_plaintext\<close> returns each of these chunks and
  raises \<open>IndexError\<close> for every other index.\<close>

theorem vault_add_then_read:
  assumes "vault_env_ok E" and "0 < n" and "json_ok (JObj md)"
    and "add_file E n f model source lic md fs = (Inr m, fs')"
  shows "\<exists>m'. get_manifest E model fs' = Inr (Some m') \<and> vault_verify m' fs' = (True, []) \<and>
     stream_plaintext E m' fs' = (chunks (nat n) (wf_bytes f), None) \<and>
     concat (fst (stream_plaintext E m' fs')) = wf_bytes f \<and>
     (\<forall>i. read_shard_plaintext E m' i fs' =
       (if 0 \<le> i \<and> nat i < length (chunks (nat n) (wf_bytes f))
        then Inr (chunks (nat n) (wf_bytes f) ! nat i) else Inl (IndexError i)))"
proof (intro exI conjI allI)
  note st = add_file_stored [OF assms(1,4)]
  let ?m = "manifest_norm m"
  have ms: "model_stored E n (wf_bytes f) ?m fs'" using st(1) by simp
  show "get_manifest E model fs' = Inr (Some ?m)"
    by (rule add_file_found [OF assms(1,4,3)])
  show "vault_verify ?m fs' = (True, [])" using model_stored_verifies [OF assms(1) ms] .
  show s: "stream_plaintext E ?m fs' = (chunks (nat n) (wf_bytes f), None)"
    using model_stored_streams [OF assms(1) ms] .
  show "concat (fst (stream_plaintext E ?m fs')) = wf_bytes f"
    using assms(2) by (simp add: s concat_chunks)
  show "read_shard_plaintext E ?m i fs' =
       (if 0 \<le> i \<and> nat i < length (chunks (nat n) (wf_bytes f))
        then Inr (chunks (nat n) (wf_bytes f) ! nat i) else Inl (IndexError i))" for i
  proof (cases "0 \<le> i \<and> nat i < length (chunks (nat n) (wf_bytes f))")
    case True
    then show ?thesis using model_stored_reads [OF assms(1) ms] by simp
  next
    case False
    then show ?thesis using ms by (auto simp: read_shard_plaintext_def model_stored_def Let_def)
  qed
qed

theorem vault_add_then_read_witness:
  "\<exists>m m' fs'. add_file sample_env 4 sample_file ''m'' ''s'' ''mit'' [] sample_vault = (Inr m, fs') \<and>
     get_manifest sample_env ''m'' fs' = Inr (Some m') \<and> concat (fst (stream_plaintext sample_env m' fs')) = [1, 2, 3]"
proof -
  obtain m fs' where a: "add_file sample_env 4 sample_file ''m'' ''s'' ''mit'' [] sample_vault = (Inr m, fs')"
    using sample_add by blast
  from vault_add_then_read [OF sample_env_ok _ _ a] show ?thesis
    using a by (auto simp: sample_file_def)
qed

end
