(* ===== verification/Vault_Integrity.thy ===== *)
theory Vault_Integrity
  imports Vault_Proofs
begin

text \<open>
  Integrity of the shard store over time: models that are stored stay readable whatever is added later,
  a stream over files that somebody changed never yields other bytes than the ones added, \<open>verify\<close>
  sees every change of a stored shard, and the refusals of \<open>add_file\<close> leave the vault alone.
\<close>

section \<open>Later additions\<close>

lemma read_json_Some: "read_json fs p = Inr v \<Longrightarrow> \<exists>bs. dict_get fs p = Some bs"
  by (auto simp: read_json_def split: option.splits)

lemma unwrap_needs:
  assumes "unwrap_key E k fs = Inr key"
  shows "\<exists>b. dict_get fs (key_path k) = Some b" and "\<exists>c. dict_get fs config_path = Some c"
  using assms
  by (auto simp: unwrap_key_def master_key_def bindR_Inr_iff dest!: read_json_Some
      split: option.splits if_splits)

lemma unwrap_cong:
  assumes "dict_get fs' (key_path k) = dict_get fs (key_path k)"
    and "dict_get fs' config_path = dict_get fs config_path"
  shows "unwrap_key E k fs' = unwrap_key E k fs"
  unfolding unwrap_key_def assms(1) master_key_cong [OF assms(2)] ..

lemma model_stored_mono:
  assumes st: "model_stored E n bs m fs"
    and keep: "\<And>q b. vault_path q \<Longrightarrow> q \<noteq> key_path k' \<Longrightarrow> dict_get fs q = Some b \<Longrightarrow> dict_get fs' q = Some b"
    and k: "mm_key_id m \<noteq> k'"
  shows "model_stored E n bs m fs'"
proof -
  have u: "unwrap_key E (mm_key_id m) fs = Inr (ve_data_key E)"
    using st by (simp add: model_stored_def Let_def)
  obtain b c where b: "dict_get fs (key_path (mm_key_id m)) = Some b" "dict_get fs config_path = Some c"
    using unwrap_needs [OF u] by blast
  have "unwrap_key E (mm_key_id m) fs' = Inr (ve_data_key E)"
    using u unwrap_cong [of fs' "mm_key_id m" fs E] keep [OF _ _ b(1)] keep [OF _ _ b(2)] k b by simp
  with st keep show ?thesis by (fastforce simp: model_stored_def Let_def)
qed

text \<open>Further calls of \<open>add_file\<close>, each with its own random values, clock, file and outcome; the wrapped keys
  they make have other identifiers than \<open>k_u\<close>.\<close>

inductive added_later :: "string \<Rightarrow> files \<Rightarrow> files \<Rightarrow> bool" for u where
  none: "added_later u fs fs"
| more: "added_later u fs fs1 \<Longrightarrow> vault_env_ok E \<Longrightarrow> ve_uuid E \<noteq> u \<Longrightarrow>
     add_file E n f model source lic md fs1 = (r, fs2) \<Longrightarrow> added_later u fs fs2"

lemma added_later_keeps:
  assumes "added_later u fs fs'" and "vault_path q" and "\<And>k. q = key_path k \<Longrightarrow> k = ''k_'' @ u" and "dict_get fs q = Some b"
  shows "dict_get fs' q = Some b"
  using assms(1,4)
proof (induction rule: added_later.induct)
  case (more fs fs1 E n f model source lic md r fs2)
  have "q \<noteq> key_path (''k_'' @ ve_uuid E)" using assms(3) more.hyps(3) by auto
  then show ?case using add_file_keeps [OF more.hyps(2) assms(2), of fs1 b n f model source lic md] more by simp
qed

lemma get_manifest_cong:
  "dict_get fs' (manifest_path model) = dict_get fs (manifest_path model) \<Longrightarrow> get_manifest E model fs' = get_manifest E model fs"
  by (simp add: get_manifest_def load_manifest_def read_json_def)

text \<open>C20: A model that was added stays as it is whatever is added later: after any further calls of
  \<open>add_file\<close>, for this or for other model identifiers, successful or refused, \<open>get_manifest\<close> still answers
  the manifest that the addition wrote, and under it the model verifies and streams its bytes; provided the
  calls draw key identifiers other than the model's own, whose wrapped key they would overwrite, and their
  temporary names are no paths of the vault.\<close>

theorem vault_add_keeps_models:
  assumes "vault_env_ok E" and "json_ok (JObj md)" and "add_file E n f model source lic md fs = (Inr m, fs1)"
    and "added_later (ve_uuid E) fs1 fs2"
  shows "get_manifest E model fs2 = Inr (Some (manifest_norm m)) \<and>
     vault_verify (manifest_norm m) fs2 = (True, []) \<and>
     stream_plaintext E (manifest_norm m) fs2 = (chunks (nat n) (wf_bytes f), None)"
proof -
  note st = add_file_stored [OF assms(1,3)]
  have k: "mm_key_id m = ''k_'' @ ve_uuid E" using assms(3) by (auto dest: add_file_Inr)
  have "dict_get fs2 (manifest_path model) = dict_get fs1 (manifest_path model)"
    using added_later_keeps [OF assms(4), of "manifest_path model"] st(3) by simp
  from get_manifest_cong [OF this, of E] have g: "get_manifest E model fs2 = Inr (Some (manifest_norm m))"
    using add_file_found [OF assms(1,3,2)] by simp
  have "unwrap_key E (mm_key_id m) fs1 = Inr (ve_data_key E)"
    using st(1) by (simp add: model_stored_def Let_def)
  note needs = unwrap_needs [OF this]
  have "unwrap_key E (mm_key_id m) fs2 = unwrap_key E (mm_key_id m) fs1"
    using needs added_later_keeps [OF assms(4), of "key_path (mm_key_id m)"]
      added_later_keeps [OF assms(4), of config_path]
    by (intro unwrap_cong) (auto simp: k)
  then have "model_stored E n (wf_bytes f) m fs2"
    using st(1) added_later_keeps [OF assms(4)] by (fastforce simp: model_stored_def Let_def)
  then have "model_stored E n (wf_bytes f) (manifest_norm m) fs2" by simp
  then show ?thesis using g model_stored_streams model_stored_verifies assms(1) by blast
qed

definition sample_env2 :: vault_env where
  "sample_env2 = sample_env\<lparr>ve_uuid := ''w''\<rparr>"

lemma sample_env2_ok [simp]: "vault_env_ok sample_env2"
  using sample_env_ok by (simp add: sample_env2_def vault_env_ok_def)

theorem vault_add_keeps_models_witness:
  "\<exists>m fs1 r fs2. add_file sample_env 4 sample_file ''m'' ''s'' ''mit'' [] sample_vault = (Inr m, fs1) \<and>
     add_file sample_env2 4 sample_file ''m'' ''t'' ''other'' [] fs1 = (r, fs2) \<and>
     get_manifest sample_env ''m'' fs2 = Inr (Some (manifest_norm m)) \<and>
     fst (stream_plaintext sample_env (manifest_norm m) fs2) = [[1, 2, 3]]"
proof -
  obtain m fs1 where a: "add_file sample_env 4 sample_file ''m'' ''s'' ''mit'' [] sample_vault = (Inr m, fs1)"
    using sample_add by blast
  obtain r fs2 where r: "add_file sample_env2 4 sample_file ''m'' ''t'' ''other'' [] fs1 = (r, fs2)" by fastforce
  have "ve_uuid sample_env2 \<noteq> ve_uuid sample_env" by (simp add: sample_env2_def sample_env_def)
  from added_later.more [OF added_later.none sample_env2_ok this r]
  have "added_later (ve_uuid sample_env) fs1 fs2" .
  from vault_add_keeps_models [OF sample_env_ok _ a this] a r show ?thesis
    by (auto simp: sample_file_def chunks.simps)
qed

section \<open>Changed files\<close>

lemma decrypt_shard_hash: "decrypt_shard E m s key fs = Inr y \<Longrightarrow> sha_hex y = sh_plain_hash s"
  by (auto simp: decrypt_shard_def split: option.splits if_splits simp del: sha_hex_eq_iff)

lemma stream_shards_hashes:
  "stream_shards E m ss key fs = (ys, e) \<Longrightarrow>
     length ys \<le> length ss \<and> map sha_hex ys = map sh_plain_hash (take (length ys) ss) \<and>
     (e = None \<longrightarrow> length ys = length ss)"
  by (induction ss arbitrary: ys)
    (auto split: sum.splits prod.splits dest: decrypt_shard_hash simp del: sha_hex_eq_iff)

lemma sealed_plain_hashes: "map sh_plain_hash (map snd (sealed E model i cs)) = map sha_hex cs"
  by (induction cs arbitrary: i) (simp_all add: seal_shard_fields del: sha_hex_eq_iff)

lemma map_sha_hex_inj:
  assumes "map sha_hex xs = map sha_hex ys" and "no_collision (set xs \<union> set ys)"
  shows "xs = ys"
proof -
  have "inj_on sha_hex (set xs \<union> set ys)"
    using assms(2) by (auto simp: inj_on_def dest: no_collisionD)
  with assms(1) show ?thesis by (simp add: inj_on_map_eq_map)
qed

text \<open>C3: Whatever has been done to the files, and whatever the environment is, a stream over the manifest
  of a model that was once stored yields a prefix of the chunks that were added, and all of them when
  it ends without an exception, unless SHA-256 collides.\<close>

theorem vault_stream_never_wrong:
  assumes "model_stored E n bs m fs" and "stream_plaintext E' m fs' = (ys, e)"
    and "no_collision (set ys \<union> set (chunks (nat n) bs))"
  shows "ys = take (length ys) (chunks (nat n) bs) \<and> (e = None \<longrightarrow> ys = chunks (nat n) bs)"
proof (cases "unwrap_key E' (mm_key_id m) fs'")
  case (Inl x)
  then show ?thesis using assms(2) by (auto simp: stream_plaintext_def)
next
  case (Inr key)
  let ?cs = "chunks (nat n) bs"
  have sh: "sort_key sh_index (mm_shards m) = map snd (sealed E (mm_model m) 0 ?cs)"
    using assms(1) by (simp add: model_stored_def Let_def)
  have "stream_shards E' m (map snd (sealed E (mm_model m) 0 ?cs)) key fs' = (ys, e)"
    using assms(2) Inr by (simp add: stream_plaintext_def sh)
  from stream_shards_hashes [OF this] have h: "length ys \<le> length ?cs" "e = None \<longrightarrow> length ys = length ?cs"
    "map sha_hex ys = map sha_hex (take (length ys) ?cs)"
    using sealed_plain_hashes [of E "mm_model m" 0 ?cs] by (auto simp: take_map [symmetric])
  have "no_collision (set ys \<union> set (take (length ys) ?cs))"
    using assms(3) by (rule no_collision_mono) (auto dest: in_set_takeD)
  then have "ys = take (length ys) ?cs" by (rule map_sha_hex_inj [OF h(3)])
  with h(2) show ?thesis by auto
qed

theorem vault_stream_never_wrong_witness:
  "\<exists>m fs'. add_file sample_env 4 sample_file ''m'' ''s'' ''mit'' [] sample_vault = (Inr m, fs') \<and>
     (\<forall>ys. stream_plaintext sample_env m [] \<noteq> (ys, None))"
proof -
  obtain m fs' where a: "add_file sample_env 4 sample_file ''m'' ''s'' ''mit'' [] sample_vault = (Inr m, fs')"
    using sample_add by blast
  have st: "model_stored sample_env 4 [1, 2, 3] m fs'"
    using add_file_stored(1) [OF sample_env_ok a] by (simp add: sample_file_def)
  have "stream_plaintext sample_env m [] = ([], Some FileNotFoundError)"
    by (simp add: stream_plaintext_def unwrap_key_def dict_get_def)
  from vault_stream_never_wrong [OF st this] a show ?thesis
    by (auto simp: chunks.simps stream_plaintext_def unwrap_key_def dict_get_def)
qed

section \<open>What \<open>verify\<close> sees\<close>

lemma vault_verify_clean:
  assumes "vault_verify m fs = (True, es)" and "s \<in> set (mm_shards m)"
  shows "\<exists>blob. dict_get fs (shard_path (sh_cipher_hash s)) = Some blob \<and> sha_hex blob = sh_cipher_hash s"
proof -
  have "fst (shard_errors s fs) = []"
    using assms by (auto simp: vault_verify_def Let_def simp del: sha_hex_eq_iff)
  then show ?thesis by (auto simp: shard_errors_def Let_def split: option.splits if_splits)
qed

text \<open>C4: \<open>verify\<close> accepts a stored model exactly when every one of its shard files still holds the bytes
  that were written, unless SHA-256 collides on them: a shard that is missing, truncated, altered or
  swapped is reported.\<close>

theorem vault_verify_exact:
  assumes "vault_env_ok E" and "model_stored E n bs m fs"
    and "no_collision (fst ` set (sealed E (mm_model m) 0 (chunks (nat n) bs)) \<union> snd ` set fs')"
  shows "fst (vault_verify m fs') \<longleftrightarrow>
     (\<forall>(b, s)\<in>set (sealed E (mm_model m) 0 (chunks (nat n) bs)). dict_get fs' (shard_path (sh_cipher_hash s)) = Some b)"
    (is "_ \<longleftrightarrow> ?intact")
proof
  let ?sl = "sealed E (mm_model m) 0 (chunks (nat n) bs)"
  have sh: "mm_shards m = map snd ?sl" using assms(2) by (simp add: model_stored_def Let_def)
  assume "fst (vault_verify m fs')"
  then obtain es where v: "vault_verify m fs' = (True, es)" by (metis prod.collapse)
  show ?intact
  proof clarify
    fix b s assume el: "(b, s) \<in> set ?sl"
    then have "s \<in> set (mm_shards m)" by (force simp: sh)
    from vault_verify_clean [OF v this] obtain blob where
      blob: "dict_get fs' (shard_path (sh_cipher_hash s)) = Some blob" "sha256 blob = sha256 b"
      using sealed_hash [OF el] by auto
    have "b \<in> fst ` set ?sl" using el by (rule rev_image_eqI) simp
    moreover have "blob \<in> snd ` set fs'" using dict_get_in [OF blob(1)] by (rule rev_image_eqI) simp
    ultimately have "blob = b" using blob(2) no_collisionD [OF assms(3), of blob b] by blast
    with blob(1) show "dict_get fs' (shard_path (sh_cipher_hash s)) = Some b" by simp
  qed
next
  assume ?intact
  then have "vault_verify m fs' = (True, [])"
    using assms(1,2) by (intro vault_verify_intact)
  then show "fst (vault_verify m fs')" by simp
qed

theorem vault_verify_exact_witness:
  "\<exists>m fs'. add_file sample_env 4 sample_file ''m'' ''s'' ''mit'' [] sample_vault = (Inr m, fs') \<and>
     \<not> fst (vault_verify m [])"
proof -
  obtain m fs' where a: "add_file sample_env 4 sample_file ''m'' ''s'' ''mit'' [] sample_vault = (Inr m, fs')"
    using sample_add by blast
  have st: "model_stored sample_env 4 [1, 2, 3] m fs'"
    using add_file_stored(1) [OF sample_env_ok a] by (simp add: sample_file_def)
  have c: "chunks 4 [1, 2, 3 :: byte] = [[1, 2, 3]]" by (simp add: chunks.simps)
  have "fst (vault_verify m []) \<longleftrightarrow>
      (\<forall>(b, s)\<in>set (sealed sample_env (mm_model m) 0 (chunks (nat 4) [1, 2, 3])).
         dict_get [] (shard_path (sh_cipher_hash s)) = Some b)"
    by (rule vault_verify_exact [OF sample_env_ok st]) (simp add: c)
  then have "\<not> fst (vault_verify m [])" by (simp add: c dict_get_def split_beta)
  with a show ?thesis by blast
qed

section \<open>Refusals and failures\<close>

text \<open>The checks of \<open>add_file\<close> come before any write: a wrong suffix, a link or non-file, an empty or
  over-long model identifier and a model that already exists are refused in this order, with the vault
  unchanged; and a failure of any kind publishes no manifest and writes no key.\<close>

theorem vault_add_refusals:
  assumes "vault_env_ok E" and "add_file E n f model source lic md fs = (Inl e, fs')"
  shows "(lower (wf_suffix f) \<notin> set allowed_suffixes \<longrightarrow>
       e = ValueError ''weight file must end in .safetensors, .pt, or .bin'' \<and> fs' = fs) \<and>
     (lower (wf_suffix f) \<in> set allowed_suffixes \<and> \<not> wf_regular f \<longrightarrow>
       e = ValueError ''weight file must be a regular, non-symlink file'' \<and> fs' = fs) \<and>
     (lower (wf_suffix f) \<in> set allowed_suffixes \<and> wf_regular f \<and> (model = [] \<or> 512 < length model) \<longrightarrow>
       e = ValueError ''model_id is required and must be at most 512 characters'' \<and> fs' = fs) \<and>
     (lower (wf_suffix f) \<in> set allowed_suffixes \<and> wf_regular f \<and> model \<noteq> [] \<and> length model \<le> 512 \<and>
         dict_get fs (manifest_path model) \<noteq> None \<longrightarrow>
       e = FileExistsError (''model already exists: '' @ model) \<and> fs' = fs) \<and>
     (\<forall>x. dict_get fs' (manifest_path x) = dict_get fs (manifest_path x) \<and>
          dict_get fs' (key_path x) = dict_get fs (key_path x))"
proof -
  let ?st = "store_shards E model 0 (chunks (nat n) (wf_bytes f)) fs"
  have "fs' = fs \<or> fs' = snd ?st"
    using assms(2) unfolding add_file_def by (auto simp: Let_def split: if_splits sum.splits prod.splits)
  then have "dict_get fs' q = dict_get fs q" if "vault_path q" "\<forall>h. q \<noteq> shard_path h" for q
    using store_shards_other [OF assms(1) that, of model 0] by auto
  then have "\<forall>x. dict_get fs' (manifest_path x) = dict_get fs (manifest_path x) \<and>
      dict_get fs' (key_path x) = dict_get fs (key_path x)" by simp
  then show ?thesis using assms(2) by (auto simp: add_file_def split: if_splits)
qed

theorem vault_add_refusals_witness:
  "\<forall>e fs'. add_file sample_env 4 (sample_file\<lparr>wf_suffix := ''.gguf''\<rparr>) ''m'' ''s'' ''mit'' [] sample_vault = (Inl e, fs')
     \<longleftrightarrow> (e, fs') = (ValueError ''weight file must end in .safetensors, .pt, or .bin'', sample_vault)"
proof -
  let ?f = "sample_file\<lparr>wf_suffix := ''.gguf''\<rparr>"
  have s: "lower (wf_suffix ?f) \<notin> set allowed_suffixes" by (simp add: lower_def code_def allowed_suffixes_def)
  then obtain e fs' where a: "add_file sample_env 4 ?f ''m'' ''s'' ''mit'' [] sample_vault = (Inl e, fs')"
    by (simp add: add_file_def)
  from vault_add_refusals [OF sample_env_ok a] s a show ?thesis by auto
qed

text \<open>A configuration that \<open>__init__\<close> wrote is accepted by every later \<open>__init__\<close>, which leaves the
  vault as it is, and the master key then depends only on the passphrase and the stored salt.\<close>

theorem vault_reopen:
  assumes "vault_env_ok E" and "length (ve_salt E) = 16" and "dict_get fs config_path = None"
    and "vault_open E n fs = Inr fs'" and "0 < n'"
  shows "vault_open E' n' fs' = Inr fs' \<and>
     (\<forall>pass. pass \<noteq> [] \<longrightarrow> master_key (E'\<lparr>ve_pass := Some pass\<rparr>) fs' =
        Inr (scrypt_derive (ve_kdf E') (ve_salt E) (utf8_encode pass)))"
proof -
  have c: "dict_get fs' config_path = Some (utf8_encode (dumps pretty (new_config E n)) @ [10])"
    using assms(1,3,4) by (auto simp: vault_open_def ensure_config_def vault_put_get split: if_splits)
  obtain d where d: "new_config E n = JObj d" "dict_get d ''format_version'' = Some (JInt 1)"
    by (simp add: new_config_def dict_get_def)
  have "vault_open E' n' fs' = Inr fs'"
    using assms(2,5) d config_salt_new [of E n]
    by (simp add: vault_open_def ensure_config_def c read_new_config [OF c])
  then show ?thesis using master_key_new [OF c, of "E'\<lparr>ve_pass := Some _\<rparr>"] by simp
qed

theorem vault_reopen_witness:
  "\<exists>fs'. vault_open sample_env 4 [] = Inr fs' \<and> vault_open sample_env2 9 fs' = Inr fs'"
proof -
  obtain fs' where o: "vault_open sample_env 4 [] = Inr fs'"
    by (simp add: vault_open_def ensure_config_def dict_get_def)
  have "vault_open sample_env2 9 fs' = Inr fs' \<and>
     (\<forall>pass. pass \<noteq> [] \<longrightarrow> master_key (sample_env2\<lparr>ve_pass := Some pass\<rparr>) fs' =
        Inr (scrypt_derive (ve_kdf sample_env2) (ve_salt sample_env) (utf8_encode pass)))"
    by (rule vault_reopen [OF sample_env_ok _ _ o]) (simp_all add: sample_env_def dict_get_def)
  with o show ?thesis by blast
qed

end
