(* ===== verification/Shard_Cache.thy ===== *)
theory Shard_Cache
  imports Prelude
begin

text \<open>
  The least-recently-used shard cache of \<open>telepath/cache.py\<close>: an ordered dictionary, oldest entry
  first, bounded in entries and in bytes. A negative entry bound makes \<open>popitem\<close> raise \<open>KeyError\<close>.
\<close>

section \<open>The cache\<close>

record 'k shard_cache =
  sc_max_entries :: int
  sc_max_bytes :: int
  sc_entries :: "('k, bytes) dict"
  sc_used :: int
  sc_hits :: int
  sc_misses :: int
  sc_evictions :: int

definition shard_cache_new :: "int \<Rightarrow> int \<Rightarrow> 'k shard_cache" where
  "shard_cache_new me mb = \<lparr>sc_max_entries = me, sc_max_bytes = mb, sc_entries = [], sc_used = 0,
     sc_hits = 0, sc_misses = 0, sc_evictions = 0\<rparr>"

definition move_to_end :: "'k \<Rightarrow> 'v \<Rightarrow> ('k, 'v) dict \<Rightarrow> ('k, 'v) dict" where
  "move_to_end k v d = dict_del k d @ [(k, v)]"

definition cache_get :: "'k \<Rightarrow> 'k shard_cache \<Rightarrow> bytes option \<times> 'k shard_cache" where
  "cache_get k c =
     (case dict_get (sc_entries c) k of
        None \<Rightarrow> (None, c\<lparr>sc_misses := sc_misses c + 1\<rparr>)
      | Some v \<Rightarrow> (Some v, c\<lparr>sc_entries := move_to_end k v (sc_entries c), sc_hits := sc_hits c + 1\<rparr>))"

text \<open>The \<open>while\<close> loop of \<open>put\<close>, over what is left of the entries: bytes in use, evictions so far.\<close>

fun evict :: "int \<Rightarrow> int \<Rightarrow> ('k, bytes) dict \<Rightarrow> int \<Rightarrow> int \<Rightarrow> (('k, bytes) dict \<times> int \<times> int) result" where
  "evict me mb [] used n = (if 0 > me \<or> used > mb then Inl KeyError else Inr ([], used, n))"
| "evict me mb ((k, v) # es) used n =
     (if int (length ((k, v) # es)) > me \<or> used > mb then evict me mb es (used - int (length v)) (n + 1)
      else Inr ((k, v) # es, used, n))"

definition cache_put :: "'k \<Rightarrow> bytes \<Rightarrow> 'k shard_cache \<Rightarrow> 'k shard_cache result" where
  "cache_put k v c =
     (if int (length v) > sc_max_bytes c then Inr c
      else let used0 = (case dict_get (sc_entries c) k of
                          None \<Rightarrow> sc_used c | Some old \<Rightarrow> sc_used c - int (length old));
               es = dict_del k (sc_entries c) @ [(k, v)]
           in bindR (evict (sc_max_entries c) (sc_max_bytes c) es (used0 + int (length v)) (sc_evictions c))
                (\<lambda>(es', used', n). Inr (c\<lparr>sc_entries := es', sc_used := used', sc_evictions := n\<rparr>)))"

record cache_stats =
  cs_entries :: int
  cs_bytes :: int
  cs_hits :: int
  cs_misses :: int
  cs_evictions :: int
  cs_hit_rate :: rat

definition cache_summary :: "'k shard_cache \<Rightarrow> cache_stats" where
  "cache_summary c =
     (let total = sc_hits c + sc_misses c in
      \<lparr>cs_entries = int (length (sc_entries c)), cs_bytes = sc_used c, cs_hits = sc_hits c,
       cs_misses = sc_misses c, cs_evictions = sc_evictions c,
       cs_hit_rate = (if total \<noteq> 0 then of_int (sc_hits c) / of_int total else 0)\<rparr>)"

section \<open>Invariant\<close>

definition total_bytes :: "('k, bytes) dict \<Rightarrow> int" where
  "total_bytes d = sum_list (map (\<lambda>kv. int (length (snd kv))) d)"

lemma total_bytes_simps [simp]:
  "total_bytes [] = 0" "total_bytes (kv # d) = int (length (snd kv)) + total_bytes d"
  "total_bytes (d @ e) = total_bytes d + total_bytes e"
  by (simp_all add: total_bytes_def)

lemma total_bytes_nonneg [simp]: "0 \<le> total_bytes d"
  by (induction d) auto

lemma total_bytes_del:
  "dict_ok d \<Longrightarrow> total_bytes (dict_del k d) =
     total_bytes d - (case dict_get d k of None \<Rightarrow> 0 | Some v \<Rightarrow> int (length v))"
proof (induction d)
  case (Cons kv d)
  show ?case
  proof (cases "fst kv = k")
    case True
    then have "dict_get d k = None" using Cons.prems by (auto simp: dict_get_None_iff)
    with Cons True show ?thesis by (cases kv) (simp add: dict_del_def dict_get_def)
  next
    case False
    with Cons show ?thesis by (cases kv) (auto simp: dict_del_def dict_get_def split: option.splits)
  qed
qed (simp add: dict_del_def dict_get_def)

definition cache_ok :: "'k shard_cache \<Rightarrow> bool" where
  "cache_ok c \<longleftrightarrow> dict_ok (sc_entries c) \<and> sc_used c = total_bytes (sc_entries c) \<and>
     int (length (sc_entries c)) \<le> sc_max_entries c \<and> sc_used c \<le> sc_max_bytes c"

definition fits :: "int \<Rightarrow> int \<Rightarrow> ('k, bytes) dict \<Rightarrow> bool" where
  "fits me mb d \<longleftrightarrow> int (length d) \<le> me \<and> total_bytes d \<le> mb"

lemma cache_ok_new: "0 \<le> e \<Longrightarrow> 0 \<le> b \<Longrightarrow> cache_ok (shard_cache_new e b)"
  by (simp add: cache_ok_def shard_cache_new_def)

text \<open>The loop drops the shortest prefix that makes the rest fit.\<close>

lemma evict_suffix:
  "0 \<le> me \<Longrightarrow> 0 \<le> mb \<Longrightarrow> \<exists>n\<le>length d. evict me mb d (total_bytes d) ev = Inr (drop n d, total_bytes (drop n d), ev + int n) \<and>
     fits me mb (drop n d) \<and> (\<forall>m<n. \<not> fits me mb (drop m d))"
proof (induction d arbitrary: ev)
  case (Cons kv d)
  show ?case
  proof (cases "fits me mb (kv # d)")
    case True
    then show ?thesis by (intro exI [of _ 0]) (cases kv, auto simp: fits_def)
  next
    case False
    obtain n where n: "n \<le> length d" "evict me mb d (total_bytes d) (ev + 1) = Inr (drop n d, total_bytes (drop n d), ev + 1 + int n)"
      "fits me mb (drop n d)" "\<forall>m<n. \<not> fits me mb (drop m d)"
      using Cons.IH [of "ev + 1"] Cons.prems by blast
    have "\<forall>m<Suc n. \<not> fits me mb (drop m (kv # d))"
      using False n(4) by (auto simp: less_Suc_eq_0_disj)
    moreover have "evict me mb (kv # d) (total_bytes (kv # d)) ev = Inr (drop n d, total_bytes (drop n d), ev + int (Suc n))"
      using False n(2) by (cases kv) (auto simp: fits_def algebra_simps)
    ultimately show ?thesis using n by (intro exI [of _ "Suc n"]) auto
  qed
qed (simp add: fits_def)

definition cache_order :: "'k \<Rightarrow> bytes \<Rightarrow> 'k shard_cache \<Rightarrow> ('k, bytes) dict" where
  "cache_order k v c = dict_del k (sc_entries c) @ [(k, v)]"

lemma cache_put_eq:
  assumes "cache_ok c" and "int (length v) \<le> sc_max_bytes c"
  shows "\<exists>n. cache_put k v c = Inr (c\<lparr>sc_entries := drop n (cache_order k v c),
        sc_used := total_bytes (drop n (cache_order k v c)), sc_evictions := sc_evictions c + int n\<rparr>) \<and>
     n \<le> length (cache_order k v c) \<and> fits (sc_max_entries c) (sc_max_bytes c) (drop n (cache_order k v c)) \<and>
     (\<forall>m<n. \<not> fits (sc_max_entries c) (sc_max_bytes c) (drop m (cache_order k v c)))"
proof -
  have "0 \<le> sc_max_entries c" "0 \<le> sc_max_bytes c" using assms by (auto simp: cache_ok_def intro: order_trans)
  from evict_suffix [OF this, of "cache_order k v c" "sc_evictions c"] obtain n where
    n: "n \<le> length (cache_order k v c)"
    "evict (sc_max_entries c) (sc_max_bytes c) (cache_order k v c) (total_bytes (cache_order k v c)) (sc_evictions c) =
       Inr (drop n (cache_order k v c), total_bytes (drop n (cache_order k v c)), sc_evictions c + int n)"
    "fits (sc_max_entries c) (sc_max_bytes c) (drop n (cache_order k v c))"
    "\<forall>m<n. \<not> fits (sc_max_entries c) (sc_max_bytes c) (drop m (cache_order k v c))" by blast
  have "(case dict_get (sc_entries c) k of None \<Rightarrow> sc_used c | Some old \<Rightarrow> sc_used c - int (length old)) + int (length v) =
      total_bytes (cache_order k v c)"
    using assms(1) total_bytes_del [of "sc_entries c" k]
    by (auto simp: cache_ok_def cache_order_def split: option.splits)
  then show ?thesis using n assms(2) by (auto simp: cache_put_def Let_def cache_order_def [symmetric])
qed

lemma cache_order_ok: "cache_ok c \<Longrightarrow> dict_ok (cache_order k v c)"
  by (simp add: cache_order_def cache_ok_def dict.wf_remove dict_keys_del)

lemma dict_ok_drop: "dict_ok d \<Longrightarrow> dict_ok (drop n d)"
  by (simp add: drop_map [symmetric])

lemma cache_put_ok:
  assumes "cache_ok c"
  shows "\<exists>c'. cache_put k v c = Inr c' \<and> cache_ok c' \<and> sc_max_entries c' = sc_max_entries c \<and> sc_max_bytes c' = sc_max_bytes c"
proof (cases "int (length v) \<le> sc_max_bytes c")
  case True
  from cache_put_eq [OF assms True, of k] obtain n where n:
    "cache_put k v c = Inr (c\<lparr>sc_entries := drop n (cache_order k v c),
        sc_used := total_bytes (drop n (cache_order k v c)), sc_evictions := sc_evictions c + int n\<rparr>)"
    "fits (sc_max_entries c) (sc_max_bytes c) (drop n (cache_order k v c))" by blast
  have "dict_ok (drop n (cache_order k v c))" by (intro dict_ok_drop cache_order_ok assms)
  with n show ?thesis by (simp add: cache_ok_def fits_def)
qed (use assms in \<open>simp add: cache_put_def\<close>)

lemma move_to_end_ok: "dict_ok d \<Longrightarrow> dict_ok (move_to_end k v d)"
  by (simp add: move_to_end_def dict.wf_remove dict_keys_del)

lemma dict_get_append_last:
  "dict_get (d @ [(k, v)]) x = (case dict_get d x of Some y \<Rightarrow> Some y | None \<Rightarrow> if x = k then Some v else None)"
  by (auto simp: dict_get_def map_add_def split: option.splits)

lemma move_to_end_get: "dict_get (move_to_end k v d) x = (if x = k then Some v else dict_get d x)"
  by (auto simp: move_to_end_def dict_get_append_last dict.lookup_remove split: option.splits)

lemma move_to_end_length: "dict_ok d \<Longrightarrow> dict_get d k = Some v \<Longrightarrow> length (move_to_end k v d) = length d"
  using length_dict_del_in [of d k] dict_get_None_iff [of d k] by (simp add: move_to_end_def)

lemma cache_get_ok: "cache_ok c \<Longrightarrow> cache_ok (snd (cache_get k c))"
  by (auto simp: cache_get_def cache_ok_def move_to_end_ok move_to_end_length split: option.splits)
    (simp_all add: move_to_end_def total_bytes_del)

lemma dict_get_drop:
  "dict_ok d \<Longrightarrow> dict_get (drop n d) k = Some v \<Longrightarrow> dict_get d k = Some v"
  using dict_ok_drop [of d n] by (simp add: dict_get_iff in_set_dropD)

section \<open>Runs\<close>

datatype 'k cache_op = CGet 'k | CPut 'k bytes

fun cache_step :: "'k cache_op \<Rightarrow> 'k shard_cache \<Rightarrow> 'k shard_cache result" where
  "cache_step (CGet k) c = Inr (snd (cache_get k c))"
| "cache_step (CPut k v) c = cache_put k v c"

fun cache_run :: "'k cache_op list \<Rightarrow> 'k shard_cache \<Rightarrow> 'k shard_cache result" where
  "cache_run [] c = Inr c"
| "cache_run (a # as) c = bindR (cache_step a c) (cache_run as)"

fun is_CGet :: "'k cache_op \<Rightarrow> bool" where
  "is_CGet (CGet _) = True"
| "is_CGet (CPut _ _) = False"

text \<open>The abstract memory: the last value put under each key that is not larger than the whole cache.\<close>

fun memory_step :: "int \<Rightarrow> 'k cache_op \<Rightarrow> ('k \<rightharpoonup> bytes) \<Rightarrow> ('k \<rightharpoonup> bytes)" where
  "memory_step mb (CGet k) m = m"
| "memory_step mb (CPut k v) m = (if int (length v) \<le> mb then m(k \<mapsto> v) else m)"

definition cache_sim :: "'k shard_cache \<Rightarrow> ('k \<rightharpoonup> bytes) \<Rightarrow> bool" where
  "cache_sim c m \<longleftrightarrow> cache_ok c \<and> dict_get (sc_entries c) \<subseteq>\<^sub>m m"

definition cache_limits :: "'k shard_cache \<Rightarrow> int \<times> int" where
  "cache_limits c = (sc_max_entries c, sc_max_bytes c)"

definition lookups :: "'k shard_cache \<Rightarrow> int" where
  "lookups c = sc_hits c + sc_misses c"

lemma cache_get_frame:
  "dict_get (sc_entries (snd (cache_get k c))) = dict_get (sc_entries c)"
  "cache_limits (snd (cache_get k c)) = cache_limits c"
  "lookups (snd (cache_get k c)) = lookups c + 1"
  by (auto simp: cache_get_def cache_limits_def lookups_def move_to_end_get split: option.splits)

lemma cache_put_frame:
  assumes "cache_put k v c = Inr c'"
  shows "cache_limits c' = cache_limits c" and "lookups c' = lookups c"
  using assms by (auto simp: cache_put_def Let_def bindR_Inr_iff cache_limits_def lookups_def split: if_splits)

lemma cache_put_sim:
  assumes "cache_sim c m" and "cache_put k v c = Inr c'"
  shows "dict_get (sc_entries c') \<subseteq>\<^sub>m memory_step (sc_max_bytes c) (CPut k v) m"
proof (cases "int (length v) \<le> sc_max_bytes c")
  case True
  have ok: "cache_ok c" and sub: "dict_get (sc_entries c) \<subseteq>\<^sub>m m" using assms(1) by (auto simp: cache_sim_def)
  from cache_put_eq [OF ok True, of k] assms(2) obtain n where
    n: "sc_entries c' = drop n (cache_order k v c)" by auto
  have "dict_get (cache_order k v c) x = Some y \<Longrightarrow> (m(k \<mapsto> v)) x = Some y" for x y
    using sub by (auto simp: cache_order_def dict_get_append_last dict.lookup_remove map_le_def dom_def
        split: option.splits if_splits)
  then have "dict_get (drop n (cache_order k v c)) \<subseteq>\<^sub>m m(k \<mapsto> v)"
    using dict_get_drop [OF cache_order_ok [OF ok]] by (fastforce simp: map_le_def dom_def)
  with True n show ?thesis by simp
qed (use assms in \<open>simp add: cache_put_def cache_sim_def\<close>)

lemma cache_step_sim:
  assumes "cache_sim c m"
  shows "\<exists>c'. cache_step a c = Inr c' \<and> cache_sim c' (memory_step (sc_max_bytes c) a m) \<and>
     cache_limits c' = cache_limits c \<and> lookups c' = lookups c + (if is_CGet a then 1 else 0)"
proof (cases a)
  case (CGet k)
  then show ?thesis using assms cache_get_ok [of c k]
    by (simp add: cache_sim_def cache_get_frame)
next
  case (CPut k v)
  have "cache_ok c" using assms by (simp add: cache_sim_def)
  from cache_put_ok [OF this, of k v] obtain c' where "cache_put k v c = Inr c'" "cache_ok c'" by blast
  then show ?thesis using CPut cache_put_sim [OF assms] cache_put_frame [of k v c c']
    by (simp add: cache_sim_def del: memory_step.simps)
qed

lemma cache_run_sim:
  "cache_sim c m \<Longrightarrow> \<exists>c'. cache_run as c = Inr c' \<and> cache_sim c' (fold (memory_step (sc_max_bytes c)) as m) \<and>
     cache_limits c' = cache_limits c \<and> lookups c' = lookups c + int (length (filter is_CGet as))"
proof (induction as arbitrary: c m)
  case (Cons a as)
  from cache_step_sim [OF Cons.prems] obtain c1 where c1: "cache_step a c = Inr c1"
    "cache_sim c1 (memory_step (sc_max_bytes c) a m)" "cache_limits c1 = cache_limits c"
    "lookups c1 = lookups c + (if is_CGet a then 1 else 0)" by blast
  have "sc_max_bytes c1 = sc_max_bytes c" using c1(3) by (simp add: cache_limits_def)
  with Cons.IH [OF c1(2)] c1 show ?case by auto
qed simp

lemma cache_sim_new: "0 \<le> e \<Longrightarrow> 0 \<le> b \<Longrightarrow> cache_sim (shard_cache_new e b) Map.empty"
  by (simp add: cache_sim_def cache_ok_new) (simp add: shard_cache_new_def dict_get_def map_le_def)

section \<open>Properties\<close>

text \<open>From an empty cache with non-negative bounds every sequence of lookups and insertions runs
  without an exception and keeps the accounting right: distinct keys, \<open>bytes_used\<close> the sum of the
  stored lengths, both bounds respected, and one hit or miss counted per lookup.\<close>

theorem cache_accounting:
  assumes "0 \<le> e" and "0 \<le> b"
  shows "\<exists>c. cache_run as (shard_cache_new e b) = Inr c \<and> dict_ok (sc_entries c) \<and>
     sc_used c = total_bytes (sc_entries c) \<and> int (length (sc_entries c)) \<le> e \<and> sc_used c \<le> b \<and>
     sc_hits c + sc_misses c = int (length (filter is_CGet as))"
proof -
  from cache_run_sim [OF cache_sim_new [OF assms], of as] obtain c where
    c: "cache_run as (shard_cache_new e b) = Inr c" "cache_ok c" "cache_limits c = (e, b)"
    "lookups c = int (length (filter is_CGet as))"
    by (auto simp: cache_sim_def cache_limits_def lookups_def shard_cache_new_def)
  then show ?thesis by (auto simp: cache_ok_def cache_limits_def lookups_def)
qed

theorem cache_accounting_witness:
  "\<exists>c. cache_run [CPut ''a'' [1, 2], CGet ''a'', CPut ''b'' [3, 4], CGet ''a''] (shard_cache_new 5 3) = Inr c \<and>
     sc_used c \<le> 3 \<and> sc_hits c + sc_misses c = 2"
  using cache_accounting [of 5 3 "[CPut ''a'' [1, 2], CGet ''a'', CPut ''b'' [3, 4], CGet ''a'']"] by auto

text \<open>What the memory holds, in terms of the operations: the last value put under the key among those that
  are not larger than the whole cache.\<close>

lemma memory_last_put:
  "fold (memory_step mb) as Map.empty k = Some v \<Longrightarrow>
     \<exists>xs ys. as = xs @ CPut k v # ys \<and> (\<forall>w. CPut k w \<in> set ys \<longrightarrow> mb < int (length w))"
proof (induction as rule: rev_induct)
  case (snoc a as)
  show ?case
  proof (cases "\<exists>w. a = CPut k w \<and> int (length w) \<le> mb")
    case True
    then have "as @ [a] = as @ CPut k v # []" using snoc.prems by auto
    then show ?thesis by fastforce
  next
    case False
    then have "fold (memory_step mb) as Map.empty k = Some v" using snoc.prems by (cases a) (auto split: if_splits)
    then obtain xs ys where s: "as = xs @ CPut k v # ys" "\<forall>w. CPut k w \<in> set ys \<longrightarrow> mb < int (length w)"
      using snoc.IH by blast
    have "as @ [a] = xs @ CPut k v # (ys @ [a])" "\<forall>w. CPut k w \<in> set (ys @ [a]) \<longrightarrow> mb < int (length w)"
      using s False by (auto simp: not_le)
    then show ?thesis by blast
  qed
qed simp

text \<open>C33: A value that a lookup returns, after any gets and puts on a new cache that raised nothing, was put under that
  very key, and since then nothing else was put under
  it but values larger than the whole cache, whatever was evicted and looked up in between. Such a value is
  not stored and does not replace the older one either, so after it a lookup may return the older value; if
  none was put under the key, what is returned is the last value put.\<close>

theorem cache_returns_last_accepted:
  assumes "0 \<le> e" and "0 \<le> b" and "cache_run as (shard_cache_new e b) = Inr c"
    and "fst (cache_get k c) = Some v"
  shows "\<exists>xs ys. as = xs @ CPut k v # ys \<and> (\<forall>w. CPut k w \<in> set ys \<longrightarrow> b < int (length w))"
proof -
  from cache_run_sim [OF cache_sim_new [OF assms(1,2)], of as] assms(3)
  have "dict_get (sc_entries c) \<subseteq>\<^sub>m fold (memory_step b) as Map.empty"
    by (auto simp: cache_sim_def shard_cache_new_def)
  moreover have "dict_get (sc_entries c) k = Some v"
    using assms(4) by (auto simp: cache_get_def split: option.splits)
  ultimately have "fold (memory_step b) as Map.empty k = Some v" by (auto simp: map_le_def dom_def)
  then show ?thesis by (rule memory_last_put)
qed

theorem cache_returns_last_accepted_witness:
  "\<exists>c. cache_run [CPut ''a'' [1, 2], CPut ''a'' [3]] (shard_cache_new 5 3) = Inr c \<and> fst (cache_get ''a'' c) = Some [3] \<and>
     (\<exists>xs ys. [CPut ''a'' [1, 2], CPut ''a'' [3 :: byte]] = xs @ CPut ''a'' [3] # ys)"
proof -
  obtain c where c: "cache_run [CPut ''a'' [1, 2], CPut ''a'' [3]] (shard_cache_new 5 3) = Inr c"
    "fst (cache_get ''a'' c) = Some [3]"
    by (simp add: shard_cache_new_def cache_put_def dict_get_def dict_del_def cache_get_def Let_def)
  from cache_returns_last_accepted [OF _ _ c] c show ?thesis by fastforce
qed

text \<open>The value larger than the cache: a lookup after it returns the value put before it.\<close>

lemma oversized_put_keeps_old:
  "\<exists>c. cache_run [CPut ''a'' [1, 2], CPut ''a'' [1, 2, 3, 4]] (shard_cache_new 5 3) = Inr c \<and> fst (cache_get ''a'' c) = Some [1, 2]"
  by (simp add: shard_cache_new_def cache_put_def dict_get_def dict_del_def cache_get_def Let_def)

text \<open>An accepted insertion makes its key the newest and evicts the least recently used entries, as few
  of them as make the rest fit; with room for one entry the value just put is there.\<close>

theorem cache_put_evicts_oldest:
  assumes "cache_ok c" and "int (length v) \<le> sc_max_bytes c" and "1 \<le> sc_max_entries c"
  shows "\<exists>n c'. cache_put k v c = Inr c' \<and> fst (cache_get k c') = Some v \<and>
     sc_entries c' = drop n (dict_del k (sc_entries c) @ [(k, v)]) \<and> sc_evictions c' = sc_evictions c + int n \<and>
     (\<forall>m<n. \<not> fits (sc_max_entries c) (sc_max_bytes c) (drop m (dict_del k (sc_entries c) @ [(k, v)])))"
proof -
  let ?o = "cache_order k v c"
  from cache_put_eq [OF assms(1,2), of k] obtain n c' where n: "cache_put k v c = Inr c'" "n \<le> length ?o"
    "sc_entries c' = drop n ?o" "sc_evictions c' = sc_evictions c + int n"
    "\<forall>m<n. \<not> fits (sc_max_entries c) (sc_max_bytes c) (drop m ?o)" by auto
  have "fits (sc_max_entries c) (sc_max_bytes c) (drop (length (dict_del k (sc_entries c))) ?o)"
    using assms by (simp add: fits_def cache_order_def)
  then have "n \<le> length (dict_del k (sc_entries c))" using n(5) by (meson not_le)
  then have "sc_entries c' = drop n (dict_del k (sc_entries c)) @ [(k, v)]" by (simp add: n(3) cache_order_def)
  moreover have "dict_get (drop n (dict_del k (sc_entries c))) k = None"
    using dict_get_drop [of "dict_del k (sc_entries c)" n k] assms(1)
    by (cases "dict_get (drop n (dict_del k (sc_entries c))) k")
      (auto simp: cache_ok_def dict.wf_remove)
  ultimately have "fst (cache_get k c') = Some v"
    by (simp add: cache_get_def dict_get_append_last)
  with n show ?thesis by (auto simp: cache_order_def)
qed

theorem cache_put_evicts_oldest_witness:
  "\<exists>c'. cache_put ''b'' [3, 4] ((shard_cache_new 5 3)\<lparr>sc_entries := [(''a'', [1, 2])], sc_used := 2\<rparr>) = Inr c' \<and>
     fst (cache_get ''b'' c') = Some [3, 4]"
  using cache_put_evicts_oldest [of "(shard_cache_new 5 3)\<lparr>sc_entries := [(''a'', [1, 2])], sc_used := 2\<rparr>" "[3, 4]" "''b''"]
  by (auto simp: cache_ok_def shard_cache_new_def)

end
