(* ===== verification/Sessions.thy ===== *)
theory Sessions
  imports Py_Float
begin

text \<open>
  Shard sessions of \<open>telepath/session.py\<close>: the registry, opening with its bounds and the eviction of
  the oldest session, expiry, and the consumption of the budget. Each reading of the clock is an
  argument, as is the random identifier of a new session. A session object is shared between the
  registry and its users, so consuming it changes the registry.
\<close>

section \<open>Sessions\<close>

record session =
  se_id :: string
  se_peer :: string
  se_model :: string
  se_purpose :: string
  se_budget :: int
  se_used :: int
  se_opened :: pyfloat
  se_ttl :: pyfloat

definition session_expiry :: "session \<Rightarrow> pyfloat" where
  "session_expiry s = fl_add (se_opened s) (se_ttl s)"

definition session_consume :: "pyfloat \<Rightarrow> session \<Rightarrow> bool \<times> session" where
  "session_consume now s =
     (if fl_gt now (session_expiry s) \<or> se_used s \<ge> se_budget s then (False, s)
      else (True, s\<lparr>se_used := se_used s + 1\<rparr>))"

section \<open>The registry\<close>

record registry =
  sr_max :: int
  sr_sessions :: "(string, session) dict"

definition registry_new :: registry where
  "registry_new = \<lparr>sr_max = 256, sr_sessions = []\<rparr>"

definition sessions_gc :: "pyfloat \<Rightarrow> registry \<Rightarrow> registry" where
  "sessions_gc now r = r\<lparr>sr_sessions := filter (\<lambda>(k, s). \<not> fl_gt now (session_expiry s)) (sr_sessions r)\<rparr>"

text \<open>\<open>min(values, key=opened_at)\<close>: the first of the least ones.\<close>

definition oldest :: "session \<Rightarrow> session list \<Rightarrow> session" where
  "oldest s ss = foldl (\<lambda>best x. if fl_less (se_opened x) (se_opened best) then x else best) s ss"

definition evict_oldest :: "registry \<Rightarrow> registry result" where
  "evict_oldest r =
     (case sr_sessions r of
        [] \<Rightarrow> Inl (ValueError ''min() iterable argument is empty'')
      | (k, s) # rest \<Rightarrow>
          (let o_id = se_id (oldest s (map snd rest)) in
           if dict_get (sr_sessions r) o_id = None then Inl KeyError
           else Inr (r\<lparr>sr_sessions := dict_del o_id (sr_sessions r)\<rparr>)))"

definition sessions_open ::
    "string \<Rightarrow> string \<Rightarrow> string \<Rightarrow> int \<Rightarrow> pyfloat \<Rightarrow> string \<Rightarrow> pyfloat \<Rightarrow> registry \<Rightarrow> session result \<times> registry" where
  "sessions_open peer model purpose budget ttl uuid now r =
     (let r1 = sessions_gc now r in
      if \<not> (1 \<le> budget \<and> budget \<le> 1000000) \<or> \<not> (fl_le (Fin 1) ttl \<and> fl_le ttl (Fin 86400))
        then (Inl (ValueError ''session budget or TTL out of bounds''), r1)
      else (case (if int (length (sr_sessions r1)) \<ge> sr_max r1 then evict_oldest r1 else Inr r1) of
          Inl e \<Rightarrow> (Inl e, r1)
        | Inr r2 \<Rightarrow>
            (let s = \<lparr>se_id = uuid, se_peer = peer, se_model = model, se_purpose = purpose,
                      se_budget = budget, se_used = 0, se_opened = now, se_ttl = ttl\<rparr>
             in (Inr s, r2\<lparr>sr_sessions := dict_set uuid s (sr_sessions r2)\<rparr>))))"

definition sessions_get :: "string \<Rightarrow> pyfloat \<Rightarrow> registry \<Rightarrow> session option \<times> registry" where
  "sessions_get sid now r = (let r1 = sessions_gc now r in (dict_get (sr_sessions r1) sid, r1))"

definition sessions_summary :: "pyfloat \<Rightarrow> registry \<Rightarrow> (int \<times> int) \<times> registry" where
  "sessions_summary now r =
     (let r1 = sessions_gc now r
      in ((int (length (sr_sessions r1)), sum_list (map (\<lambda>(k, s). se_used s) (sr_sessions r1))), r1))"

text \<open>
  The guard of \<open>TelepathNode._serve_shard\<close>: look the session up, compare the peer, consume one shard.
\<close>

definition session_use :: "string \<Rightarrow> string \<Rightarrow> pyfloat \<Rightarrow> pyfloat \<Rightarrow> registry \<Rightarrow> session option \<times> registry" where
  "session_use sid peer now now' r =
     (case sessions_get sid now r of
        (None, r1) \<Rightarrow> (None, r1)
      | (Some s, r1) \<Rightarrow>
          if se_peer s \<noteq> peer then (None, r1)
          else (case session_consume now' s of
                  (False, _) \<Rightarrow> (None, r1)
                | (True, s') \<Rightarrow> (Some s', r1\<lparr>sr_sessions := dict_set sid s' (sr_sessions r1)\<rparr>)))"

section \<open>The invariant of the registry\<close>

definition session_ok :: "session \<Rightarrow> bool" where
  "session_ok s \<longleftrightarrow> 0 \<le> se_used s \<and> se_used s \<le> se_budget s \<and> se_budget s \<le> 1000000 \<and>
     fl_finite (se_opened s) \<and> fl_le (Fin 1) (se_ttl s) \<and> fl_le (se_ttl s) (Fin 86400)"

definition registry_ok :: "registry \<Rightarrow> bool" where
  "registry_ok r \<longleftrightarrow> dict_ok (sr_sessions r) \<and> int (length (sr_sessions r)) \<le> sr_max r \<and> 1 \<le> sr_max r \<and>
     list_all (\<lambda>(k, s). se_id s = k \<and> session_ok s) (sr_sessions r)"

lemma sessions_gc_simps [simp]:
  "sr_max (sessions_gc now r) = sr_max r"
  by (simp add: sessions_gc_def)

lemma sessions_gc_ok: "registry_ok r \<Longrightarrow> registry_ok (sessions_gc now r)"
  using length_filter_le [of "\<lambda>(k, s). \<not> fl_gt now (session_expiry s)" "sr_sessions r"]
  by (auto simp: registry_ok_def sessions_gc_def list_all_iff distinct_map_filter simp del: length_filter_le)

lemma sessions_gc_get:
  "registry_ok r \<Longrightarrow> dict_get (sr_sessions (sessions_gc now r)) k =
     (case dict_get (sr_sessions r) k of None \<Rightarrow> None
      | Some s \<Rightarrow> if fl_gt now (session_expiry s) then None else Some s)"
  by (auto simp: registry_ok_def sessions_gc_def dict_get_filter split: option.splits)

lemma oldest_in: "oldest s ss \<in> insert s (set ss)"
proof (induction ss arbitrary: s)
  case (Cons x ss)
  have "oldest s (x # ss) = oldest (if fl_less (se_opened x) (se_opened s) then x else s) ss"
    by (simp add: oldest_def)
  then show ?case using Cons.IH [of x] Cons.IH [of s] by auto
qed (simp add: oldest_def)

lemma registry_okD:
  assumes "registry_ok r" and "dict_get (sr_sessions r) k = Some s"
  shows "se_id s = k" and "session_ok s"
  using assms dict_get_in [OF assms(2)] by (auto simp: registry_ok_def list_all_iff)

lemma evict_oldest_ok:
  assumes "registry_ok r" and "int (length (sr_sessions r)) \<ge> sr_max r"
  shows "\<exists>k. evict_oldest r = Inr (r\<lparr>sr_sessions := dict_del k (sr_sessions r)\<rparr>) \<and> k \<in> set (map fst (sr_sessions r))"
proof -
  from assms obtain k s rest where r: "sr_sessions r = (k, s) # rest"
    by (cases "sr_sessions r") (auto simp: registry_ok_def)
  let ?o = "oldest s (map snd rest)"
  have "?o \<in> snd ` set (sr_sessions r)" using oldest_in [of s "map snd rest"] by (auto simp: r)
  then obtain k' where k': "(k', ?o) \<in> set (sr_sessions r)" by auto
  then have "se_id ?o = k'" using assms(1) by (auto simp: registry_ok_def list_all_iff)
  moreover have "k' \<in> set (map fst (sr_sessions r))" using k' by (force)
  ultimately show ?thesis
    using dict_get_None_iff [of "sr_sessions r" k'] by (auto simp: evict_oldest_def r Let_def)
qed

lemma list_all_dict_set:
  "list_all P d \<Longrightarrow> P (k, v) \<Longrightarrow> list_all P (dict_set k v d)"
  using set_dict_set [of k v d] by (auto simp: list_all_iff)

lemma dict_del_subset: "set (dict_del k d) \<subseteq> set d"
  unfolding dict_del_def by (induction d) auto

lemma list_all_dict_del: "list_all P d \<Longrightarrow> list_all P (dict_del k d)"
  using dict_del_subset [of k d] by (auto simp: list_all_iff)

text \<open>Opening a session: refused exactly out of bounds, and then nothing but expired sessions goes; else
  the new session is there and at most one other unexpired session has gone.\<close>

lemma sessions_open_cases:
  assumes ok: "registry_ok r"
  obtains (refused) "\<not> (1 \<le> budget \<and> budget \<le> 1000000) \<or> \<not> (fl_le (Fin 1) ttl \<and> fl_le ttl (Fin 86400))"
      "sessions_open peer model purpose budget ttl uuid (Fin now) r =
        (Inl (ValueError ''session budget or TTL out of bounds''), sessions_gc (Fin now) r)"
  | (opened) s d where "1 \<le> budget" "budget \<le> 1000000" "fl_le (Fin 1) ttl" "fl_le ttl (Fin 86400)"
      "s = \<lparr>se_id = uuid, se_peer = peer, se_model = model, se_purpose = purpose,
            se_budget = budget, se_used = 0, se_opened = Fin now, se_ttl = ttl\<rparr>"
      "sessions_open peer model purpose budget ttl uuid (Fin now) r =
         (Inr s, r\<lparr>sr_sessions := dict_set uuid s d\<rparr>)"
      "d = sr_sessions (sessions_gc (Fin now) r) \<or>
         (\<exists>k. d = dict_del k (sr_sessions (sessions_gc (Fin now) r)) \<and>
            int (length (sr_sessions (sessions_gc (Fin now) r))) \<ge> sr_max r)"
      "int (length d) < sr_max r"
proof (cases "(1 \<le> budget \<and> budget \<le> 1000000) \<and> (fl_le (Fin 1) ttl \<and> fl_le ttl (Fin 86400))")
  case False
  then show ?thesis by (intro refused) (auto simp: sessions_open_def Let_def)
next
  case True
  let ?r1 = "sessions_gc (Fin now) r"
  have ok1: "registry_ok ?r1" using ok by (rule sessions_gc_ok)
  have upd: "?r1\<lparr>sr_sessions := x\<rparr> = r\<lparr>sr_sessions := x\<rparr>" for x by (simp add: sessions_gc_def)
  show ?thesis
  proof (cases "int (length (sr_sessions ?r1)) \<ge> sr_max r")
    case full: True
    then obtain k where k: "evict_oldest ?r1 = Inr (?r1\<lparr>sr_sessions := dict_del k (sr_sessions ?r1)\<rparr>)"
      "k \<in> set (map fst (sr_sessions ?r1))"
      using evict_oldest_ok [OF ok1] by auto
    have "int (length (dict_del k (sr_sessions ?r1))) < sr_max r"
      using length_dict_del_in [of "sr_sessions ?r1" k] k(2) ok1 by (simp add: registry_ok_def)
    then show ?thesis using True full k(1)
      by (intro opened [OF _ _ _ _ refl _ disjI2]) (auto simp: sessions_open_def Let_def upd)
  next
    case room: False
    then show ?thesis using True
      by (intro opened [OF _ _ _ _ refl _ disjI1]) (auto simp: sessions_open_def Let_def upd)
  qed
qed

lemma sessions_open_ok:
  assumes "registry_ok r"
  shows "registry_ok (snd (sessions_open peer model purpose budget ttl uuid (Fin now) r))"
  using assms
proof (cases rule: sessions_open_cases [where budget = budget and ttl = ttl and peer = peer and model = model
      and purpose = purpose and uuid = uuid and now = now])
  case refused
  then show ?thesis using sessions_gc_ok [OF assms] by simp
next
  case (opened s d)
  let ?g = "sr_sessions (sessions_gc (Fin now) r)"
  have g: "dict_ok ?g" "list_all (\<lambda>(k, s). se_id s = k \<and> session_ok s) ?g" "1 \<le> sr_max r"
    using sessions_gc_ok [OF assms, of "Fin now"] by (auto simp: registry_ok_def)
  have d: "dict_ok d" "list_all (\<lambda>(k, s). se_id s = k \<and> session_ok s) d"
    using opened(7) g by (auto simp: dict.wf_remove list_all_dict_del)
  have "session_ok s" using opened by (simp add: session_ok_def)
  then show ?thesis
    using opened(5,6,8) d g(3) by (auto simp: registry_ok_def dict.wf_store list_all_dict_set length_dict_set)
qed

lemma session_use_cases:
  assumes "registry_ok r"
  obtains (denied) "session_use sid peer now now' r = (None, sessions_gc now r)"
  | (granted) s where "dict_get (sr_sessions r) sid = Some s" "\<not> fl_gt now (session_expiry s)"
      "se_peer s = peer" "\<not> fl_gt now' (session_expiry s)" "se_used s < se_budget s"
      "session_use sid peer now now' r = (Some (s\<lparr>se_used := se_used s + 1\<rparr>),
         (sessions_gc now r)\<lparr>sr_sessions := dict_set sid (s\<lparr>se_used := se_used s + 1\<rparr>) (sr_sessions (sessions_gc now r))\<rparr>)"
proof (cases "dict_get (sr_sessions (sessions_gc now r)) sid")
  case None
  then show ?thesis by (intro denied) (simp add: session_use_def sessions_get_def Let_def)
next
  case (Some s)
  then have s: "dict_get (sr_sessions r) sid = Some s" "\<not> fl_gt now (session_expiry s)"
    using assms by (auto simp: sessions_gc_get split: option.splits if_splits)
  show ?thesis
  proof (cases "se_peer s = peer \<and> \<not> fl_gt now' (session_expiry s) \<and> se_used s < se_budget s")
    case True
    then show ?thesis
      by (intro granted [OF s]) (auto simp: session_use_def sessions_get_def Let_def Some session_consume_def)
  next
    case False
    then show ?thesis
      by (intro denied) (auto simp: session_use_def sessions_get_def Let_def Some session_consume_def)
  qed
qed

lemma session_use_ok:
  assumes "registry_ok r"
  shows "registry_ok (snd (session_use sid peer now now' r))"
  using assms
proof (cases rule: session_use_cases [where sid = sid and peer = peer and now = now and now' = now'])
  case denied
  then show ?thesis using sessions_gc_ok [OF assms] by simp
next
  case (granted s)
  let ?r = "sessions_gc now r"
  have ok: "registry_ok ?r" using assms by (rule sessions_gc_ok)
  have "dict_get (sr_sessions ?r) sid = Some s" using granted(1,2) assms by (simp add: sessions_gc_get)
  then have mem: "sid \<in> set (map fst (sr_sessions ?r))" and s: "se_id s = sid" "session_ok s"
    using dict_get_None_iff [of "sr_sessions ?r" sid] registry_okD [OF ok] by auto
  have "session_ok (s\<lparr>se_used := se_used s + 1\<rparr>)" using s(2) granted(5) by (simp add: session_ok_def)
  then show ?thesis
    using ok mem s(1) granted(6) by (auto simp: registry_ok_def dict.wf_store list_all_dict_set length_dict_set)
qed

section \<open>Runs\<close>

datatype session_event =
    SOpen string string string int pyfloat string rat
  | SUse string string rat rat

fun session_step :: "session_event \<Rightarrow> registry \<Rightarrow> session option \<times> registry" where
  "session_step (SOpen peer model purpose budget ttl uuid now) r =
     (case sessions_open peer model purpose budget ttl uuid (Fin now) r of
        (Inl e, r') \<Rightarrow> (None, r')
      | (Inr s, r') \<Rightarrow> (Some s, r'))"
| "session_step (SUse sid peer now now') r = session_use sid peer (Fin now) (Fin now') r"

fun session_after :: "session_event list \<Rightarrow> registry \<Rightarrow> registry" where
  "session_after [] r = r"
| "session_after (e # es) r = session_after es (snd (session_step e r))"

text \<open>How many uses of a session were granted in a run.\<close>

fun uses :: "string \<Rightarrow> session_event \<Rightarrow> bool" where
  "uses sid (SUse sid' _ _ _) = (sid' = sid)"
| "uses sid (SOpen _ _ _ _ _ _ _) = False"

fun opens :: "string \<Rightarrow> session_event \<Rightarrow> bool" where
  "opens sid (SOpen _ _ _ _ _ uuid _) = (uuid = sid)"
| "opens sid (SUse _ _ _ _) = False"

fun grants :: "string \<Rightarrow> session_event list \<Rightarrow> registry \<Rightarrow> nat" where
  "grants sid [] r = 0"
| "grants sid (e # es) r =
     (if uses sid e \<and> fst (session_step e r) \<noteq> None then 1 else 0) + grants sid es (snd (session_step e r))"

lemma session_step_ok: "registry_ok r \<Longrightarrow> registry_ok (snd (session_step e r))"
proof (cases e)
  case (SOpen peer model purpose budget ttl uuid now)
  assume "registry_ok r"
  from sessions_open_ok [OF this, of peer model purpose budget ttl uuid now] show ?thesis
    by (auto simp: SOpen split: prod.splits sum.splits)
qed (simp add: session_use_ok)

lemma session_after_ok: "registry_ok r \<Longrightarrow> registry_ok (session_after es r)"
  by (induction es arbitrary: r) (auto simp: session_step_ok)

definition budget_left :: "registry \<Rightarrow> string \<Rightarrow> int" where
  "budget_left r sid = (case dict_get (sr_sessions r) sid of None \<Rightarrow> 0 | Some s \<Rightarrow> se_budget s - se_used s)"

lemma budget_left_nonneg: "registry_ok r \<Longrightarrow> 0 \<le> budget_left r sid"
  by (auto simp: budget_left_def session_ok_def dest: registry_okD(2) split: option.splits)

lemma budget_left_gc: "registry_ok r \<Longrightarrow> budget_left (sessions_gc now r) sid \<le> budget_left r sid"
  using budget_left_nonneg [of r sid]
  by (auto simp: budget_left_def sessions_gc_get split: option.splits)

text \<open>A step never adds to the budget of a session, and a granted use takes one away.\<close>

lemma budget_left_step:
  assumes "registry_ok r" and "\<not> opens sid e"
  shows "budget_left (snd (session_step e r)) sid +
     (if uses sid e \<and> fst (session_step e r) \<noteq> None then 1 else 0) \<le> budget_left r sid"
proof (cases e)
  case (SOpen peer model purpose budget ttl uuid now)
  from assms(1) show ?thesis
  proof (cases rule: sessions_open_cases [where budget = budget and ttl = ttl and peer = peer and model = model
      and purpose = purpose and uuid = uuid and now = now])
    case refused
    then show ?thesis using budget_left_gc [OF assms(1), of "Fin now" sid] by (simp add: SOpen)
  next
    case (opened s d)
    have "budget_left (r\<lparr>sr_sessions := dict_set uuid s d\<rparr>) sid \<le> budget_left (sessions_gc (Fin now) r) sid"
      using opened(7) assms(2) budget_left_nonneg [OF sessions_gc_ok [OF assms(1)], of "Fin now" sid]
      by (auto simp: SOpen budget_left_def dict.lookup_store dict.lookup_remove)
    also have "\<dots> \<le> budget_left r sid" by (rule budget_left_gc [OF assms(1)])
    finally show ?thesis using opened(6) by (simp add: SOpen)
  qed
next
  case (SUse sid' peer now now')
  from assms(1) show ?thesis
  proof (cases rule: session_use_cases [where sid = sid' and peer = peer and now = "Fin now" and now' = "Fin now'"])
    case denied
    then show ?thesis using budget_left_gc [OF assms(1), of "Fin now" sid] by (simp add: SUse)
  next
    case (granted s)
    then show ?thesis using budget_left_gc [OF assms(1), of "Fin now" sid]
      by (auto simp: SUse budget_left_def dict.lookup_store)
  qed
qed

lemma grants_le_budget_left:
  "registry_ok r \<Longrightarrow> \<forall>e\<in>set es. \<not> opens sid e \<Longrightarrow> int (grants sid es r) \<le> budget_left r sid"
proof (induction es arbitrary: r)
  case (Cons e es)
  have "int (grants sid es (snd (session_step e r))) \<le> budget_left (snd (session_step e r)) sid"
    using Cons by (intro Cons.IH session_step_ok) auto
  then show ?case using budget_left_step [of r sid e] Cons.prems by auto
qed (simp add: budget_left_nonneg)

lemma grants_append: "grants sid (xs @ ys) r = grants sid xs r + grants sid ys (session_after xs r)"
  by (induction xs arbitrary: r) auto

lemma budget_left_opened:
  assumes "registry_ok r" and "budget_left r uuid = 0"
  shows "budget_left (snd (session_step (SOpen peer model purpose budget ttl uuid now) r)) uuid
     \<le> (if 1 \<le> budget \<and> budget \<le> 1000000 then budget else 0)"
  using assms(1)
proof (cases rule: sessions_open_cases [where budget = budget and ttl = ttl and peer = peer and model = model
      and purpose = purpose and uuid = uuid and now = now])
  case refused
  then show ?thesis using budget_left_gc [OF assms(1), of "Fin now" uuid] assms(2) by simp
next
  case (opened s d)
  then show ?thesis by (simp add: budget_left_def)
qed

lemma budget_left_zero_run:
  "registry_ok r \<Longrightarrow> \<forall>e\<in>set es. \<not> opens sid e \<Longrightarrow> budget_left r sid = 0 \<Longrightarrow> budget_left (session_after es r) sid = 0"
proof (induction es arbitrary: r)
  case (Cons e es)
  have "budget_left (snd (session_step e r)) sid = 0"
    using budget_left_step [OF Cons.prems(1), of sid e] budget_left_nonneg [OF session_step_ok [OF Cons.prems(1)], of e sid]
      Cons.prems(2,3) by (auto split: if_splits)
  then show ?case using Cons by (simp add: session_step_ok)
qed simp

section \<open>Properties\<close>

lemma registry_new_ok [simp]: "registry_ok registry_new"
  by (simp add: registry_ok_def registry_new_def)

text \<open>C32: The budget of a session is never exceeded: over any run of the registry, however openings,
  expiries, evictions and uses of this and other sessions are interleaved, the uses granted under an
  identifier are at most the budget it was opened with, and none if that budget was out of bounds. The
  identifier must be fresh, as \<open>uuid4\<close> makes it.\<close>

theorem session_budget_never_exceeded:
  assumes "\<forall>e\<in>set (before @ later). \<not> opens sid e"
  shows "int (grants sid (before @ SOpen peer model purpose budget ttl sid now # later) registry_new)
     \<le> (if 1 \<le> budget \<and> budget \<le> 1000000 then budget else 0)"
proof -
  let ?r1 = "session_after before registry_new" and ?e = "SOpen peer model purpose budget ttl sid now"
  have zero: "budget_left registry_new sid = 0" by (simp add: budget_left_def registry_new_def dict_get_def)
  have ok1: "registry_ok ?r1" by (simp add: session_after_ok)
  have "int (grants sid before registry_new) \<le> 0"
    using grants_le_budget_left [of registry_new before sid] assms zero by simp
  moreover have z1: "budget_left ?r1 sid = 0" using assms zero by (intro budget_left_zero_run) auto
  moreover have "int (grants sid later (snd (session_step ?e ?r1))) \<le> budget_left (snd (session_step ?e ?r1)) sid"
    using assms by (intro grants_le_budget_left session_step_ok [OF ok1]) auto
  ultimately show ?thesis
    using budget_left_opened [OF ok1 z1, of peer model purpose budget ttl now]
    by (simp add: grants_append del: session_step.simps)
qed

theorem session_budget_never_exceeded_witness:
  "int (grants ''s'' ([] @ SOpen ''p'' ''m'' ''read'' 2 (Fin 60) ''s'' 0 # replicate 5 (SUse ''s'' ''p'' 1 1)) registry_new) \<le> 2"
  using session_budget_never_exceeded [of "[]" "replicate 5 (SUse ''s'' ''p'' 1 1)" "''s''" "''p''" "''m''" "''read''" 2 "Fin 60" 0]
  by (simp del: grants.simps)

text \<open>A use is granted exactly when the session is registered, belongs to the asking peer, has not
  expired at either reading of the clock and has budget left; it then costs one unit of the budget.\<close>

theorem session_use_granted_iff:
  assumes "registry_ok r"
  shows "fst (session_use sid peer now now' r) \<noteq> None \<longleftrightarrow>
     (\<exists>s. dict_get (sr_sessions r) sid = Some s \<and> se_peer s = peer \<and> \<not> fl_gt now (session_expiry s) \<and>
        \<not> fl_gt now' (session_expiry s) \<and> se_used s < se_budget s \<and>
        dict_get (sr_sessions (snd (session_use sid peer now now' r))) sid = Some (s\<lparr>se_used := se_used s + 1\<rparr>))"
  using assms
proof (cases rule: session_use_cases [where sid = sid and peer = peer and now = now and now' = now'])
  case denied
  have "s \<noteq> s\<lparr>se_used := se_used s + 1\<rparr>" for s
    by (auto dest: arg_cong [where f = se_used])
  then show ?thesis using denied assms by (auto simp: sessions_gc_get split: option.splits)
next
  case (granted s)
  then show ?thesis by auto
qed

theorem session_use_granted_iff_witness:
  "fst (session_use ''s'' ''p'' (Fin 61) (Fin 61)
     \<lparr>sr_max = 256, sr_sessions = [(''s'', \<lparr>se_id = ''s'', se_peer = ''p'', se_model = ''m'', se_purpose = ''read'',
        se_budget = 2, se_used = 0, se_opened = Fin 0, se_ttl = Fin 60\<rparr>)]\<rparr>) = None"
  (is "fst (session_use _ _ _ _ ?r) = None")
proof -
  have "registry_ok ?r" by (simp add: registry_ok_def session_ok_def)
  from session_use_granted_iff [OF this, of "''s''" "''p''" "Fin 61" "Fin 61"] show ?thesis
    by (auto simp: dict_get_def session_expiry_def)
qed

text \<open>Whatever is opened and used, the registry holds at most 256 sessions, each under its own
  identifier, with a budget and a lifetime within the limits and no more used than budgeted; opening
  never raises anything but the documented \<open>ValueError\<close>.\<close>

theorem session_registry_invariant:
  "let r = session_after es registry_new in
     registry_ok r \<and> int (length (sr_sessions r)) \<le> 256 \<and>
     fst (sessions_open peer model purpose budget ttl uuid (Fin now) r) \<in>
       insert (Inl (ValueError ''session budget or TTL out of bounds''))
         (Inr ` {s. se_id s = uuid \<and> se_peer s = peer \<and> se_budget s = budget \<and> se_used s = 0})"
proof -
  let ?r = "session_after es registry_new"
  have ok: "registry_ok ?r" by (simp add: session_after_ok)
  have "sr_max (snd (session_step e r)) = sr_max r" if "registry_ok r" for e r
  proof (cases e)
    case (SOpen peer model purpose budget ttl uuid now)
    from that show ?thesis
      by (cases rule: sessions_open_cases [where budget = budget and ttl = ttl and peer = peer and model = model
          and purpose = purpose and uuid = uuid and now = now]) (auto simp: SOpen)
  next
    case (SUse sid peer now now')
    from that show ?thesis
      by (cases rule: session_use_cases [where sid = sid and peer = peer and now = "Fin now" and now' = "Fin now'"])
        (auto simp: SUse)
  qed
  then have "registry_ok r \<Longrightarrow> sr_max (session_after es r) = sr_max r" for r
    by (induction es arbitrary: r) (auto simp: session_step_ok)
  then have "sr_max ?r = 256" by (simp add: registry_new_def [THEN arg_cong [where f = sr_max]])
  moreover have "fst (sessions_open peer model purpose budget ttl uuid (Fin now) ?r) \<in>
       insert (Inl (ValueError ''session budget or TTL out of bounds''))
         (Inr ` {s. se_id s = uuid \<and> se_peer s = peer \<and> se_budget s = budget \<and> se_used s = 0})"
    using ok
    by (cases rule: sessions_open_cases [where budget = budget and ttl = ttl and peer = peer and model = model
        and purpose = purpose and uuid = uuid and now = now]) auto
  ultimately show ?thesis using ok by (auto simp: Let_def registry_ok_def)
qed

end
