(* ===== verification/Reputation.thy ===== *)
theory Reputation
  imports Prelude
begin

text \<open>
  Peer observations of \<open>telepath/reputation.py\<close>: counters per peer, a running average of the latency
  and a score between 0 and 1. Latencies and scores are exact rationals.
\<close>

section \<open>Records\<close>

record peer_record =
  pr_successful :: int
  pr_denied :: int
  pr_failed :: int
  pr_bytes_in :: int
  pr_bytes_out :: int
  pr_latency :: rat

definition peer_record_new :: peer_record where
  "peer_record_new = \<lparr>pr_successful = 0, pr_denied = 0, pr_failed = 0, pr_bytes_in = 0, pr_bytes_out = 0, pr_latency = 0\<rparr>"

definition score :: "peer_record \<Rightarrow> rat" where
  "score r = (let total = pr_successful r + pr_denied r + pr_failed r in
     if total = 0 then 1 / 2
     else max 0 ((of_int (pr_successful r) - 1 / 2 * of_int (pr_denied r) - of_int (pr_failed r)) / of_int total))"

type_synonym reputation = "(string, peer_record) dict"

definition record_row :: "string \<Rightarrow> int \<Rightarrow> rat \<Rightarrow> bool \<Rightarrow> peer_record \<Rightarrow> peer_record" where
  "record_row outcome size_bytes latency inbound row =
     (if outcome = ''success'' then
        (let n = pr_successful row + 1 in
         row\<lparr>pr_successful := n,
             pr_bytes_in := pr_bytes_in row + (if inbound then size_bytes else 0),
             pr_bytes_out := pr_bytes_out row + (if inbound then 0 else size_bytes),
             pr_latency := pr_latency row + (latency - pr_latency row) / of_int n\<rparr>)
      else if outcome = ''denied'' then row\<lparr>pr_denied := pr_denied row + 1\<rparr>
      else row\<lparr>pr_failed := pr_failed row + 1\<rparr>)"

definition rep_record :: "string \<Rightarrow> string \<Rightarrow> int \<Rightarrow> rat \<Rightarrow> bool \<Rightarrow> reputation \<Rightarrow> reputation" where
  "rep_record peer outcome size_bytes latency inbound rep =
     dict_set peer (record_row outcome size_bytes latency inbound (dict_get_default rep peer peer_record_new)) rep"

text \<open>\<open>round(x, 3)\<close>: to the nearest thousandth, ties to the even one.\<close>

definition round3 :: "rat \<Rightarrow> rat" where
  "round3 x =
     (let y = 1000 * x; f = \<lfloor>y\<rfloor>; d = y - of_int f
      in of_int (if d < 1 / 2 then f else if d > 1 / 2 then f + 1 else if even f then f else f + 1) / 1000)"

definition rep_summary :: "reputation \<Rightarrow> (string \<times> rat \<times> peer_record) list" where
  "rep_summary rep =
     map (\<lambda>(key, row). (take 8 key, round3 (score row), row)) (sort_key (\<lambda>(key, row). - score row) rep)"

section \<open>Observations\<close>

record observation =
  ob_peer :: string
  ob_outcome :: string
  ob_size :: int
  ob_latency :: rat
  ob_inbound :: bool

definition rep_run :: "observation list \<Rightarrow> reputation \<Rightarrow> reputation" where
  "rep_run obs rep = fold (\<lambda>b. rep_record (ob_peer b) (ob_outcome b) (ob_size b) (ob_latency b) (ob_inbound b)) obs rep"

definition obs_of :: "string \<Rightarrow> observation list \<Rightarrow> observation list" where
  "obs_of p obs = filter (\<lambda>b. ob_peer b = p) obs"

definition successes :: "observation list \<Rightarrow> observation list" where
  "successes obs = filter (\<lambda>b. ob_outcome b = ''success'') obs"

text \<open>The record that the observations of one peer, in order, amount to.\<close>

definition tally :: "observation list \<Rightarrow> peer_record" where
  "tally obs = \<lparr>pr_successful = int (length (successes obs)),
     pr_denied = int (length (filter (\<lambda>b. ob_outcome b = ''denied'') obs)),
     pr_failed = int (length (filter (\<lambda>b. ob_outcome b \<noteq> ''success'' \<and> ob_outcome b \<noteq> ''denied'') obs)),
     pr_bytes_in = sum_list (map ob_size (filter ob_inbound (successes obs))),
     pr_bytes_out = sum_list (map ob_size (filter (\<lambda>b. \<not> ob_inbound b) (successes obs))),
     pr_latency = (if successes obs = [] then 0
       else sum_list (map ob_latency (successes obs)) / of_nat (length (successes obs)))\<rparr>"

lemma tally_Nil [simp]: "tally [] = peer_record_new"
  by (simp add: tally_def peer_record_new_def successes_def)

text \<open>The running average is the mean: one step of it.\<close>

lemma running_mean:
  fixes s :: rat
  assumes "0 < n"
  shows "s / of_nat n + (x - s / of_nat n) / of_nat (Suc n) = (s + x) / of_nat (Suc n)"
proof -
  have "s / of_nat n * of_nat (Suc n) = s + s / of_nat n"
    using assms by (simp add: field_simps)
  then show ?thesis by (simp add: field_simps)
qed

lemma tally_snoc:
  "tally (obs @ [b]) = record_row (ob_outcome b) (ob_size b) (ob_latency b) (ob_inbound b) (tally obs)"
proof (cases "ob_outcome b = ''success''")
  case True
  show ?thesis
  proof (cases "successes obs = []")
    case True
    with \<open>ob_outcome b = ''success''\<close> show ?thesis by (simp add: tally_def record_row_def successes_def Let_def)
  next
    case False
    then have n: "0 < length (successes obs)" by simp
    have "sum_list (map ob_latency (successes obs)) / of_nat (length (successes obs)) +
        (ob_latency b - sum_list (map ob_latency (successes obs)) / of_nat (length (successes obs))) /
        of_int (int (length (successes obs)) + 1) =
       (sum_list (map ob_latency (successes obs)) + ob_latency b) / of_nat (Suc (length (successes obs)))"
      using running_mean [OF n, of "sum_list (map ob_latency (successes obs))" "ob_latency b"] by (simp add: add.commute)
    moreover have "successes (obs @ [b]) = successes obs @ [b]" using True by (simp add: successes_def)
    ultimately show ?thesis using True False by (simp add: tally_def record_row_def Let_def add.commute)
  qed
qed (simp add: tally_def record_row_def successes_def)

lemma rep_run_snoc:
  "rep_run (obs @ [b]) rep =
     rep_record (ob_peer b) (ob_outcome b) (ob_size b) (ob_latency b) (ob_inbound b) (rep_run obs rep)"
  by (simp add: rep_run_def)

lemma rep_record_get:
  "dict_get_default (rep_record p oc sz lat inb rep) q peer_record_new =
     (if q = p then record_row oc sz lat inb (dict_get_default rep p peer_record_new)
      else dict_get_default rep q peer_record_new)"
  by (simp add: rep_record_def dict_get_default_eq dict.lookup_store)

lemma rep_record_keys: "dict_ok rep \<Longrightarrow> dict_ok (rep_record p oc sz lat inb rep)"
  by (simp add: rep_record_def dict.wf_store)

lemma rep_tally:
  "dict_get_default (rep_run obs []) p peer_record_new = tally (obs_of p obs)"
proof (induction obs rule: rev_induct)
  case Nil
  show ?case by (simp add: rep_run_def obs_of_def dict_get_default_def)
next
  case (snoc b obs)
  show ?case
  proof (cases "ob_peer b = p")
    case True
    then have "obs_of p (obs @ [b]) = obs_of p obs @ [b]" by (simp add: obs_of_def)
    then show ?thesis using snoc True by (simp add: rep_run_snoc rep_record_get tally_snoc)
  next
    case False
    then have "obs_of p (obs @ [b]) = obs_of p obs" by (simp add: obs_of_def)
    then show ?thesis using snoc False by (simp add: rep_run_snoc rep_record_get)
  qed
qed

section \<open>Properties\<close>

text \<open>After any observations the record of a peer is the tally of its own ones: outcomes counted by
  kind (anything that is neither success nor denial is a failure), bytes summed by direction, and the
  average latency the mean over the successes.\<close>

theorem reputation_is_tally:
  "dict_get_default (rep_run obs []) p peer_record_new = tally (obs_of p obs)"
  by (rule rep_tally)

lemma score_bounds_counts:
  assumes "0 \<le> pr_successful r" and "0 \<le> pr_denied r" and "0 \<le> pr_failed r"
  shows "0 \<le> score r \<and> score r \<le> 1"
proof (cases "pr_successful r + pr_denied r + pr_failed r = 0")
  case False
  let ?t = "of_int (pr_successful r + pr_denied r + pr_failed r) :: rat"
  have t: "0 < ?t" using False assms by (simp add: add_nonneg_nonneg less_le)
  have "of_int (pr_successful r) - 1 / 2 * of_int (pr_denied r) - of_int (pr_failed r) \<le> ?t"
    using assms by simp
  then have "(of_int (pr_successful r) - 1 / 2 * of_int (pr_denied r) - of_int (pr_failed r)) / ?t \<le> 1"
    using t by (simp add: divide_le_eq)
  then show ?thesis using False by (simp add: score_def Let_def)
qed (simp add: score_def Let_def)

text \<open>Every score is between 0 and 1, 1/2 for a peer without observations, 1 exactly for one with
  successes only.\<close>

theorem reputation_score_range:
  "let r = dict_get_default (rep_run obs []) p peer_record_new in
     0 \<le> score r \<and> score r \<le> 1 \<and> (obs_of p obs = [] \<longrightarrow> score r = 1 / 2) \<and>
     (score r = 1 \<longleftrightarrow> obs_of p obs \<noteq> [] \<and> successes (obs_of p obs) = obs_of p obs)"
proof -
  define os where "os = obs_of p obs"
  define s d f where "s = length (successes os)" and "d = length (filter (\<lambda>b. ob_outcome b = ''denied'') os)"
    and "f = length (filter (\<lambda>b. ob_outcome b \<noteq> ''success'' \<and> ob_outcome b \<noteq> ''denied'') os)"
  have len: "s + d + f = length os"
    unfolding s_def d_def f_def successes_def by (induction os) auto
  have sc: "score (tally os) = (if os = [] then 1 / 2
      else max 0 ((of_nat s - 1 / 2 * of_nat d - of_nat f) / of_nat (length os)))"
    using len by (auto simp: score_def tally_def Let_def s_def [symmetric] d_def [symmetric] f_def [symmetric]
        simp flip: of_nat_add)
  have all: "successes os = os \<longleftrightarrow> d = 0 \<and> f = 0"
  proof -
    have "successes os = os \<longleftrightarrow> s = length os"
      unfolding s_def successes_def
      using length_filter_less [of _ os "\<lambda>b. ob_outcome b = ''success''"]
      by (auto simp: filter_id_conv) (metis length_filter_less less_irrefl)
    with len show ?thesis by auto
  qed
  have "(max 0 ((of_nat s - 1 / 2 * of_nat d - of_nat f) / of_nat (length os)) = (1 :: rat)) \<longleftrightarrow> d = 0 \<and> f = 0"
    if "os \<noteq> []"
  proof -
    have "0 < length os" using that by simp
    then have "(max 0 ((of_nat s - 1 / 2 * of_nat d - of_nat f) / of_nat (length os)) = (1 :: rat)) \<longleftrightarrow>
        of_nat s - 1 / 2 * of_nat d - of_nat f = (of_nat (s + d + f) :: rat)"
      by (auto simp: max_def divide_eq_eq len split: if_splits)
    also have "\<dots> \<longleftrightarrow> (of_nat (3 * d + 4 * f) :: rat) = of_nat 0" by (simp add: field_simps)
    also have "\<dots> \<longleftrightarrow> 3 * d + 4 * f = 0" by (simp only: of_nat_eq_iff)
    finally show ?thesis by auto
  qed
  then have "score (tally os) = 1 \<longleftrightarrow> os \<noteq> [] \<and> successes os = os"
    using all unfolding sc by (cases "os = []") auto
  moreover have "0 \<le> score (tally os) \<and> score (tally os) \<le> 1"
    by (rule score_bounds_counts) (simp_all add: tally_def)
  moreover have "os = [] \<longrightarrow> score (tally os) = 1 / 2" unfolding sc by simp
  ultimately show ?thesis unfolding Let_def rep_tally os_def [symmetric] by blast
qed

theorem reputation_score_range_witness:
  "score (dict_get_default (rep_run [\<lparr>ob_peer = ''p'', ob_outcome = ''denied'', ob_size = 0, ob_latency = 0,
     ob_inbound = True\<rparr>] []) ''q'' peer_record_new) = 1 / 2"
  using reputation_score_range [of "[\<lparr>ob_peer = ''p'', ob_outcome = ''denied'', ob_size = 0, ob_latency = 0,
     ob_inbound = True\<rparr>]" "''q''"]
  by (simp add: obs_of_def Let_def)

end
