(* ===== verification/Tiers.thy ===== *)
theory Tiers
  imports Py_Float Py_Text
begin

text \<open>
  The storage tiers of \<open>telepath/tiers.py\<close>: entries touched at a time are hot, and reclassification
  moves them by age to warm, cold and ice.
\<close>

section \<open>Tiers and entries\<close>

datatype tier = HOT | WARM | COLD | ICE

record tier_entry =
  te_key :: string
  te_size :: int
  te_location :: string
  te_last :: pyfloat
  te_tier :: tier

type_synonym tiers = "(string, tier_entry) dict"

definition tiers_touch :: "string \<Rightarrow> int \<Rightarrow> string \<Rightarrow> pyfloat \<Rightarrow> tiers \<Rightarrow> tiers" where
  "tiers_touch key size_bytes location clock ts =
     dict_set key \<lparr>te_key = key, te_size = size_bytes, te_location = location, te_last = clock, te_tier = HOT\<rparr> ts"

definition tier_of_age :: "pyfloat \<Rightarrow> tier" where
  "tier_of_age age =
     (if fl_less age (Fin 60) then HOT
      else if fl_less age (Fin 3600) then WARM
      else if fl_less age (Fin 604800) then COLD
      else ICE)"

text \<open>The loop over the entries: the moves so far and each entry with its new tier.\<close>

fun reclassify_entries :: "pyfloat \<Rightarrow> tiers \<Rightarrow> (string \<times> tier \<times> tier) list \<times> tiers" where
  "reclassify_entries current [] = ([], [])"
| "reclassify_entries current ((k, e) # es) =
     (let new = tier_of_age (fl_sub current (te_last e));
          (moves, es') = reclassify_entries current es
      in if new \<noteq> te_tier e then ((te_key e, te_tier e, new) # moves, (k, e\<lparr>te_tier := new\<rparr>) # es')
         else (moves, (k, e) # es'))"

definition reclassify :: "pyfloat option \<Rightarrow> pyfloat \<Rightarrow> tiers \<Rightarrow> (string \<times> tier \<times> tier) list \<times> tiers" where
  "reclassify now clock ts = reclassify_entries (case now of None \<Rightarrow> clock | Some t \<Rightarrow> t) ts"

definition tier_bytes :: "tiers \<Rightarrow> tier \<Rightarrow> int" where
  "tier_bytes ts t = sum_list (map (\<lambda>(k, e). te_size e) (filter (\<lambda>(k, e). te_tier e = t) ts))"

definition tiers_summary :: "tiers \<Rightarrow> (string \<times> int) list" where
  "tiers_summary ts = map (\<lambda>(name, t). (name, tier_bytes ts t))
     [(''hot'', HOT), (''warm'', WARM), (''cold'', COLD), (''ice'', ICE)]"

section \<open>Properties\<close>

lemma reclassify_entries_eq:
  "reclassify_entries t ts =
     (map (\<lambda>(k, e). (te_key e, te_tier e, tier_of_age (fl_sub t (te_last e))))
        (filter (\<lambda>(k, e). tier_of_age (fl_sub t (te_last e)) \<noteq> te_tier e) ts),
      map (\<lambda>(k, e). (k, e\<lparr>te_tier := tier_of_age (fl_sub t (te_last e))\<rparr>)) ts)"
  by (induction t ts rule: reclassify_entries.induct) (auto simp: Let_def)

text \<open>Ages in order are tiers in order; the boundaries belong to the older tier.\<close>

fun tier_rank :: "tier \<Rightarrow> nat" where
  "tier_rank HOT = 0" | "tier_rank WARM = 1" | "tier_rank COLD = 2" | "tier_rank ICE = 3"

lemma tier_of_age_mono: "a \<le> b \<Longrightarrow> tier_rank (tier_of_age (Fin a)) \<le> tier_rank (tier_of_age (Fin b))"
  by (auto simp: tier_of_age_def)

lemma tier_bytes_total:
  "tier_bytes ts HOT + tier_bytes ts WARM + tier_bytes ts COLD + tier_bytes ts ICE = sum_list (map (\<lambda>(k, e). te_size e) ts)"
proof (induction ts)
  case (Cons x ts)
  then show ?case by (cases x; cases "te_tier (snd x)") (auto simp: tier_bytes_def)
qed (simp add: tier_bytes_def)

text \<open>Reclassification gives every entry the tier of its age, reports exactly the entries whose tier
  changed with their old and new tier, changes nothing else, and has nothing to report when repeated at
  the same time; the bytes of the four tiers in \<open>summary\<close> always add up to those of all entries.\<close>

theorem reclassify_correct:
  "let (moves, ts') = reclassify (Some t) clock ts in
     ts' = map (\<lambda>(k, e). (k, e\<lparr>te_tier := tier_of_age (fl_sub t (te_last e))\<rparr>)) ts \<and>
     moves = map (\<lambda>(k, e). (te_key e, te_tier e, tier_of_age (fl_sub t (te_last e))))
        (filter (\<lambda>(k, e). tier_of_age (fl_sub t (te_last e)) \<noteq> te_tier e) ts) \<and>
     fst (reclassify (Some t) clock ts') = [] \<and>
     sum_list (map snd (tiers_summary ts')) = sum_list (map (\<lambda>(k, e). te_size e) ts)"
proof -
  let ?new = "map (\<lambda>(k, e). (k, e\<lparr>te_tier := tier_of_age (fl_sub t (te_last e))\<rparr>)) ts"
  have "fst (reclassify (Some t) clock ?new) = []"
    by (auto simp: reclassify_def reclassify_entries_eq filter_empty_conv)
  moreover have "sum_list (map (\<lambda>(k, e). te_size e) ?new) = sum_list (map (\<lambda>(k, e). te_size e) ts)"
    by (induction ts) auto
  then have "sum_list (map snd (tiers_summary ?new)) = sum_list (map (\<lambda>(k, e). te_size e) ts)"
    using tier_bytes_total [of ?new] by (simp add: tiers_summary_def)
  ultimately show ?thesis by (simp add: reclassify_def reclassify_entries_eq)
qed

end
