(* ===== verification/Py_Convert.thy ===== *)
theory Py_Convert
  imports Json
begin

text \<open>
  Python's \<open>int\<close>, \<open>float\<close>, \<open>str\<close> and truth test on the values a JSON text can hold, with the
  exceptions they raise. Handlers apply them to fields of messages that come from the network.
\<close>

section \<open>Quoted text\<close>

text \<open>\<open>repr\<close> of a string: single quotes unless it has some and no double ones.\<close>

definition repr_char :: "char \<Rightarrow> char \<Rightarrow> string" where
  "repr_char q c =
     (if c = q \<or> c = CHR 92 then [CHR 92, c]
      else if c = CHR 9 then [CHR 92, CHR ''t'']
      else if c = CHR 10 then [CHR 92, CHR ''n'']
      else if c = CHR 13 then [CHR 92, CHR ''r'']
      else if code c < 32 \<or> (127 \<le> code c \<and> code c \<le> 160) \<or> code c = 173
        then [CHR 92, CHR ''x'', hex_digit (code c div 16), hex_digit (code c mod 16)]
      else [c])"

definition str_repr :: "string \<Rightarrow> string" where
  "str_repr s = (let q = (if CHR 39 \<in> set s \<and> CHR 34 \<notin> set s then CHR 34 else CHR 39)
                 in q # concat (map (repr_char q) s) @ [q])"

section \<open>Numbers in text\<close>

text \<open>\<open>str.strip\<close> knows more white space than \<open>bytes.fromhex\<close>.\<close>

definition is_str_space :: "char \<Rightarrow> bool" where
  "is_str_space c \<longleftrightarrow> is_py_space c \<or> (28 \<le> code c \<and> code c \<le> 31) \<or> code c = 133 \<or> code c = 160"

definition strip :: "string \<Rightarrow> string" where
  "strip s = rev (dropWhile is_str_space (rev (dropWhile is_str_space s)))"

text \<open>Digits with single underscores between them; \<^term>\<open>None\<close> for anything else.\<close>

fun digit_run :: "string \<Rightarrow> string option" where
  "digit_run [] = None"
| "digit_run (c # cs) =
     (if \<not> is_digit c then None
      else case cs of
          [] \<Rightarrow> Some [c]
        | d # ds \<Rightarrow> map_option ((#) c) (if d = CHR ''_'' then digit_run ds else digit_run cs))"

definition split_sign :: "string \<Rightarrow> bool \<times> string" where
  "split_sign s = (case s of
       c # cs \<Rightarrow> if c = CHR ''-'' then (True, cs) else if c = CHR ''+'' then (False, cs) else (False, s)
     | [] \<Rightarrow> (False, s))"

definition int_of_text :: "string \<Rightarrow> int result" where
  "int_of_text s =
     (let (neg, body) = split_sign (strip s) in
      (case digit_run body of
         None \<Rightarrow> Inl (ValueError (''invalid literal for int() with base 10: '' @ str_repr s))
       | Some ds \<Rightarrow> if 4300 < length ds then Inl (ValueError (''Exceeds the limit (4300 digits) for integer string conversion: value has '' @
                     nat_str (length ds) @ '' digits; use sys.set_int_max_str_digits() to increase the limit''))
                   else Inr ((if neg then - 1 else 1) * digits_int ds)))"

definition lower_char :: "char \<Rightarrow> char" where
  "lower_char c = (if 65 \<le> code c \<and> code c \<le> 90 then chr (code c + 32) else c)"

text \<open>\<open>str.lower\<close> on the code points of the model.\<close>

definition lower_latin :: "char \<Rightarrow> char" where
  "lower_latin c =
     (if (65 \<le> code c \<and> code c \<le> 90) \<or> (192 \<le> code c \<and> code c \<le> 222 \<and> code c \<noteq> 215) then chr (code c + 32) else c)"

text \<open>A decimal: digits, a point and digits (one side may be empty), an exponent.\<close>

definition digits_or_none :: "string \<Rightarrow> string option" where
  "digits_or_none s = (if s = [] then Some [] else digit_run s)"

definition decimal_of_text :: "string \<Rightarrow> rat option" where
  "decimal_of_text s =
     (let mantissa = takeWhile (\<lambda>c. c \<noteq> CHR ''e'' \<and> c \<noteq> CHR ''E'') s;
          rest = dropWhile (\<lambda>c. c \<noteq> CHR ''e'' \<and> c \<noteq> CHR ''E'') s;
          ip = takeWhile (\<lambda>c. c \<noteq> CHR ''.'') mantissa;
          fp = drop 1 (dropWhile (\<lambda>c. c \<noteq> CHR ''.'') mantissa);
          (eneg, es) = split_sign (drop 1 rest)
      in (case (digits_or_none ip, digits_or_none fp, if rest = [] then Some ''0'' else digit_run es) of
            (Some i, Some f, Some e) \<Rightarrow>
              if i = [] \<and> f = [] then None
              else Some (of_int (digits_int (i @ f)) *
                     pow10 ((if eneg then - digits_int e else digits_int e) - int (length f)))
          | _ \<Rightarrow> None))"

definition float_of_text :: "string \<Rightarrow> pyfloat result" where
  "float_of_text s =
     (let (neg, body) = split_sign (strip s); l = map lower_char body in
      if l = ''inf'' \<or> l = ''infinity'' then Inr (if neg then NInf else PInf)
      else if l = ''nan'' then Inr NaN
      else (case decimal_of_text body of
              None \<Rightarrow> Inl (ValueError (''could not convert string to float: '' @ str_repr s))
            | Some r \<Rightarrow> Inr (Fin (if neg then - r else r))))"

section \<open>Conversions\<close>

text \<open>The least magnitude that rounds past the largest double.\<close>

definition float_overflow :: int where
  "float_overflow = 2 ^ 1024 - 2 ^ 970"

fun py_float :: "json \<Rightarrow> pyfloat result" where
  "py_float (JFloat x) = Inr x"
| "py_float (JInt i) = (if float_overflow \<le> \<bar>i\<bar> then Inl OverflowError else Inr (Fin (of_int i)))"
| "py_float (JBool b) = Inr (Fin (if b then 1 else 0))"
| "py_float (JStr s) = float_of_text s"
| "py_float _ = Inl TypeError"

definition truncate_rat :: "rat \<Rightarrow> int" where
  "truncate_rat r = (if 0 \<le> r then \<lfloor>r\<rfloor> else \<lceil>r\<rceil>)"

fun py_int :: "json \<Rightarrow> int result" where
  "py_int (JInt i) = Inr i"
| "py_int (JBool b) = Inr (if b then 1 else 0)"
| "py_int (JFloat (Fin r)) = Inr (truncate_rat r)"
| "py_int (JFloat NaN) = Inl (ValueError ''cannot convert float NaN to integer'')"
| "py_int (JFloat _) = Inl OverflowError"
| "py_int (JStr s) = int_of_text s"
| "py_int _ = Inl TypeError"

fun float_str :: "pyfloat \<Rightarrow> string" where
  "float_str (Fin r) = float_text r"
| "float_str PInf = ''inf''"
| "float_str NInf = ''-inf''"
| "float_str NaN = ''nan''"

fun py_repr :: "json \<Rightarrow> string" where
  "py_repr JNull = ''None''"
| "py_repr (JBool b) = (if b then ''True'' else ''False'')"
| "py_repr (JInt i) = int_str i"
| "py_repr (JFloat x) = float_str x"
| "py_repr (JStr s) = str_repr s"
| "py_repr (JArr vs) = ''['' @ join '', '' (map py_repr vs) @ '']''"
| "py_repr (JObj kvs) = ''{'' @ join '', '' (map (\<lambda>(k, v). str_repr k @ '': '' @ py_repr v) kvs) @ ''}''"

fun py_str :: "json \<Rightarrow> string" where
  "py_str (JStr s) = s"
| "py_str v = py_repr v"

text \<open>The truth of a value: \<open>if x\<close>, \<open>not x\<close>, \<open>x or y\<close>.\<close>

fun truthy :: "json \<Rightarrow> bool" where
  "truthy JNull = False"
| "truthy (JBool b) = b"
| "truthy (JInt i) = (i \<noteq> 0)"
| "truthy (JFloat x) = (x \<noteq> Fin 0)"
| "truthy (JStr s) = (s \<noteq> [])"
| "truthy (JArr vs) = (vs \<noteq> [])"
| "truthy (JObj kvs) = (kvs \<noteq> [])"

text \<open>\<open>len(x)\<close>, and equality of values: numbers of different types are equal by value.\<close>

fun py_len :: "json \<Rightarrow> int result" where
  "py_len (JStr s) = Inr (int (length s))"
| "py_len (JArr vs) = Inr (int (length vs))"
| "py_len (JObj kvs) = Inr (int (length kvs))"
| "py_len _ = Inl TypeError"

fun py_num :: "json \<Rightarrow> rat option" where
  "py_num (JInt i) = Some (of_int i)"
| "py_num (JBool b) = Some (if b then 1 else 0)"
| "py_num (JFloat (Fin r)) = Some r"
| "py_num _ = None"

text \<open>\<open>d[k]\<close>.\<close>

definition subscript :: "(string, json) dict \<Rightarrow> string \<Rightarrow> json result" where
  "subscript d k = (case dict_get d k of None \<Rightarrow> Inl KeyError | Some v \<Rightarrow> Inr v)"

section \<open>Facts\<close>

lemma py_str_eq_JStr [simp]: "py_str (JStr s) = s"
  by simp

lemma py_int_examples:
  "py_int (JStr '' +1_000 '') = Inr 1000" "py_int (JFloat (Fin (- 7 / 2))) = Inr (- 3)"
  "py_float (JStr ''-2.5e1'') = Inr (Fin (- 25))" "py_repr (JArr [JStr ''a'', JNull]) = ''['' @ [CHR 39, CHR ''a'', CHR 39] @ '', None]''"
  by code_simp+

end
