(* ===== verification/Protocol.thy ===== *)
theory Protocol
  imports Manifest Py_Convert
begin

text \<open>
  Signed messages of \<open>telepath/protocol.py\<close> and the length-prefixed frames of
  \<open>telepath/transport.py\<close> that carry them. Fields of a received message are whatever JSON values the
  peer sent; only the timestamp is converted.
\<close>

section \<open>Messages\<close>

record message =
  tm_type :: json
  tm_sender :: json
  tm_nonce :: json
  tm_ts :: pyfloat
  tm_payload :: json
  tm_signature :: json

definition tm_unsigned :: "message \<Rightarrow> (string, json) dict" where
  "tm_unsigned m =
     [(''type'', tm_type m), (''sender'', tm_sender m), (''nonce'', tm_nonce m),
      (''ts'', JFloat (tm_ts m)), (''payload'', tm_payload m)]"

definition tm_to_dict :: "message \<Rightarrow> (string, json) dict" where
  "tm_to_dict m = tm_unsigned m @ [(''signature'', tm_signature m)]"

definition tm_sign :: "ed25519 \<Rightarrow> bytes \<Rightarrow> message \<Rightarrow> message" where
  "tm_sign C sk m = m\<lparr>tm_signature := JStr (hex (ed_sign C sk (canonical (JObj (tm_unsigned m)))))\<rparr>"

definition tm_of_dict :: "json \<Rightarrow> message result" where
  "tm_of_dict v = (case v of
     JObj d \<Rightarrow>
       bindR (subscript d ''type'') (\<lambda>kind.
       bindR (subscript d ''sender'') (\<lambda>sender.
       bindR (subscript d ''nonce'') (\<lambda>nonce.
       bindR (bindR (subscript d ''ts'') py_float) (\<lambda>ts.
       bindR (subscript d ''payload'') (\<lambda>payload.
         Inr \<lparr>tm_type = kind, tm_sender = sender, tm_nonce = nonce, tm_ts = ts, tm_payload = payload,
              tm_signature = dict_get_default d ''signature'' (JStr [])\<rparr>)))))
   | _ \<Rightarrow> Inl TypeError)"

definition tm_make :: "ed25519 \<Rightarrow> bytes \<Rightarrow> string \<Rightarrow> (string, json) dict \<Rightarrow> string \<Rightarrow> pyfloat \<Rightarrow> message" where
  "tm_make C sk kind payload uuid clock =
     tm_sign C sk \<lparr>tm_type = JStr kind, tm_sender = JStr (hex (ed_public C sk)), tm_nonce = JStr uuid,
       tm_ts = clock, tm_payload = JObj payload, tm_signature = JStr []\<rparr>"

text \<open>
  The \<open>try\<close> block of \<open>verify\<close>: a sender or signature that is no string is a \<open>TypeError\<close>, which is
  caught like the others.
\<close>

definition tm_signature_ok :: "ed25519 \<Rightarrow> message \<Rightarrow> bool" where
  "tm_signature_ok C m =
     (case (tm_sender m, tm_signature m) of
        (JStr sender, JStr sig) \<Rightarrow> signature_ok C sender sig (canonical (JObj (tm_unsigned m)))
      | _ \<Rightarrow> False)"

definition tm_verify :: "ed25519 \<Rightarrow> pyfloat \<Rightarrow> pyfloat \<Rightarrow> message \<Rightarrow> (bool \<times> string) result" where
  "tm_verify C clock max_skew m =
     (if fl_gt (fl_abs (fl_sub clock (tm_ts m))) max_skew then Inr (False, ''timestamp out of window'')
      else bindR (py_len (tm_nonce m)) (\<lambda>n.
             if n < 16 then Inr (False, ''invalid nonce'')
             else if \<not> tm_signature_ok C m then Inr (False, ''bad signature'')
             else Inr (True, ''ok'')))"

section \<open>Frames\<close>

definition max_frame :: nat where
  "max_frame = 4 * 1024 * 1024"

text \<open>What \<open>send_frame\<close> writes, and how \<open>recv_frame\<close> reads a stream: the value and the rest.\<close>

definition send_frame :: "json \<Rightarrow> bytes result" where
  "send_frame v =
     (let body = utf8_encode (dumps compact_ascii v) in
      if body = [] \<or> max_frame < length body then Inl (ValueError ''invalid frame size'')
      else Inr (bytes_of_nat 4 (length body) @ body))"

definition recv_frame :: "bytes \<Rightarrow> (json \<times> bytes) result" where
  "recv_frame stream =
     (if length stream < 4 then Inl IncompleteReadError
      else let size_n = nat_of_bytes (take 4 stream); rest = drop 4 stream in
        if size_n = 0 \<or> max_frame < size_n then Inl (ValueError ''invalid frame size'')
        else if length rest < size_n then Inl IncompleteReadError
        else (case utf8_decode (take size_n rest) of
                None \<Rightarrow> Inl (ValueError ''UnicodeDecodeError'')
              | Some text \<Rightarrow> (case loads text of
                    None \<Rightarrow> Inl (ValueError ''JSONDecodeError'')
                  | Some v \<Rightarrow> Inr (v, drop size_n rest))))"

section \<open>Facts about messages\<close>

lemma tm_unsigned_update [simp]: "tm_unsigned (m\<lparr>tm_signature := s\<rparr>) = tm_unsigned m"
  by (simp add: tm_unsigned_def)

lemma tm_unsigned_sign [simp]: "tm_unsigned (tm_sign C sk m) = tm_unsigned m"
  by (simp add: tm_sign_def tm_unsigned_def)

lemma tm_sign_fields [simp]:
  "tm_type (tm_sign C sk m) = tm_type m" "tm_sender (tm_sign C sk m) = tm_sender m"
  "tm_nonce (tm_sign C sk m) = tm_nonce m" "tm_ts (tm_sign C sk m) = tm_ts m"
  "tm_payload (tm_sign C sk m) = tm_payload m"
  by (simp_all add: tm_sign_def)

lemma tm_make_fields [simp]:
  "tm_type (tm_make C sk k p u t) = JStr k" "tm_sender (tm_make C sk k p u t) = JStr (hex (ed_public C sk))"
  "tm_nonce (tm_make C sk k p u t) = JStr u" "tm_ts (tm_make C sk k p u t) = t"
  "tm_payload (tm_make C sk k p u t) = JObj p"
  by (simp_all add: tm_make_def)

lemma tm_sign_ok:
  assumes "ed_correct C" and "tm_sender m = JStr (hex (ed_public C sk))"
  shows "tm_signature_ok C (tm_sign C sk m)"
  using assms(2) ed_correctD [OF assms(1)]
  by (simp add: tm_signature_ok_def) (simp add: tm_sign_def)

lemma tm_make_ok: "ed_correct C \<Longrightarrow> tm_signature_ok C (tm_make C sk k p u t)"
  unfolding tm_make_def by (rule tm_sign_ok) simp_all

lemma tm_of_dict_to_dict: "tm_of_dict (JObj (tm_to_dict m)) = Inr m"
  by (simp add: tm_of_dict_def tm_to_dict_def tm_unsigned_def subscript_def dict_get_def dict_get_default_def)

lemma tm_verify_ok_iff:
  "tm_verify C (Fin now) (Fin skew) m = Inr (True, ''ok'') \<longleftrightarrow>
     (tm_ts m = NaN \<or> (\<exists>t. tm_ts m = Fin t \<and> \<bar>now - t\<bar> \<le> skew)) \<and>
     (\<exists>n\<ge>16. py_len (tm_nonce m) = Inr n) \<and> tm_signature_ok C m"
  unfolding fl_window [symmetric] by (cases "py_len (tm_nonce m)") (auto simp: tm_verify_def)

lemma tm_verify_True: "tm_verify C now skew m = Inr (True, r) \<Longrightarrow> tm_signature_ok C m \<and> r = ''ok''"
  by (auto simp: tm_verify_def bindR_Inr_iff split: if_splits)

lemma json_ok_tm_unsigned:
  "json_ok (JObj (tm_unsigned m)) \<longleftrightarrow> json_ok (tm_type m) \<and> json_ok (tm_sender m) \<and> json_ok (tm_nonce m) \<and>
     text_float (tm_ts m) \<and> json_ok (tm_payload m)"
  by (simp add: tm_unsigned_def)

definition tm_fields :: "message \<Rightarrow> json list" where
  "tm_fields m = map sort_keys [tm_type m, tm_sender m, tm_nonce m, JFloat (tm_ts m), tm_payload m]"

lemma canonical_tm_fields:
  assumes "json_ok (JObj (tm_unsigned m))" and "json_ok (JObj (tm_unsigned q))"
    and "canonical (JObj (tm_unsigned m)) = canonical (JObj (tm_unsigned q))"
  shows "tm_fields m = tm_fields q"
proof -
  note f = canonical_field [OF assms]
  show ?thesis
    using f [of "''type''"] f [of "''sender''"] f [of "''nonce''"] f [of "''ts''"] f [of "''payload''"]
    by (simp add: tm_fields_def tm_unsigned_def dict_get_def)
qed

section \<open>Facts about frames\<close>

lemma recv_sent:
  assumes "json_ok v" and "send_frame v = Inr bs"
  shows "recv_frame (bs @ rest) = Inr (v, rest)"
proof -
  let ?b = "utf8_encode (dumps compact_ascii v)"
  have bs: "bs = bytes_of_nat 4 (length ?b) @ ?b" and le: "length ?b \<le> max_frame" and ne: "?b \<noteq> []"
    using assms(2) by (auto simp: send_frame_def Let_def split: if_splits)
  have "length ?b < 256 ^ 4" using le by (simp add: max_frame_def)
  then have n: "nat_of_bytes (bytes_of_nat 4 (length ?b)) = length ?b" by (rule nat_of_bytes_roundtrip)
  have "loads (dumps compact_ascii v) = Some v" by (rule loads_dumps [OF assms(1)]) simp
  then show ?thesis using le ne by (simp add: recv_frame_def bs n Let_def)
qed

lemma frame_prefix:
  assumes "send_frame v = Inr bs" and "n < length bs"
  shows "recv_frame (take n bs) = Inl IncompleteReadError"
proof -
  let ?b = "utf8_encode (dumps compact_ascii v)"
  have bs: "bs = bytes_of_nat 4 (length ?b) @ ?b" and le: "length ?b \<le> max_frame" and ne: "?b \<noteq> []"
    using assms(1) by (auto simp: send_frame_def Let_def split: if_splits)
  have "length ?b < 256 ^ 4" using le by (simp add: max_frame_def)
  then have num: "nat_of_bytes (bytes_of_nat 4 (length ?b)) = length ?b" by (rule nat_of_bytes_roundtrip)
  show ?thesis
  proof (cases "n < 4")
    case False
    then have "take 4 (take n bs) = bytes_of_nat 4 (length ?b)" by (simp add: bs min_def)
    moreover have "n - 4 < length ?b" using assms(2) False by (simp add: bs)
    ultimately show ?thesis using False le ne assms(2) by (simp add: recv_frame_def Let_def num)
  qed (use assms(2) in \<open>simp add: recv_frame_def\<close>)
qed

text \<open>Reading a stream of frames to its end.\<close>

fun recv_all :: "nat \<Rightarrow> bytes \<Rightarrow> json list \<times> pyexn" where
  "recv_all 0 s = ([], IncompleteReadError)"
| "recv_all (Suc n) s = (case recv_frame s of
       Inl e \<Rightarrow> ([], e)
     | Inr (v, r) \<Rightarrow> (let (vs, e) = recv_all n r in (v # vs, e)))"

lemma recv_all_sent:
  "list_all json_ok vs \<Longrightarrow> mapR send_frame vs = Inr fs \<Longrightarrow>
     recv_all (Suc (length vs)) (concat fs) = (vs, IncompleteReadError)"
proof (induction vs arbitrary: fs)
  case Nil
  then show ?case by (simp add: recv_frame_def)
next
  case (Cons v vs)
  obtain f fs' where f: "send_frame v = Inr f" "mapR send_frame vs = Inr fs'" "fs = f # fs'"
    using Cons.prems(2) by (auto simp: bindR_Inr_iff)
  have "recv_all (Suc (length vs)) (concat fs') = (vs, IncompleteReadError)"
    using Cons.IH [OF _ f(2)] Cons.prems(1) by simp
  then show ?case using recv_sent [of v f "concat fs'"] f Cons.prems(1) by simp
qed

lemma length_utf8_le: "length (utf8_encode s) \<le> 2 * length s"
  by (induction s) (auto simp: utf8_encode_def utf8_char_def)

lemma send_frame_succeeds:
  assumes "json_ok v" and "length (dumps compact_ascii v) \<le> 2 * 1024 * 1024"
  shows "\<exists>bs. send_frame v = Inr bs"
proof -
  have "dumps compact_ascii v \<noteq> []"
    using emit_start [OF assms(1), of compact_ascii 0] by (auto simp: dumps_def token_start_def)
  moreover have "length (utf8_encode (dumps compact_ascii v)) \<le> max_frame"
    using assms(2) length_utf8_le [of "dumps compact_ascii v"] by (simp add: max_frame_def)
  ultimately show ?thesis by (simp add: send_frame_def Let_def)
qed

section \<open>Properties\<close>

lemma json_ok_made:
  "json_ok (JObj p) \<Longrightarrow> text_float t \<Longrightarrow> json_ok (JObj (tm_to_dict (tm_make C sk k p u t)))"
  by (simp add: tm_to_dict_def tm_unsigned_def) (simp add: tm_make_def tm_sign_def)

text \<open>A constant instance of the signature scheme, so that examples evaluate.\<close>

definition plain_ed :: ed25519 where
  "plain_ed = \<lparr>ed_public = (\<lambda>_. replicate 32 0), ed_sign = (\<lambda>_ _. []), ed_load = (\<lambda>pk. True), ed_verify = (\<lambda>_ _ _. True)\<rparr>"

lemma plain_ed_correct [simp]: "ed_correct plain_ed"
  by (simp add: plain_ed_def ed_correct_def)

text \<open>C34: A message made by one node and sent over the wire reaches the other end unchanged and verifies
  there: framing, JSON, the reading of the fields and the signature check compose, whatever follows in
  the stream, as long as the clocks are within the skew and the frame within its bound.\<close>

theorem message_survives_wire:
  assumes "ed_correct C" and "json_ok (JObj payload)" and "text_float (Fin sent)" and "16 \<le> length uuid"
    and "\<bar>now - sent\<bar> \<le> skew"
    and "send_frame (JObj (tm_to_dict (tm_make C sk kind payload uuid (Fin sent)))) = Inr bs"
  shows "\<exists>v. recv_frame (bs @ rest) = Inr (v, rest) \<and> tm_of_dict v = Inr (tm_make C sk kind payload uuid (Fin sent)) \<and>
     tm_verify C (Fin now) (Fin skew) (tm_make C sk kind payload uuid (Fin sent)) = Inr (True, ''ok'')"
proof -
  let ?m = "tm_make C sk kind payload uuid (Fin sent)"
  have "recv_frame (bs @ rest) = Inr (JObj (tm_to_dict ?m), rest)"
    using recv_sent [OF json_ok_made [OF assms(2,3)] assms(6)] .
  moreover have "tm_verify C (Fin now) (Fin skew) ?m = Inr (True, ''ok'')"
    using assms(4,5) tm_make_ok [OF assms(1)] by (simp add: tm_verify_ok_iff)
  ultimately show ?thesis using tm_of_dict_to_dict by blast
qed

theorem message_survives_wire_witness:
  "\<exists>bs v. send_frame (JObj (tm_to_dict (tm_make plain_ed [1] ''ACK'' [] (replicate 16 (CHR ''a'')) (Fin 1)))) = Inr bs \<and>
     recv_frame (bs @ [9]) = Inr (v, [9])"
proof -
  let ?m = "tm_make plain_ed [1] ''ACK'' [] (replicate 16 (CHR ''a'')) (Fin 1)"
  have len: "length (dumps compact_ascii (JObj (tm_to_dict ?m))) = 154" by code_simp
  have "json_ok (JObj (tm_to_dict ?m))" by (rule json_ok_made) simp_all
  then obtain bs where bs: "send_frame (JObj (tm_to_dict ?m)) = Inr bs"
    using send_frame_succeeds len by fastforce
  have "\<exists>v. recv_frame (bs @ [9]) = Inr (v, [9]) \<and> tm_of_dict v = Inr ?m \<and>
      tm_verify plain_ed (Fin 7) (Fin 300) ?m = Inr (True, ''ok'')"
    by (rule message_survives_wire [OF _ _ _ _ _ bs]) simp_all
  with bs show ?thesis by blast
qed

text \<open>Frames keep their boundaries: the concatenation of any number of sent frames is read back as the
  same values in the same order, and a frame of which only a proper prefix has arrived is
  \<open>IncompleteReadError\<close>, never another value.\<close>

theorem frames_roundtrip:
  assumes "list_all json_ok vs" and "mapR send_frame vs = Inr fs"
  shows "recv_all (Suc (length vs)) (concat fs) = (vs, IncompleteReadError) \<and>
     (\<forall>f\<in>set fs. \<forall>n<length f. recv_frame (take n f) = Inl IncompleteReadError)"
proof -
  have "\<exists>v. send_frame v = Inr f" if "f \<in> set fs" for f
    using assms(2) that by (induction vs arbitrary: fs) (auto simp: bindR_Inr_iff)
  then show ?thesis using recv_all_sent [OF assms] frame_prefix by blast
qed

theorem frames_roundtrip_witness:
  "\<exists>fs. mapR send_frame [JInt 5, JStr ''x''] = Inr fs \<and> fst (recv_all 3 (concat fs)) = [JInt 5, JStr ''x'']"
proof -
  have "length (dumps compact_ascii (JInt 5)) = 1" "length (dumps compact_ascii (JStr ''x'')) = 3" by code_simp+
  then obtain a b where "send_frame (JInt 5) = Inr a" "send_frame (JStr ''x'') = Inr b"
    using send_frame_succeeds [of "JInt 5"] send_frame_succeeds [of "JStr ''x''"] by fastforce
  then obtain fs where fs: "mapR send_frame [JInt 5, JStr ''x''] = Inr fs" by simp
  from frames_roundtrip [OF _ this] have "recv_all (Suc (length [JInt 5, JStr ''x''])) (concat fs) = ([JInt 5, JStr ''x''], IncompleteReadError)"
    by simp
  with fs show ?thesis by (simp add: eval_nat_numeral)
qed

text \<open>What an accepted message says is what its sender signed: if the sender's key verifies only
  signatures on the messages in \<open>issued\<close>, every accepted message under that key agrees with one of them
  in type, sender, nonce, timestamp and payload (up to the order of keys inside objects).\<close>

theorem accepted_message_was_signed:
  assumes "tm_sender m = JStr sender" and "from_hex sender = Some pk"
    and "\<And>s t. ed_verify C pk s t \<Longrightarrow> \<exists>q\<in>issued. t = canonical (JObj (tm_unsigned q))"
    and "\<And>q. q \<in> issued \<Longrightarrow> json_ok (JObj (tm_unsigned q))" and "json_ok (JObj (tm_unsigned m))"
    and "tm_verify C now skew m = Inr (True, reason)"
  shows "\<exists>q\<in>issued. tm_fields m = tm_fields q"
proof -
  have "tm_signature_ok C m" using tm_verify_True [OF assms(6)] by simp
  then obtain s where "ed_verify C pk s (canonical (JObj (tm_unsigned m)))"
    using assms(1,2) by (auto simp: tm_signature_ok_def signature_ok_def split: json.splits option.splits)
  from assms(3) [OF this] obtain q where q: "q \<in> issued"
      and c: "canonical (JObj (tm_unsigned m)) = canonical (JObj (tm_unsigned q))" by blast
  have "tm_fields m = tm_fields q" by (rule canonical_tm_fields [OF assms(5) assms(4) [OF q] c])
  with q show ?thesis by blast
qed

definition one_message :: message where
  "one_message = \<lparr>tm_type = JStr ''ACK'', tm_sender = JStr (hex (replicate 32 7)), tm_nonce = JStr (replicate 16 (CHR ''n'')),
     tm_ts = Fin 1000, tm_payload = JObj [], tm_signature = JStr ''00''\<rparr>"

definition one_message_ed :: ed25519 where
  "one_message_ed = sample_ed\<lparr>ed_verify := (\<lambda>pk s t. t = canonical (JObj (tm_unsigned one_message)))\<rparr>"

theorem accepted_message_was_signed_witness:
  "\<exists>q\<in>{one_message}. tm_fields one_message = tm_fields q"
proof (rule accepted_message_was_signed [where C = one_message_ed and now = "Fin 1100" and skew = "Fin 300"])
  show "from_hex (hex (replicate 32 7)) = Some (replicate 32 (7 :: byte))" by simp
  have "from_hex ''00'' = Some [0]" by code_simp
  then have "tm_signature_ok one_message_ed one_message"
    by (simp add: tm_signature_ok_def one_message_def signature_ok_def)
      (simp add: one_message_ed_def sample_ed_def one_message_def)
  then show "tm_verify one_message_ed (Fin 1100) (Fin 300) one_message = Inr (True, ''ok'')"
    by (simp add: tm_verify_ok_iff) (simp add: one_message_def)
  show "ed_verify one_message_ed (replicate 32 7) s t \<Longrightarrow> \<exists>q\<in>{one_message}. t = canonical (JObj (tm_unsigned q))" for s t
    by (simp add: one_message_ed_def)
qed (simp_all add: one_message_def tm_unsigned_def)

end
