(* ===== verification/Base64.thy ===== *)
theory Base64
  imports Py_Text
begin

text \<open>
  Base 64 as the standard library has it: the standard alphabet for the payload of shard messages, the
  URL-safe one for stored receipts. Decoding with \<open>validate=True\<close> refuses foreign characters and wrong
  padding; unused bits of the last character are ignored, as in Python.
\<close>

section \<open>Alphabet\<close>

definition b64_char :: "string \<Rightarrow> nat \<Rightarrow> char" where
  "b64_char alt n =
     (if n < 26 then chr (65 + n) else if n < 52 then chr (71 + n) else if n < 62 then chr (n - 4)
      else alt ! (n - 62))"

definition b64_val :: "string \<Rightarrow> char \<Rightarrow> nat option" where
  "b64_val alt c =
     (if 65 \<le> code c \<and> code c \<le> 90 then Some (code c - 65)
      else if 97 \<le> code c \<and> code c \<le> 122 then Some (code c - 71)
      else if 48 \<le> code c \<and> code c \<le> 57 then Some (code c + 4)
      else if c = alt ! 0 then Some 62 else if c = alt ! 1 then Some 63 else None)"

definition std_alt :: string where
  "std_alt = ''+/''"

definition url_alt :: string where
  "url_alt = ''-_''"

definition pad :: char where
  "pad = CHR ''=''"

definition b64_symbol :: "char \<Rightarrow> bool" where
  "b64_symbol c \<longleftrightarrow> code c < 48 \<or> code c = 95"

definition good_alt :: "string \<Rightarrow> bool" where
  "good_alt alt \<longleftrightarrow> b64_symbol (alt ! 0) \<and> b64_symbol (alt ! 1) \<and> alt ! 0 \<noteq> alt ! 1"

lemma good_alts [simp]: "good_alt std_alt" "good_alt url_alt"
  by (simp_all add: good_alt_def std_alt_def url_alt_def b64_symbol_def code_def)

lemma b64_char_code:
  assumes "n < 64"
  shows "n < 26 \<Longrightarrow> code (b64_char alt n) = 65 + n"
    and "26 \<le> n \<Longrightarrow> n < 52 \<Longrightarrow> code (b64_char alt n) = 71 + n"
    and "52 \<le> n \<Longrightarrow> n < 62 \<Longrightarrow> code (b64_char alt n) = n - 4"
    and "n = 62 \<Longrightarrow> b64_char alt n = alt ! 0" and "n = 63 \<Longrightarrow> b64_char alt n = alt ! 1"
  by (simp_all add: b64_char_def)

lemma b64_char_facts:
  assumes alt: "good_alt alt" and n: "n < 64"
  shows "b64_val alt (b64_char alt n) = Some n" and "b64_char alt n \<noteq> pad" and "code (b64_char alt n) < 128"
proof -
  have p: "code pad = 61" by (simp add: pad_def code_def)
  note c = b64_char_code [OF n, of alt]
  consider "n < 26" | "26 \<le> n" "n < 52" | "52 \<le> n" "n < 62" | "n = 62" | "n = 63"
    using n by linarith
  note cases = this
  show "b64_val alt (b64_char alt n) = Some n"
    by (rule cases) (use alt c in \<open>auto simp: b64_val_def good_alt_def b64_symbol_def\<close>)
  have "code (b64_char alt n) \<noteq> 61"
    by (rule cases) (use alt c in \<open>auto simp: good_alt_def b64_symbol_def\<close>)
  with p show "b64_char alt n \<noteq> pad" by auto
  show "code (b64_char alt n) < 128"
    by (rule cases) (use alt c in \<open>auto simp: good_alt_def b64_symbol_def\<close>)
qed

lemmas b64_val_char = b64_char_facts(1)
lemmas b64_char_pad = b64_char_facts(2)

section \<open>Encoding and decoding\<close>

fun b64_encode :: "string \<Rightarrow> bytes \<Rightarrow> string" where
  "b64_encode alt (x # y # z # rest) =
     (let a = unat x; b = unat y; c = unat z in
      b64_char alt (a div 4) # b64_char alt (a mod 4 * 16 + b div 16) #
      b64_char alt (b mod 16 * 4 + c div 64) # b64_char alt (c mod 64) # b64_encode alt rest)"
| "b64_encode alt [x, y] =
     (let a = unat x; b = unat y in
      [b64_char alt (a div 4), b64_char alt (a mod 4 * 16 + b div 16), b64_char alt (b mod 16 * 4), pad])"
| "b64_encode alt [x] =
     (let a = unat x in [b64_char alt (a div 4), b64_char alt (a mod 4 * 16), pad, pad])"
| "b64_encode alt [] = []"

fun b64_decode :: "string \<Rightarrow> string \<Rightarrow> bytes option" where
  "b64_decode alt [] = Some []"
| "b64_decode alt (a # b # c # d # rest) =
     (case (b64_val alt a, b64_val alt b) of
        (Some p, Some q) \<Rightarrow>
          if c = pad \<and> d = pad \<and> rest = [] then Some [byte_nat (p * 4 + q div 16)]
          else (case b64_val alt c of
              None \<Rightarrow> None
            | Some r \<Rightarrow>
                if d = pad \<and> rest = [] then Some [byte_nat (p * 4 + q div 16), byte_nat (q mod 16 * 16 + r div 4)]
                else (case b64_val alt d of
                    None \<Rightarrow> None
                  | Some s \<Rightarrow> map_option (\<lambda>bs. byte_nat (p * 4 + q div 16) # byte_nat (q mod 16 * 16 + r div 4) #
                      byte_nat (r mod 4 * 64 + s) # bs) (b64_decode alt rest)))
      | _ \<Rightarrow> None)"
| "b64_decode alt _ = None"

lemma byte_parts:
  "unat (b :: byte) div 16 div 16 = 0" "unat b div 16 mod 16 = unat b div 16"
  "unat b div 64 div 4 = 0" "unat b div 64 mod 4 = unat b div 64"
proof -
  have "unat b div 16 < 16" "unat b div 64 < 4"
    using unat_byte_less [of b] by (simp_all add: less_mult_imp_div_less)
  then show "unat b div 16 div 16 = 0" "unat b div 16 mod 16 = unat b div 16"
    "unat b div 64 div 4 = 0" "unat b div 64 mod 4 = unat b div 64" by simp_all
qed

lemma code_pad [simp]: "code pad = 61"
  by (simp add: pad_def code_def)

lemma sextets:
  fixes a b c :: nat
  assumes "a < 256" "b < 256" "c < 256"
  shows "a div 4 < 64" "a mod 4 * 16 + b div 16 < 64" "b mod 16 * 4 + c div 64 < 64" "c mod 64 < 64"
proof -
  show "a div 4 < 64" using assms by (simp add: less_mult_imp_div_less)
  have "b div 16 < 16" "a mod 4 \<le> 3" "c div 64 < 4" "b mod 16 \<le> 15"
    using assms by (simp_all add: less_mult_imp_div_less less_Suc_eq_le [symmetric])
  then show "a mod 4 * 16 + b div 16 < 64" "b mod 16 * 4 + c div 64 < 64" by linarith+
qed simp

lemma b64_roundtrip: "good_alt alt \<Longrightarrow> b64_decode alt (b64_encode alt bs) = Some bs"
proof (induction alt bs rule: b64_encode.induct)
  case (1 alt x y z rest)
  note s = sextets [of "unat x" "unat y" "unat z"]
  show ?case using 1 s
    by (simp add: Let_def b64_val_char b64_char_pad byte_parts)
next
  case (2 alt x y)
  note s = sextets [of "unat x" "unat y" 0]
  show ?case using 2 s
    by (simp add: Let_def b64_val_char b64_char_pad byte_parts)
next
  case (3 alt x)
  note s = sextets [of "unat x" 0 0]
  show ?case using 3 s
    by (simp add: Let_def b64_val_char b64_char_pad)
qed simp

lemma b64_encode_chars: "good_alt alt \<Longrightarrow> list_all (\<lambda>c. code c < 128) (b64_encode alt bs)"
proof (induction alt bs rule: b64_encode.induct)
  case (1 alt x y z rest)
  then show ?case using sextets [of "unat x" "unat y" "unat z"] by (simp add: Let_def b64_char_facts)
next
  case (2 alt x y)
  then show ?case using sextets [of "unat x" "unat y" 0] by (simp add: Let_def b64_char_facts)
next
  case (3 alt x)
  then show ?case using sextets [of "unat x" 0 0] by (simp add: Let_def b64_char_facts)
qed simp

lemma length_b64_encode: "length (b64_encode alt bs) = (length bs + 2) div 3 * 4"
proof (induction alt bs rule: b64_encode.induct)
  case (1 alt x y z rest)
  have "(length (x # y # z # rest) + 2) div 3 = Suc ((length rest + 2) div 3)" by simp
  then show ?case using 1 by (simp add: Let_def)
qed (simp_all add: Let_def)

end
