(* ===== verification/Node_Server.thy ===== *)
theory Node_Server
  imports Request_Nonce Acl Vault_Receipts Vault_Integrity Shard_Cache Sessions Reputation Tiers Protocol Base64
begin

text \<open>
  The serving side of \<open>TelepathNode\<close> (\<open>telepath/node.py\<close>): one connection is one frame in, a
  dispatch, and at most one signed frame out. A handler returns the exception it ends with, if any,
  and the node with all changes made up to there. Clock readings and random identifiers of one
  connection are the fields of \<open>node_io\<close>.
\<close>

section \<open>Node state\<close>

record node =
  nd_name :: string
  nd_host :: string
  nd_port :: int
  nd_sk :: bytes
  nd_receipts :: "vault_receipts option"
  nd_vault :: "files option"
  nd_acl :: "acl option"
  nd_sessions :: registry
  nd_cache :: "(string \<times> string \<times> int) shard_cache"
  nd_reputation :: reputation
  nd_tiers :: tiers
  nd_nonces :: nonce_cache
  nd_peers :: "(string, string \<times> int) dict"
  nd_peer_info :: "(string, json) dict"

definition node_new :: "string \<Rightarrow> string \<Rightarrow> int \<Rightarrow> bytes \<Rightarrow> vault_receipts option \<Rightarrow> files option \<Rightarrow> acl option \<Rightarrow> node" where
  "node_new name host port sk receipts vault a =
     \<lparr>nd_name = name, nd_host = host, nd_port = port, nd_sk = sk, nd_receipts = receipts, nd_vault = vault,
      nd_acl = a, nd_sessions = registry_new, nd_cache = shard_cache_new 512 (64 * 1024 * 1024),
      nd_reputation = [], nd_tiers = [], nd_nonces = nonce_cache_new, nd_peers = [], nd_peer_info = []\<rparr>"

text \<open>The clock at each reading of one connection, and the identifiers drawn in it.\<close>

record node_io =
  io_verify :: rat
  io_nonce :: rat
  io_session :: rat
  io_consume :: rat
  io_latency :: rat
  io_touch :: rat
  io_receipt :: rat
  io_reply :: rat
  io_session_id :: string
  io_receipt_id :: string
  io_reply_id :: string

text \<open>What the node calls: the signature scheme and the environment of its vault.\<close>

record node_env =
  ne_ed :: ed25519
  ne_vault :: vault_env

section \<open>Helpers\<close>

definition node_receipt ::
    "node_io \<Rightarrow> string \<Rightarrow> string \<Rightarrow> string \<Rightarrow> (string, json) dict \<Rightarrow> node \<Rightarrow> unit result \<times> node" where
  "node_receipt io kind model actor payload nd =
     (case nd_receipts nd of
        None \<Rightarrow> (Inr (), nd)
      | Some r \<Rightarrow> (case vr_emit kind model actor payload (io_receipt_id io) (Fin (io_receipt io)) r of
            Inl e \<Rightarrow> (Inl e, nd)
          | Inr (rid, r') \<Rightarrow> (Inr (), nd\<lparr>nd_receipts := Some r'\<rparr>)))"

definition node_reply :: "node_env \<Rightarrow> node_io \<Rightarrow> node \<Rightarrow> string \<Rightarrow> (string, json) dict \<Rightarrow> message" where
  "node_reply V io nd kind payload = tm_make (ne_ed V) (nd_sk nd) kind payload (io_reply_id io) (Fin (io_reply io))"

definition capabilities :: "node \<Rightarrow> json" where
  "capabilities nd = JArr (map JStr ([''signed-tcp'', ''session'', ''shard''] @
     (case nd_vault nd of None \<Rightarrow> [] | Some _ \<Rightarrow> [''vault''])))"

definition hello_payload :: "node \<Rightarrow> (string, json) dict" where
  "hello_payload nd = [(''name'', JStr (nd_name nd)), (''port'', JInt (nd_port nd)), (''capabilities'', capabilities nd)]"

text \<open>\<open>payload.get(k, default)\<close>: a payload that is no object has no \<open>get\<close>.\<close>

definition payload_get :: "json \<Rightarrow> string \<Rightarrow> json \<Rightarrow> json result" where
  "payload_get p k v = (case p of JObj d \<Rightarrow> Inr (dict_get_default d k v) | _ \<Rightarrow> Inl AttributeError)"

definition rep_note :: "string \<Rightarrow> string \<Rightarrow> node \<Rightarrow> node" where
  "rep_note peer outcome nd = nd\<lparr>nd_reputation := rep_record peer outcome 0 0 True (nd_reputation nd)\<rparr>"

definition is_allowed_opt :: "acl option \<Rightarrow> string \<Rightarrow> string \<Rightarrow> bool" where
  "is_allowed_opt a m k = (case a of None \<Rightarrow> True | Some x \<Rightarrow> is_allowed x m k)"

section \<open>HELLO and RAM broadcasts\<close>

definition on_hello :: "node_env \<Rightarrow> node_io \<Rightarrow> string \<Rightarrow> message \<Rightarrow> node \<Rightarrow> message result \<times> node" where
  "on_hello V io peer_ip m nd =
     (case bindR (payload_get (tm_payload m) ''port'' (JInt 0)) py_int of
        Inl e \<Rightarrow> (Inl e, nd)
      | Inr port \<Rightarrow>
          (let sender = json_text (tm_sender m);
               nd' = (if 0 < port \<and> port < 65536
                      then nd\<lparr>nd_peers := dict_set sender (peer_ip, port) (nd_peers nd),
                              nd_peer_info := dict_set sender (tm_payload m) (nd_peer_info nd)\<rparr>
                      else nd)
           in (Inr (node_reply V io nd' ''HELLO'' (hello_payload nd')), nd')))"

definition on_ram :: "node_env \<Rightarrow> node_io \<Rightarrow> message \<Rightarrow> node \<Rightarrow> message result \<times> node" where
  "on_ram V io m nd =
     (case bindR (payload_get (tm_payload m) ''key'' (JStr ''state'')) (\<lambda>k.
           bindR (payload_get (tm_payload m) ''size_bytes'' (JInt 0)) (\<lambda>s.
           bindR (py_int s) (\<lambda>n. Inr (py_str k, n)))) of
        Inl e \<Rightarrow> (Inl e, nd)
      | Inr (key, size_bytes) \<Rightarrow>
          (let sender = json_text (tm_sender m);
               nd1 = nd\<lparr>nd_tiers := tiers_touch key size_bytes (''ram://'' @ take 8 sender) (Fin (io_touch io)) (nd_tiers nd)\<rparr>
           in (case node_receipt io ''telepath.ram_recv'' ''-'' sender [(''key'', JStr key), (''bytes'', JInt size_bytes)] nd1 of
                 (Inl e, nd2) \<Rightarrow> (Inl e, nd2)
               | (Inr _, nd2) \<Rightarrow> (Inr (node_reply V io nd2 ''ACK'' [(''received'', JStr key)]), nd2))))"

section \<open>Opening a session\<close>

definition deny_session :: "node_env \<Rightarrow> node_io \<Rightarrow> string \<Rightarrow> string \<Rightarrow> node \<Rightarrow> message" where
  "deny_session V io model reason nd =
     node_reply V io nd ''SESSION_DENY'' [(''model_id'', JStr model), (''reason'', JStr reason)]"

text \<open>The arguments of \<open>sessions.open\<close>, in the order Python evaluates them.\<close>

definition open_args :: "json \<Rightarrow> int \<Rightarrow> (string \<times> int \<times> pyfloat) result" where
  "open_args p n =
     bindR (payload_get p ''purpose'' (JStr ''read'')) (\<lambda>pu.
     bindR (bindR (payload_get p ''budget_shards'' (JInt n)) py_int) (\<lambda>b.
     bindR (bindR (payload_get p ''ttl_s'' (JInt 600)) py_float) (\<lambda>t. Inr (py_str pu, b, t))))"

definition on_open :: "node_env \<Rightarrow> node_io \<Rightarrow> message \<Rightarrow> node \<Rightarrow> message result \<times> node" where
  "on_open V io m nd =
     (case payload_get (tm_payload m) ''model_id'' (JStr []) of
        Inl e \<Rightarrow> (Inl e, nd)
      | Inr mid \<Rightarrow>
        (let model = py_str mid; sender = json_text (tm_sender m) in
         (case nd_vault nd of
            None \<Rightarrow> (Inr (deny_session V io model ''no vault'' nd), nd)
          | Some fs \<Rightarrow>
            (case get_manifest (ne_vault V) model fs of
               Inl e \<Rightarrow> (Inl e, nd)
             | Inr None \<Rightarrow> (Inr (deny_session V io model ''not found'' nd), nd)
             | Inr (Some mf) \<Rightarrow>
                 if \<not> is_allowed_opt (nd_acl nd) model sender
                 then (let nd' = rep_note sender ''denied'' nd
                       in (Inr (deny_session V io model ''ACL denied'' nd'), nd'))
                 else
                   (case open_args (tm_payload m) (mm_n_shards mf) of
                      Inl (ValueError s) \<Rightarrow> (Inr (deny_session V io model s nd), nd)
                    | Inl e \<Rightarrow> (Inl e, nd)
                    | Inr (purpose, budget, ttl) \<Rightarrow>
                      (case sessions_open sender model purpose budget ttl (io_session_id io) (Fin (io_session io)) (nd_sessions nd) of
                         (Inl (ValueError s), r) \<Rightarrow>
                           (let nd1 = nd\<lparr>nd_sessions := r\<rparr> in (Inr (deny_session V io model s nd1), nd1))
                       | (Inl e, r) \<Rightarrow> (Inl e, nd\<lparr>nd_sessions := r\<rparr>)
                       | (Inr s, r) \<Rightarrow>
                           (case node_receipt io ''telepath.session_open'' model sender
                                  [(''session_id'', JStr (se_id s)), (''budget'', JInt (se_budget s))] (nd\<lparr>nd_sessions := r\<rparr>) of
                              (Inl e, nd2) \<Rightarrow> (Inl e, nd2)
                            | (Inr _, nd2) \<Rightarrow>
                                (Inr (node_reply V io nd2 ''SESSION_ACCEPT''
                                   [(''session_id'', JStr (se_id s)), (''model_id'', JStr model),
                                    (''n_shards'', JInt (mm_n_shards mf)), (''size_bytes'', JInt (mm_size mf)),
                                    (''merkle_root'', JStr (mm_root mf)),
                                    (''file_sha256'', dict_get_default (mm_metadata mf) ''file_sha256'' JNull)]), nd2))))))))"

section \<open>Serving a shard\<close>

definition deny_shard :: "node_env \<Rightarrow> node_io \<Rightarrow> int \<Rightarrow> string \<Rightarrow> node \<Rightarrow> message" where
  "deny_shard V io index reason nd =
     node_reply V io nd ''SHARD_DENY'' [(''shard_idx'', JInt index), (''reason'', JStr reason)]"

text \<open>The exceptions \<open>_serve_shard\<close> turns into a denial; \<open>InvalidTag\<close> is not one of them.\<close>

definition shard_unavailable :: "pyexn \<Rightarrow> bool" where
  "shard_unavailable e \<longleftrightarrow> is_IndexError e \<or> is_RuntimeError e \<or> is_OSError e \<or> is_ValueError e"

definition on_shard :: "node_env \<Rightarrow> node_io \<Rightarrow> message \<Rightarrow> node \<Rightarrow> message result \<times> node" where
  "on_shard V io m nd =
     (case payload_get (tm_payload m) ''session_id'' (JStr []) of
        Inl e \<Rightarrow> (Inl e, nd)
      | Inr sv \<Rightarrow>
        (let sid = py_str sv; sender = json_text (tm_sender m);
             nd0 = nd\<lparr>nd_sessions := snd (sessions_get sid (Fin (io_session io)) (nd_sessions nd))\<rparr> in
         (case bindR (payload_get (tm_payload m) ''shard_idx'' (JInt (- 1))) py_int of
            Inl e \<Rightarrow> (Inl e, nd0)
          | Inr index \<Rightarrow>
            (case session_use sid sender (Fin (io_session io)) (Fin (io_consume io)) (nd_sessions nd) of
               (None, r) \<Rightarrow>
                 (let nd1 = rep_note sender ''denied'' (nd\<lparr>nd_sessions := r\<rparr>)
                  in (Inr (deny_shard V io index ''invalid, expired, or exhausted session'' nd1), nd1))
             | (Some s, r) \<Rightarrow>
                 (let nd1 = nd\<lparr>nd_sessions := r\<rparr> in
                  (case nd_vault nd of
                     None \<Rightarrow> (Inl AttributeError, nd1)
                   | Some fs \<Rightarrow>
                     (case get_manifest (ne_vault V) (se_model s) fs of
                        Inl e \<Rightarrow> (Inl e, nd1)
                      | Inr None \<Rightarrow> (Inl AttributeError, nd1)
                      | Inr (Some mf) \<Rightarrow>
                        (case read_shard_plaintext (ne_vault V) mf index fs of
                           Inl e \<Rightarrow>
                             if shard_unavailable e
                             then (let nd2 = rep_note sender ''failed'' nd1
                                   in (Inr (deny_shard V io index ''shard unavailable'' nd2), nd2))
                             else (Inl e, nd1)
                         | Inr data \<Rightarrow>
                             (let nd2 = nd1\<lparr>nd_reputation := rep_record sender ''success'' (int (length data))
                                       (io_latency io * 1000) False (nd_reputation nd1)\<rparr> in
                              (case node_receipt io ''telepath.shard_served'' (se_model s) sender
                                     [(''shard_idx'', JInt index), (''bytes'', JInt (int (length data))),
                                      (''session_id'', JStr (se_id s))] nd2 of
                                 (Inl e, nd3) \<Rightarrow> (Inl e, nd3)
                               | (Inr _, nd3) \<Rightarrow>
                                   (Inr (node_reply V io nd3 ''SHARD_DATA''
                                      [(''model_id'', JStr (se_model s)), (''shard_idx'', JInt index),
                                       (''plaintext_hash'', JStr (sha_hex data)),
                                       (''payload_b64'', JStr (b64_encode std_alt data))]), nd3)))))))))))"

section \<open>Dispatch and connections\<close>

definition dispatch :: "node_env \<Rightarrow> node_io \<Rightarrow> string \<Rightarrow> message \<Rightarrow> node \<Rightarrow> message result \<times> node" where
  "dispatch V io peer_ip m nd =
     (if tm_type m = JStr ''HELLO'' then on_hello V io peer_ip m nd
      else if tm_type m = JStr ''SESSION_OPEN'' then on_open V io m nd
      else if tm_type m = JStr ''REQUEST_SHARD'' then on_shard V io m nd
      else if tm_type m = JStr ''RAM_BROADCAST'' then on_ram V io m nd
      else (Inr (node_reply V io nd ''ERROR'' [(''reason'', JStr (''unsupported message: '' @ py_str (tm_type m)))]), nd))"

definition bind_reply :: "node_env \<Rightarrow> node \<Rightarrow> json \<Rightarrow> message \<Rightarrow> message" where
  "bind_reply V nd nonce m =
     tm_sign (ne_ed V) (nd_sk nd) (m\<lparr>tm_payload := (case tm_payload m of
        JObj d \<Rightarrow> JObj (dict_set ''request_nonce'' nonce d) | v \<Rightarrow> v)\<rparr>)"

text \<open>The answer to one message that was read from the connection.\<close>

definition answer :: "node_env \<Rightarrow> node_io \<Rightarrow> string \<Rightarrow> message \<Rightarrow> node \<Rightarrow> message result \<times> node" where
  "answer V io peer_ip m nd =
     (case tm_verify (ne_ed V) (Fin (io_verify io)) (Fin 300) m of
        Inl e \<Rightarrow> (Inl e, nd)
      | Inr (ok, reason) \<Rightarrow>
          if \<not> ok then (Inr (node_reply V io nd ''ERROR'' [(''reason'', JStr reason)]), nd)
          else (case accept_nonce (nd_nonces nd) (json_text (tm_sender m)) (tm_nonce m) (io_nonce io) of
              (Inl e, c) \<Rightarrow> (Inl e, nd\<lparr>nd_nonces := c\<rparr>)
            | (Inr fresh, c) \<Rightarrow>
                if \<not> fresh then (Inr (node_reply V io (nd\<lparr>nd_nonces := c\<rparr>) ''ERROR'' [(''reason'', JStr ''replayed nonce'')]),
                                 nd\<lparr>nd_nonces := c\<rparr>)
                else dispatch V io peer_ip m (nd\<lparr>nd_nonces := c\<rparr>)))"

text \<open>
  A connection: what is written to it, the exception that leaves the handler (those of the \<open>except\<close>
  clause do not), and the node afterwards.
\<close>

definition dropped :: "pyexn \<Rightarrow> bool" where
  "dropped e \<longleftrightarrow> e = IncompleteReadError \<or> e = ConnectionError \<or> e = KeyError \<or> e = TypeError \<or> is_ValueError e"

definition raised :: "pyexn \<Rightarrow> pyexn option" where
  "raised e = (if dropped e then None else Some e)"

definition handle_connection ::
    "node_env \<Rightarrow> node_io \<Rightarrow> string \<Rightarrow> bytes \<Rightarrow> node \<Rightarrow> bytes option \<times> pyexn option \<times> node" where
  "handle_connection V io peer_ip stream nd =
     (case bindR (recv_frame stream) (\<lambda>(v, rest). tm_of_dict v) of
        Inl e \<Rightarrow> (None, raised e, nd)
      | Inr m \<Rightarrow>
          (case answer V io peer_ip m nd of
             (Inl e, nd') \<Rightarrow> (None, raised e, nd')
           | (Inr reply, nd') \<Rightarrow>
               (case send_frame (JObj (tm_to_dict (bind_reply V nd' (tm_nonce m) reply))) of
                  Inl e \<Rightarrow> (None, raised e, nd')
                | Inr bs \<Rightarrow> (Some bs, None, nd'))))"

end
