(* ===== verification/Node_Client.thy ===== *)
theory Node_Client
  imports Node_Server
begin

text \<open>
  The requesting side of \<open>TelepathNode\<close> (\<open>telepath/node.py\<close>): requests bound to their answers, sessions
  and shards fetched from a peer, and a whole model pulled into a file. The network is a parameter: a
  function from its own state, the address and the frame sent to the bytes that come back (up to the
  end of the stream) or the exception of the connection.
\<close>

section \<open>Requests\<close>

type_synonym 'w network = "'w \<Rightarrow> string \<Rightarrow> int \<Rightarrow> bytes \<Rightarrow> bytes result \<times> 'w"

text \<open>The clock readings and identifiers of one request of the client.\<close>

record client_io =
  ci_uuid :: string
  ci_clock :: rat
  ci_verify :: rat
  ci_latency :: rat
  ci_touch :: rat
  ci_receipt_id :: string
  ci_receipt :: rat

definition check_response :: "ed25519 \<Rightarrow> rat \<Rightarrow> json \<Rightarrow> string option \<Rightarrow> message \<Rightarrow> message result" where
  "check_response C now nonce expected m =
     bindR (tm_verify C (Fin now) (Fin 300) m) (\<lambda>(ok, reason).
       if \<not> ok then Inl (RuntimeError (''invalid peer response: '' @ reason))
       else if (case expected of None \<Rightarrow> False | Some p \<Rightarrow> tm_sender m \<noteq> JStr p)
         then Inl (RuntimeError ''response was signed by an unexpected peer'')
       else (case tm_payload m of
          JObj d \<Rightarrow> if dict_get d ''request_nonce'' \<noteq> Some nonce
                    then Inl (RuntimeError ''response is not bound to this request'') else Inr m
        | _ \<Rightarrow> Inl AttributeError))"

definition request ::
    "ed25519 \<Rightarrow> 'w network \<Rightarrow> client_io \<Rightarrow> string \<Rightarrow> int \<Rightarrow> message \<Rightarrow> string option \<Rightarrow> 'w \<Rightarrow> message result \<times> 'w" where
  "request C net io host port m expected w =
     (case send_frame (JObj (tm_to_dict m)) of
        Inl e \<Rightarrow> (Inl e, w)
      | Inr frame \<Rightarrow>
          (case net w host port frame of
             (Inl e, w') \<Rightarrow> (Inl e, w')
           | (Inr stream, w') \<Rightarrow>
               (bindR (recv_frame stream) (\<lambda>(v, rest).
                bindR (tm_of_dict v) (\<lambda>r.
                  check_response C (ci_verify io) (tm_nonce m) expected r)), w')))"

definition client_message :: "ed25519 \<Rightarrow> client_io \<Rightarrow> node \<Rightarrow> string \<Rightarrow> (string, json) dict \<Rightarrow> message" where
  "client_message C io nd kind payload = tm_make C (nd_sk nd) kind payload (ci_uuid io) (Fin (ci_clock io))"

definition client_receipt ::
    "client_io \<Rightarrow> string \<Rightarrow> string \<Rightarrow> string \<Rightarrow> (string, json) dict \<Rightarrow> node \<Rightarrow> unit result \<times> node" where
  "client_receipt io kind model actor payload nd =
     (case nd_receipts nd of
        None \<Rightarrow> (Inr (), nd)
      | Some r \<Rightarrow> (case vr_emit kind model actor payload (ci_receipt_id io) (Fin (ci_receipt io)) r of
            Inl e \<Rightarrow> (Inl e, nd)
          | Inr (rid, r') \<Rightarrow> (Inr (), nd\<lparr>nd_receipts := Some r'\<rparr>)))"

text \<open>The reason a peer gave, as the argument of the exception that is raised with it.\<close>

definition reason_of :: "message \<Rightarrow> string \<Rightarrow> string" where
  "reason_of m fallback = (case payload_get (tm_payload m) ''reason'' (JStr fallback) of
     Inl _ \<Rightarrow> fallback | Inr v \<Rightarrow> py_str v)"

definition payload_dict :: "message \<Rightarrow> (string, json) dict" where
  "payload_dict m = (case tm_payload m of JObj d \<Rightarrow> d | _ \<Rightarrow> [])"

section \<open>Connecting and opening sessions\<close>

definition connect :: "ed25519 \<Rightarrow> 'w network \<Rightarrow> client_io \<Rightarrow> string \<Rightarrow> int \<Rightarrow> node \<Rightarrow> 'w \<Rightarrow> string result \<times> node \<times> 'w" where
  "connect C net io host port nd w =
     (case request C net io host port (client_message C io nd ''HELLO'' (hello_payload nd)) None w of
        (Inl e, w') \<Rightarrow> (Inl e, nd, w')
      | (Inr m, w') \<Rightarrow>
          if tm_type m \<noteq> JStr ''HELLO'' then (Inl (RuntimeError (reason_of m ''HELLO rejected'')), nd, w')
          else (let sender = json_text (tm_sender m) in
                (Inr sender, nd\<lparr>nd_peers := dict_set sender (host, port) (nd_peers nd),
                                nd_peer_info := dict_set sender (tm_payload m) (nd_peer_info nd)\<rparr>, w')))"

definition open_session ::
    "ed25519 \<Rightarrow> 'w network \<Rightarrow> client_io \<Rightarrow> string \<Rightarrow> string \<Rightarrow> int \<Rightarrow> pyfloat \<Rightarrow> node \<Rightarrow> 'w \<Rightarrow>
     (string, json) dict result \<times> node \<times> 'w" where
  "open_session C net io peer model budget ttl nd w =
     (case dict_get (nd_peers nd) peer of
        None \<Rightarrow> (Inl KeyError, nd, w)
      | Some (host, port) \<Rightarrow>
          (case request C net io host port
                  (client_message C io nd ''SESSION_OPEN''
                     [(''model_id'', JStr model), (''purpose'', JStr ''pull''),
                      (''budget_shards'', JInt budget), (''ttl_s'', JFloat ttl)]) (Some peer) w of
             (Inl e, w') \<Rightarrow> (Inl e, nd, w')
           | (Inr m, w') \<Rightarrow>
               if tm_type m \<noteq> JStr ''SESSION_ACCEPT''
               then (Inl (PermissionError (reason_of m ''session denied'')), rep_note peer ''denied'' nd, w')
               else (Inr (payload_dict m), nd, w')))"

section \<open>Fetching a shard\<close>

definition shard_payload :: "message \<Rightarrow> (bytes \<times> json) result" where
  "shard_payload m =
     bindR (subscript (payload_dict m) ''payload_b64'') (\<lambda>b.
     bindR (case b of
              JStr s \<Rightarrow> (case b64_decode std_alt s of None \<Rightarrow> Inl (ValueError ''Invalid base64-encoded string'') | Some d \<Rightarrow> Inr d)
            | _ \<Rightarrow> Inl TypeError) (\<lambda>data.
     bindR (subscript (payload_dict m) ''plaintext_hash'') (\<lambda>h. Inr (data, h))))"

definition fetch_shard ::
    "ed25519 \<Rightarrow> 'w network \<Rightarrow> client_io \<Rightarrow> string \<Rightarrow> string \<Rightarrow> json \<Rightarrow> int \<Rightarrow> node \<Rightarrow> 'w \<Rightarrow> bytes result \<times> node \<times> 'w" where
  "fetch_shard C net io peer model sid index nd0 w =
     (let (cached, cache) = cache_get (peer, model, index) (nd_cache nd0); nd = nd0\<lparr>nd_cache := cache\<rparr> in
      (case cached of
         Some data \<Rightarrow> (Inr data, nd, w)
       | None \<Rightarrow>
         (case dict_get (nd_peers nd) peer of
            None \<Rightarrow> (Inl KeyError, nd, w)
          | Some (host, port) \<Rightarrow>
            (case request C net io host port
                    (client_message C io nd ''REQUEST_SHARD'' [(''session_id'', sid), (''shard_idx'', JInt index)]) (Some peer) w of
               (Inl e, w') \<Rightarrow> (Inl e, nd, w')
             | (Inr m, w') \<Rightarrow>
                 if tm_type m \<noteq> JStr ''SHARD_DATA''
                 then (Inl (RuntimeError (reason_of m ''shard denied'')), rep_note peer ''denied'' nd, w')
                 else
                   (case shard_payload m of
                      Inl e \<Rightarrow> (Inl e, nd, w')
                    | Inr (data, h) \<Rightarrow>
                        if h \<noteq> JStr (sha_hex data)
                        then (Inl (RuntimeError ''transferred shard hash mismatch''), rep_note peer ''failed'' nd, w')
                        else
                          (let nd1 = nd\<lparr>nd_reputation := rep_record peer ''success'' (int (length data)) (ci_latency io * 1000) True (nd_reputation nd)\<rparr> in
                           (case cache_put (peer, model, index) data (nd_cache nd1) of
                              Inl e \<Rightarrow> (Inl e, nd1, w')
                            | Inr cache' \<Rightarrow>
                                (let nd2 = nd1\<lparr>nd_cache := cache',
                                       nd_tiers := tiers_touch (model @ ''#'' @ int_str index) (int (length data))
                                         (''ram://'' @ take 8 (hex (ed_public C (nd_sk nd1)))) (Fin (ci_touch io)) (nd_tiers nd1)\<rparr> in
                                 (case client_receipt io ''telepath.shard_received'' model peer
                                        [(''shard_idx'', JInt index), (''bytes'', JInt (int (length data)))] nd2 of
                                    (Inl e, nd3) \<Rightarrow> (Inl e, nd3, w')
                                  | (Inr _, nd3) \<Rightarrow> (Inr data, nd3, w'))))))))))"

section \<open>Pulling a model\<close>

definition slash_free :: "string \<Rightarrow> string" where
  "slash_free s = concat (map (\<lambda>c. if c = CHR ''/'' then ''__'' else [c]) s)"

definition pull_target :: "string \<Rightarrow> string \<Rightarrow> path" where
  "pull_target destination model = destination @ ''/'' @ slash_free model @ ''/model.bin''"

definition pull_part :: "string \<Rightarrow> string \<Rightarrow> path" where
  "pull_part destination model = destination @ ''/'' @ slash_free model @ ''/model.part''"

text \<open>The loop over the indices \<open>i, i + 1, ...\<close>, \<open>n\<close> of them, with the requests numbered by \<open>ios\<close>.\<close>

fun fetch_loop ::
    "ed25519 \<Rightarrow> 'w network \<Rightarrow> (nat \<Rightarrow> client_io) \<Rightarrow> string \<Rightarrow> string \<Rightarrow> (string, json) dict \<Rightarrow> nat \<Rightarrow> nat \<Rightarrow>
     node \<Rightarrow> 'w \<Rightarrow> bytes list result \<times> node \<times> 'w" where
  "fetch_loop C net ios peer model initial i 0 nd w = (Inr [], nd, w)"
| "fetch_loop C net ios peer model initial i (Suc n) nd w =
     (case subscript initial ''session_id'' of
        Inl e \<Rightarrow> (Inl e, nd, w)
      | Inr sid \<Rightarrow>
          (case fetch_shard C net (ios (Suc i)) peer model sid (int i) nd w of
             (Inl e, nd1, w1) \<Rightarrow> (Inl e, nd1, w1)
           | (Inr chunk, nd1, w1) \<Rightarrow>
               (case fetch_loop C net ios peer model initial (Suc i) n nd1 w1 of
                  (Inl e, nd2, w2) \<Rightarrow> (Inl e, nd2, w2)
                | (Inr parts, nd2, w2) \<Rightarrow> (Inr (chunk # parts), nd2, w2))))"

text \<open>\<open>if expected and digest.hexdigest() != expected\<close>\<close>

definition digest_mismatch :: "(string, json) dict \<Rightarrow> bytes \<Rightarrow> bool" where
  "digest_mismatch initial bs =
     (case dict_get initial ''file_sha256'' of None \<Rightarrow> False | Some v \<Rightarrow> truthy v \<and> v \<noteq> JStr (sha_hex bs))"

text \<open>
  The model as a file: the part file is written, then renamed to the target or, on any exception,
  removed. The result lists the client's fields first and the peer's answer over them.
\<close>

definition pull_model ::
    "ed25519 \<Rightarrow> 'w network \<Rightarrow> (nat \<Rightarrow> client_io) \<Rightarrow> string \<Rightarrow> string \<Rightarrow> string \<Rightarrow> node \<Rightarrow> 'w \<Rightarrow> files \<Rightarrow>
     (string, json) dict result \<times> node \<times> 'w \<times> files" where
  "pull_model C net ios peer model destination nd w fs =
     (case open_session C net (ios 0) peer model 1000000 (Fin 3600) nd w of
        (Inl e, nd1, w1) \<Rightarrow> (Inl e, nd1, w1, fs)
      | (Inr initial, nd1, w1) \<Rightarrow>
          (let target = pull_target destination model; part = pull_part destination model;
               failed = dict_del part fs in
           (case bindR (subscript initial ''n_shards'') py_int of
              Inl e \<Rightarrow> (Inl e, nd1, w1, failed)
            | Inr n \<Rightarrow>
              (case fetch_loop C net ios peer model initial 0 (nat n) nd1 w1 of
                 (Inl e, nd2, w2) \<Rightarrow> (Inl e, nd2, w2, failed)
               | (Inr parts, nd2, w2) \<Rightarrow>
                   (let content = concat parts in
                    if digest_mismatch initial content
                    then (Inl (RuntimeError ''reassembled model hash mismatch''), nd2, w2, failed)
                    else
                      (let fs' = write_and_replace part target content fs in
                       (case client_receipt (ios (Suc (nat n))) ''telepath.model_pulled'' model peer
                              [(''bytes'', JInt (int (length content))), (''path'', JStr target)] nd2 of
                          (Inl e, nd3) \<Rightarrow> (Inl e, nd3, w2, fs')
                        | (Inr _, nd3) \<Rightarrow>
                            (Inr (fold (\<lambda>(k, v). dict_set k v) initial
                               [(''model_id'', JStr model), (''path'', JStr target), (''bytes'', JInt (int (length content)))]),
                             nd3, w2, fs'))))))))"

section \<open>Broadcast and state\<close>

text \<open>One message, made once and sent to every peer in turn; the first exception ends the loop.\<close>

fun broadcast_loop :: "ed25519 \<Rightarrow> 'w network \<Rightarrow> client_io \<Rightarrow> message \<Rightarrow> (string \<times> string \<times> int) list \<Rightarrow> 'w \<Rightarrow> unit result \<times> 'w" where
  "broadcast_loop C net io m [] w = (Inr (), w)"
| "broadcast_loop C net io m ((peer, host, port) # ps) w =
     (case request C net io host port m (Some peer) w of
        (Inl e, w') \<Rightarrow> (Inl e, w')
      | (Inr _, w') \<Rightarrow> broadcast_loop C net io m ps w')"

definition broadcast_ram :: "ed25519 \<Rightarrow> 'w network \<Rightarrow> client_io \<Rightarrow> string \<Rightarrow> int \<Rightarrow> node \<Rightarrow> 'w \<Rightarrow> unit result \<times> 'w" where
  "broadcast_ram C net io key size_bytes nd w =
     broadcast_loop C net io
       (client_message C io nd ''RAM_BROADCAST'' [(''key'', JStr key), (''size_bytes'', JInt size_bytes)]) (nd_peers nd) w"

record node_state =
  ns_name :: string
  ns_pub :: string
  ns_listen :: string
  ns_peers :: "string list"
  ns_cache :: cache_stats
  ns_sessions :: "int \<times> int"
  ns_tiers :: "(string \<times> int) list"
  ns_reputation :: "(string \<times> rat \<times> peer_record) list"

definition node_state_of :: "ed25519 \<Rightarrow> rat \<Rightarrow> node \<Rightarrow> node_state \<times> node" where
  "node_state_of C now nd =
     (let (sess, r) = sessions_summary (Fin now) (nd_sessions nd) in
      (\<lparr>ns_name = nd_name nd, ns_pub = hex (ed_public C (nd_sk nd)),
        ns_listen = nd_host nd @ '':'' @ int_str (nd_port nd), ns_peers = map fst (nd_peers nd),
        ns_cache = cache_summary (nd_cache nd), ns_sessions = sess, ns_tiers = tiers_summary (nd_tiers nd),
        ns_reputation = rep_summary (nd_reputation nd)\<rparr>, nd\<lparr>nd_sessions := r\<rparr>))"

section \<open>Two nodes in one process\<close>

text \<open>A network that leads to a node of this model: the state is the serving node and the number of connections it has handled.\<close>

definition peer_net :: "node_env \<Rightarrow> (nat \<Rightarrow> node_io) \<Rightarrow> string \<Rightarrow> (node \<times> nat) network" where
  "peer_net V sios ip w host port frame =
     (case handle_connection V (sios (snd w)) ip frame (fst w) of
        (out, _, nd) \<Rightarrow> (Inr (case out of None \<Rightarrow> [] | Some bs \<Rightarrow> bs), (nd, Suc (snd w))))"

end
