(* ===== verification/Node_Pull.thy ===== *)
theory Node_Pull
  imports Node_Client
begin

text \<open>
  Safety of the requesting side against an arbitrary network and arbitrary peers: what an answer that
  is let through proves, where each fetched shard comes from, and what a pull may do to the files.
\<close>

section \<open>Answers\<close>

text \<open>The peer signed a message of this kind, with this payload, for the request with this nonce.\<close>

definition signed_answer :: "ed25519 \<Rightarrow> string \<Rightarrow> string \<Rightarrow> string \<Rightarrow> (string, json) dict \<Rightarrow> bool" where
  "signed_answer C peer nonce kind d \<longleftrightarrow>
     (\<exists>m. tm_signature_ok C m \<and> tm_sender m = JStr peer \<and> tm_type m = JStr kind \<and> tm_payload m = JObj d \<and>
        dict_get d ''request_nonce'' = Some (JStr nonce))"

lemma check_response_Inr:
  assumes "check_response C now nonce (Some peer) m = Inr r"
  shows "r = m \<and> tm_signature_ok C m \<and> tm_sender m = JStr peer \<and>
     (\<exists>d. tm_payload m = JObj d \<and> dict_get d ''request_nonce'' = Some nonce)"
  using assms
  by (auto simp: check_response_def bindR_Inr_iff split: if_splits json.splits dest!: tm_verify_True)

lemma request_Inr:
  assumes "request C net io host port m (Some peer) w = (Inr r, w')"
  shows "tm_signature_ok C r \<and> tm_sender r = JStr peer \<and>
     (\<exists>d. tm_payload r = JObj d \<and> dict_get d ''request_nonce'' = Some (tm_nonce m))"
  using assms
  by (auto simp: request_def bindR_Inr_iff split: sum.splits prod.splits dest!: check_response_Inr)

lemma request_answer:
  assumes "request C net io host port (client_message C io nd kind p) (Some peer) w = (Inr r, w')"
  shows "tm_type r = JStr k \<Longrightarrow> signed_answer C peer (ci_uuid io) k (payload_dict r)"
    and "tm_payload r = JObj (payload_dict r)"
  using request_Inr [OF assms] by (auto simp: signed_answer_def payload_dict_def client_message_def)

lemma client_receipt_frame:
  "client_receipt io k m a p nd = (r, nd') \<Longrightarrow> nd_cache nd' = nd_cache nd"
  by (auto simp: client_receipt_def split: option.splits sum.splits)

lemma open_session_answer:
  assumes "open_session C net io peer model budget ttl nd w = (Inr d, nd', w')"
  shows "signed_answer C peer (ci_uuid io) ''SESSION_ACCEPT'' d \<and> nd' = nd"
  using assms
  by (auto simp: open_session_def split: option.splits prod.splits sum.splits if_splits dest!: request_answer(1))

section \<open>Shards\<close>

lemma evict_subset: "evict me mb es u n = Inr (es', u', n') \<Longrightarrow> set es' \<subseteq> set es"
proof (induction me mb es u n rule: evict.induct)
  case (2 me mb k v es u n)
  then show ?case by (auto split: if_splits)
qed (auto split: if_splits)

lemma cache_put_subset:
  assumes "cache_put k v c = Inr c'"
  shows "set (sc_entries c') \<subseteq> insert (k, v) (set (sc_entries c))"
  using assms evict_subset dict_del_subset [of k "sc_entries c"]
  by (fastforce simp: cache_put_def Let_def bindR_Inr_iff split: if_splits)

lemma cache_get_subset: "set (sc_entries (snd (cache_get k c))) \<subseteq> set (sc_entries c)"
  using dict_del_subset [of k "sc_entries c"]
  by (auto simp: cache_get_def move_to_end_def split: option.splits dest: dict_get_in)

text \<open>The peer signed, for the request with this nonce, an answer that gives these bytes in base64 and
  their SHA-256.\<close>

definition shard_signed :: "ed25519 \<Rightarrow> string \<Rightarrow> string \<Rightarrow> bytes \<Rightarrow> bool" where
  "shard_signed C peer nonce data \<longleftrightarrow>
     (\<exists>d b. signed_answer C peer nonce ''SHARD_DATA'' d \<and> dict_get d ''plaintext_hash'' = Some (JStr (sha_hex data)) \<and>
        dict_get d ''payload_b64'' = Some (JStr b) \<and> b64_decode std_alt b = Some data)"

lemma shard_payload_Inr:
  "shard_payload m = Inr (data, h) \<Longrightarrow> dict_get (payload_dict m) ''plaintext_hash'' = Some h \<and>
     (\<exists>b. dict_get (payload_dict m) ''payload_b64'' = Some (JStr b) \<and> b64_decode std_alt b = Some data)"
  by (auto simp: shard_payload_def bindR_Inr_iff subscript_def split: option.splits json.splits)

lemma fetch_shard_origin:
  assumes "fetch_shard C net io peer model sid index nd w = (Inr data, nd', w')"
  shows "(((peer, model, index), data) \<in> set (sc_entries (nd_cache nd)) \<or> shard_signed C peer (ci_uuid io) data) \<and>
     set (sc_entries (nd_cache nd')) \<subseteq> insert ((peer, model, index), data) (set (sc_entries (nd_cache nd)))"
proof -
  obtain hit c where c: "cache_get (peer, model, index) (nd_cache nd) = (hit, c)" by fastforce
  have sub: "set (sc_entries c) \<subseteq> set (sc_entries (nd_cache nd))"
    using cache_get_subset [of "(peer, model, index)" "nd_cache nd"] c by simp
  show ?thesis
  proof (cases hit)
    case (Some x)
    then have "((peer, model, index), x) \<in> set (sc_entries (nd_cache nd))"
      using c by (auto simp: cache_get_def split: option.splits dest: dict_get_in)
    then show ?thesis using assms sub Some by (auto simp: fetch_shard_def c)
  next
    case None
    with assms obtain host port m w1 h cache' where
      m: "request C net io host port (client_message C io (nd\<lparr>nd_cache := c\<rparr>) ''REQUEST_SHARD''
            [(''session_id'', sid), (''shard_idx'', JInt index)]) (Some peer) w = (Inr m, w1)"
      "tm_type m = JStr ''SHARD_DATA''" "shard_payload m = Inr (data, JStr (sha_hex data))" and
      put: "cache_put (peer, model, index) data c = Inr cache'" "nd_cache nd' = cache'"
      by (auto simp: fetch_shard_def c Let_def split: option.splits prod.splits sum.splits if_splits
          dest!: client_receipt_frame)
    show ?thesis
      using request_answer(1) [OF m(1)] m(2) shard_payload_Inr [OF m(3)] cache_put_subset [OF put(1)] put(2) sub
      unfolding shard_signed_def by blast
  qed
qed

text \<open>A cache whose every entry was signed by the peer it stands under; only such entries are ever added.\<close>

definition cache_signed :: "ed25519 \<Rightarrow> (string \<times> string \<times> int) shard_cache \<Rightarrow> bool" where
  "cache_signed C c \<longleftrightarrow> (\<forall>p m i data. ((p, m, i), data) \<in> set (sc_entries c) \<longrightarrow> (\<exists>nonce. shard_signed C p nonce data))"

lemma cache_signed_subset: "cache_signed C c \<Longrightarrow> set (sc_entries c') \<subseteq> set (sc_entries c) \<Longrightarrow> cache_signed C c'"
  by (auto simp: cache_signed_def)

lemma rep_note_cache [simp]: "nd_cache (rep_note p oc nd) = nd_cache nd"
  by (simp add: rep_note_def)

lemma fetch_shard_cache:
  assumes "fetch_shard C net io peer model sid index nd w = (r, nd', w')" and "cache_signed C (nd_cache nd)"
  shows "cache_signed C (nd_cache nd')"
proof -
  obtain hit c where c: "cache_get (peer, model, index) (nd_cache nd) = (hit, c)" by fastforce
  have sub: "cache_signed C c"
    using assms(2) by (rule cache_signed_subset) (use cache_get_subset [of "(peer, model, index)" "nd_cache nd"] c in simp)
  consider (same) "nd_cache nd' = c"
    | (put) host port m w1 data cache' where
      "request C net io host port (client_message C io (nd\<lparr>nd_cache := c\<rparr>) ''REQUEST_SHARD''
            [(''session_id'', sid), (''shard_idx'', JInt index)]) (Some peer) w = (Inr m, w1)"
      "tm_type m = JStr ''SHARD_DATA''" "shard_payload m = Inr (data, JStr (sha_hex data))"
      "cache_put (peer, model, index) data c = Inr cache'" "nd_cache nd' = cache'"
    using assms(1)
    by (auto simp: fetch_shard_def c Let_def split: option.splits prod.splits sum.splits if_splits
        dest!: client_receipt_frame)
  then show ?thesis
  proof cases
    case same
    then show ?thesis using sub by simp
  next
    case put
    have "shard_signed C peer (ci_uuid io) data"
      using request_answer(1) [OF put(1)] put(2) shard_payload_Inr [OF put(3)] unfolding shard_signed_def by blast
    then show ?thesis using cache_put_subset [OF put(4)] sub unfolding put(5) cache_signed_def by blast
  qed
qed

lemma fetch_loop_cache:
  "fetch_loop C net ios peer model initial i n nd w = (r, nd', w') \<Longrightarrow> cache_signed C (nd_cache nd) \<Longrightarrow> cache_signed C (nd_cache nd')"
proof (induction n arbitrary: i nd w r)
  case (Suc n)
  show ?case
  proof (cases "subscript initial ''session_id''")
    case (Inr sid)
    obtain x nd1 w1 where f: "fetch_shard C net (ios (Suc i)) peer model sid (int i) nd w = (x, nd1, w1)"
      by (cases "fetch_shard C net (ios (Suc i)) peer model sid (int i) nd w")
    note ok = fetch_shard_cache [OF f Suc.prems(2)]
    show ?thesis
    proof (cases x)
      case (Inl e)
      then show ?thesis using Suc.prems(1) ok by (simp add: Inr f)
    next
      case chunk: (Inr chunk)
      obtain y where "fetch_loop C net ios peer model initial (Suc i) n nd1 w1 = (y, nd', w')"
        using Suc.prems(1) by (auto simp: Inr f chunk split: sum.splits prod.splits)
      from Suc.IH [OF this ok] show ?thesis .
    qed
  qed (use Suc.prems in simp)
qed simp

lemma open_session_cache:
  "open_session C net io peer model budget ttl nd w = (r, nd', w') \<Longrightarrow> nd_cache nd' = nd_cache nd"
  by (auto simp: open_session_def split: option.splits prod.splits sum.splits if_splits)

lemma pull_model_cache:
  assumes "pull_model C net ios peer model dest nd w fs = (r, nd', w', fs')" and "cache_signed C (nd_cache nd)"
  shows "cache_signed C (nd_cache nd')"
proof -
  obtain o1 nd1 w1 where op: "open_session C net (ios 0) peer model 1000000 (Fin 3600) nd w = (o1, nd1, w1)"
    by (cases "open_session C net (ios 0) peer model 1000000 (Fin 3600) nd w")
  have c1: "cache_signed C (nd_cache nd1)" using assms(2) open_session_cache [OF op] by simp
  have loop: "cache_signed C (nd_cache nd2)" if "fetch_loop C net ios peer model initial 0 n nd1 w1 = (l, nd2, w2)" for initial n l nd2 w2
    by (rule fetch_loop_cache [OF that c1])
  show ?thesis
    using assms(1) c1 by (auto simp: pull_model_def op Let_def split: sum.splits prod.splits if_splits
        dest!: loop client_receipt_frame)
qed

lemma fetch_loop_origin:
  "fetch_loop C net ios peer model initial i n nd w = (Inr parts, nd', w') \<Longrightarrow>
     \<forall>e\<in>set (sc_entries (nd_cache nd)) - old. \<exists>j<i. fst e = (peer, model, int j) \<Longrightarrow>
     length parts = n \<and> (\<forall>k<n. ((peer, model, int (i + k)), parts ! k) \<in> old \<or>
        shard_signed C peer (ci_uuid (ios (Suc (i + k)))) (parts ! k))"
proof (induction n arbitrary: i nd w parts)
  case (Suc n)
  from Suc.prems(1) obtain sid chunk nd1 w1 rest where
    f: "fetch_shard C net (ios (Suc i)) peer model sid (int i) nd w = (Inr chunk, nd1, w1)" and
    r: "fetch_loop C net ios peer model initial (Suc i) n nd1 w1 = (Inr rest, nd', w')" and parts: "parts = chunk # rest"
    by (auto split: sum.splits prod.splits)
  note o = fetch_shard_origin [OF f]
  have "\<exists>j<Suc i. fst e = (peer, model, int j)" if "e \<in> set (sc_entries (nd_cache nd1)) - old" for e
    using o Suc.prems(2) that by (cases "e \<in> set (sc_entries (nd_cache nd))") (force simp: less_Suc_eq)+
  then have ih: "length rest = n \<and> (\<forall>k<n. ((peer, model, int (Suc i + k)), rest ! k) \<in> old \<or>
      shard_signed C peer (ci_uuid (ios (Suc (Suc i + k)))) (rest ! k))"
    by (intro Suc.IH [OF r]) blast
  have "((peer, model, int i), chunk) \<in> old \<or> shard_signed C peer (ci_uuid (ios (Suc i))) chunk"
  proof (cases "((peer, model, int i), chunk) \<in> set (sc_entries (nd_cache nd)) - old")
    case True
    then show ?thesis using bspec [OF Suc.prems(2) True] by auto
  next
    case False
    then show ?thesis using o by blast
  qed
  then have "((peer, model, int (i + k)), parts ! k) \<in> old \<or> shard_signed C peer (ci_uuid (ios (Suc (i + k)))) (parts ! k)"
    if "k < Suc n" for k
    using ih that by (cases k) (simp_all add: parts)
  then show ?case using ih by (simp add: parts)
qed simp

section \<open>Files\<close>

lemma pull_paths [simp]: "pull_part d m \<noteq> pull_target d m" "pull_target d m \<noteq> pull_part d m"
  by (auto simp: pull_part_def pull_target_def)

text \<open>The content that was checked: from an answer of the peer to this client's request for a session, and
  from one shard for each index.\<close>

definition pulled_ok ::
    "ed25519 \<Rightarrow> (nat \<Rightarrow> client_io) \<Rightarrow> string \<Rightarrow> string \<Rightarrow> node \<Rightarrow> (string, json) dict \<Rightarrow> bytes list \<Rightarrow> bool" where
  "pulled_ok C ios peer model nd initial parts \<longleftrightarrow>
     signed_answer C peer (ci_uuid (ios 0)) ''SESSION_ACCEPT'' initial \<and>
     (\<exists>n. bindR (subscript initial ''n_shards'') py_int = Inr n \<and> length parts = nat n) \<and>
     (\<forall>v. dict_get initial ''file_sha256'' = Some v \<longrightarrow> truthy v \<longrightarrow> v = JStr (sha_hex (concat parts))) \<and>
     (\<forall>i<length parts. ((peer, model, int i), parts ! i) \<in> set (sc_entries (nd_cache nd)) \<or>
        shard_signed C peer (ci_uuid (ios (Suc i))) (parts ! i))"

lemma fetch_loop_pulled:
  assumes "open_session C net (ios 0) peer model 1000000 (Fin 3600) nd w = (Inr initial, nd1, w1)"
    and "bindR (subscript initial ''n_shards'') py_int = Inr n"
    and "fetch_loop C net ios peer model initial 0 (nat n) nd1 w1 = (Inr parts, nd2, w2)"
    and "\<not> digest_mismatch initial (concat parts)"
  shows "pulled_ok C ios peer model nd initial parts"
proof -
  note o = open_session_answer [OF assms(1)]
  have "length parts = nat n \<and> (\<forall>k<nat n. ((peer, model, int (0 + k)), parts ! k) \<in> set (sc_entries (nd_cache nd)) \<or>
      shard_signed C peer (ci_uuid (ios (Suc (0 + k)))) (parts ! k))"
    by (rule fetch_loop_origin [OF assms(3)]) (use o in simp)
  then show ?thesis using o assms(2,4) by (auto simp: pulled_ok_def digest_mismatch_def)
qed

text \<open>C31: A pull is safe against every network and every peer. Whatever comes back over the wire, no file but
  the target and the temporary part file changes, and the part file is gone at the end, unless no file changed
  at all. Either the target is left alone, and then the pull has raised, or it holds, put there at once, the
  concatenation of as many shards as the peer's signed acceptance of the session announced; each was sent, in
  base64 and with its SHA-256, in an answer that verifies under the key of the peer asked, for the very request
  that asked for it, or was in the node's cache under peer, model and index; and if the acceptance named a
  digest of the file, the content has it. The cache takes in nothing but shards that the peer they stand under
  signed, so with a cache of that kind, such as the empty one, every shard of the target was signed by the
  peer.\<close>

theorem pull_model_safe:
  assumes "pull_model C net ios peer model dest nd w fs = (r, nd', w', fs')"
  shows "(\<forall>p. p \<noteq> pull_target dest model \<longrightarrow> p \<noteq> pull_part dest model \<longrightarrow> dict_get fs' p = dict_get fs p) \<and>
     (fs' = fs \<or> dict_get fs' (pull_part dest model) = None) \<and>
     (dict_get fs' (pull_target dest model) = dict_get fs (pull_target dest model) \<and> is_ok r = False \<or>
      (\<exists>initial parts. dict_get fs' (pull_target dest model) = Some (concat parts) \<and>
         pulled_ok C ios peer model nd initial parts \<and>
         (cache_signed C (nd_cache nd) \<longrightarrow> (\<forall>x\<in>set parts. \<exists>nonce. shard_signed C peer nonce x)))) \<and>
     (cache_signed C (nd_cache nd) \<longrightarrow> cache_signed C (nd_cache nd'))"
proof -
  let ?t = "pull_target dest model" and ?p = "pull_part dest model"
  obtain o1 nd1 w1 where op: "open_session C net (ios 0) peer model 1000000 (Fin 3600) nd w = (o1, nd1, w1)" by (cases "open_session C net (ios 0) peer model 1000000 (Fin 3600) nd w")
  note cache = pull_model_cache [OF assms]
  have failed: ?thesis if "fs' = fs \<or> fs' = dict_del ?p fs" "is_ok r = False"
    using that cache by (auto simp: dict.lookup_remove)
  have signed: "\<forall>x\<in>set parts. \<exists>nonce. shard_signed C peer nonce x"
    if "pulled_ok C ios peer model nd initial parts" "cache_signed C (nd_cache nd)" for initial parts
    using that by (auto simp: pulled_ok_def cache_signed_def in_set_conv_nth) blast
  show ?thesis
  proof (cases o1)
    case (Inl e)
    then show ?thesis using assms op by (intro failed) (auto simp: pull_model_def)
  next
    case (Inr initial)
    show ?thesis
    proof (cases "bindR (subscript initial ''n_shards'') py_int")
      case (Inl e)
      then show ?thesis using assms op Inr by (intro failed) (auto simp: pull_model_def Let_def)
    next
      case n: (Inr n)
      obtain l nd2 w2 where l: "fetch_loop C net ios peer model initial 0 (nat n) nd1 w1 = (l, nd2, w2)"
        by (cases "fetch_loop C net ios peer model initial 0 (nat n) nd1 w1")
      show ?thesis
      proof (cases "\<exists>parts. l = Inr parts \<and> \<not> digest_mismatch initial (concat parts)")
        case False
        then show ?thesis using assms op Inr n l by (intro failed) (auto simp: pull_model_def Let_def split: sum.splits if_splits)
      next
        case True
        then obtain parts where parts: "l = Inr parts" "\<not> digest_mismatch initial (concat parts)" by blast
        have "fs' = write_and_replace ?p ?t (concat parts) fs"
          using assms op Inr n l parts by (auto simp: pull_model_def Let_def split: sum.splits prod.splits)
        then have "dict_get fs' ?t = Some (concat parts)" "dict_get fs' ?p = None"
          "\<forall>p. p \<noteq> ?t \<longrightarrow> p \<noteq> ?p \<longrightarrow> dict_get fs' p = dict_get fs p" by (auto simp: write_and_replace_get)
        moreover have "pulled_ok C ios peer model nd initial parts"
          by (rule fetch_loop_pulled [OF op [unfolded Inr] n l [unfolded parts(1)] parts(2)])
        ultimately show ?thesis using signed cache by blast
      qed
    qed
  qed
qed

end
