(* ===== verification/Node_Safety.thy ===== *)
theory Node_Safety
  imports Node_Server
begin

text \<open>
  Safety of the serving node: whatever frames arrive, in whatever order, shards go only to peers that
  the access list allows, and no signed message takes effect twice.
\<close>

section \<open>Frames of the handlers\<close>

text \<open>What no handler changes.\<close>

definition same_frame :: "node \<Rightarrow> node \<Rightarrow> bool" where
  "same_frame a b \<longleftrightarrow> nd_acl b = nd_acl a \<and> nd_nonces b = nd_nonces a \<and> nd_vault b = nd_vault a \<and>
     nd_sk b = nd_sk a \<and> nd_name b = nd_name a \<and> nd_port b = nd_port a"

lemma same_frame_refl [simp]: "same_frame a a"
  by (simp add: same_frame_def)

lemma node_receipt_frame:
  "node_receipt io k m a p nd = (r, nd') \<Longrightarrow> same_frame nd nd' \<and> nd_sessions nd' = nd_sessions nd \<and>
     nd_reputation nd' = nd_reputation nd"
  by (auto simp: node_receipt_def same_frame_def split: option.splits sum.splits)

lemma rep_note_frame [simp]:
  "nd_sessions (rep_note p oc nd) = nd_sessions nd" "nd_acl (rep_note p oc nd) = nd_acl nd"
  "nd_nonces (rep_note p oc nd) = nd_nonces nd" "nd_vault (rep_note p oc nd) = nd_vault nd"
  "nd_sk (rep_note p oc nd) = nd_sk nd" "nd_name (rep_note p oc nd) = nd_name nd"
  "nd_port (rep_note p oc nd) = nd_port nd"
  by (simp_all add: rep_note_def)

lemma node_reply_simps [simp]:
  "tm_type (node_reply V io nd k p) = JStr k" "tm_payload (node_reply V io nd k p) = JObj p"
  "tm_sender (node_reply V io nd k p) = JStr (hex (ed_public (ne_ed V) (nd_sk nd)))"
  by (simp_all add: node_reply_def)

lemma on_hello_frame: "on_hello V io ip m nd = (r, nd') \<Longrightarrow> same_frame nd nd' \<and> nd_sessions nd' = nd_sessions nd"
  by (auto simp: on_hello_def Let_def same_frame_def split: sum.splits if_splits)

lemma on_ram_frame: "on_ram V io m nd = (r, nd') \<Longrightarrow> same_frame nd nd' \<and> nd_sessions nd' = nd_sessions nd"
  by (auto simp: on_ram_def Let_def same_frame_def split: sum.splits prod.splits dest!: node_receipt_frame)

section \<open>Sessions of allowed peers\<close>

definition sessions_allowed :: "acl option \<Rightarrow> registry \<Rightarrow> bool" where
  "sessions_allowed a r \<longleftrightarrow> registry_ok r \<and>
     list_all (\<lambda>(k, s). is_allowed_opt a (se_model s) (se_peer s)) (sr_sessions r)"

lemma sessions_allowed_new [simp]: "sessions_allowed a registry_new"
  by (simp add: sessions_allowed_def) (simp add: registry_new_def)

lemma sessions_allowed_gc: "sessions_allowed a r \<Longrightarrow> sessions_allowed a (sessions_gc now r)"
  using sessions_gc_ok [of r now] by (auto simp: sessions_allowed_def sessions_gc_def list_all_iff)

lemma sessions_allowed_get: "sessions_allowed a r \<Longrightarrow> sessions_allowed a (snd (sessions_get sid now r))"
  by (simp add: sessions_get_def Let_def sessions_allowed_gc)

lemma sessions_allowed_use: "sessions_allowed a r \<Longrightarrow> sessions_allowed a (snd (session_use sid p now now' r))"
proof -
  assume a: "sessions_allowed a r"
  then have ok: "registry_ok r" by (simp add: sessions_allowed_def)
  have g: "sessions_allowed a (sessions_gc now r)" by (rule sessions_allowed_gc [OF a])
  show ?thesis
    using ok
  proof (cases rule: session_use_cases [where sid = sid and peer = p and now = now and now' = now'])
    case denied
    then show ?thesis using g by simp
  next
    case (granted s)
    have "is_allowed_opt a (se_model s) (se_peer s)"
      using a dict_get_in [OF granted(1)] by (auto simp: sessions_allowed_def list_all_iff)
    then show ?thesis using g granted(6) session_use_ok [OF ok, of sid p now now']
      by (auto simp: sessions_allowed_def list_all_dict_set)
  qed
qed

lemma sessions_allowed_open:
  assumes a: "sessions_allowed a r" and al: "is_allowed_opt a model peer"
  shows "sessions_allowed a (snd (sessions_open peer model pu b t u (Fin now) r))"
proof -
  have ok: "registry_ok r" using a by (simp add: sessions_allowed_def)
  have g: "sessions_allowed a (sessions_gc (Fin now) r)" by (rule sessions_allowed_gc [OF a])
  show ?thesis
    using ok
  proof (cases rule: sessions_open_cases [where budget = b and ttl = t and peer = peer and model = model
      and purpose = pu and uuid = u and now = now])
    case refused
    then show ?thesis using g by simp
  next
    case (opened s d)
    have "list_all (\<lambda>(k, s). is_allowed_opt a (se_model s) (se_peer s)) d"
      using opened(7) g by (auto simp: sessions_allowed_def list_all_dict_del)
    then show ?thesis
      using sessions_open_ok [OF ok, of peer model pu b t u now] opened(5,6) al
      by (simp add: sessions_allowed_def list_all_dict_set)
  qed
qed

lemma on_open_step:
  assumes "on_open V io m nd = (r, nd')" and "sessions_allowed (nd_acl nd) (nd_sessions nd)"
  shows "same_frame nd nd' \<and> sessions_allowed (nd_acl nd) (nd_sessions nd') \<and>
     (\<forall>reply. r = Inr reply \<longrightarrow> tm_type reply \<noteq> JStr ''SHARD_DATA'')"
proof -
  have op: "sessions_allowed (nd_acl nd) r'"
    if "sessions_open p mo pu b t u (Fin now) (nd_sessions nd) = (x, r')" "is_allowed_opt (nd_acl nd) mo p"
    for p mo pu b t u now x r'
    using sessions_allowed_open [OF assms(2) that(2), of pu b t u now] that(1) by simp
  show ?thesis
    using assms unfolding on_open_def
    by (auto simp: Let_def deny_session_def same_frame_def
        split: sum.splits option.splits if_splits prod.splits pyexn.splits
        dest!: node_receipt_frame op)
qed

text \<open>A shard is only served under a registered session of the sender.\<close>

lemma on_shard_step:
  assumes "on_shard V io m nd = (r, nd')" and "sessions_allowed (nd_acl nd) (nd_sessions nd)"
  shows "same_frame nd nd' \<and> sessions_allowed (nd_acl nd) (nd_sessions nd') \<and>
     (\<forall>reply. r = Inr reply \<longrightarrow> tm_type reply = JStr ''SHARD_DATA'' \<longrightarrow>
        (\<exists>model d. tm_payload reply = JObj d \<and> dict_get d ''model_id'' = Some (JStr model) \<and>
           is_allowed_opt (nd_acl nd) model (json_text (tm_sender m))))"
proof -
  have ok: "registry_ok (nd_sessions nd)" using assms(2) by (simp add: sessions_allowed_def)
  have gt: "sessions_allowed (nd_acl nd) (snd (sessions_get sid now (nd_sessions nd)))" for sid now
    by (rule sessions_allowed_get [OF assms(2)])
  have us: "sessions_allowed (nd_acl nd) r' \<and>
      (\<forall>s. x = Some s \<longrightarrow> se_peer s = p \<and> is_allowed_opt (nd_acl nd) (se_model s) p)"
    if u: "session_use sid p now now' (nd_sessions nd) = (x, r')" for sid p now now' x r'
    using ok
  proof (cases rule: session_use_cases [where sid = sid and peer = p and now = now and now' = now'])
    case denied
    then show ?thesis using u sessions_allowed_use [OF assms(2), of sid p now now'] by auto
  next
    case (granted s0)
    have "is_allowed_opt (nd_acl nd) (se_model s0) (se_peer s0)"
      using assms(2) dict_get_in [OF granted(1)] by (auto simp: sessions_allowed_def list_all_iff)
    with granted u sessions_allowed_use [OF assms(2), of sid p now now'] show ?thesis by auto
  qed
  show ?thesis
    using assms gt unfolding on_shard_def
    by (auto simp: Let_def deny_shard_def same_frame_def dict_get_def
        split: sum.splits option.splits if_splits prod.splits
        dest!: node_receipt_frame us)
qed

lemma dispatch_step:
  assumes "dispatch V io ip m nd = (r, nd')" and "sessions_allowed (nd_acl nd) (nd_sessions nd)"
  shows "same_frame nd nd' \<and> sessions_allowed (nd_acl nd) (nd_sessions nd') \<and>
     (\<forall>reply. r = Inr reply \<longrightarrow> tm_type reply = JStr ''SHARD_DATA'' \<longrightarrow>
        (\<exists>model d. tm_payload reply = JObj d \<and> dict_get d ''model_id'' = Some (JStr model) \<and>
           is_allowed_opt (nd_acl nd) model (json_text (tm_sender m))))"
proof -
  have hello: "tm_type reply = JStr ''HELLO''" if "on_hello V io ip m nd = (Inr reply, nd')" for reply
    using that by (auto simp: on_hello_def Let_def split: sum.splits)
  have ram: "tm_type reply = JStr ''ACK''" if "on_ram V io m nd = (Inr reply, nd')" for reply
    using that by (auto simp: on_ram_def Let_def split: sum.splits prod.splits)
  consider "tm_type m = JStr ''HELLO''" | "tm_type m = JStr ''SESSION_OPEN''" | "tm_type m = JStr ''REQUEST_SHARD''"
    | "tm_type m = JStr ''RAM_BROADCAST''"
    | "tm_type m \<notin> {JStr ''HELLO'', JStr ''SESSION_OPEN'', JStr ''REQUEST_SHARD'', JStr ''RAM_BROADCAST''}" by blast
  then show ?thesis
  proof cases
    case 1
    then show ?thesis using assms on_hello_frame [of V io ip m nd r nd'] hello by (auto simp: dispatch_def)
  next
    case 2
    then show ?thesis using assms on_open_step [of V io m nd r nd'] by (simp add: dispatch_def)
  next
    case 3
    then show ?thesis using assms on_shard_step [of V io m nd r nd'] by (simp add: dispatch_def)
  next
    case 4
    then show ?thesis using assms on_ram_frame [of V io m nd r nd'] ram by (auto simp: dispatch_def)
  next
    case 5
    then show ?thesis using assms by (auto simp: dispatch_def)
  qed
qed

section \<open>Runs of the node\<close>

definition node_safe :: "acl option \<Rightarrow> node \<Rightarrow> bool" where
  "node_safe a nd \<longleftrightarrow> nd_acl nd = a \<and> sessions_allowed a (nd_sessions nd) \<and>
     nc_ok (nd_nonces nd) \<and> nc_ttl (nd_nonces nd) = Fin 600"

lemma node_safe_new: "node_safe a (node_new name host port sk receipts vault a)"
  by (simp add: node_safe_def node_new_def) (simp add: nonce_cache_new_def)

text \<open>A message takes effect when it verifies and its nonce is fresh.\<close>

definition takes_effect :: "node_env \<Rightarrow> node_io \<Rightarrow> message \<Rightarrow> node \<Rightarrow> bool" where
  "takes_effect V io m nd \<longleftrightarrow>
     (\<exists>reason. tm_verify (ne_ed V) (Fin (io_verify io)) (Fin 300) m = Inr (True, reason)) \<and>
     fst (accept_nonce (nd_nonces nd) (json_text (tm_sender m)) (tm_nonce m) (io_nonce io)) = Inr True"

lemma answer_dispatches:
  assumes "takes_effect V io m nd"
  shows "answer V io ip m nd = dispatch V io ip m (nd\<lparr>nd_nonces :=
     snd (accept_nonce (nd_nonces nd) (json_text (tm_sender m)) (tm_nonce m) (io_nonce io))\<rparr>)"
proof -
  obtain c where c: "accept_nonce (nd_nonces nd) (json_text (tm_sender m)) (tm_nonce m) (io_nonce io) = (Inr True, c)"
    using assms by (auto simp: takes_effect_def) (metis prod.collapse)
  with assms show ?thesis by (auto simp: takes_effect_def answer_def)
qed

lemma answer_refuses:
  assumes "\<not> takes_effect V io m nd" and "answer V io ip m nd = (r, nd')"
  shows "(nd' = nd \<or> nd' = nd\<lparr>nd_nonces := snd (accept_nonce (nd_nonces nd) (json_text (tm_sender m)) (tm_nonce m) (io_nonce io))\<rparr>) \<and>
     (\<forall>reply. r = Inr reply \<longrightarrow> tm_type reply = JStr ''ERROR'')"
  using assms
  by (auto simp: takes_effect_def answer_def split: sum.splits prod.splits if_splits)

lemma answer_step:
  assumes "node_safe a nd" and "answer V io ip m nd = (r, nd')"
  shows "node_safe a nd' \<and> (\<forall>k e. nc_remembers (nd_nonces nd) k e \<longrightarrow> io_nonce io < e \<longrightarrow> nc_remembers (nd_nonces nd') k e)"
proof -
  obtain x c where x: "accept_nonce (nd_nonces nd) (json_text (tm_sender m)) (tm_nonce m) (io_nonce io) = (x, c)"
    by fastforce
  have ok: "nc_ok (nd_nonces nd)" "nc_ttl (nd_nonces nd) = Fin 600" using assms(1) by (simp_all add: node_safe_def)
  note c = accept_nonce_step [OF ok(1) x]
  have safe: "node_safe a (nd\<lparr>nd_nonces := c\<rparr>)" using assms(1) c by (simp add: node_safe_def)
  show ?thesis
  proof (cases "takes_effect V io m nd")
    case True
    then have d: "dispatch V io ip m (nd\<lparr>nd_nonces := c\<rparr>) = (r, nd')"
      using answer_dispatches [OF True, of ip] assms(2) by (simp add: x)
    have "sessions_allowed (nd_acl (nd\<lparr>nd_nonces := c\<rparr>)) (nd_sessions (nd\<lparr>nd_nonces := c\<rparr>))"
      using safe by (simp add: node_safe_def)
    from dispatch_step [OF d this] show ?thesis using safe c by (simp add: node_safe_def same_frame_def)
  next
    case False
    from answer_refuses [OF this assms(2)] show ?thesis using assms(1) safe c by (auto simp: x)
  qed
qed

text \<open>A run of the node: connections in the order they are handled.\<close>

fun node_run :: "node_env \<Rightarrow> (node_io \<times> string \<times> bytes) list \<Rightarrow> node \<Rightarrow> node" where
  "node_run V [] nd = nd"
| "node_run V ((io, ip, stream) # cs) nd = node_run V cs (snd (snd (handle_connection V io ip stream nd)))"

lemma handle_connection_node:
  "snd (snd (handle_connection V io ip stream nd)) = nd \<or>
   (\<exists>m r. answer V io ip m nd = (r, snd (snd (handle_connection V io ip stream nd))))"
  by (auto simp: handle_connection_def split: sum.splits prod.splits)

lemma handle_connection_step:
  assumes "node_safe a nd"
  shows "node_safe a (snd (snd (handle_connection V io ip stream nd))) \<and>
     (\<forall>k e. nc_remembers (nd_nonces nd) k e \<longrightarrow> io_nonce io < e \<longrightarrow>
        nc_remembers (nd_nonces (snd (snd (handle_connection V io ip stream nd)))) k e)"
  using handle_connection_node [of V io ip stream nd] answer_step [OF assms] assms by metis

lemma node_run_step:
  "node_safe a nd \<Longrightarrow> \<forall>c\<in>set cs. io_nonce (fst c) < e \<Longrightarrow> nc_remembers (nd_nonces nd) k e \<Longrightarrow>
     nc_remembers (nd_nonces (node_run V cs nd)) k e"
proof (induction V cs nd rule: node_run.induct)
  case (2 V io ip stream cs nd)
  let ?nd = "snd (snd (handle_connection V io ip stream nd))"
  have "node_safe a ?nd" using handle_connection_step [OF "2.prems"(1)] by blast
  moreover have "nc_remembers (nd_nonces ?nd) k e"
    using handle_connection_step [OF "2.prems"(1), of V io ip stream] "2.prems"(2,3) by (cases k) auto
  ultimately show ?case using "2.IH" "2.prems"(2) by simp
qed simp

lemma node_run_safe: "node_safe a nd \<Longrightarrow> node_safe a (node_run V cs nd)"
  by (induction V cs nd rule: node_run.induct) (use handle_connection_step in \<open>auto\<close>)

section \<open>Properties\<close>

text \<open>C29: Whatever connections a node has handled since it started, in whatever order and with whatever
  contents, it sends shard data only in answer to a message whose signature verifies under the key of
  its sender, and only for a model that the access list allows to that key.\<close>

theorem node_serves_only_allowed:
  assumes "nd = node_run V cs (node_new name host port sk receipts vault a)"
    and "answer V io ip m nd = (Inr reply, nd')" and "tm_type reply = JStr ''SHARD_DATA''"
  shows "\<exists>key model d. tm_sender m = JStr key \<and> tm_signature_ok (ne_ed V) m \<and> is_allowed_opt a model key \<and>
     tm_payload reply = JObj d \<and> dict_get d ''model_id'' = Some (JStr model)"
proof -
  have safe: "node_safe a nd" unfolding assms(1) by (intro node_run_safe node_safe_new)
  have te: "takes_effect V io m nd"
    using answer_refuses [OF _ assms(2)] assms(3) by auto
  then have sig: "tm_signature_ok (ne_ed V) m" by (auto simp: takes_effect_def dest: tm_verify_True)
  then obtain key where key: "tm_sender m = JStr key"
    by (auto simp: tm_signature_ok_def split: json.splits)
  let ?nd = "nd\<lparr>nd_nonces := snd (accept_nonce (nd_nonces nd) (json_text (tm_sender m)) (tm_nonce m) (io_nonce io))\<rparr>"
  have d: "dispatch V io ip m ?nd = (Inr reply, nd')" using answer_dispatches [OF te, of ip] assms(2) by simp
  have "sessions_allowed (nd_acl ?nd) (nd_sessions ?nd)" using safe by (simp add: node_safe_def)
  from dispatch_step [OF d this] assms(3) safe key sig show ?thesis
    by (auto simp: node_safe_def)
qed

text \<open>The second arrival of a message, in the order of the two checks it has to pass.\<close>

lemma second_arrival:
  assumes "node_safe a nd" and "tm_ts m = Fin ts" and "takes_effect V io0 m nd" and "io_verify io0 \<le> io_nonce io0"
    and "(io_nonce io < io_nonce io0 + 600 \<and> (\<forall>c\<in>set later. io_nonce (fst c) < io_nonce io0 + 600)) \<or>
      io_nonce io0 + 600 < io_verify io"
  shows "\<not> takes_effect V io m (node_run V later (snd (answer V io0 ip m nd)))"
proof
  assume second: "takes_effect V io m (node_run V later (snd (answer V io0 ip m nd)))"
  have "ts \<le> io_verify io0 + 300" "io_verify io \<le> ts + 300"
    using assms(2,3) second unfolding takes_effect_def tm_verify_def
    by (auto simp: bindR_Inr_iff split: if_splits)
  then have soon: "io_nonce io < io_nonce io0 + 600" "\<forall>c\<in>set later. io_nonce (fst c) < io_nonce io0 + 600"
    using assms(4,5) by linarith+
  obtain n where n: "tm_nonce m = JStr n"
    using assms(3) by (cases "tm_nonce m") (auto simp: takes_effect_def accept_nonce_def Let_def split: if_splits)
  let ?k = "(json_text (tm_sender m), n)"
  obtain x c where x: "accept_nonce (nd_nonces nd) (json_text (tm_sender m)) (tm_nonce m) (io_nonce io0) = (x, c)"
    by fastforce
  have ok: "nc_ok (nd_nonces nd)" "nc_ttl (nd_nonces nd) = Fin 600" using assms(1) by (simp_all add: node_safe_def)
  have "x = Inr True" using assms(3) x by (simp add: takes_effect_def)
  then have "nc_remembers c ?k (io_nonce io0 + 600)"
    using accept_nonce_step [OF ok(1) x] ok(2) n by simp
  moreover obtain r nd1 where nd1: "answer V io0 ip m nd = (r, nd1)" by fastforce
  moreover have "node_safe a (nd\<lparr>nd_nonces := c\<rparr>)"
    using assms(1) accept_nonce_step [OF ok(1) x] by (simp add: node_safe_def)
  ultimately have rem: "nc_remembers (nd_nonces nd1) ?k (io_nonce io0 + 600)" and safe1: "node_safe a nd1"
    using answer_dispatches [OF assms(3), of ip] answer_step [OF assms(1) nd1]
      dispatch_step [of V io0 ip m "nd\<lparr>nd_nonces := c\<rparr>" r nd1]
    by (auto simp: x node_safe_def same_frame_def)
  let ?nd = "node_run V later nd1"
  have "nc_remembers (nd_nonces ?nd) ?k (io_nonce io0 + 600)" by (rule node_run_step [OF safe1 soon(2) rem])
  moreover have "nc_ok (nd_nonces ?nd)" using node_run_safe [OF safe1] by (simp add: node_safe_def)
  moreover obtain y c' where y: "accept_nonce (nd_nonces ?nd) (json_text (tm_sender m)) (tm_nonce m) (io_nonce io) = (y, c')"
    by fastforce
  moreover have "y = Inr True" using second y by (simp add: takes_effect_def nd1)
  ultimately show False using accept_nonce_step [of "nd_nonces ?nd"] n soon(1) by blast
qed

text \<open>C30: A message whose timestamp is a finite number and which a node has acted on changes nothing when it
  arrives again, from whatever address: the answer, if any, is an error and of the node only the nonce cache may
  differ. This holds while the clock of the node, at the second arrival and at all connections in between,
  shows less than 600 seconds after the acceptance, whatever those connections bring; and it holds for good as
  soon as it shows more than 600 seconds. The instant of exactly 600 seconds is left out (a message stamped
  300 seconds ahead is then accepted again, \<open>replay_at_600\<close> in Node_Examples), and so are messages with the
  timestamp NaN, which passes every window.\<close>

theorem node_no_replay:
  assumes "nd = node_run V cs (node_new name host port sk receipts vault a)"
    and "tm_ts m = Fin ts" and "takes_effect V io0 m nd" and "io_verify io0 \<le> io_nonce io0"
    and "(io_nonce io < io_nonce io0 + 600 \<and> (\<forall>c\<in>set later. io_nonce (fst c) < io_nonce io0 + 600)) \<or>
      io_nonce io0 + 600 < io_verify io"
    and "nd1 = node_run V later (snd (answer V io0 ip m nd))" and "answer V io ip' m nd1 = (r, nd2)"
  shows "(\<exists>c. nd2 = nd1\<lparr>nd_nonces := c\<rparr>) \<and> (\<forall>reply. r = Inr reply \<longrightarrow> tm_type reply = JStr ''ERROR'')"
proof -
  have "node_safe a nd" unfolding assms(1) by (intro node_run_safe node_safe_new)
  then have "\<not> takes_effect V io m nd1" unfolding assms(6) by (rule second_arrival [OF _ assms(2-5)])
  moreover have "nd1 = nd1\<lparr>nd_nonces := nd_nonces nd1\<rparr>" by simp
  ultimately show ?thesis using answer_refuses [OF _ assms(7)] by metis
qed

end
