(* ===== verification/Node_Serve.thy ===== *)
theory Node_Serve
  imports Node_Safety
begin

text \<open>
  What an honest peer gets from the node: a message that was made and sent correctly is dispatched, a
  session is accepted exactly when it should be, and a registered session is served the chunks of the
  stored file. The examples of the safety properties are built from these facts.
\<close>

section \<open>Connections that carry a made message\<close>

lemma handle_sent:
  assumes "json_ok (JObj (tm_to_dict m))" and "send_frame (JObj (tm_to_dict m)) = Inr bs"
  shows "handle_connection V io ip bs nd =
     (case answer V io ip m nd of
        (Inl e, nd') \<Rightarrow> (None, raised e, nd')
      | (Inr reply, nd') \<Rightarrow>
          (case send_frame (JObj (tm_to_dict (bind_reply V nd' (tm_nonce m) reply))) of
             Inl e \<Rightarrow> (None, raised e, nd')
           | Inr out \<Rightarrow> (Some out, None, nd')))"
  using recv_sent [OF assms, of "[]"] by (simp add: handle_connection_def tm_of_dict_to_dict)

text \<open>The nonce of a message has room and is new in the cache.\<close>

definition nonce_fresh :: "nonce_cache \<Rightarrow> string \<times> string \<Rightarrow> rat \<Rightarrow> bool" where
  "nonce_fresh c k now \<longleftrightarrow> int (length (nc_seen c)) < nc_max c \<and> dict_get (nc_seen c) k = None \<and> 0 \<le> now"

lemma dict_set_new: "dict_get d k = None \<Longrightarrow> dict_set k v d = d @ [(k, v)]"
  unfolding dict_get_def dict_set_def by (induction d) auto

lemma nonce_fresh_accept:
  assumes "nonce_fresh c (s, n) now"
  shows "accept_nonce c s (JStr n) now =
     (Inr True, c\<lparr>nc_seen := nc_seen c @ [((s, n), fl_add (Fin now) (nc_ttl c))]\<rparr>)"
proof -
  have "dict_set (s, n) v (nc_seen c) = nc_seen c @ [((s, n), v)]" for v
    using assms by (simp add: nonce_fresh_def dict_set_new)
  then show ?thesis using assms
    by (simp add: nonce_fresh_def accept_nonce_def nc_at_unfold nc_purge_def Let_def dict_get_default_eq)
qed

lemma made_takes_effect:
  assumes "ed_correct (ne_ed V)" and "16 \<le> length uuid" and "\<bar>io_verify io - sent\<bar> \<le> 300"
    and "nonce_fresh (nd_nonces nd) (hex (ed_public (ne_ed V) sk), uuid) (io_nonce io)"
  shows "answer V io ip (tm_make (ne_ed V) sk kind p uuid (Fin sent)) nd =
     dispatch V io ip (tm_make (ne_ed V) sk kind p uuid (Fin sent))
       (nd\<lparr>nd_nonces := (nd_nonces nd)\<lparr>nc_seen := nc_seen (nd_nonces nd) @
          [((hex (ed_public (ne_ed V) sk), uuid), fl_add (Fin (io_nonce io)) (nc_ttl (nd_nonces nd)))]\<rparr>\<rparr>)"
proof -
  let ?m = "tm_make (ne_ed V) sk kind p uuid (Fin sent)"
  have "tm_verify (ne_ed V) (Fin (io_verify io)) (Fin 300) ?m = Inr (True, ''ok'')"
    using assms(1-3) tm_make_ok by (simp add: tm_verify_ok_iff)
  then show ?thesis by (simp add: answer_def nonce_fresh_accept [OF assms(4)])
qed

lemma made_in_effect:
  assumes "ed_correct (ne_ed V)" and "16 \<le> length uuid" and "\<bar>io_verify io - sent\<bar> \<le> 300"
    and "nonce_fresh (nd_nonces nd) (hex (ed_public (ne_ed V) sk), uuid) (io_nonce io)"
  shows "takes_effect V io (tm_make (ne_ed V) sk kind p uuid (Fin sent)) nd"
proof -
  have "tm_verify (ne_ed V) (Fin (io_verify io)) (Fin 300) (tm_make (ne_ed V) sk kind p uuid (Fin sent)) = Inr (True, ''ok'')"
    using assms(1-3) tm_make_ok by (simp add: tm_verify_ok_iff)
  then show ?thesis by (simp add: takes_effect_def nonce_fresh_accept [OF assms(4)])
qed

lemma handle_sent_node:
  assumes "json_ok (JObj (tm_to_dict m))" and "send_frame (JObj (tm_to_dict m)) = Inr bs"
  shows "snd (snd (handle_connection V io ip bs nd)) = snd (answer V io ip m nd)"
  unfolding handle_sent [OF assms] by (auto split: sum.splits prod.splits)

section \<open>Opening\<close>

definition receipt_ready :: "node_io \<Rightarrow> node \<Rightarrow> bool" where
  "receipt_ready io nd \<longleftrightarrow>
     (case nd_receipts nd of None \<Rightarrow> True | Some r \<Rightarrow> io_receipt_id io \<notin> set (map vr_id (vq_rows r)))"

definition receipts_after ::
    "node_io \<Rightarrow> string \<Rightarrow> string \<Rightarrow> string \<Rightarrow> (string, json) dict \<Rightarrow> vault_receipts option \<Rightarrow> vault_receipts option" where
  "receipts_after io k m a p rs =
     map_option (\<lambda>r. snd (projr (vr_emit k m a p (io_receipt_id io) (Fin (io_receipt io)) r))) rs"

lemma node_receipt_ready:
  "receipt_ready io nd \<Longrightarrow> node_receipt io k m a p nd = (Inr (), nd\<lparr>nd_receipts := receipts_after io k m a p (nd_receipts nd)\<rparr>)"
  by (cases "nd_receipts nd") (auto simp: receipt_ready_def node_receipt_def vr_emit_def Let_def receipts_after_def)

lemma receipts_after_None [simp]: "receipts_after io k m a p None = None"
  by (simp add: receipts_after_def)

text \<open>A handler that emits: one receipt more, with the identifier drawn for the connection.\<close>

definition receipts_grown :: "node_io \<Rightarrow> node \<Rightarrow> node \<Rightarrow> bool" where
  "receipts_grown io nd nd' \<longleftrightarrow> (\<exists>k m a p. nd_receipts nd' = receipts_after io k m a p (nd_receipts nd))"

lemma receipts_grown_None: "receipts_grown io nd nd' \<Longrightarrow> nd_receipts nd = None \<Longrightarrow> nd_receipts nd' = None"
  by (auto simp: receipts_grown_def)

lemma receipts_grown_Some:
  assumes "receipts_grown io nd nd'" and "receipt_ready io nd" and "nd_receipts nd = Some r"
  shows "\<exists>k m a p r'. nd_receipts nd' = Some r' \<and> vr_emit k m a p (io_receipt_id io) (Fin (io_receipt io)) r = Inr (io_receipt_id io, r')"
  using assms by (auto simp: receipts_grown_def receipts_after_def receipt_ready_def vr_emit_def Let_def)

definition session_granted :: "node_io \<Rightarrow> string \<Rightarrow> string \<Rightarrow> string \<Rightarrow> int \<Rightarrow> pyfloat \<Rightarrow> session" where
  "session_granted io peer model purpose budget ttl =
     \<lparr>se_id = io_session_id io, se_peer = peer, se_model = model, se_purpose = purpose, se_budget = budget,
      se_used = 0, se_opened = Fin (io_session io), se_ttl = ttl\<rparr>"

lemma session_granted_simps [simp]:
  "se_id (session_granted io key model pu b t) = io_session_id io" "se_model (session_granted io key model pu b t) = model"
  "se_peer (session_granted io key model pu b t) = key" "se_budget (session_granted io key model pu b t) = b"
  "se_used (session_granted io key model pu b t) = 0"
  "session_expiry (session_granted io key model pu b t) = fl_add (Fin (io_session io)) t"
  by (simp_all add: session_granted_def session_expiry_def)

lemma on_open_accepts:
  assumes vault: "nd_vault nd = Some fs" "get_manifest (ne_vault V) model fs = Inr (Some mf)"
    and al: "is_allowed_opt (nd_acl nd) model key" and m: "tm_sender m = JStr key"
    and args: "payload_get (tm_payload m) ''model_id'' (JStr []) = Inr mid" "py_str mid = model"
      "open_args (tm_payload m) (mm_n_shards mf) = Inr (pu, b, t)"
    and bounds: "1 \<le> b" "b \<le> 1000000" "fl_le (Fin 1) t" "fl_le t (Fin 86400)"
    and reg: "registry_ok (nd_sessions nd)" and rc: "receipt_ready io nd"
  shows "\<exists>nd'. on_open V io m nd = (Inr (node_reply V io nd' ''SESSION_ACCEPT''
       [(''session_id'', JStr (io_session_id io)), (''model_id'', JStr model),
        (''n_shards'', JInt (mm_n_shards mf)), (''size_bytes'', JInt (mm_size mf)), (''merkle_root'', JStr (mm_root mf)),
        (''file_sha256'', dict_get_default (mm_metadata mf) ''file_sha256'' JNull)]), nd') \<and>
     dict_get (sr_sessions (nd_sessions nd')) (io_session_id io) = Some (session_granted io key model pu b t) \<and>
     registry_ok (nd_sessions nd') \<and> same_frame nd nd' \<and> receipts_grown io nd nd'"
  using reg
proof (cases rule: sessions_open_cases [where budget = b and ttl = t and peer = key and model = model and purpose = pu
      and uuid = "io_session_id io" and now = "io_session io"])
  case refused
  then show ?thesis using bounds by simp
next
  case (opened s0 d)
  let ?s = "session_granted io key model pu b t"
  let ?r = "(nd_sessions nd)\<lparr>sr_sessions := dict_set (io_session_id io) ?s d\<rparr>"
  have op: "sessions_open key model pu b t (io_session_id io) (Fin (io_session io)) (nd_sessions nd) = (Inr ?s, ?r)"
    using opened(5,6) by (simp add: session_granted_def)
  have ok: "registry_ok ?r"
    using sessions_open_ok [OF reg, of key model pu b t "io_session_id io" "io_session io"] op by simp
  have "receipt_ready io (nd\<lparr>nd_sessions := ?r\<rparr>)" using rc by (simp add: receipt_ready_def)
  note rc' = node_receipt_ready [OF this]
  show ?thesis
    using vault al args m op ok by (auto simp: rc' on_open_def Let_def same_frame_def dict.lookup_store receipts_grown_def)
qed

section \<open>Serving\<close>

text \<open>The session that asks has not expired at either reading of the clock and has budget left.\<close>

definition session_usable :: "node_io \<Rightarrow> string \<Rightarrow> session \<Rightarrow> bool" where
  "session_usable io key s \<longleftrightarrow> se_peer s = key \<and> \<not> fl_gt (Fin (io_session io)) (session_expiry s) \<and>
     \<not> fl_gt (Fin (io_consume io)) (session_expiry s) \<and> se_used s < se_budget s"

lemma session_use_usable:
  assumes "registry_ok r" and "dict_get (sr_sessions r) sid = Some s" and "session_usable io key s"
  shows "session_use sid key (Fin (io_session io)) (Fin (io_consume io)) r =
     (Some (s\<lparr>se_used := se_used s + 1\<rparr>), (sessions_gc (Fin (io_session io)) r)\<lparr>sr_sessions :=
        dict_set sid (s\<lparr>se_used := se_used s + 1\<rparr>) (sr_sessions (sessions_gc (Fin (io_session io)) r))\<rparr>)"
  using assms(1)
proof (cases rule: session_use_cases [where sid = sid and peer = key and now = "Fin (io_session io)" and now' = "Fin (io_consume io)"])
  case denied
  have "dict_get (sr_sessions (sessions_gc (Fin (io_session io)) r)) sid = Some s"
    using assms by (simp add: sessions_gc_get session_usable_def)
  then show ?thesis using denied assms(3)
    by (auto simp: session_use_def sessions_get_def Let_def session_usable_def session_consume_def)
next
  case (granted s0)
  then show ?thesis using assms by simp
qed

lemma on_shard_serves:
  assumes vault: "nd_vault nd = Some fs" "get_manifest (ne_vault V) (se_model s) fs = Inr (Some mf)"
      "read_shard_plaintext (ne_vault V) mf i fs = Inr data"
    and m: "tm_sender m = JStr key" "payload_get (tm_payload m) ''session_id'' (JStr []) = Inr (JStr sid)"
      "payload_get (tm_payload m) ''shard_idx'' (JInt (- 1)) = Inr (JInt i)"
    and reg: "registry_ok (nd_sessions nd)" "dict_get (sr_sessions (nd_sessions nd)) sid = Some s" "session_usable io key s"
    and rc: "receipt_ready io nd"
  shows "\<exists>nd'. on_shard V io m nd = (Inr (node_reply V io nd' ''SHARD_DATA''
        [(''model_id'', JStr (se_model s)), (''shard_idx'', JInt i), (''plaintext_hash'', JStr (sha_hex data)),
         (''payload_b64'', JStr (b64_encode std_alt data))]), nd') \<and>
     dict_get (sr_sessions (nd_sessions nd')) sid = Some (s\<lparr>se_used := se_used s + 1\<rparr>) \<and>
     registry_ok (nd_sessions nd') \<and> same_frame nd nd' \<and> receipts_grown io nd nd'"
proof -
  let ?s = "s\<lparr>se_used := se_used s + 1\<rparr>" and ?r0 = "sessions_gc (Fin (io_session io)) (nd_sessions nd)"
  let ?r = "?r0\<lparr>sr_sessions := dict_set sid ?s (sr_sessions ?r0)\<rparr>"
  let ?rep = "rep_record key ''success'' (int (length data)) (io_latency io * 1000) False (nd_reputation nd)"
  note use = session_use_usable [OF reg]
  have ok: "registry_ok ?r"
    using session_use_ok [OF reg(1), of sid key "Fin (io_session io)" "Fin (io_consume io)"] use by simp
  have "receipt_ready io (nd\<lparr>nd_sessions := ?r, nd_reputation := ?rep\<rparr>)" using rc by (simp add: receipt_ready_def)
  note rc' = node_receipt_ready [OF this]
  show ?thesis
    using vault m use ok by (auto simp: rc' on_shard_def Let_def same_frame_def dict.lookup_store receipts_grown_def)
qed

end
