(* ===== verification/Wire_Size.thy ===== *)
theory Wire_Size
  imports Protocol Base64
begin

text \<open>
  How long a frame gets: bounds on the JSON text of what the nodes send, so that messages with a shard
  of up to one mebibyte, the default of the vault, are known to fit.
\<close>

lemma length_escape_char: "length (escape_char a c) \<le> 6"
  by (auto simp: escape_char_def u_escape_def)

lemma length_concat_le: "\<forall>x\<in>set xs. length (f x) \<le> n \<Longrightarrow> length (concat (map f xs)) \<le> n * length xs"
  by (induction xs) auto

lemma length_quote_le: "length (quote a s) \<le> 6 * length s + 2"
  using length_concat_le [of s "escape_char a" 6] by (simp add: quote_def length_escape_char)

text \<open>Characters that JSON does not escape.\<close>

definition plain_char :: "char \<Rightarrow> bool" where
  "plain_char c \<longleftrightarrow> 32 \<le> code c \<and> code c \<le> 126 \<and> c \<noteq> CHR 34 \<and> c \<noteq> CHR 92"

lemma escape_plain: "plain_char c \<Longrightarrow> escape_char a c = [c]"
  by (auto simp: escape_char_def plain_char_def code_def)

lemma length_quote_plain: "list_all plain_char s \<Longrightarrow> length (quote a s) = length s + 2"
  by (induction s) (simp_all add: quote_def escape_plain)

lemma plain_b64_char: "n < 64 \<Longrightarrow> plain_char (b64_char std_alt n)"
proof -
  assume n: "n < 64"
  note c = b64_char_code [OF n, of std_alt]
  consider "n < 26" | "26 \<le> n" "n < 52" | "52 \<le> n" "n < 62" | "n = 62" | "n = 63" using n by linarith
  then have "code (b64_char std_alt n) \<in> {43..57} \<union> {65..90} \<union> {97..122}"
    by cases (use c in \<open>auto simp: std_alt_def code_def\<close>)
  then show ?thesis by (auto simp: plain_char_def code_def)
qed

lemma plain_pad: "plain_char pad"
  by (simp add: plain_char_def pad_def code_def)

lemma b64_plain: "alt = std_alt \<Longrightarrow> list_all plain_char (b64_encode alt bs)"
proof (induction alt bs rule: b64_encode.induct)
  case (1 alt x y z rest)
  then show ?case using sextets [of "unat x" "unat y" "unat z"] by (simp add: Let_def plain_b64_char)
next
  case (2 alt x y)
  then show ?case using sextets [of "unat x" "unat y" 0] by (simp add: Let_def plain_b64_char plain_pad)
next
  case (3 alt x)
  then show ?case using sextets [of "unat x" 0 0] by (simp add: Let_def plain_b64_char plain_pad)
qed simp

lemma length_uint_str: "0 \<le> i \<Longrightarrow> i < 10 ^ n \<Longrightarrow> 0 < n \<Longrightarrow> length (uint_str i) \<le> n"
proof (induction n arbitrary: i)
  case (Suc n)
  show ?case
  proof (cases "i < 10")
    case False
    then have "0 < n" using Suc.prems(2) by (cases n) auto
    moreover have "i div 10 < 10 ^ n" using Suc.prems(2) by (simp add: div_less_iff_less_mult)
    ultimately show ?thesis using False Suc.IH [of "i div 10"] Suc.prems by (simp add: uint_str.simps [of i])
  qed (simp add: uint_str.simps)
qed simp

lemma length_int_str: "0 \<le> i \<Longrightarrow> i < 10 ^ n \<Longrightarrow> 0 < n \<Longrightarrow> length (int_str i) \<le> n"
  by (simp add: int_str_def length_uint_str)

section \<open>Objects\<close>

definition member_size :: "(string \<times> json) \<Rightarrow> nat" where
  "member_size kv = length (quote True (fst kv)) + length (emit compact_ascii 0 (snd kv)) + 2"

lemma newline_compact [simp]: "newline compact_ascii l = []"
  by (simp add: newline_def compact_ascii_def)

lemma emit_compact_level: "emit compact_ascii l v = emit compact_ascii 0 v"
proof (induction v arbitrary: l)
  case (JArr xs)
  then have "map (emit compact_ascii (Suc l)) xs = map (emit compact_ascii (Suc 0)) xs"
    by (metis (no_types, lifting) map_cong)
  then show ?case by (simp only: emit.simps bracket_def newline_compact)
next
  case (JObj kvs)
  have "emit compact_ascii (Suc l) v = emit compact_ascii (Suc 0) v" if "(k, v) \<in> set kvs" for k v
    using JObj [OF that, of v "Suc l"] JObj [OF that, of v "Suc 0"] by simp
  then have "map (\<lambda>(k, v). quote (ensure_ascii compact_ascii) k @ key_sep compact_ascii @ emit compact_ascii (Suc l) v) kvs =
      map (\<lambda>(k, v). quote (ensure_ascii compact_ascii) k @ key_sep compact_ascii @ emit compact_ascii (Suc 0) v) kvs"
    by auto
  then show ?case by (simp only: emit.simps bracket_def newline_compact)
qed simp_all

lemma length_join_compact: "length (join [CHR '',''] xs) \<le> sum_list (map (\<lambda>x. length x + 1) xs)"
  by (induction "[CHR '','']" xs rule: join.induct) auto

lemma length_dumps_obj: "length (dumps compact_ascii (JObj kvs)) \<le> 2 + sum_list (map member_size kvs)"
proof -
  let ?t = "\<lambda>(k, v). quote True k @ [CHR '':''] @ emit compact_ascii (Suc 0) v"
  have "map (length \<circ> ?t) kvs = map (\<lambda>kv. length (quote True (fst kv)) + length (emit compact_ascii 0 (snd kv)) + 1) kvs"
    by (auto simp: emit_compact_level [of "Suc 0"])
  then have "sum_list (map (\<lambda>x. length x + 1) (map ?t kvs)) = sum_list (map member_size kvs)"
    unfolding map_map comp_def member_size_def
    by (intro arg_cong [where f = sum_list] map_cong) (auto simp: emit_compact_level [of "Suc 0"])
  then show ?thesis
    using length_join_compact [of "map ?t kvs"]
    by (simp add: dumps_def bracket_def newline_def compact_ascii_def)
qed

lemma length_emit_obj: "length (emit compact_ascii 0 (JObj kvs)) \<le> 2 + sum_list (map member_size kvs)"
  using length_dumps_obj [of kvs] by (simp add: dumps_def)

lemma member_size_JStr: "member_size (k, JStr s) \<le> 6 * length k + 6 * length s + 6"
  using length_quote_le [of True k] length_quote_le [of True s] by (simp add: member_size_def compact_ascii_def)

lemma member_size_plain: "list_all plain_char s \<Longrightarrow> member_size (k, JStr s) \<le> 6 * length k + length s + 6"
  using length_quote_le [of True k] length_quote_plain [of s True] by (simp add: member_size_def compact_ascii_def)

lemma member_size_JInt: "0 \<le> i \<Longrightarrow> i < 10 ^ n \<Longrightarrow> 0 < n \<Longrightarrow> member_size (k, JInt i) \<le> 6 * length k + n + 4"
  using length_quote_le [of True k] length_int_str [of i n] by (simp add: member_size_def)

lemma member_size_JFloat: "length (float_repr x) \<le> n \<Longrightarrow> member_size (k, JFloat x) \<le> 6 * length k + n + 4"
  using length_quote_le [of True k] by (simp add: member_size_def)

lemma member_size_JNull: "member_size (k, JNull) \<le> 6 * length k + 8"
  using length_quote_le [of True k] by (simp add: member_size_def)

lemma member_size_JObj: "member_size (k, JObj d) \<le> 6 * length k + 6 + sum_list (map member_size d)"
  using length_quote_le [of True k] length_emit_obj [of d] by (simp add: member_size_def)

section \<open>Messages\<close>

text \<open>A clock whose JSON text is short, as every double's is.\<close>

definition short_clock :: "rat \<Rightarrow> bool" where
  "short_clock t \<longleftrightarrow> text_float (Fin t) \<and> length (float_repr (Fin t)) \<le> 64"

text \<open>Messages with short fields and at most 2,000,000 characters of payload fit in a frame.\<close>

lemma message_fits:
  assumes "tm_type m = JStr kind" "length kind \<le> 20" and "tm_sender m = JStr key" "length key \<le> 64"
    and "tm_nonce m = JStr uuid" "length uuid \<le> 64" and "tm_ts m = Fin t" "short_clock t"
    and "tm_payload m = JObj p" "json_ok (JObj p)" "sum_list (map member_size p) \<le> 2000000"
    and "tm_signature m = JStr sig" "length sig \<le> 128"
  shows "json_ok (JObj (tm_to_dict m)) \<and> (\<exists>bs. send_frame (JObj (tm_to_dict m)) = Inr bs)"
proof -
  have ok: "json_ok (JObj (tm_to_dict m))"
    using assms by (simp add: tm_to_dict_def tm_unsigned_def short_clock_def)
  have clock: "length (float_repr (Fin t)) \<le> 64" using assms(8) by (simp add: short_clock_def)
  have "length (dumps compact_ascii (JObj (tm_to_dict m))) \<le> 2 + sum_list (map member_size (tm_to_dict m))"
    by (rule length_dumps_obj)
  also have "\<dots> \<le> 2 * 1024 * 1024"
    using assms member_size_JStr [of "''type''" kind] member_size_JStr [of "''sender''" key] member_size_JStr [of "''nonce''" uuid]
      member_size_JFloat [OF clock, of "''ts''"] member_size_JObj [of "''payload''" p] member_size_JStr [of "''signature''" sig]
    by (simp add: tm_to_dict_def tm_unsigned_def)
  finally show ?thesis using send_frame_succeeds [OF ok] ok by blast
qed

end
