(* ===== verification/Node_Honest.thy ===== *)
theory Node_Honest
  imports Node_Pull Node_Serve Wire_Size
begin

text \<open>
  Two nodes that run this code against each other: the network hands the client's frame to the server's
  connection handler and the server's frame back. Under clocks within the skew and fresh identifiers a
  pull of a stored model ends, and ends with the stored file.
\<close>

section \<open>Exchanges\<close>

text \<open>The scheme is correct and its signatures have at most 64 bytes.\<close>

definition ed_short :: "ed25519 \<Rightarrow> bool" where
  "ed_short C \<longleftrightarrow> ed_correct C \<and> (\<forall>sk m. length (ed_sign C sk m) \<le> 64)"

text \<open>One exchange: identifiers of the length \<open>uuid4\<close> gives them, clocks within the skew of 300 seconds.\<close>

definition exchange_ok :: "client_io \<Rightarrow> node_io \<Rightarrow> bool" where
  "exchange_ok c s \<longleftrightarrow>
     16 \<le> length (ci_uuid c) \<and> length (ci_uuid c) \<le> 64 \<and> 16 \<le> length (io_reply_id s) \<and> length (io_reply_id s) \<le> 64 \<and>
     \<bar>io_verify s - ci_clock c\<bar> \<le> 300 \<and> \<bar>ci_verify c - io_reply s\<bar> \<le> 300 \<and> 0 \<le> io_nonce s \<and>
     short_clock (ci_clock c) \<and> short_clock (io_reply s)"

definition noted :: "node_io \<Rightarrow> string \<Rightarrow> string \<Rightarrow> node \<Rightarrow> node" where
  "noted io key uuid nd = nd\<lparr>nd_nonces := (nd_nonces nd)\<lparr>nc_seen := nc_seen (nd_nonces nd) @
     [((key, uuid), fl_add (Fin (io_nonce io)) (nc_ttl (nd_nonces nd)))]\<rparr>\<rparr>"

definition node_key :: "ed25519 \<Rightarrow> node \<Rightarrow> string" where
  "node_key C nd = hex (ed_public C (nd_sk nd))"

lemma length_node_key: "ed_correct C \<Longrightarrow> length (node_key C nd) = 64"
  by (simp add: node_key_def ed_correctD)

lemma made_fits:
  assumes "ed_short C" and "length kind \<le> 20" and "length uuid \<le> 64" and "short_clock t"
    and "json_ok (JObj p)" and "sum_list (map member_size p) \<le> 2000000"
  shows "json_ok (JObj (tm_to_dict (tm_make C sk kind p uuid (Fin t)))) \<and>
     (\<exists>bs. send_frame (JObj (tm_to_dict (tm_make C sk kind p uuid (Fin t)))) = Inr bs)"
proof (rule message_fits)
  let ?m = "tm_make C sk kind p uuid (Fin t)"
  show "tm_type ?m = JStr kind" "tm_sender ?m = JStr (hex (ed_public C sk))" "tm_nonce ?m = JStr uuid"
    "tm_ts ?m = Fin t" "tm_payload ?m = JObj p" by simp_all
  have "tm_unsigned ?m = tm_unsigned \<lparr>tm_type = JStr kind, tm_sender = JStr (hex (ed_public C sk)), tm_nonce = JStr uuid,
      tm_ts = Fin t, tm_payload = JObj p, tm_signature = JStr []\<rparr>" by (simp add: tm_make_def)
  then show "tm_signature ?m = JStr (hex (ed_sign C sk (canonical (JObj (tm_unsigned ?m)))))"
    by (simp add: tm_make_def tm_sign_def)
  show "length (hex (ed_sign C sk (canonical (JObj (tm_unsigned ?m))))) \<le> 128"
    using assms(1) by (simp add: ed_short_def)
  show "length (hex (ed_public C sk)) \<le> 64" using assms(1) ed_correctD(1) [of C sk] by (simp add: ed_short_def)
qed (use assms in simp_all)

text \<open>A reply with the nonce of the request bound into it.\<close>

lemma bind_reply_made:
  assumes "dict_get pl ''request_nonce'' = None"
  shows "bind_reply V nd (JStr uuid) (node_reply V io nd kind pl) =
     tm_make (ne_ed V) (nd_sk nd) kind (pl @ [(''request_nonce'', JStr uuid)]) (io_reply_id io) (Fin (io_reply io))"
  using assms by (simp add: bind_reply_def node_reply_def tm_make_def tm_sign_def dict_set_new tm_unsigned_def)

lemma request_honest:
  assumes ed: "ed_short (ne_ed V)" and ex: "exchange_ok c (sios j)"
    and kind: "length kind \<le> 20" "json_ok (JObj p)" "sum_list (map member_size p) \<le> 2000000"
    and fresh: "nonce_fresh (nd_nonces nd) (node_key (ne_ed V) cl, ci_uuid c) (io_nonce (sios j))"
    and d: "dispatch V (sios j) ip (client_message (ne_ed V) c cl kind p) (noted (sios j) (node_key (ne_ed V) cl) (ci_uuid c) nd) =
        (Inr (node_reply V (sios j) nd' kind' pl), nd')"
    and peer: "peer = node_key (ne_ed V) nd'"
    and reply: "length kind' \<le> 20" "json_ok (JObj pl)" "dict_get pl ''request_nonce'' = None"
      "sum_list (map member_size pl) \<le> 1900000"
    and expected: "expected = None \<or> expected = Some peer"
  shows "\<exists>r. request (ne_ed V) (peer_net V sios ip) c host port (client_message (ne_ed V) c cl kind p) expected (nd, j) =
        (Inr r, (nd', Suc j)) \<and> tm_type r = JStr kind' \<and> tm_sender r = JStr peer \<and>
        tm_payload r = JObj (pl @ [(''request_nonce'', JStr (ci_uuid c))])"
proof -
  let ?C = "ne_ed V" and ?m = "client_message (ne_ed V) c cl kind p"
  let ?pl = "pl @ [(''request_nonce'', JStr (ci_uuid c))]"
  let ?r = "tm_make ?C (nd_sk nd') kind' ?pl (io_reply_id (sios j)) (Fin (io_reply (sios j)))"
  have c: "ed_correct ?C" using ed by (simp add: ed_short_def)
  obtain frame where frame: "json_ok (JObj (tm_to_dict ?m))" "send_frame (JObj (tm_to_dict ?m)) = Inr frame"
    using made_fits [OF ed kind(1) _ _ kind(2,3), of "ci_uuid c" "ci_clock c" "nd_sk cl"] ex
    by (auto simp: client_message_def exchange_ok_def)
  have "member_size (''request_nonce'', JStr (ci_uuid c)) \<le> 600"
    using member_size_JStr [of "''request_nonce''" "ci_uuid c"] ex by (simp add: exchange_ok_def)
  then have size: "sum_list (map member_size ?pl) \<le> 2000000" using reply(4) by simp
  have "''request_nonce'' \<notin> set (map fst pl)" using reply(3) by (simp add: dict_get_None_iff)
  then have "json_ok (JObj ?pl)" using reply(2) by simp
  then obtain out where out: "json_ok (JObj (tm_to_dict ?r))" "send_frame (JObj (tm_to_dict ?r)) = Inr out"
    using made_fits [OF ed reply(1) _ _ _ size, of "io_reply_id (sios j)" "io_reply (sios j)" "nd_sk nd'"] ex
    by (auto simp: exchange_ok_def)
  have "answer V (sios j) ip ?m nd = (Inr (node_reply V (sios j) nd' kind' pl), nd')"
    using made_takes_effect [OF c, of "ci_uuid c" "sios j" "ci_clock c" nd "nd_sk cl" ip kind p] ex fresh d
    by (simp add: client_message_def exchange_ok_def node_key_def noted_def)
  then have "handle_connection V (sios j) ip frame nd = (Some out, None, nd')"
    using out(2) unfolding handle_sent [OF frame] by (simp add: bind_reply_made [OF reply(3)] client_message_def)
  then have net: "peer_net V sios ip (nd, j) host port frame = (Inr out, (nd', Suc j))" by (simp add: peer_net_def)
  have "tm_verify ?C (Fin (ci_verify c)) (Fin 300) ?r = Inr (True, ''ok'')"
    using tm_make_ok [OF c] ex by (simp add: tm_verify_ok_iff exchange_ok_def)
  then have "check_response ?C (ci_verify c) (tm_nonce ?m) expected ?r = Inr ?r"
    using peer reply(3) expected
    by (auto simp: check_response_def node_key_def client_message_def dict_get_append_last)
  then have "request ?C (peer_net V sios ip) c host port ?m expected (nd, j) = (Inr ?r, (nd', Suc j))"
    using recv_sent [OF out, of "[]"] net by (simp add: request_def frame(2) tm_of_dict_to_dict)
  then show ?thesis using peer by (auto simp: node_key_def)
qed

section \<open>The two ends\<close>

text \<open>The vault of the server holds the model in these chunks, as \<open>add_file\<close> leaves it.\<close>

definition stores_model :: "node_env \<Rightarrow> string \<Rightarrow> manifest \<Rightarrow> bytes list \<Rightarrow> files \<Rightarrow> bool" where
  "stores_model V model mf cs fs \<longleftrightarrow>
     get_manifest (ne_vault V) model fs = Inr (Some mf) \<and> mm_n_shards mf = int (length cs) \<and>
     length cs \<le> 1000000 \<and> length model \<le> 512 \<and> length (mm_root mf) \<le> 64 \<and> 0 \<le> mm_size mf \<and> mm_size mf < 10 ^ 20 \<and>
     dict_get_default (mm_metadata mf) ''file_sha256'' JNull = JStr (sha_hex (concat cs)) \<and>
     (\<forall>i<length cs. read_shard_plaintext (ne_vault V) mf (int i) fs = Inr (cs ! i) \<and> length (cs ! i) \<le> 1024 * 1024)"

text \<open>The replay cache has room for the requests numbered \<open>j, ..., j + n - 1\<close>, and has not seen them.\<close>

definition room :: "string \<Rightarrow> (nat \<Rightarrow> client_io) \<Rightarrow> nat \<Rightarrow> nat \<Rightarrow> node \<Rightarrow> bool" where
  "room key ios j n nd \<longleftrightarrow> int (length (nc_seen (nd_nonces nd))) + int n \<le> nc_max (nd_nonces nd) \<and>
     (\<forall>i. j \<le> i \<longrightarrow> i < j + n \<longrightarrow> dict_get (nc_seen (nd_nonces nd)) (key, ci_uuid (ios i)) = None)"

lemma room_fresh: "room key ios j (Suc n) nd \<Longrightarrow> 0 \<le> now \<Longrightarrow> nonce_fresh (nd_nonces nd) (key, ci_uuid (ios j)) now"
  by (simp add: room_def nonce_fresh_def)

lemma room_noted:
  assumes "room key ios j (Suc n) nd" and "inj_on (\<lambda>i. ci_uuid (ios i)) {j..<j + Suc n}"
    and "nd_nonces nd' = nd_nonces (noted io key (ci_uuid (ios j)) nd)"
  shows "room key ios (Suc j) n nd'"
proof -
  have "ci_uuid (ios i) \<noteq> ci_uuid (ios j)" if "Suc j \<le> i" "i < Suc j + n" for i
    using assms(2) that by (auto dest!: inj_onD [where x = i and y = j])
  then show ?thesis using assms(1,3) by (auto simp: room_def noted_def dict_get_append_last split: option.splits)
qed

text \<open>
  The audit log of the server, if it is to keep one, is there and verifies, and the receipt identifiers
  drawn in the connections \<open>j, ..., j + n - 1\<close> are new.
\<close>

definition audit_ok :: "bool \<Rightarrow> vault_receipts option \<Rightarrow> bool" where
  "audit_ok kept rs \<longleftrightarrow> (case rs of None \<Rightarrow> \<not> kept | Some r \<Rightarrow> kept \<and> (\<exists>h. verify_chain r = Inr (True, h)))"

definition audit_ready :: "(nat \<Rightarrow> node_io) \<Rightarrow> nat \<Rightarrow> nat \<Rightarrow> bool \<Rightarrow> vault_receipts option \<Rightarrow> bool" where
  "audit_ready sios j n kept rs \<longleftrightarrow> audit_ok kept rs \<and>
     (case rs of None \<Rightarrow> True
      | Some r \<Rightarrow> (\<forall>i. j \<le> i \<longrightarrow> i < j + n \<longrightarrow> io_receipt_id (sios i) \<notin> set (map vr_id (vq_rows r))) \<and>
          inj_on (\<lambda>i. io_receipt_id (sios i)) {j..<j + n})"

lemma audit_ready_receipt: "audit_ready sios j (Suc n) kept (nd_receipts nd) \<Longrightarrow> receipt_ready (sios j) nd"
  by (auto simp: audit_ready_def receipt_ready_def split: option.splits)

lemma audit_ready_grown:
  assumes "audit_ready sios j (Suc n) kept (nd_receipts nd)" and "receipts_grown (sios j) nd nd'"
  shows "audit_ready sios (Suc j) n kept (nd_receipts nd')"
proof (cases "nd_receipts nd")
  case None
  then show ?thesis using assms(1) receipts_grown_None [OF assms(2)] by (simp add: audit_ready_def audit_ok_def)
next
  case (Some r)
  obtain k m a p r' where r': "nd_receipts nd' = Some r'"
      "vr_emit k m a p (io_receipt_id (sios j)) (Fin (io_receipt (sios j))) r = Inr (io_receipt_id (sios j), r')"
    using receipts_grown_Some [OF assms(2) audit_ready_receipt [OF assms(1)] Some] by blast
  have ids: "set (map vr_id (vq_rows r')) = insert (io_receipt_id (sios j)) (set (map vr_id (vq_rows r)))"
    using vr_emit_cases [OF r'(2)] by auto
  have chain: "vlog.valid_from (vq_key r) ''genesis'' (vq_rows r)"
    using assms(1) Some by (auto simp: audit_ready_def audit_ok_def verify_chain_True_iff)
  have ok: "audit_ok kept (Some r')" using assms(1) Some vr_emit_valid [OF r'(2) chain] by (simp add: audit_ready_def audit_ok_def verify_chain_True_iff)
  have "io_receipt_id (sios i) \<noteq> io_receipt_id (sios j)" if "Suc j \<le> i" "i < Suc j + n" for i
    using assms(1) Some that by (auto simp: audit_ready_def dest!: inj_onD [where x = i and y = j])
  moreover have "inj_on (\<lambda>i. io_receipt_id (sios i)) {Suc j..<Suc j + n}"
    using assms(1) Some by (auto simp: audit_ready_def intro: inj_on_subset)
  ultimately show ?thesis
    using assms(1) Some ids ok by (simp add: audit_ready_def r'(1) del: set_map)
qed

definition serving ::
    "node_env \<Rightarrow> files \<Rightarrow> (nat \<Rightarrow> client_io) \<Rightarrow> (nat \<Rightarrow> node_io) \<Rightarrow> bool \<Rightarrow> string \<Rightarrow> string \<Rightarrow> string \<Rightarrow> session \<Rightarrow>
     nat \<Rightarrow> nat \<Rightarrow> node \<Rightarrow> bool" where
  "serving V fs ios sios kept key peer sid s j n nd \<longleftrightarrow> nd_vault nd = Some fs \<and> audit_ready sios j n kept (nd_receipts nd) \<and>
     registry_ok (nd_sessions nd) \<and> node_key (ne_ed V) nd = peer \<and>
     dict_get (sr_sessions (nd_sessions nd)) sid = Some s \<and> room key ios j n nd"

definition client_ready :: "string \<Rightarrow> string \<Rightarrow> nat \<Rightarrow> string \<times> int \<Rightarrow> node \<Rightarrow> bool" where
  "client_ready peer model i addr cl \<longleftrightarrow> dict_get (nd_peers cl) peer = Some addr \<and> nd_receipts cl = None \<and>
     cache_ok (nd_cache cl) \<and> (\<forall>k\<ge>i. dict_get (sc_entries (nd_cache cl)) (peer, model, int k) = None)"

section \<open>The session is opened\<close>

definition open_payload :: "string \<Rightarrow> (string, json) dict" where
  "open_payload model = [(''model_id'', JStr model), (''purpose'', JStr ''pull''), (''budget_shards'', JInt 1000000),
     (''ttl_s'', JFloat (Fin 3600))]"

definition accept_payload :: "string \<Rightarrow> string \<Rightarrow> manifest \<Rightarrow> (string, json) dict" where
  "accept_payload sid model mf =
     [(''session_id'', JStr sid), (''model_id'', JStr model), (''n_shards'', JInt (mm_n_shards mf)),
      (''size_bytes'', JInt (mm_size mf)), (''merkle_root'', JStr (mm_root mf)),
      (''file_sha256'', dict_get_default (mm_metadata mf) ''file_sha256'' JNull)]"

lemma open_payload_ok:
  assumes "length model \<le> 512"
  shows "json_ok (JObj (open_payload model)) \<and> sum_list (map member_size (open_payload model)) \<le> 2000000"
proof -
  have "length (float_repr (Fin 3600)) \<le> 10" by code_simp
  then show ?thesis
    using assms member_size_JStr [of "''model_id''" model] member_size_JStr [of "''purpose''" "''pull''"]
      member_size_JInt [of 1000000 7 "''budget_shards''"] member_size_JFloat [of "Fin 3600" 10 "''ttl_s''"]
    by (simp add: open_payload_def)
qed

lemma accept_payload_ok:
  assumes "stores_model V model mf cs fs" and "length sid \<le> 64"
  shows "json_ok (JObj (accept_payload sid model mf)) \<and> sum_list (map member_size (accept_payload sid model mf)) \<le> 1900000 \<and>
     dict_get (accept_payload sid model mf) ''request_nonce'' = None"
proof -
  have "int (length cs) < 10 ^ 7" using assms(1) by (simp add: stores_model_def)
  then show ?thesis
    using assms member_size_JStr [of "''session_id''" sid] member_size_JStr [of "''model_id''" model]
      member_size_JInt [of "mm_n_shards mf" 7 "''n_shards''"] member_size_JInt [of "mm_size mf" 20 "''size_bytes''"]
      member_size_JStr [of "''merkle_root''" "mm_root mf"] member_size_JStr [of "''file_sha256''" "sha_hex (concat cs)"]
    by (simp add: accept_payload_def stores_model_def dict_get_def)
qed

lemma open_session_honest:
  assumes ed: "ed_short (ne_ed V)" and ex: "exchange_ok (ios 0) (sios 0)" "length (io_session_id (sios 0)) \<le> 64"
    and st: "stores_model V model mf cs fs" and key: "key = node_key (ne_ed V) cl"
    and srv: "nd_vault nd = Some fs" "audit_ready sios 0 (Suc n) kept (nd_receipts nd)" "registry_ok (nd_sessions nd)" "node_key (ne_ed V) nd = peer"
      "is_allowed_opt (nd_acl nd) model key" "room key ios 0 (Suc n) nd"
    and inj: "inj_on (\<lambda>i. ci_uuid (ios i)) {0..<Suc n}"
    and cl: "dict_get (nd_peers cl) peer = Some (host, port)"
  shows "\<exists>nd'. open_session (ne_ed V) (peer_net V sios ip) (ios 0) peer model 1000000 (Fin 3600) cl (nd, 0) =
      (Inr (accept_payload (io_session_id (sios 0)) model mf @ [(''request_nonce'', JStr (ci_uuid (ios 0)))]), cl, (nd', 1)) \<and>
     serving V fs ios sios kept key peer (io_session_id (sios 0)) (session_granted (sios 0) key model ''pull'' 1000000 (Fin 3600)) 1 n nd'"
proof -
  let ?nd = "noted (sios 0) key (ci_uuid (ios 0)) nd"
  let ?m = "client_message (ne_ed V) (ios 0) cl ''SESSION_OPEN'' (open_payload model)"
  have model: "length model \<le> 512" using st by (simp add: stores_model_def)
  have "\<exists>nd'. on_open V (sios 0) ?m ?nd = (Inr (node_reply V (sios 0) nd' ''SESSION_ACCEPT''
       [(''session_id'', JStr (io_session_id (sios 0))), (''model_id'', JStr model),
        (''n_shards'', JInt (mm_n_shards mf)), (''size_bytes'', JInt (mm_size mf)), (''merkle_root'', JStr (mm_root mf)),
        (''file_sha256'', dict_get_default (mm_metadata mf) ''file_sha256'' JNull)]), nd') \<and>
     dict_get (sr_sessions (nd_sessions nd')) (io_session_id (sios 0)) =
       Some (session_granted (sios 0) key model ''pull'' 1000000 (Fin 3600)) \<and>
     registry_ok (nd_sessions nd') \<and> same_frame ?nd nd' \<and> receipts_grown (sios 0) ?nd nd'"
    using st srv key audit_ready_receipt [OF srv(2)]
    by (intro on_open_accepts [where mid = "JStr model" and fs = fs])
      (simp_all add: noted_def stores_model_def client_message_def open_payload_def payload_get_def dict_get_default_def
        open_args_def receipt_ready_def node_key_def)
  then obtain nd' where nd': "on_open V (sios 0) ?m ?nd =
        (Inr (node_reply V (sios 0) nd' ''SESSION_ACCEPT'' (accept_payload (io_session_id (sios 0)) model mf)), nd')"
      "dict_get (sr_sessions (nd_sessions nd')) (io_session_id (sios 0)) =
        Some (session_granted (sios 0) key model ''pull'' 1000000 (Fin 3600))"
      "registry_ok (nd_sessions nd')" "same_frame ?nd nd'" "receipts_grown (sios 0) ?nd nd'"
    by (auto simp: accept_payload_def)
  have d: "dispatch V (sios 0) ip ?m ?nd =
      (Inr (node_reply V (sios 0) nd' ''SESSION_ACCEPT'' (accept_payload (io_session_id (sios 0)) model mf)), nd')"
    using nd'(1) by (simp add: dispatch_def client_message_def)
  have peer: "peer = node_key (ne_ed V) nd'"
    using nd'(4) srv(4) by (simp add: same_frame_def noted_def node_key_def)
  have "nonce_fresh (nd_nonces nd) (node_key (ne_ed V) cl, ci_uuid (ios 0)) (io_nonce (sios 0))"
    using room_fresh [OF srv(6)] ex key by (simp add: exchange_ok_def)
  then obtain r where r: "request (ne_ed V) (peer_net V sios ip) (ios 0) host port ?m (Some peer) (nd, 0) = (Inr r, (nd', Suc 0))"
    "tm_type r = JStr ''SESSION_ACCEPT''"
    "tm_payload r = JObj (accept_payload (io_session_id (sios 0)) model mf @ [(''request_nonce'', JStr (ci_uuid (ios 0)))])"
    using request_honest [where nd = nd and nd' = nd' and sios = sios and j = 0 and V = V and c = "ios 0" and ip = ip
        and host = host and port = port, OF ed ex(1) _ _ _ _ d [unfolded key] peer]
      open_payload_ok [OF model] accept_payload_ok [OF st ex(2)] by auto
  have "room key ios (Suc 0) n nd'"
    by (rule room_noted [OF srv(6)]) (use inj nd'(4) in \<open>simp_all add: same_frame_def\<close>)
  moreover have "audit_ready sios (Suc 0) n kept (nd_receipts nd')"
    using audit_ready_grown [of sios 0 n kept ?nd nd'] srv(2) nd'(5) by (simp add: noted_def)
  ultimately show ?thesis
    using cl r nd' peer srv(1)
    by (intro exI [of _ nd']) (simp add: open_session_def open_payload_def payload_dict_def serving_def same_frame_def noted_def)
qed

section \<open>A shard is fetched\<close>

definition data_payload :: "string \<Rightarrow> nat \<Rightarrow> bytes \<Rightarrow> (string, json) dict" where
  "data_payload model i data =
     [(''model_id'', JStr model), (''shard_idx'', JInt (int i)), (''plaintext_hash'', JStr (sha_hex data)),
      (''payload_b64'', JStr (b64_encode std_alt data))]"

lemma data_payload_ok:
  assumes "length model \<le> 512" and "i < 1000000" and "length data \<le> 1024 * 1024"
  shows "json_ok (JObj (data_payload model i data)) \<and> sum_list (map member_size (data_payload model i data)) \<le> 1900000 \<and>
     dict_get (data_payload model i data) ''request_nonce'' = None"
proof -
  have "length (b64_encode std_alt data) \<le> 1398104"
    using assms(3) by (simp add: length_b64_encode)
  then show ?thesis
    using assms(1,2) member_size_JStr [of "''model_id''" model] member_size_JInt [of "int i" 7 "''shard_idx''"]
      member_size_JStr [of "''plaintext_hash''" "sha_hex data"]
      member_size_plain [OF b64_plain [OF refl], of "''payload_b64''" data]
    by (simp add: data_payload_def dict_get_def)
qed

lemma fetch_payload_ok:
  assumes "i < 1000000" and "length sid \<le> 64"
  shows "json_ok (JObj [(''session_id'', JStr sid), (''shard_idx'', JInt (int i))]) \<and>
     sum_list (map member_size [(''session_id'', JStr sid), (''shard_idx'', JInt (int i))]) \<le> 2000000"
  using assms member_size_JStr [of "''session_id''" sid] member_size_JInt [of "int i" 7 "''shard_idx''"] by simp

lemma shard_payload_made:
  "tm_payload m = JObj (data_payload model i data @ x) \<Longrightarrow> shard_payload m = Inr (data, JStr (sha_hex data))"
  by (simp add: shard_payload_def payload_dict_def data_payload_def subscript_def dict_get_def b64_roundtrip)

lemma cache_put_later:
  assumes "cache_ok c" and "\<forall>k\<ge>Suc i. dict_get (sc_entries c) (peer, model, int k) = None"
    and "cache_put (peer, model, int i) data c = Inr c'"
  shows "cache_ok c' \<and> (\<forall>k\<ge>Suc i. dict_get (sc_entries c') (peer, model, int k) = None)"
proof -
  have ok: "cache_ok c'" using cache_put_ok [OF assms(1), of "(peer, model, int i)" data] assms(3) by auto
  have "dict_get (sc_entries c') (peer, model, int k) = None" if "Suc i \<le> k" for k
  proof (rule ccontr)
    assume "dict_get (sc_entries c') (peer, model, int k) \<noteq> None"
    then obtain v where "((peer, model, int k), v) \<in> set (sc_entries c')" by (auto dest: dict_get_in)
    then have "((peer, model, int k), v) \<in> set (sc_entries c)" using cache_put_subset [OF assms(3)] that by auto
    then have "dict_get (sc_entries c) (peer, model, int k) = Some v"
      using assms(1) by (simp add: dict_get_iff cache_ok_def)
    then show False using assms(2) that by simp
  qed
  with ok show ?thesis by blast
qed

text \<open>What the client does with the bytes it got.\<close>

lemma fetch_shard_received:
  assumes cl: "client_ready peer model i (host, port) cl"
    and r: "request C net io host port (client_message C io cl ''REQUEST_SHARD''
        [(''session_id'', sid), (''shard_idx'', JInt (int i))]) (Some peer) w = (Inr m, w')"
      "tm_type m = JStr ''SHARD_DATA''" "shard_payload m = Inr (data, JStr (sha_hex data))"
  shows "\<exists>cl'. fetch_shard C net io peer model sid (int i) cl w = (Inr data, cl', w') \<and>
     client_ready peer model (Suc i) (host, port) cl' \<and> nd_sk cl' = nd_sk cl \<and>
     nd_reputation cl' = rep_record peer ''success'' (int (length data)) (ci_latency io * 1000) True (nd_reputation cl)"
proof -
  obtain c where miss: "cache_get (peer, model, int i) (nd_cache cl) = (None, c)" "sc_entries c = sc_entries (nd_cache cl)"
    using cl by (simp add: cache_get_def client_ready_def)
  have ok: "cache_ok c" using cl cache_get_ok [of "nd_cache cl" "(peer, model, int i)"] miss(1) by (simp add: client_ready_def)
  obtain c' where put: "cache_put (peer, model, int i) data c = Inr c'" using cache_put_ok [OF ok] by blast
  have later: "cache_ok c' \<and> (\<forall>k\<ge>Suc i. dict_get (sc_entries c') (peer, model, int k) = None)"
    by (rule cache_put_later [OF ok _ put]) (use cl miss(2) in \<open>simp add: client_ready_def\<close>)
  have msg: "client_message C io (cl\<lparr>nd_cache := c\<rparr>) k p = client_message C io cl k p" for k p
    by (simp add: client_message_def)
  show ?thesis
    using cl r put later
    by (simp add: fetch_shard_def miss(1) Let_def client_ready_def client_receipt_def msg)
qed

text \<open>What the client notes of its peer for the shard numbered \<open>i\<close>.\<close>

definition shard_observation :: "(nat \<Rightarrow> client_io) \<Rightarrow> string \<Rightarrow> nat \<Rightarrow> bytes \<Rightarrow> observation" where
  "shard_observation ios peer i data = \<lparr>ob_peer = peer, ob_outcome = ''success'', ob_size = int (length data),
     ob_latency = ci_latency (ios (Suc i)) * 1000, ob_inbound = True\<rparr>"

definition pull_observations :: "(nat \<Rightarrow> client_io) \<Rightarrow> string \<Rightarrow> nat \<Rightarrow> bytes list \<Rightarrow> observation list" where
  "pull_observations ios peer i cs = map (\<lambda>(k, data). shard_observation ios peer k data) (enumerate i cs)"

lemma fetch_shard_honest:
  assumes ed: "ed_short (ne_ed V)" and ex: "exchange_ok (ios (Suc i)) (sios (Suc i))"
    and st: "stores_model V model mf cs fs" "i < length cs" and key: "key = node_key (ne_ed V) cl" and sid: "length sid \<le> 64"
    and srv: "serving V fs ios sios kept key peer sid s (Suc i) (Suc n) nd" "se_model s = model" "session_usable (sios (Suc i)) key s"
    and inj: "inj_on (\<lambda>i. ci_uuid (ios i)) {Suc i..<Suc i + Suc n}"
    and cl: "client_ready peer model i (host, port) cl"
  shows "\<exists>nd' cl'. fetch_shard (ne_ed V) (peer_net V sios ip) (ios (Suc i)) peer model (JStr sid) (int i) cl (nd, Suc i) =
      (Inr (cs ! i), cl', (nd', Suc (Suc i))) \<and>
     serving V fs ios sios kept key peer sid (s\<lparr>se_used := se_used s + 1\<rparr>) (Suc (Suc i)) n nd' \<and>
     client_ready peer model (Suc i) (host, port) cl' \<and> nd_sk cl' = nd_sk cl \<and>
     nd_reputation cl' = rep_run [shard_observation ios peer i (cs ! i)] (nd_reputation cl)"
proof -
  let ?nd = "noted (sios (Suc i)) key (ci_uuid (ios (Suc i))) nd"
  let ?p = "[(''session_id'', JStr sid), (''shard_idx'', JInt (int i))]"
  let ?m = "client_message (ne_ed V) (ios (Suc i)) cl ''REQUEST_SHARD'' ?p"
  have au: "audit_ready sios (Suc i) (Suc n) kept (nd_receipts nd)" using srv(1) by (simp add: serving_def)
  have ready: "receipt_ready (sios (Suc i)) ?nd" using audit_ready_receipt [OF au] by (simp add: receipt_ready_def noted_def)
  have small: "i < 1000000" "length model \<le> 512" "length (cs ! i) \<le> 1024 * 1024"
    and vault: "get_manifest (ne_vault V) model fs = Inr (Some mf)" "read_shard_plaintext (ne_vault V) mf (int i) fs = Inr (cs ! i)"
    using st by (simp_all add: stores_model_def)
  have "\<exists>nd'. on_shard V (sios (Suc i)) ?m ?nd = (Inr (node_reply V (sios (Suc i)) nd' ''SHARD_DATA''
        [(''model_id'', JStr (se_model s)), (''shard_idx'', JInt (int i)), (''plaintext_hash'', JStr (sha_hex (cs ! i))),
         (''payload_b64'', JStr (b64_encode std_alt (cs ! i)))]), nd') \<and>
     dict_get (sr_sessions (nd_sessions nd')) sid = Some (s\<lparr>se_used := se_used s + 1\<rparr>) \<and>
     registry_ok (nd_sessions nd') \<and> same_frame ?nd nd' \<and> receipts_grown (sios (Suc i)) ?nd nd'"
    using srv vault key ready
    by (intro on_shard_serves [where fs = fs and mf = mf and key = key])
      (simp_all add: serving_def noted_def client_message_def payload_get_def dict_get_default_def receipt_ready_def node_key_def)
  then obtain nd' where nd': "on_shard V (sios (Suc i)) ?m ?nd =
        (Inr (node_reply V (sios (Suc i)) nd' ''SHARD_DATA'' (data_payload model i (cs ! i))), nd')"
      "dict_get (sr_sessions (nd_sessions nd')) sid = Some (s\<lparr>se_used := se_used s + 1\<rparr>)"
      "registry_ok (nd_sessions nd')" "same_frame ?nd nd'" "receipts_grown (sios (Suc i)) ?nd nd'"
    using srv(2) by (auto simp: data_payload_def)
  have d: "dispatch V (sios (Suc i)) ip ?m ?nd =
      (Inr (node_reply V (sios (Suc i)) nd' ''SHARD_DATA'' (data_payload model i (cs ! i))), nd')"
    using nd'(1) by (simp add: dispatch_def client_message_def)
  have peer: "peer = node_key (ne_ed V) nd'"
    using nd'(4) srv(1) by (simp add: same_frame_def noted_def node_key_def serving_def)
  have rm: "room key ios (Suc i) (Suc n) nd" using srv(1) by (simp add: serving_def)
  have "nonce_fresh (nd_nonces nd) (node_key (ne_ed V) cl, ci_uuid (ios (Suc i))) (io_nonce (sios (Suc i)))"
    using room_fresh [OF rm] ex key by (simp add: exchange_ok_def)
  then obtain r where r: "request (ne_ed V) (peer_net V sios ip) (ios (Suc i)) host port ?m (Some peer) (nd, Suc i) =
        (Inr r, (nd', Suc (Suc i)))"
    "tm_type r = JStr ''SHARD_DATA''"
    "tm_payload r = JObj (data_payload model i (cs ! i) @ [(''request_nonce'', JStr (ci_uuid (ios (Suc i))))])"
    using request_honest [where nd = nd and nd' = nd' and sios = sios and j = "Suc i" and V = V and c = "ios (Suc i)" and ip = ip
        and host = host and port = port, OF ed ex _ _ _ _ d [unfolded key] peer]
      fetch_payload_ok [OF small(1) sid] data_payload_ok [OF small(2,1,3)] by auto
  have "room key ios (Suc (Suc i)) n nd'"
    by (rule room_noted [OF rm inj]) (use nd'(4) in \<open>simp add: same_frame_def\<close>)
  moreover have "audit_ready sios (Suc (Suc i)) n kept (nd_receipts nd')"
    using audit_ready_grown [of sios "Suc i" n kept ?nd nd'] au nd'(5) by (simp add: noted_def)
  ultimately have "serving V fs ios sios kept key peer sid (s\<lparr>se_used := se_used s + 1\<rparr>) (Suc (Suc i)) n nd'"
    using nd' peer srv(1) by (simp add: serving_def same_frame_def noted_def)
  then show ?thesis
    using fetch_shard_received [OF cl r(1,2) shard_payload_made [OF r(3)]]
    by (auto simp: rep_run_def shard_observation_def)
qed

section \<open>A whole model\<close>

text \<open>The clocks of the requests \<open>j, ..., j + n - 1\<close>: within the skew, and before the session expires.\<close>

definition timely :: "(nat \<Rightarrow> client_io) \<Rightarrow> (nat \<Rightarrow> node_io) \<Rightarrow> session \<Rightarrow> nat \<Rightarrow> nat \<Rightarrow> bool" where
  "timely ios sios s j n \<longleftrightarrow> (\<forall>i. j \<le> i \<longrightarrow> i < j + n \<longrightarrow> exchange_ok (ios i) (sios i) \<and>
     \<not> fl_gt (Fin (io_session (sios i))) (session_expiry s) \<and> \<not> fl_gt (Fin (io_consume (sios i))) (session_expiry s))"

lemma session_expiry_used [simp]: "session_expiry (s\<lparr>se_used := k\<rparr>) = session_expiry s"
  by (simp add: session_expiry_def)

lemma fetch_loop_honest:
  assumes ed: "ed_short (ne_ed V)" and st: "stores_model V model mf cs fs" and sid: "length sid \<le> 64"
    and init: "subscript initial ''session_id'' = Inr (JStr sid)"
  shows "key = node_key (ne_ed V) cl \<Longrightarrow> length cs = i + n \<Longrightarrow> timely ios sios s (Suc i) n \<Longrightarrow>
     serving V fs ios sios kept key peer sid s (Suc i) n nd \<Longrightarrow> se_model s = model \<Longrightarrow> se_peer s = key \<Longrightarrow>
     se_used s + int n \<le> se_budget s \<Longrightarrow> inj_on (\<lambda>i. ci_uuid (ios i)) {Suc i..<Suc i + n} \<Longrightarrow>
     client_ready peer model i (host, port) cl \<Longrightarrow>
     \<exists>cl' w'. fetch_loop (ne_ed V) (peer_net V sios ip) ios peer model initial i n cl (nd, Suc i) =
       (Inr (drop i cs), cl', w') \<and> nd_receipts cl' = None \<and> audit_ok kept (nd_receipts (fst w')) \<and>
       nd_reputation cl' = rep_run (pull_observations ios peer i (drop i cs)) (nd_reputation cl)"
proof (induction n arbitrary: i s nd cl)
  case 0
  then show ?case by (simp add: client_ready_def serving_def audit_ready_def rep_run_def pull_observations_def)
next
  case (Suc n)
  have i: "i < length cs" using Suc.prems(2) by simp
  have now: "exchange_ok (ios (Suc i)) (sios (Suc i))" "session_usable (sios (Suc i)) key s"
    using Suc.prems(3,6,7) by (auto simp: timely_def session_usable_def)
  obtain nd' cl' where f: "fetch_shard (ne_ed V) (peer_net V sios ip) (ios (Suc i)) peer model (JStr sid) (int i) cl (nd, Suc i) =
      (Inr (cs ! i), cl', (nd', Suc (Suc i)))"
    "serving V fs ios sios kept key peer sid (s\<lparr>se_used := se_used s + 1\<rparr>) (Suc (Suc i)) n nd'"
    "client_ready peer model (Suc i) (host, port) cl'" "nd_sk cl' = nd_sk cl"
    "nd_reputation cl' = rep_run [shard_observation ios peer i (cs ! i)] (nd_reputation cl)"
    using fetch_shard_honest [where ios = ios and sios = sios, OF ed now(1) st i Suc.prems(1) sid Suc.prems(4,5) now(2) Suc.prems(8,9)] by blast
  have "\<exists>cl'' w'. fetch_loop (ne_ed V) (peer_net V sios ip) ios peer model initial (Suc i) n cl' (nd', Suc (Suc i)) =
      (Inr (drop (Suc i) cs), cl'', w') \<and> nd_receipts cl'' = None \<and> audit_ok kept (nd_receipts (fst w')) \<and>
      nd_reputation cl'' = rep_run (pull_observations ios peer (Suc i) (drop (Suc i) cs)) (nd_reputation cl')"
    by (rule Suc.IH [OF _ _ _ f(2) _ _ _ _ f(3)])
      (use Suc.prems f(4) in \<open>auto simp: timely_def node_key_def intro: inj_on_subset\<close>)
  moreover have "drop i cs = cs ! i # drop (Suc i) cs" using i by (simp add: Cons_nth_drop_Suc)
  ultimately show ?case using f(1,5) init by (auto simp: pull_observations_def rep_run_def)
qed

lemma length_chunks_total: "0 < n \<Longrightarrow> length bs \<le> n * length (chunks n bs)"
proof -
  assume n: "0 < n"
  have "length (concat cs) \<le> n * length cs" if "\<forall>c\<in>set cs. length c \<le> n" for cs :: "'a list list"
    using that by (induction cs) auto
  from this [of "chunks n bs"] show ?thesis using n chunks_length_le by (simp add: concat_chunks) blast
qed

lemma stored_by_add_file:
  assumes E: "vault_env_ok (ne_vault V)" and n: "0 < n" "n \<le> 1024 * 1024" and md: "json_ok (JObj md)"
    and add: "add_file (ne_vault V) n f model source lic md fs0 = (Inr m, fs1)"
    and keep: "\<And>q b. vault_path q \<Longrightarrow> dict_get fs1 q = Some b \<Longrightarrow> dict_get fs q = Some b"
    and few: "length (chunks (nat n) (wf_bytes f)) \<le> 1000000"
  shows "stores_model V model (manifest_norm m) (chunks (nat n) (wf_bytes f)) fs"
proof -
  let ?cs = "chunks (nat n) (wf_bytes f)"
  note add_file_stored [OF E add]
  moreover have "model_stored (ne_vault V) n (wf_bytes f) m fs"
    by (rule model_stored_mono [OF calculation(1) keep, where k' = "CHR ''x'' # mm_key_id m"]) simp_all
  ultimately have st: "model_stored (ne_vault V) n (wf_bytes f) m fs" "mm_model m = model"
      "dict_get fs1 (manifest_path model) = Some (utf8_encode (manifest_to_json m))" "json_ok (JObj md) \<Longrightarrow> manifest_ok m" by blast+
  have "dict_get fs (manifest_path model) = dict_get fs1 (manifest_path model)"
    using keep [OF _ st(3)] st(3) by (auto simp: vault_path_def)
  then have "get_manifest (ne_vault V) model fs = get_manifest (ne_vault V) model fs1"
    by (simp add: get_manifest_def load_manifest_def)
  then have found: "get_manifest (ne_vault V) model fs = Inr (Some (manifest_norm m))"
    using add_file_found [OF E add md] by simp
  note inr = add_file_Inr [OF add]
  have "length (wf_bytes f) \<le> nat n * length ?cs" using length_chunks_total [of "nat n"] n by simp
  also have "\<dots> \<le> 1048576 * 1000000" using n few by (intro mult_le_mono) simp_all
  finally have size: "mm_size m < 10 ^ 20" "0 \<le> mm_size m" using inr by auto
  have root: "length (mm_root (manifest_norm m)) \<le> 64"
    using st(1) length_merkle_root [of "map (\<lambda>x. sha256 (fst x)) (sealed (ne_vault V) (mm_model m) 0 ?cs)"]
    by (simp add: model_stored_def Let_def)
  have "dict_get (mm_metadata m) ''file_sha256'' = Some (JStr (sha_hex (wf_bytes f)))" "dict_ok (mm_metadata m)"
    using inr st(4) [OF md] md by (auto simp: dict.wf_store)
  then have meta: "dict_get_default (mm_metadata (manifest_norm m)) ''file_sha256'' JNull = JStr (sha_hex (wf_bytes f))"
    by (simp add: dict_get_default_eq manifest_norm_def sorted_dict_get)
  have "length (?cs ! i) \<le> 1024 * 1024" if "i < length ?cs" for i
  proof -
    have "length (?cs ! i) \<le> nat n" using chunks_length_le [OF nth_mem [OF that]] by simp
    then show ?thesis using n by linarith
  qed
  then show ?thesis
    using found model_stored_reads [OF E, of n "wf_bytes f" "manifest_norm m" fs] st(1) few inr size root meta n
    by (auto simp: stores_model_def concat_chunks model_stored_def Let_def)
qed

section \<open>Properties\<close>

lemma pull_model_honest:
  assumes ed: "ed_short (ne_ed V)" and st: "stores_model V model mf cs fs"
    and key: "key = node_key (ne_ed V) cl" and peer: "node_key (ne_ed V) nd = peer"
    and srv: "nd_vault nd = Some fs" "audit_ready sios 0 (Suc (length cs)) kept (nd_receipts nd)" "registry_ok (nd_sessions nd)"
      "is_allowed_opt (nd_acl nd) model key" "room key ios 0 (Suc (length cs)) nd"
    and ex: "exchange_ok (ios 0) (sios 0)" "length (io_session_id (sios 0)) \<le> 64"
      "timely ios sios (session_granted (sios 0) key model ''pull'' 1000000 (Fin 3600)) 1 (length cs)"
    and inj: "inj_on (\<lambda>i. ci_uuid (ios i)) {0..<Suc (length cs)}"
    and cl: "client_ready peer model 0 (host, port) cl"
  shows "\<exists>d cl' w' fs'. pull_model (ne_ed V) (peer_net V sios ip) ios peer model dest cl (nd, 0) files =
      (Inr d, cl', w', fs') \<and> dict_get fs' (pull_target dest model) = Some (concat cs) \<and>
      dict_get d ''path'' = Some (JStr (pull_target dest model)) \<and> audit_ok kept (nd_receipts (fst w')) \<and>
      nd_reputation cl' = rep_run (pull_observations ios peer 0 cs) (nd_reputation cl)"
proof -
  let ?sid = "io_session_id (sios 0)" and ?s = "session_granted (sios 0) key model ''pull'' 1000000 (Fin 3600)"
  let ?init = "accept_payload ?sid model mf @ [(''request_nonce'', JStr (ci_uuid (ios 0)))]"
  have addr: "dict_get (nd_peers cl) peer = Some (host, port)" using cl by (simp add: client_ready_def)
  obtain nd1 where op: "open_session (ne_ed V) (peer_net V sios ip) (ios 0) peer model 1000000 (Fin 3600) cl (nd, 0) =
        (Inr ?init, cl, (nd1, 1))" "serving V fs ios sios kept key peer ?sid ?s 1 (length cs) nd1"
    using open_session_honest [where ios = ios and sios = sios and n = "length cs" and ip = ip,
        OF ed ex(1,2) st key srv(1-3) peer srv(4,5) inj addr] by blast
  have few: "length cs \<le> 1000000" using st by (simp add: stores_model_def)
  have "subscript ?init ''session_id'' = Inr (JStr ?sid)" by (simp add: subscript_def dict_get_def accept_payload_def)
  note loop = fetch_loop_honest [OF ed st ex(2) this key]
  have "\<exists>cl' w'. fetch_loop (ne_ed V) (peer_net V sios ip) ios peer model ?init 0 (length cs) cl (nd1, Suc 0) =
      (Inr (drop 0 cs), cl', w') \<and> nd_receipts cl' = None \<and> audit_ok kept (nd_receipts (fst w')) \<and>
      nd_reputation cl' = rep_run (pull_observations ios peer 0 (drop 0 cs)) (nd_reputation cl)"
    by (rule loop [where s = ?s and i = 0]) (use ex(3) op(2) few inj cl in \<open>auto intro: inj_on_subset\<close>)
  then obtain cl1 w1 where l: "fetch_loop (ne_ed V) (peer_net V sios ip) ios peer model ?init 0 (length cs) cl (nd1, Suc 0) =
      (Inr cs, cl1, w1)" "nd_receipts cl1 = None" "audit_ok kept (nd_receipts (fst w1))"
      "nd_reputation cl1 = rep_run (pull_observations ios peer 0 cs) (nd_reputation cl)" by auto
  have "subscript ?init ''n_shards'' = Inr (JInt (int (length cs)))" "\<not> digest_mismatch ?init (concat cs)"
    using st by (simp_all add: subscript_def dict_get_def accept_payload_def stores_model_def digest_mismatch_def)
  moreover have "dict_get (fold (\<lambda>(k, v). dict_set k v) ?init
      [(''model_id'', x), (''path'', y), (''bytes'', z)]) ''path'' = Some y" for x y z
    by (simp add: accept_payload_def dict.lookup_store) (simp add: dict_get_def)
  ultimately show ?thesis
    using op(1) l by (simp add: pull_model_def Let_def client_receipt_def write_and_replace_get)
qed

text \<open>C1: A pull works: when a peer that runs this code has added a file to its vault and allows the
  client, the clocks of both stay within the skew and the session, and the identifiers are fresh, then
  \<open>pull_model\<close> returns and leaves at the target exactly the bytes of the file, for every model of at
  most 99,999 shards of at most one mebibyte: all frames fit, no request is refused as a replay, the
  budget suffices and the digest agrees. The receipt chain of the peer, where it keeps one, still
  verifies, and the client has noted one success per shard.\<close>

theorem pull_of_added_file:
  assumes "ed_short (ne_ed V)" and "vault_env_ok (ne_vault V)"
    and "0 < n" and "n \<le> 1024 * 1024" and "json_ok (JObj md)"
    and "add_file (ne_vault V) n f model source lic md fs0 = (Inr m, fs)"
    and "N = length (chunks (nat n) (wf_bytes f))" and "N < 100000"
    and "srv = node_new name shost sport ssk receipts (Some fs) a" and "key = node_key (ne_ed V) cl"
    and "is_allowed_opt a model key" and "audit_ready sios 0 (Suc N) kept receipts"
    and "client_ready (node_key (ne_ed V) srv) model 0 addr cl"
    and "exchange_ok (ios 0) (sios 0)" and "length (io_session_id (sios 0)) \<le> 64"
    and "timely ios sios (session_granted (sios 0) key model ''pull'' 1000000 (Fin 3600)) 1 N"
    and "inj_on (\<lambda>i. ci_uuid (ios i)) {0..<Suc N}"
  shows "\<exists>d cl' w' files'.
     pull_model (ne_ed V) (peer_net V sios ip) ios (node_key (ne_ed V) srv) model dest cl (srv, 0) files =
       (Inr d, cl', w', files') \<and>
     dict_get files' (pull_target dest model) = Some (wf_bytes f) \<and> audit_ok kept (nd_receipts (fst w')) \<and>
     nd_reputation cl' = rep_run (pull_observations ios (node_key (ne_ed V) srv) 0 (chunks (nat n) (wf_bytes f))) (nd_reputation cl)"
proof -
  let ?cs = "chunks (nat n) (wf_bytes f)"
  have st: "stores_model V model (manifest_norm m) ?cs fs"
    using assms by (intro stored_by_add_file [OF assms(2-6)]) simp_all
  have "room key ios 0 (Suc (length ?cs)) srv"
    using assms(7,8) by (simp add: room_def assms(9) node_new_def nonce_cache_new_def dict_get_def)
  moreover obtain host port where "addr = (host, port)" by fastforce
  moreover have "concat ?cs = wf_bytes f" using assms(3) by (simp add: concat_chunks)
  moreover have "nd_vault srv = Some fs" "nd_receipts srv = receipts" "registry_ok (nd_sessions srv)" "nd_acl srv = a"
    by (simp_all add: assms(9) node_new_def)
  ultimately show ?thesis
    using pull_model_honest [where V = V and kept = kept and cs = ?cs and nd = srv and cl = cl and ios = ios and sios = sios and ip = ip
        and dest = dest and files = files and host = host and port = port, OF assms(1) st assms(10) refl]
      assms by auto
qed

end
