(* ===== verification/Node_Examples.thy ===== *)
theory Node_Examples
  imports Node_Serve
begin

text \<open>
  A node with the sample vault, and the safety properties of the node at two connections: a session
  opened over the wire and a shard asked for under it.
\<close>

section \<open>A node and its messages\<close>

definition sample_node_env :: node_env where
  "sample_node_env = \<lparr>ne_ed = plain_ed, ne_vault = sample_env\<rparr>"

text \<open>Every reading of the clock in a connection at time \<open>t\<close>.\<close>

definition sample_io :: "rat \<Rightarrow> node_io" where
  "sample_io t = \<lparr>io_verify = t, io_nonce = t, io_session = t, io_consume = t, io_latency = 0, io_touch = t,
     io_receipt = t, io_reply = t, io_session_id = ''s'', io_receipt_id = ''r'', io_reply_id = replicate 16 (CHR ''y'')\<rparr>"

definition zero_key :: string where
  "zero_key = replicate 64 (CHR ''0'')"

definition sample_acl :: acl where
  "sample_acl = \<lparr>acl_path = ''acl'', acl_rules = [(''m'', [zero_key])]\<rparr>"

definition open_message :: message where
  "open_message = tm_make plain_ed [1] ''SESSION_OPEN'' [(''model_id'', JStr ''m'')] (replicate 16 (CHR ''a'')) (Fin 1)"

definition shard_message :: message where
  "shard_message = tm_make plain_ed [1] ''REQUEST_SHARD'' [(''session_id'', JStr ''s''), (''shard_idx'', JInt 0)]
     (replicate 16 (CHR ''b'')) (Fin 2)"

lemma plain_key [simp]: "hex (ed_public plain_ed sk) = zero_key"
proof -
  have "hex (ed_public plain_ed []) = zero_key" by code_simp
  then show ?thesis by (simp add: plain_ed_def)
qed

lemma sample_io_simps [simp]:
  "io_verify (sample_io t) = t" "io_nonce (sample_io t) = t" "io_session (sample_io t) = t"
  "io_consume (sample_io t) = t" "io_session_id (sample_io t) = ''s''"
  by (simp_all add: sample_io_def)

lemma sample_node_env_simps [simp]: "ne_ed sample_node_env = plain_ed" "ne_vault sample_node_env = sample_env"
  by (simp_all add: sample_node_env_def)

definition sample_node :: "files \<Rightarrow> node" where
  "sample_node fs = node_new ''n'' ''h'' 1 [9] None (Some fs) (Some sample_acl)"

lemma sample_node_simps:
  "nd_sessions (sample_node fs) = registry_new" "nd_nonces (sample_node fs) = nonce_cache_new"
  "nd_vault (sample_node fs) = Some fs" "nd_acl (sample_node fs) = Some sample_acl" "nd_receipts (sample_node fs) = None"
  by (simp_all add: sample_node_def node_new_def)

lemma sample_allowed: "is_allowed sample_acl ''m'' zero_key"
  by (simp add: is_allowed_def sample_acl_def acl_keys_def dict_get_default_def)

lemma open_message_sent: "\<exists>bs. send_frame (JObj (tm_to_dict open_message)) = Inr bs"
proof (rule send_frame_succeeds)
  show "json_ok (JObj (tm_to_dict open_message))" unfolding open_message_def by (rule json_ok_made) simp_all
  have "length (dumps compact_ascii (JObj (tm_to_dict open_message))) < 2000" by code_simp
  then show "length (dumps compact_ascii (JObj (tm_to_dict open_message))) \<le> 2 * 1024 * 1024" by simp
qed

lemma frame_open: "json_ok (JObj (tm_to_dict open_message))"
  unfolding open_message_def by (rule json_ok_made) simp_all

text \<open>The first connection opens the session \<open>s\<close>, under which shard 0 is served next.\<close>

lemma sample_opened:
  assumes add: "add_file sample_env 4 sample_file ''m'' ''s'' ''mit'' [] sample_vault = (Inr mf, fs)"
  shows "\<exists>r nd. answer sample_node_env (sample_io 1) ip open_message (sample_node fs) = (r, nd) \<and>
     dict_get (sr_sessions (nd_sessions nd)) ''s'' = Some (session_granted (sample_io 1) zero_key ''m'' ''read'' 1 (Fin 600)) \<and>
     registry_ok (nd_sessions nd) \<and> nd_vault nd = Some fs \<and> nd_receipts nd = None \<and>
     nd_nonces nd = nonce_cache_new\<lparr>nc_seen := [((zero_key, replicate 16 (CHR ''a'')), Fin 601)]\<rparr>"
proof -
  let ?nd = "(sample_node fs)\<lparr>nd_nonces := nonce_cache_new\<lparr>nc_seen := [((zero_key, replicate 16 (CHR ''a'')), Fin 601)]\<rparr>\<rparr>"
  have n: "nonce_fresh (nd_nonces (sample_node fs)) (zero_key, replicate 16 (CHR ''a'')) 1"
    by (simp add: nonce_fresh_def sample_node_simps nonce_cache_new_def dict_get_def)
  have a: "answer sample_node_env (sample_io 1) ip open_message (sample_node fs) =
      dispatch sample_node_env (sample_io 1) ip open_message ?nd"
    using made_takes_effect [of sample_node_env "replicate 16 (CHR ''a'')" "sample_io 1" 1 "sample_node fs" "[1]" ip
        "''SESSION_OPEN''" "[(''model_id'', JStr ''m'')]"] n
    by (simp add: open_message_def sample_node_simps) (simp add: nonce_cache_new_def)
  have d: "dispatch sample_node_env (sample_io 1) ip open_message ?nd = on_open sample_node_env (sample_io 1) open_message ?nd"
    by (simp add: dispatch_def open_message_def)
  have shards: "mm_n_shards (manifest_norm mf) = 1"
    using add_file_stored(1) [OF sample_env_ok add] by (simp add: model_stored_def Let_def sample_file_def chunks.simps)
  have "\<exists>nd'. on_open sample_node_env (sample_io 1) open_message ?nd = (Inr (node_reply sample_node_env (sample_io 1) nd' ''SESSION_ACCEPT''
       [(''session_id'', JStr (io_session_id (sample_io 1))), (''model_id'', JStr ''m''),
        (''n_shards'', JInt (mm_n_shards (manifest_norm mf))), (''size_bytes'', JInt (mm_size (manifest_norm mf))), (''merkle_root'', JStr (mm_root (manifest_norm mf))),
        (''file_sha256'', dict_get_default (mm_metadata (manifest_norm mf)) ''file_sha256'' JNull)]), nd') \<and>
     dict_get (sr_sessions (nd_sessions nd')) (io_session_id (sample_io 1)) = Some (session_granted (sample_io 1) zero_key ''m'' ''read'' 1 (Fin 600)) \<and>
     registry_ok (nd_sessions nd') \<and> same_frame ?nd nd' \<and> receipts_grown (sample_io 1) ?nd nd'"
  proof (rule on_open_accepts [where mid = "JStr ''m''"])
    show "get_manifest (ne_vault sample_node_env) ''m'' fs = Inr (Some (manifest_norm mf))"
      using add_file_found [OF sample_env_ok add] by simp
    show "open_args (tm_payload open_message) (mm_n_shards (manifest_norm mf)) = Inr (''read'', 1, Fin 600)"
      unfolding shards by (simp add: open_args_def payload_get_def open_message_def dict_get_default_def float_overflow_def)
  qed (simp_all add: sample_node_simps sample_allowed is_allowed_opt_def open_message_def payload_get_def
      dict_get_default_def receipt_ready_def)
  then show ?thesis unfolding a d by (auto simp: same_frame_def sample_node_simps dest: receipts_grown_None)
qed

section \<open>The safety properties there\<close>

theorem node_serves_only_allowed_witness:
  "\<exists>fs bs m reply nd'. answer sample_node_env (sample_io 2) ''ip'' m
       (node_run sample_node_env [(sample_io 1, ''ip'', bs)] (sample_node fs)) = (Inr reply, nd') \<and>
     tm_type reply = JStr ''SHARD_DATA'' \<and>
     (\<exists>key model. tm_sender m = JStr key \<and> is_allowed_opt (Some sample_acl) model key)"
proof -
  obtain mf fs where add: "add_file sample_env 4 sample_file ''m'' ''s'' ''mit'' [] sample_vault = (Inr mf, fs)"
    using sample_add by blast
  obtain bs where bs: "send_frame (JObj (tm_to_dict open_message)) = Inr bs" using open_message_sent by blast
  obtain r nd where nd: "answer sample_node_env (sample_io 1) ''ip'' open_message (sample_node fs) = (r, nd)"
    "dict_get (sr_sessions (nd_sessions nd)) ''s'' = Some (session_granted (sample_io 1) zero_key ''m'' ''read'' 1 (Fin 600))"
    "registry_ok (nd_sessions nd)" "nd_vault nd = Some fs" "nd_receipts nd = None"
    "nd_nonces nd = nonce_cache_new\<lparr>nc_seen := [((zero_key, replicate 16 (CHR ''a'')), Fin 601)]\<rparr>"
    using sample_opened [OF add, of "''ip''"] by blast
  have run: "node_run sample_node_env [(sample_io 1, ''ip'', bs)] (sample_node fs) = nd"
    using handle_sent_node [OF frame_open bs, of sample_node_env "sample_io 1" "''ip''" "sample_node fs"] nd(1) by simp
  let ?nd = "nd\<lparr>nd_nonces := (nd_nonces nd)\<lparr>nc_seen := nc_seen (nd_nonces nd) @ [((zero_key, replicate 16 (CHR ''b'')), Fin 602)]\<rparr>\<rparr>"
  have n: "nonce_fresh (nd_nonces nd) (zero_key, replicate 16 (CHR ''b'')) 2"
    by (simp add: nonce_fresh_def nd(6) nonce_cache_new_def dict_get_def)
  have a: "answer sample_node_env (sample_io 2) ''ip'' shard_message nd = on_shard sample_node_env (sample_io 2) shard_message ?nd"
    using made_takes_effect [of sample_node_env "replicate 16 (CHR ''b'')" "sample_io 2" 2 nd "[1]" "''ip''"
        "''REQUEST_SHARD''" "[(''session_id'', JStr ''s''), (''shard_idx'', JInt 0)]"] n
    by (simp add: shard_message_def dispatch_def) (simp add: nd(6) nonce_cache_new_def)
  have rd: "read_shard_plaintext sample_env (manifest_norm mf) 0 fs = Inr (chunks (nat 4) (wf_bytes sample_file) ! nat 0)"
    by (rule model_stored_reads [OF sample_env_ok]) (use add_file_stored(1) [OF sample_env_ok add] in
      \<open>simp_all add: sample_file_def chunks.simps\<close>)
  have "\<exists>nd'. on_shard sample_node_env (sample_io 2) shard_message ?nd = (Inr (node_reply sample_node_env (sample_io 2) nd' ''SHARD_DATA''
        [(''model_id'', JStr (se_model (session_granted (sample_io 1) zero_key ''m'' ''read'' 1 (Fin 600)))), (''shard_idx'', JInt 0),
         (''plaintext_hash'', JStr (sha_hex (chunks (nat 4) (wf_bytes sample_file) ! nat 0))),
         (''payload_b64'', JStr (b64_encode std_alt (chunks (nat 4) (wf_bytes sample_file) ! nat 0)))]), nd') \<and>
     dict_get (sr_sessions (nd_sessions nd')) ''s'' = Some ((session_granted (sample_io 1) zero_key ''m'' ''read'' 1 (Fin 600))\<lparr>se_used :=
        se_used (session_granted (sample_io 1) zero_key ''m'' ''read'' 1 (Fin 600)) + 1\<rparr>) \<and>
     registry_ok (nd_sessions nd') \<and> same_frame ?nd nd' \<and> receipts_grown (sample_io 2) ?nd nd'"
    using add_file_found [OF sample_env_ok add] rd nd
    by (intro on_shard_serves [where fs = fs and mf = "manifest_norm mf" and key = zero_key])
      (simp_all add: session_granted_def shard_message_def payload_get_def dict_get_default_def receipt_ready_def
        session_usable_def session_expiry_def)
  then obtain reply nd' where reply: "answer sample_node_env (sample_io 2) ''ip'' shard_message nd = (Inr reply, nd')"
    "tm_type reply = JStr ''SHARD_DATA''" using a by auto
  from node_serves_only_allowed [OF run [symmetric, unfolded sample_node_def] reply] reply show ?thesis
    using run by metis
qed

text \<open>A message whose timestamp lies 300 seconds ahead: it takes effect now, is refused 300 seconds later, and
  takes effect again at the one instant 600 seconds later.\<close>

definition ahead_message :: message where
  "ahead_message = tm_make plain_ed [1] ''ACK'' [] (replicate 16 (CHR ''a'')) (Fin 300)"

lemma ahead_first: "takes_effect sample_node_env (sample_io 0) ahead_message (sample_node [])"
proof -
  have "nonce_fresh (nd_nonces (sample_node [])) (zero_key, replicate 16 (CHR ''a'')) 0"
    by (simp add: nonce_fresh_def sample_node_simps nonce_cache_new_def dict_get_def)
  then show ?thesis
    unfolding ahead_message_def using made_in_effect [of sample_node_env "replicate 16 (CHR ''a'')" "sample_io 0" 300 "sample_node []" "[1]"] by simp
qed

lemma ahead_verifies: "\<bar>t - 300\<bar> \<le> 300 \<Longrightarrow> tm_verify plain_ed (Fin t) (Fin 300) ahead_message = Inr (True, ''ok'')"
  using tm_make_ok [of plain_ed "[1]"] by (simp add: tm_verify_ok_iff ahead_message_def)

lemma ahead_seen:
  fixes nd defines "nd \<equiv> snd (answer sample_node_env (sample_io 0) ''ip'' ahead_message (sample_node []))"
  shows "nc_seen (nd_nonces nd) = [((zero_key, replicate 16 (CHR ''a'')), Fin 600)]" "nc_max (nd_nonces nd) = 100000"
proof -
  have "nonce_fresh (nd_nonces (sample_node [])) (zero_key, replicate 16 (CHR ''a'')) 0"
    by (simp add: nonce_fresh_def sample_node_simps nonce_cache_new_def dict_get_def)
  from made_takes_effect [of sample_node_env "replicate 16 (CHR ''a'')" "sample_io 0" 300 "sample_node []" "[1]" "''ip''" "''ACK''" "[]"] this
  show "nc_seen (nd_nonces nd) = [((zero_key, replicate 16 (CHR ''a'')), Fin 600)]" "nc_max (nd_nonces nd) = 100000"
    by (simp_all add: nd_def ahead_message_def dispatch_def sample_node_simps) (simp_all add: nonce_cache_new_def)
qed

lemma replay_at_600:
  "takes_effect sample_node_env (sample_io 600) ahead_message
     (snd (answer sample_node_env (sample_io 0) ''ip'' ahead_message (sample_node [])))"
proof -
  let ?nd = "snd (answer sample_node_env (sample_io 0) ''ip'' ahead_message (sample_node []))"
  have "fst (accept_nonce (nd_nonces ?nd) zero_key (JStr (replicate 16 (CHR ''a''))) 600) = Inr True"
    using ahead_seen by (simp add: accept_nonce_def nc_at_unfold nc_purge_def Let_def dict_get_default_def split: prod.splits)
  then show ?thesis using ahead_verifies [of 600] by (simp add: takes_effect_def) (simp add: ahead_message_def)
qed

lemma answer_ack:
  assumes "tm_verify (ne_ed V) (Fin (io_verify io)) (Fin 300) m = Inr (True, ''ok'')" and "tm_type m = JStr ''ACK''"
    and "tm_nonce m = JStr n"
  shows "\<exists>reply nd'. answer V io ip m nd = (Inr reply, nd')"
proof -
  obtain b c where "accept_nonce (nd_nonces nd) (json_text (tm_sender m)) (tm_nonce m) (io_nonce io) = (Inr b, c)"
    by (cases "nc_at (nd_nonces nd) (json_text (tm_sender m), n) (io_nonce io)") (simp add: accept_nonce_def assms(3))
  then show ?thesis using assms(1,2) by (cases b) (simp_all add: answer_def dispatch_def)
qed

theorem node_no_replay_witness:
  "\<exists>reply nd2. answer sample_node_env (sample_io 300) ''other'' ahead_message
       (snd (answer sample_node_env (sample_io 0) ''ip'' ahead_message (sample_node []))) = (Inr reply, nd2) \<and>
     tm_type reply = JStr ''ERROR''"
proof -
  let ?nd = "snd (answer sample_node_env (sample_io 0) ''ip'' ahead_message (sample_node []))"
  obtain r nd2 where r: "answer sample_node_env (sample_io 300) ''other'' ahead_message ?nd = (r, nd2)" by fastforce
  have n: "tm_nonce ahead_message = JStr (replicate 16 (CHR ''a''))" "tm_ts ahead_message = Fin 300"
    by (simp_all add: ahead_message_def)
  have v: "tm_verify (ne_ed sample_node_env) (Fin (io_verify (sample_io 300))) (Fin 300) ahead_message = Inr (True, ''ok'')"
    using ahead_verifies [of 300] by simp
  have "tm_type ahead_message = JStr ''ACK''" by (simp add: ahead_message_def)
  then have "\<exists>reply. r = Inr reply" using answer_ack [OF v _ n(1), of "''other''" ?nd] r by auto
  moreover have "sample_node [] = node_run sample_node_env [] (node_new ''n'' ''h'' 1 [9] None (Some []) (Some sample_acl))"
    by (simp add: sample_node_def)
  from node_no_replay [OF this n(2) ahead_first _ _ _ r, where later = "[]"]
  have "(\<exists>c. nd2 = ?nd\<lparr>nd_nonces := c\<rparr>) \<and> (\<forall>reply. r = Inr reply \<longrightarrow> tm_type reply = JStr ''ERROR'')"
    by simp
  ultimately show ?thesis using r by blast
qed

end
