(* ===== verification/Pull_Examples.thy ===== *)
theory Pull_Examples
  imports Node_Honest Node_Examples
begin

text \<open>
  The sample model pulled from the sample node: the example of the safety of a pull and of its success.
\<close>

definition sample_client :: node where
  "sample_client = (node_new ''c'' ''h'' 2 [8] None None None)\<lparr>nd_peers := [(zero_key, (''h'', 1))]\<rparr>"

definition sample_requests :: "nat \<Rightarrow> client_io" where
  "sample_requests i = \<lparr>ci_uuid = replicate (16 + i) (CHR ''c''), ci_clock = 1, ci_verify = 1, ci_latency = 0,
     ci_touch = 1, ci_receipt_id = ''q'', ci_receipt = 1\<rparr>"

abbreviation sample_peer_node :: "files \<Rightarrow> node" where
  "sample_peer_node fs \<equiv> node_new ''n'' ''h'' 1 [9] None (Some fs) (Some sample_acl)"

abbreviation sample_pull :: "node \<Rightarrow> (string, json) dict result \<times> node \<times> (node \<times> nat) \<times> files" where
  "sample_pull srv \<equiv> pull_model plain_ed (peer_net sample_node_env (\<lambda>i. sample_io 1) ''ip'') sample_requests
     zero_key ''m'' ''d'' sample_client (srv, 0) []"

lemma sample_key [simp]: "node_key plain_ed nd = zero_key"
  by (simp add: node_key_def)

lemma plain_short [simp]: "ed_short plain_ed"
proof -
  have "ed_sign plain_ed sk t = []" for sk t by (simp add: plain_ed_def)
  then show ?thesis by (simp add: ed_short_def)
qed

lemma short_one: "short_clock 1"
proof -
  have "length (float_repr (Fin 1)) \<le> 10" by code_simp
  then show ?thesis by (simp add: short_clock_def)
qed

lemma sample_exchange: "i \<le> 40 \<Longrightarrow> exchange_ok (sample_requests i) (sample_io 1)"
  by (simp add: exchange_ok_def sample_requests_def short_one) (simp add: sample_io_def short_one)

lemma sample_timely:
  "timely sample_requests (\<lambda>i. sample_io 1) (session_granted (sample_io 1) zero_key ''m'' ''pull'' 1000000 (Fin 3600)) 1 1"
  by (simp add: timely_def sample_exchange)

lemma sample_distinct: "inj_on (\<lambda>i. ci_uuid (sample_requests i)) S"
  by (rule inj_onI) (simp add: sample_requests_def)

lemma sample_client_ready: "client_ready zero_key ''m'' 0 (''h'', 1) sample_client"
  by (simp add: client_ready_def sample_client_def node_new_def dict_get_def cache_ok_new)
    (simp add: shard_cache_new_def)

lemma sample_chunks: "chunks 4 (wf_bytes sample_file) = [[1, 2, 3]]"
  by (simp add: sample_file_def chunks.simps)

theorem pull_of_added_file_witness:
  "\<exists>m fs d cl w files. add_file sample_env 4 sample_file ''m'' ''s'' ''mit'' [] sample_vault = (Inr m, fs) \<and>
     sample_pull (sample_peer_node fs) = (Inr d, cl, w, files) \<and>
     dict_get files (pull_target ''d'' ''m'') = Some [1, 2, 3]"
proof -
  obtain m fs where add: "add_file sample_env 4 sample_file ''m'' ''s'' ''mit'' [] sample_vault = (Inr m, fs)"
    using sample_add by blast
  have "\<exists>d cl w files. pull_model (ne_ed sample_node_env) (peer_net sample_node_env (\<lambda>i. sample_io 1) ''ip'') sample_requests
      (node_key (ne_ed sample_node_env) (sample_peer_node fs)) ''m'' ''d'' sample_client (sample_peer_node fs, 0) [] =
      (Inr d, cl, w, files) \<and> dict_get files (pull_target ''d'' ''m'') = Some (wf_bytes sample_file) \<and>
      audit_ok False (nd_receipts (fst w)) \<and> nd_reputation cl = rep_run (pull_observations sample_requests
        (node_key (ne_ed sample_node_env) (sample_peer_node fs)) 0 (chunks (nat 4) (wf_bytes sample_file))) (nd_reputation sample_client)"
    by (rule pull_of_added_file [where n = 4 and f = sample_file and md = "[]" and m = m and fs = fs and N = 1 and key = zero_key
          and a = "Some sample_acl" and receipts = None and kept = False and addr = "(''h'', 1)" and source = "''s''" and lic = "''mit''" and ?fs0.0 = sample_vault
          and name = "''n''" and shost = "''h''" and sport = 1 and ssk = "[9]"])
      (simp_all add: add sample_chunks is_allowed_opt_def sample_allowed sample_client_ready sample_exchange
        sample_timely [simplified] sample_distinct audit_ready_def audit_ok_def)
  then show ?thesis using add by (auto simp: sample_file_def)
qed

theorem pull_model_safe_witness:
  "\<exists>fs d cl w files initial. sample_pull (sample_peer_node fs) = (Inr d, cl, w, files) \<and>
     signed_answer plain_ed zero_key (ci_uuid (sample_requests 0)) ''SESSION_ACCEPT'' initial \<and>
     dict_get files (pull_part ''d'' ''m'') = None"
proof -
  obtain m fs where add: "add_file sample_env 4 sample_file ''m'' ''s'' ''mit'' [] sample_vault = (Inr m, fs)"
    using sample_add by blast
  have st: "stores_model sample_node_env ''m'' (manifest_norm m) [[1, 2, 3]] fs"
    using stored_by_add_file [of sample_node_env 4 "[]" sample_file "''m''" "''s''" "''mit''" sample_vault m fs fs] add by (simp add: sample_chunks)
  have "\<exists>d cl w files. pull_model (ne_ed sample_node_env) (peer_net sample_node_env (\<lambda>i. sample_io 1) ''ip'') sample_requests
      zero_key ''m'' ''d'' sample_client (sample_peer_node fs, 0) [] = (Inr d, cl, w, files) \<and>
      dict_get files (pull_target ''d'' ''m'') = Some (concat [[1, 2, 3]]) \<and>
      dict_get d ''path'' = Some (JStr (pull_target ''d'' ''m'')) \<and> audit_ok False (nd_receipts (fst w)) \<and>
      nd_reputation cl = rep_run (pull_observations sample_requests zero_key 0 [[1, 2, 3]]) (nd_reputation sample_client)"
    by (rule pull_model_honest [OF _ st, where kept = False and key = zero_key and host = "''h''" and port = 1])
      (simp_all add: is_allowed_opt_def sample_allowed sample_client_ready sample_exchange sample_timely [simplified]
        sample_distinct audit_ready_def audit_ok_def node_new_def room_def nonce_cache_new_def dict_get_def)
  then obtain d cl w files where p: "sample_pull (sample_peer_node fs) = (Inr d, cl, w, files)" by auto
  from pull_model_safe [OF p] obtain initial parts where
    "pulled_ok plain_ed sample_requests zero_key ''m'' sample_client initial parts" by auto
  then have "signed_answer plain_ed zero_key (ci_uuid (sample_requests 0)) ''SESSION_ACCEPT'' initial"
    by (simp add: pulled_ok_def)
  moreover have "dict_get files (pull_part ''d'' ''m'') = None"
    using pull_model_safe [OF p] by (auto simp: dict_get_def)
  ultimately show ?thesis using p by blast
qed

end
