(* ===== verification/Vault_Server.thy ===== *)
theory Vault_Server
  imports Request_Nonce Acl Vault_Receipts Vault_Integrity Py_Convert
begin

text \<open>
  The read service of \<open>vault/server.py\<close>: the handlers FastAPI calls, over the vault, the access list,
  the receipts and the replay cache of one process. A path parameter, header or body arrives as FastAPI
  hands it over: headers and path as text and numbers, the body of \<open>open\<close> as any JSON object. An
  \<open>HTTPException\<close> is the answer with that status; any other exception becomes status 500.
\<close>

section \<open>Requests as JSON\<close>

text \<open>\<open>AccessRequest(**body)\<close> checks names, not types.\<close>

record json_request =
  jr_requester :: json
  jr_model :: json
  jr_purpose :: json
  jr_nonce :: json
  jr_timestamp :: json
  jr_signature :: json

definition request_fields :: "string list" where
  "request_fields = [''requester_pubkey'', ''model_id'', ''purpose'', ''nonce'', ''timestamp'', ''signature'']"

definition json_request_of :: "(string, json) dict \<Rightarrow> json_request result" where
  "json_request_of d =
     (if list_all (\<lambda>k. k \<in> set request_fields) (map fst d) then
        (case those (map (dict_get d) request_fields) of
           Some [a, b, c, n, t, s] \<Rightarrow> Inr \<lparr>jr_requester = a, jr_model = b, jr_purpose = c, jr_nonce = n,
             jr_timestamp = t, jr_signature = s\<rparr>
         | _ \<Rightarrow> Inl TypeError)
      else Inl TypeError)"

definition jr_unsigned :: "json_request \<Rightarrow> (string, json) dict" where
  "jr_unsigned r =
     [(''requester_pubkey'', jr_requester r), (''model_id'', jr_model r), (''purpose'', jr_purpose r),
      (''nonce'', jr_nonce r), (''timestamp'', jr_timestamp r)]"

text \<open>An operand of a subtraction from a float.\<close>

definition arith_float :: "json \<Rightarrow> pyfloat result" where
  "arith_float v = (case v of JStr _ \<Rightarrow> Inl TypeError | _ \<Rightarrow> py_float v)"

text \<open>\<open>verify_request\<close> on such a request: only \<open>InvalidSignature\<close> and \<open>ValueError\<close> are caught.\<close>

definition verify_json_request :: "ed25519 \<Rightarrow> pyfloat \<Rightarrow> pyfloat \<Rightarrow> json_request \<Rightarrow> (bool \<times> string) result" where
  "verify_json_request C clock max_skew r =
     (if \<not> truthy (jr_model r) \<or> \<not> truthy (jr_purpose r) then Inr (False, ''required field is missing or invalid'')
      else bindR (py_len (jr_nonce r)) (\<lambda>n.
        if n < 16 then Inr (False, ''required field is missing or invalid'')
        else bindR (arith_float (jr_timestamp r)) (\<lambda>t.
          if fl_gt (fl_abs (fl_sub clock t)) max_skew then Inr (False, ''timestamp out of window'')
          else (case jr_requester r of
              JStr key \<Rightarrow>
                (case from_hex key of
                   None \<Rightarrow> Inr (False, ''bad signature'')
                 | Some pk \<Rightarrow>
                     if \<not> ed_load C pk then Inr (False, ''bad signature'')
                     else (case jr_signature r of
                         JStr sig \<Rightarrow> if signature_ok C key sig (canonical (JObj (jr_unsigned r))) then Inr (True, ''ok'')
                                    else Inr (False, ''bad signature'')
                       | _ \<Rightarrow> Inl TypeError))
            | _ \<Rightarrow> Inl TypeError))))"

section \<open>The service\<close>

record server =
  sv_files :: files
  sv_acl :: acl
  sv_receipts :: vault_receipts
  sv_nonces :: nonce_cache

record server_env =
  se_ed :: ed25519
  se_vault :: vault_env

record server_io =
  so_verify :: rat
  so_nonce :: rat
  so_receipt :: rat
  so_receipt_id :: string

text \<open>Opening the store, the access list and the receipts in turn; each may leave a file behind.\<close>

definition create_app :: "vault_env \<Rightarrow> files \<Rightarrow> vreceipt list \<Rightarrow> server result" where
  "create_app E fs rows =
     bindR (vault_open E 1048576 fs) (\<lambda>fs1.
     bindR (acl_open ''acl.json'' fs1) (\<lambda>(a, fs2).
     bindR (receipt_key E fs2) (\<lambda>key.
     bindR (vault_receipts_open key rows) (\<lambda>r.
       Inr \<lparr>sv_files = fs2, sv_acl = a, sv_receipts = r, sv_nonces = nonce_cache_new\<rparr>))))"

text \<open>Without a passphrase the module serves a placeholder.\<close>

definition start_app :: "vault_env \<Rightarrow> files \<Rightarrow> vreceipt list \<Rightarrow> server option result" where
  "start_app E fs rows =
     (case ve_pass E of
        None \<Rightarrow> Inr None
      | Some p \<Rightarrow> if p = [] then Inr None else bindR (create_app E fs rows) (\<lambda>sv. Inr (Some sv)))"

definition configuration_required :: "json result" where
  "configuration_required = Inl (HTTPException 503 ''set IZETTA_VAULT_PASSPHRASE before starting the vault'')"

definition authorize :: "ed25519 \<Rightarrow> server_io \<Rightarrow> json_request \<Rightarrow> string \<Rightarrow> string \<Rightarrow> server \<Rightarrow> unit result \<times> server" where
  "authorize C io r model purpose sv =
     (if jr_model r \<noteq> JStr model \<or> jr_purpose r \<noteq> JStr purpose
        then (Inl (HTTPException 403 ''signed request does not match this operation''), sv)
      else (case verify_json_request C (Fin (so_verify io)) (Fin 300) r of
          Inl e \<Rightarrow> (Inl e, sv)
        | Inr (ok, reason) \<Rightarrow>
            if \<not> ok then (Inl (HTTPException 403 reason), sv)
            else (case accept_nonce (sv_nonces sv) (json_text (jr_requester r)) (jr_nonce r) (so_nonce io) of
                (Inl e, c) \<Rightarrow> (Inl e, sv\<lparr>sv_nonces := c\<rparr>)
              | (Inr fresh, c) \<Rightarrow>
                  (let sv' = sv\<lparr>sv_nonces := c\<rparr> in
                   if \<not> fresh then (Inl (HTTPException 409 ''request nonce was already used''), sv')
                   else if \<not> is_allowed (sv_acl sv) model (json_text (jr_requester r))
                     then (Inl (HTTPException 403 ''not in ACL''), sv')
                   else (Inr (), sv')))))"

definition health :: "server_env \<Rightarrow> server \<Rightarrow> json result" where
  "health E sv = bindR (list_manifests (se_vault E) (sv_files sv)) (\<lambda>ms.
     Inr (JObj [(''ok'', JBool True), (''models'', JInt (int (length ms))), (''receipts'', JInt (vr_count (sv_receipts sv)))]))"

definition models :: "server_env \<Rightarrow> server \<Rightarrow> json result" where
  "models E sv = bindR (list_manifests (se_vault E) (sv_files sv)) (\<lambda>ms.
     Inr (JArr (map (\<lambda>m. JObj [(''model_id'', JStr (mm_model m)), (''size_bytes'', JInt (mm_size m)),
       (''n_shards'', JInt (mm_n_shards m)), (''merkle_root'', JStr (mm_root m)), (''license'', JStr (mm_license m)),
       (''source'', JStr (mm_source m))]) ms)))"

definition found :: "server_env \<Rightarrow> string \<Rightarrow> server \<Rightarrow> manifest result" where
  "found E model sv = bindR (get_manifest (se_vault E) model (sv_files sv)) (\<lambda>m.
     (case m of None \<Rightarrow> Inl (HTTPException 404 ''not found'') | Some v \<Rightarrow> Inr v))"

definition manifest_of :: "server_env \<Rightarrow> string \<Rightarrow> server \<Rightarrow> json result" where
  "manifest_of E model sv = bindR (found E model sv) (\<lambda>m. Inr (JObj (manifest_to_dict m)))"

definition server_emit ::
    "server_io \<Rightarrow> string \<Rightarrow> string \<Rightarrow> string \<Rightarrow> (string, json) dict \<Rightarrow> server \<Rightarrow> string result \<times> server" where
  "server_emit io kind model actor payload sv =
     (case vr_emit kind model actor payload (so_receipt_id io) (Fin (so_receipt io)) (sv_receipts sv) of
        Inl e \<Rightarrow> (Inl e, sv)
      | Inr (rid, r) \<Rightarrow> (Inr rid, sv\<lparr>sv_receipts := r\<rparr>))"

definition open_model :: "server_env \<Rightarrow> server_io \<Rightarrow> string \<Rightarrow> (string, json) dict \<Rightarrow> server \<Rightarrow> json result \<times> server" where
  "open_model E io model body sv =
     (case found E model sv of
        Inl e \<Rightarrow> (Inl e, sv)
      | Inr m \<Rightarrow>
          (case json_request_of body of
             Inl e \<Rightarrow> (Inl (HTTPException 400 ''malformed access request''), sv)
           | Inr r \<Rightarrow>
               (case authorize (se_ed E) io r model ''open'' sv of
                  (Inl e, sv1) \<Rightarrow> (Inl e, sv1)
                | (Inr _, sv1) \<Rightarrow>
                    (case server_emit io ''vault.open'' model (json_text (jr_requester r))
                           [(''purpose'', jr_purpose r), (''request_nonce'', jr_nonce r)] sv1 of
                       (Inl e, sv2) \<Rightarrow> (Inl e, sv2)
                     | (Inr rid, sv2) \<Rightarrow>
                         (Inr (JObj [(''ok'', JBool True), (''n_shards'', JInt (mm_n_shards m)),
                            (''merkle_root'', JStr (mm_root m)), (''receipt_id'', JStr rid)]), sv2)))))"

text \<open>The headers of a shard request.\<close>

record shard_headers =
  xh_pubkey :: string
  xh_nonce :: string
  xh_signature :: string
  xh_timestamp :: pyfloat

definition shard_request :: "string \<Rightarrow> int \<Rightarrow> shard_headers \<Rightarrow> access_request" where
  "shard_request model index h =
     \<lparr>ar_requester = xh_pubkey h, ar_model = model, ar_purpose = ''read:'' @ int_str index, ar_nonce = xh_nonce h,
      ar_timestamp = xh_timestamp h, ar_signature = xh_signature h\<rparr>"

definition json_request :: "access_request \<Rightarrow> json_request" where
  "json_request r =
     \<lparr>jr_requester = JStr (ar_requester r), jr_model = JStr (ar_model r), jr_purpose = JStr (ar_purpose r),
      jr_nonce = JStr (ar_nonce r), jr_timestamp = JFloat (ar_timestamp r), jr_signature = JStr (ar_signature r)\<rparr>"

definition shard_handler ::
    "server_env \<Rightarrow> server_io \<Rightarrow> string \<Rightarrow> int \<Rightarrow> shard_headers \<Rightarrow> server \<Rightarrow> (bytes \<times> string) result \<times> server" where
  "shard_handler E io model index h sv =
     (case found E model sv of
        Inl e \<Rightarrow> (Inl e, sv)
      | Inr m \<Rightarrow>
          (case authorize (se_ed E) io (json_request (shard_request model index h)) model (''read:'' @ int_str index) sv of
             (Inl e, sv1) \<Rightarrow> (Inl e, sv1)
           | (Inr _, sv1) \<Rightarrow>
               (case read_shard_plaintext (se_vault E) m index (sv_files sv1) of
                  Inl e \<Rightarrow> (Inl (if is_IndexError e then HTTPException 404 ''shard not found''
                                else HTTPException 500 ''shard integrity or decryption failure''), sv1)
                | Inr chunk \<Rightarrow>
                    (case server_emit io ''vault.shard_read'' model (xh_pubkey h)
                           [(''shard_index'', JInt index), (''bytes'', JInt (int (length chunk)))] sv1 of
                       (Inl e, sv2) \<Rightarrow> (Inl e, sv2)
                     | (Inr rid, sv2) \<Rightarrow> (Inr (chunk, rid), sv2)))))"

end
