(* ===== verification/Server_Safety.thy ===== *)
theory Server_Safety
  imports Vault_Server
begin

text \<open>
  What the read service guarantees: exactly which requests get a shard, that its audit log lists the
  granted requests and nothing else, and that no nonce is granted twice.
\<close>

section \<open>Authorisation\<close>

text \<open>On a request with typed fields the two verifications agree.\<close>

lemma verify_typed: "verify_json_request C clock skew (json_request r) = Inr (verify_request C clock skew r)"
  by (auto simp: verify_json_request_def json_request_def verify_request_def jr_unsigned_def ar_unsigned_def
      arith_float_def signature_ok_def split: option.splits)

lemma shard_request_fields [simp]:
  "jr_requester (json_request (shard_request model index h)) = JStr (xh_pubkey h)"
  "jr_model (json_request (shard_request model index h)) = JStr model"
  "jr_purpose (json_request (shard_request model index h)) = JStr (''read:'' @ int_str index)"
  "jr_nonce (json_request (shard_request model index h)) = JStr (xh_nonce h)"
  by (simp_all add: json_request_def shard_request_def)

lemma verify_request_True: "verify_request C t s r = (True, x) \<Longrightarrow> x = ''ok''"
  by (auto simp: verify_request_def split: if_splits)

lemma authorize_Inr:
  assumes "authorize C io r model purpose sv = (Inr u, sv')"
  shows "jr_model r = JStr model \<and> jr_purpose r = JStr purpose \<and>
     (\<exists>reason. verify_json_request C (Fin (so_verify io)) (Fin 300) r = Inr (True, reason)) \<and>
     is_allowed (sv_acl sv) model (json_text (jr_requester r)) \<and>
     (\<exists>c. accept_nonce (sv_nonces sv) (json_text (jr_requester r)) (jr_nonce r) (so_nonce io) = (Inr True, c) \<and>
        sv' = sv\<lparr>sv_nonces := c\<rparr>)"
  using assms by (auto simp: authorize_def Let_def split: if_splits sum.splits prod.splits)

lemma authorize_frame:
  assumes "authorize C io r model purpose sv = (x, sv')"
  shows "sv' = sv \<or> (\<exists>y c. accept_nonce (sv_nonces sv) (json_text (jr_requester r)) (jr_nonce r) (so_nonce io) = (y, c) \<and>
     sv' = sv\<lparr>sv_nonces := c\<rparr>)"
  using assms by (auto simp: authorize_def Let_def split: if_splits sum.splits prod.splits)

lemma shard_handler_Inr:
  "shard_handler E io model index h sv = (Inr (chunk, rid), sv') \<longleftrightarrow>
     (\<exists>m c r. get_manifest (se_vault E) model (sv_files sv) = Inr (Some m) \<and>
        verify_request (se_ed E) (Fin (so_verify io)) (Fin 300) (shard_request model index h) = (True, ''ok'') \<and>
        nc_at (sv_nonces sv) (xh_pubkey h, xh_nonce h) (so_nonce io) = (True, c) \<and>
        is_allowed (sv_acl sv) model (xh_pubkey h) \<and>
        read_shard_plaintext (se_vault E) m index (sv_files sv) = Inr chunk \<and>
        vr_emit ''vault.shard_read'' model (xh_pubkey h)
          [(''shard_index'', JInt index), (''bytes'', JInt (int (length chunk)))]
          (so_receipt_id io) (Fin (so_receipt io)) (sv_receipts sv) = Inr (rid, r) \<and>
        sv' = sv\<lparr>sv_nonces := c, sv_receipts := r\<rparr>)" (is "?l \<longleftrightarrow> ?r")
proof
  assume ?l
  then obtain m u sv1 sv2 where m: "found E model sv = Inr m"
    "authorize (se_ed E) io (json_request (shard_request model index h)) model (''read:'' @ int_str index) sv = (Inr u, sv1)"
    "read_shard_plaintext (se_vault E) m index (sv_files sv1) = Inr chunk"
    "server_emit io ''vault.shard_read'' model (xh_pubkey h)
       [(''shard_index'', JInt index), (''bytes'', JInt (int (length chunk)))] sv1 = (Inr rid, sv')"
    by (auto simp: shard_handler_def split: sum.splits prod.splits)
  from authorize_Inr [OF m(2)] obtain c where
    "verify_request (se_ed E) (Fin (so_verify io)) (Fin 300) (shard_request model index h) = (True, ''ok'')"
    "is_allowed (sv_acl sv) model (xh_pubkey h)"
    "nc_at (sv_nonces sv) (xh_pubkey h, xh_nonce h) (so_nonce io) = (True, c)" "sv1 = sv\<lparr>sv_nonces := c\<rparr>"
    by (auto simp: verify_typed accept_nonce_def split: prod.splits dest: verify_request_True)
  with m show ?r by (auto simp: found_def bindR_Inr_iff server_emit_def split: option.splits sum.splits prod.splits)
next
  assume ?r
  then obtain m c r where m: "get_manifest (se_vault E) model (sv_files sv) = Inr (Some m)"
    "verify_request (se_ed E) (Fin (so_verify io)) (Fin 300) (shard_request model index h) = (True, ''ok'')"
    "nc_at (sv_nonces sv) (xh_pubkey h, xh_nonce h) (so_nonce io) = (True, c)" "is_allowed (sv_acl sv) model (xh_pubkey h)"
    "read_shard_plaintext (se_vault E) m index (sv_files sv) = Inr chunk"
    "vr_emit ''vault.shard_read'' model (xh_pubkey h)
       [(''shard_index'', JInt index), (''bytes'', JInt (int (length chunk)))]
       (so_receipt_id io) (Fin (so_receipt io)) (sv_receipts sv) = Inr (rid, r)"
    "sv' = sv\<lparr>sv_nonces := c, sv_receipts := r\<rparr>" by blast
  then have "authorize (se_ed E) io (json_request (shard_request model index h)) model (''read:'' @ int_str index) sv =
      (Inr (), sv\<lparr>sv_nonces := c\<rparr>)"
    by (simp add: authorize_def verify_typed accept_nonce_def Let_def)
  with m show ?l by (simp add: shard_handler_def found_def server_emit_def)
qed

section \<open>Runs of the service\<close>

datatype server_call =
    COpen string "(string, json) dict"
  | CShard string int shard_headers
  | CHealth
  | CModels
  | CManifest string

text \<open>The audit entry of a granted call: what was done to which model by whom.\<close>

type_synonym audit = "string \<times> string \<times> string"

fun body_requester :: "(string, json) dict \<Rightarrow> string" where
  "body_requester body = json_text (dict_get_default body ''requester_pubkey'' JNull)"

fun server_step :: "server_env \<Rightarrow> server_io \<Rightarrow> server_call \<Rightarrow> server \<Rightarrow> audit option \<times> server" where
  "server_step E io (COpen model body) sv =
     (let (r, sv') = open_model E io model body sv
      in (if is_ok r then Some (''vault.open'', model, body_requester body) else None, sv'))"
| "server_step E io (CShard model index h) sv =
     (let (r, sv') = shard_handler E io model index h sv
      in (if is_ok r then Some (''vault.shard_read'', model, xh_pubkey h) else None, sv'))"
| "server_step E io _ sv = (None, sv)"

fun server_run :: "server_env \<Rightarrow> (server_io \<times> server_call) list \<Rightarrow> server \<Rightarrow> audit list \<times> server" where
  "server_run E [] sv = ([], sv)"
| "server_run E ((io, call) # calls) sv =
     (let (a, sv1) = server_step E io call sv; (as, sv2) = server_run E calls sv1
      in (case a of None \<Rightarrow> as | Some e \<Rightarrow> e # as, sv2))"

definition audit_of :: "vreceipt \<Rightarrow> audit" where
  "audit_of r = (vr_kind r, vr_model r, vr_actor r)"

text \<open>A step appends the receipt of its audit entry and no other.\<close>

lemma server_emit_step:
  "server_emit io k m a p sv = (Inl e, sv') \<Longrightarrow> sv' = sv"
  "server_emit io k m a p sv = (Inr rid, sv') \<Longrightarrow>
     \<exists>r i. vr_emit k m a p (so_receipt_id io) (Fin (so_receipt io)) (sv_receipts sv) = Inr (i, r) \<and> sv' = sv\<lparr>sv_receipts := r\<rparr>"
  by (auto simp: server_emit_def split: sum.splits)

definition audited :: "audit option \<Rightarrow> server \<Rightarrow> server \<Rightarrow> bool" where
  "audited a sv sv' \<longleftrightarrow> vq_key (sv_receipts sv') = vq_key (sv_receipts sv) \<and>
     map audit_of (vq_rows (sv_receipts sv')) = map audit_of (vq_rows (sv_receipts sv)) @ (case a of None \<Rightarrow> [] | Some e \<Rightarrow> [e]) \<and>
     (vlog.valid_from (vq_key (sv_receipts sv)) ''genesis'' (vq_rows (sv_receipts sv)) \<longrightarrow>
      vlog.valid_from (vq_key (sv_receipts sv')) ''genesis'' (vq_rows (sv_receipts sv')))"

lemma audited_emit:
  assumes "vr_emit k m a p u t (sv_receipts sv) = Inr (i, r)" and "sv_receipts sv1 = sv_receipts sv" and "sv_receipts sv' = r"
  shows "audited (Some (k, m, a)) sv sv'"
  using vr_emit_cases [OF assms(1)] vr_emit_valid [OF assms(1)] assms(2,3)
  by (auto simp: audited_def audit_of_def)

lemma audited_None: "sv_receipts sv' = sv_receipts sv \<Longrightarrow> audited None sv sv'"
  by (simp add: audited_def)

lemma authorize_receipts: "authorize C io r m p sv = (x, sv') \<Longrightarrow> sv_receipts sv' = sv_receipts sv"
  by (auto dest!: authorize_frame)

lemma json_request_of_requester:
  "json_request_of body = Inr r \<Longrightarrow> json_text (jr_requester r) = body_requester body"
  by (auto simp: json_request_of_def request_fields_def dict_get_default_eq split: if_splits option.splits list.splits)

lemma open_model_audited:
  assumes "open_model E io model body sv = (r, sv')"
  shows "audited (if is_ok r then Some (''vault.open'', model, body_requester body) else None) sv sv'"
  using assms
  by (auto simp: open_model_def split: sum.splits prod.splits
      dest!: server_emit_step authorize_receipts json_request_of_requester intro!: audited_None audited_emit)

lemma shard_handler_audited:
  assumes "shard_handler E io model index h sv = (r, sv')"
  shows "audited (if is_ok r then Some (''vault.shard_read'', model, xh_pubkey h) else None) sv sv'"
  using assms
  by (auto simp: shard_handler_def split: sum.splits prod.splits
      dest!: server_emit_step authorize_receipts intro!: audited_None audited_emit)

lemma server_step_audited: "server_step E io call sv = (a, sv') \<Longrightarrow> audited a sv sv'"
  using open_model_audited shard_handler_audited
  by (cases call) (auto simp: audited_None split: prod.splits)

lemma server_run_audited:
  "server_run E calls sv = (as, sv') \<Longrightarrow> vq_key (sv_receipts sv') = vq_key (sv_receipts sv) \<and>
     map audit_of (vq_rows (sv_receipts sv')) = map audit_of (vq_rows (sv_receipts sv)) @ as \<and>
     (vlog.valid_from (vq_key (sv_receipts sv)) ''genesis'' (vq_rows (sv_receipts sv)) \<longrightarrow>
      vlog.valid_from (vq_key (sv_receipts sv')) ''genesis'' (vq_rows (sv_receipts sv')))"
proof (induction calls arbitrary: sv as sv')
  case (Cons ic calls)
  obtain io call where ic: "ic = (io, call)" by fastforce
  obtain a sv1 where a: "server_step E io call sv = (a, sv1)" by fastforce
  obtain as1 sv2 where r: "server_run E calls sv1 = (as1, sv2)" by fastforce
  show ?case
    using Cons.IH [OF r] server_step_audited [OF a] Cons.prems a r
    by (auto simp: audited_def ic split: option.splits)
qed simp

section \<open>Nonces\<close>

text \<open>The requester and nonce a call presents.\<close>

fun call_nonce :: "server_call \<Rightarrow> (string \<times> string) option" where
  "call_nonce (COpen model body) = (case dict_get body ''nonce'' of Some (JStr n) \<Rightarrow> Some (body_requester body, n) | _ \<Rightarrow> None)"
| "call_nonce (CShard model index h) = Some (xh_pubkey h, xh_nonce h)"
| "call_nonce _ = None"

definition nonces_ok :: "server \<Rightarrow> bool" where
  "nonces_ok sv \<longleftrightarrow> nc_ok (sv_nonces sv) \<and> nc_ttl (sv_nonces sv) = Fin 600"

definition knows :: "server \<Rightarrow> string \<times> string \<Rightarrow> rat \<Rightarrow> bool" where
  "knows sv k e \<longleftrightarrow> nc_remembers (sv_nonces sv) k e"

text \<open>What a step does to the replay cache: what is remembered is kept while it has not expired, and a
  granted call is remembered and was not.\<close>

definition guarded :: "rat \<Rightarrow> (string \<times> string) option \<Rightarrow> bool \<Rightarrow> server \<Rightarrow> server \<Rightarrow> bool" where
  "guarded now k granted sv sv' \<longleftrightarrow> nonces_ok sv' \<and> (\<forall>k' e. knows sv k' e \<longrightarrow> now < e \<longrightarrow> knows sv' k' e) \<and>
     (\<forall>k'. k = Some k' \<longrightarrow> granted \<longrightarrow> knows sv' k' (now + 600) \<and> (\<forall>e. now < e \<longrightarrow> \<not> knows sv k' e))"

lemma guarded_refl: "nonces_ok sv \<Longrightarrow> sv_nonces sv' = sv_nonces sv \<Longrightarrow> guarded now k False sv sv'"
  by (simp add: guarded_def nonces_ok_def knows_def)

lemma authorize_guarded:
  assumes "nonces_ok sv" and "authorize C io r model purpose sv = (x, sv')" and "jr_nonce r = JStr n"
  shows "guarded (so_nonce io) (Some (json_text (jr_requester r), n)) (is_ok x) sv sv'"
proof -
  obtain y c where c: "accept_nonce (sv_nonces sv) (json_text (jr_requester r)) (jr_nonce r) (so_nonce io) = (y, c)" by fastforce
  have ok: "nc_ok (sv_nonces sv)" "nc_ttl (sv_nonces sv) = Fin 600" using assms(1) by (simp_all add: nonces_ok_def)
  note st = accept_nonce_step [OF ok(1) c]
  show ?thesis
  proof (cases x)
    case (Inr u)
    from authorize_Inr [OF assms(2) [unfolded Inr]] c have "y = Inr True" "sv' = sv\<lparr>sv_nonces := c\<rparr>" by auto
    then show ?thesis using st ok assms(3) Inr by (auto simp: guarded_def nonces_ok_def knows_def)
  next
    case (Inl e)
    then show ?thesis using authorize_frame [OF assms(2)] st ok c assms(1)
      by (auto simp: guarded_def nonces_ok_def knows_def)
  qed
qed

lemma authorize_guarded_other:
  assumes "nonces_ok sv" and "authorize C io r model purpose sv = (x, sv')"
  shows "guarded (so_nonce io) None (is_ok x) sv sv'"
  using authorize_frame [OF assms(2)] assms(1) accept_nonce_step [of "sv_nonces sv"]
  by (fastforce simp: guarded_def nonces_ok_def knows_def)

lemma guarded_frame:
  assumes "guarded now k g sv sv1" and "sv_nonces sv' = sv_nonces sv1" and "g' \<longrightarrow> g"
  shows "guarded now k g' sv sv'"
  using assms by (auto simp: guarded_def nonces_ok_def knows_def)

lemma server_emit_nonces: "server_emit io k m a p sv = (r, sv') \<Longrightarrow> sv_nonces sv' = sv_nonces sv"
  by (auto simp: server_emit_def split: sum.splits)

lemma shard_handler_guarded:
  assumes "nonces_ok sv" and "shard_handler E io model index h sv = (r, sv')"
  shows "guarded (so_nonce io) (Some (xh_pubkey h, xh_nonce h)) (is_ok r) sv sv'"
proof (cases "found E model sv")
  case (Inl e)
  then show ?thesis using assms by (auto simp: shard_handler_def guarded_refl)
next
  case (Inr m)
  obtain x sv1 where x: "authorize (se_ed E) io (json_request (shard_request model index h)) model (''read:'' @ int_str index) sv = (x, sv1)"
    by fastforce
  have g: "guarded (so_nonce io) (Some (xh_pubkey h, xh_nonce h)) (is_ok x) sv sv1"
    using authorize_guarded [OF assms(1) x] by simp
  show ?thesis
    by (rule guarded_frame [OF g])
      (use assms(2) Inr x in \<open>auto simp: shard_handler_def split: sum.splits prod.splits dest!: server_emit_nonces\<close>)
qed

lemma open_model_guarded:
  assumes "nonces_ok sv" and "open_model E io model body sv = (r, sv')"
  shows "guarded (so_nonce io) (call_nonce (COpen model body)) (is_ok r) sv sv'"
proof (cases "\<exists>m q. found E model sv = Inr m \<and> json_request_of body = Inr q")
  case False
  then have "sv' = sv" "is_ok r = False" using assms(2) by (auto simp: open_model_def split: sum.splits)
  then show ?thesis using assms(1) guarded_refl by metis
next
  case True
  then obtain m q where q: "found E model sv = Inr m" "json_request_of body = Inr q" by blast
  obtain x sv1 where x: "authorize (se_ed E) io q model ''open'' sv = (x, sv1)" by fastforce
  have n: "dict_get body ''nonce'' = Some (jr_nonce q)"
    using q(2) by (auto simp: json_request_of_def request_fields_def split: if_splits option.splits list.splits)
  have g: "guarded (so_nonce io) (call_nonce (COpen model body)) (is_ok x) sv sv1"
    using authorize_guarded [OF assms(1) x] authorize_guarded_other [OF assms(1) x] n json_request_of_requester [OF q(2)]
    by (auto split: json.splits)
  show ?thesis
    by (rule guarded_frame [OF g])
      (use assms(2) q x in \<open>auto simp: open_model_def split: sum.splits prod.splits dest!: server_emit_nonces\<close>)
qed

lemma server_step_guarded:
  assumes "nonces_ok sv" and "server_step E io call sv = (a, sv')"
  shows "guarded (so_nonce io) (call_nonce call) (a \<noteq> None) sv sv'"
proof (cases call)
  case (COpen model body)
  obtain r sv1 where r: "open_model E io model body sv = (r, sv1)" by fastforce
  then show ?thesis using open_model_guarded [OF assms(1) r] assms(2) by (auto simp: COpen split: if_splits)
next
  case (CShard model index h)
  obtain r sv1 where r: "shard_handler E io model index h sv = (r, sv1)" by fastforce
  then show ?thesis using shard_handler_guarded [OF assms(1) r] assms(2) by (auto simp: CShard split: if_splits)
qed (use assms guarded_refl in auto)

lemma server_run_guarded:
  "nonces_ok sv \<Longrightarrow> nonces_ok (snd (server_run E calls sv)) \<and>
     (\<forall>k e. knows sv k e \<longrightarrow> (\<forall>c\<in>set calls. so_nonce (fst c) < e) \<longrightarrow> knows (snd (server_run E calls sv)) k e)"
proof (induction calls arbitrary: sv)
  case (Cons ic calls)
  obtain io call where ic: "ic = (io, call)" by fastforce
  obtain a sv1 where a: "server_step E io call sv = (a, sv1)" by fastforce
  obtain as1 sv2 where r: "server_run E calls sv1 = (as1, sv2)" by fastforce
  have g: "guarded (so_nonce io) (call_nonce call) (a \<noteq> None) sv sv1" by (rule server_step_guarded [OF Cons.prems a])
  then have "nonces_ok sv1" by (simp add: guarded_def)
  from Cons.IH [OF this] g show ?case by (auto simp: ic a r guarded_def)
qed simp

section \<open>Properties\<close>

text \<open>C5: Exactly when a shard is disclosed: the model has a manifest, the headers carry a signature of the
  requester over this very model, index, nonce and timestamp that passes \<open>verify_request\<close>, the nonce is
  accepted, the access list allows the requester, the shard can be read and decrypted, and a receipt is
  stored; the answer is then the stored chunk with the identifier of that receipt, and nothing but the
  replay cache and the receipts changes.\<close>

theorem server_shard_exact:
  "shard_handler E io model index h sv = (Inr (chunk, rid), sv') \<longleftrightarrow>
     (\<exists>m c r. get_manifest (se_vault E) model (sv_files sv) = Inr (Some m) \<and>
        verify_request (se_ed E) (Fin (so_verify io)) (Fin 300) (shard_request model index h) = (True, ''ok'') \<and>
        nc_at (sv_nonces sv) (xh_pubkey h, xh_nonce h) (so_nonce io) = (True, c) \<and>
        is_allowed (sv_acl sv) model (xh_pubkey h) \<and>
        read_shard_plaintext (se_vault E) m index (sv_files sv) = Inr chunk \<and>
        vr_emit ''vault.shard_read'' model (xh_pubkey h)
          [(''shard_index'', JInt index), (''bytes'', JInt (int (length chunk)))]
          (so_receipt_id io) (Fin (so_receipt io)) (sv_receipts sv) = Inr (rid, r) \<and>
        sv' = sv\<lparr>sv_nonces := c, sv_receipts := r\<rparr>)"
  by (rule shard_handler_Inr)

text \<open>C18: The audit log is complete and exact: over any run of the service, whatever is requested, granted
  and refused, the receipts added are one for each granted request, in order, naming what was done, the
  model and the requester, and a table that verified before still verifies.\<close>

theorem server_audit_complete:
  assumes "verify_chain (sv_receipts sv) = Inr (True, h)" and "server_run E calls sv = (granted, sv')"
  shows "map audit_of (vq_rows (sv_receipts sv')) = map audit_of (vq_rows (sv_receipts sv)) @ granted \<and>
     verify_chain (sv_receipts sv') = Inr (True, vr_last_sig (vq_rows (sv_receipts sv')))"
proof -
  note r = server_run_audited [OF assms(2)]
  then have "vq_key (sv_receipts sv') = vq_key (sv_receipts sv)" by blast
  with r assms(1) show ?thesis by (simp add: verify_chain_True_iff)
qed

text \<open>C19: No nonce is granted twice: after a service that started with an empty replay cache granted a
  request, no request of the same requester with the same nonce, for whatever model and operation, is
  granted in the next 600 seconds, however many calls come in between.\<close>

theorem server_no_replay:
  assumes "sv_nonces sv = nonce_cache_new" and "call_nonce call = Some k" and "call_nonce call' = Some k"
    and "server_step E io call (snd (server_run E before sv)) = (Some a, sv1)"
    and "\<forall>c\<in>set later. so_nonce (fst c) < so_nonce io + 600"
    and "server_step E io' call' (snd (server_run E later sv1)) = (Some a', sv2)"
  shows "so_nonce io + 600 \<le> so_nonce io'"
proof -
  have "nonces_ok sv" using assms(1) by (simp add: nonces_ok_def) (simp add: nonce_cache_new_def nc_ok_def)
  then have "nonces_ok (snd (server_run E before sv))" using server_run_guarded by blast
  from server_step_guarded [OF this assms(4)] assms(2)
  have g: "nonces_ok sv1" "knows sv1 k (so_nonce io + 600)" by (simp_all add: guarded_def)
  then have "nonces_ok (snd (server_run E later sv1))" "knows (snd (server_run E later sv1)) k (so_nonce io + 600)"
    using server_run_guarded [OF g(1)] assms(5) by blast+
  with server_step_guarded [OF _ assms(6)] assms(3) show ?thesis by (force simp: guarded_def)
qed

end
