(* ===== verification/Server_Examples.thy ===== *)
theory Server_Examples
  imports Server_Safety Node_Examples
begin

text \<open>
  The read service on the sample vault: one shard granted, and the same nonce granted again once its
  entry has expired.
\<close>

definition sample_server_env :: server_env where
  "sample_server_env = \<lparr>se_ed = plain_ed, se_vault = sample_env\<rparr>"

definition sample_server :: "files \<Rightarrow> server" where
  "sample_server fs = \<lparr>sv_files = fs, sv_acl = sample_acl,
     sv_receipts = \<lparr>vq_key = replicate 32 1, vq_rows = []\<rparr>, sv_nonces = nonce_cache_new\<rparr>"

definition sample_headers :: "rat \<Rightarrow> shard_headers" where
  "sample_headers t = \<lparr>xh_pubkey = zero_key, xh_nonce = replicate 16 (CHR ''a''), xh_signature = [], xh_timestamp = Fin t\<rparr>"

definition sample_server_io :: "rat \<Rightarrow> string \<Rightarrow> server_io" where
  "sample_server_io t rid = \<lparr>so_verify = t, so_nonce = t, so_receipt = t, so_receipt_id = rid\<rparr>"

lemma sample_signature: "signature_ok plain_ed zero_key [] msg"
proof -
  have "from_hex zero_key = Some (ed_public plain_ed [])" using plain_key [of "[]"] from_hex_hex by metis
  then show ?thesis by (simp add: signature_ok_def) (simp add: plain_ed_def)
qed

lemma sample_verified:
  "verify_request plain_ed (Fin t) (Fin 300) (shard_request ''m'' 0 (sample_headers t)) = (True, ''ok'')"
  by (simp add: verify_request_def shard_request_def sample_headers_def sample_signature)

text \<open>A shard is granted by any service with this vault and access list that accepts the nonce.\<close>

lemma sample_granted:
  assumes add: "add_file sample_env 4 sample_file ''m'' ''s'' ''mit'' [] sample_vault = (Inr mf, fs)"
    and sv: "sv_files sv = fs" "sv_acl sv = sample_acl" "rid \<notin> set (map vr_id (vq_rows (sv_receipts sv)))"
      "nc_at (sv_nonces sv) (zero_key, replicate 16 (CHR ''a'')) t = (True, c)"
  shows "\<exists>r. server_step sample_server_env (sample_server_io t rid) (CShard ''m'' 0 (sample_headers t)) sv =
     (Some (''vault.shard_read'', ''m'', zero_key), sv\<lparr>sv_nonces := c, sv_receipts := r\<rparr>) \<and>
     vq_rows r = vq_rows (sv_receipts sv) @ [last (vq_rows r)] \<and> vr_id (last (vq_rows r)) = rid"
proof -
  obtain r where r: "vr_emit ''vault.shard_read'' ''m'' zero_key
      [(''shard_index'', JInt 0), (''bytes'', JInt (int (length ([1, 2, 3] :: bytes))))] rid (Fin t) (sv_receipts sv) = Inr (rid, r)"
    using sv(3) by (auto simp: vr_emit_def Let_def)
  have "read_shard_plaintext sample_env (manifest_norm mf) 0 fs = Inr (chunks (nat 4) (wf_bytes sample_file) ! nat 0)"
    by (rule model_stored_reads [OF sample_env_ok]) (use add_file_stored(1) [OF sample_env_ok add] in
      \<open>simp_all add: sample_file_def chunks.simps\<close>)
  then have rd: "read_shard_plaintext sample_env (manifest_norm mf) 0 fs = Inr [1, 2, 3]"
    by (simp add: sample_file_def chunks.simps)
  have "shard_handler sample_server_env (sample_server_io t rid) ''m'' 0 (sample_headers t) sv =
      (Inr ([1, 2, 3], rid), sv\<lparr>sv_nonces := c, sv_receipts := r\<rparr>)"
    unfolding shard_handler_Inr using add_file_found [OF sample_env_ok add] rd r sv sample_verified sample_allowed
    by (intro exI [of _ "manifest_norm mf"] exI [of _ c] exI [of _ r])
      (simp add: sample_server_env_def sample_server_io_def sample_headers_def)
  then show ?thesis using vr_emit_cases [OF r] by (auto simp: sample_headers_def)
qed

lemma sample_server_start: "nc_at (sv_nonces (sample_server fs)) k 1 =
    (True, nonce_cache_new\<lparr>nc_seen := [(k, Fin 601)]\<rparr>)"
  by (simp add: sample_server_def nc_at_unfold nc_purge_def Let_def nonce_cache_new_def dict_get_default_def dict_set_def)

abbreviation sample_after :: "files \<Rightarrow> vault_receipts \<Rightarrow> server" where
  "sample_after fs r \<equiv> (sample_server fs)\<lparr>sv_nonces := nonce_cache_new\<lparr>nc_seen :=
     [((zero_key, replicate 16 (CHR ''a'')), Fin 601)]\<rparr>, sv_receipts := r\<rparr>"

lemma sample_first:
  assumes add: "add_file sample_env 4 sample_file ''m'' ''s'' ''mit'' [] sample_vault = (Inr mf, fs)"
  shows "\<exists>r. server_step sample_server_env (sample_server_io 1 ''r'') (CShard ''m'' 0 (sample_headers 1)) (sample_server fs) =
     (Some (''vault.shard_read'', ''m'', zero_key), sample_after fs r) \<and>
     vq_rows r = vq_rows (sv_receipts (sample_server fs)) @ [last (vq_rows r)] \<and> vr_id (last (vq_rows r)) = ''r''"
  by (rule sample_granted [OF add _ _ _ sample_server_start]) (simp_all add: sample_server_def)

theorem server_audit_complete_witness:
  "\<exists>fs sv'. server_run sample_server_env [(sample_server_io 1 ''r'', CShard ''m'' 0 (sample_headers 1)),
       (sample_server_io 2 ''q'', CHealth)] (sample_server fs) = ([(''vault.shard_read'', ''m'', zero_key)], sv') \<and>
     map audit_of (vq_rows (sv_receipts sv')) = [(''vault.shard_read'', ''m'', zero_key)]"
proof -
  obtain mf fs where add: "add_file sample_env 4 sample_file ''m'' ''s'' ''mit'' [] sample_vault = (Inr mf, fs)"
    using sample_add by blast
  obtain r where "server_step sample_server_env (sample_server_io 1 ''r'') (CShard ''m'' 0 (sample_headers 1)) (sample_server fs) =
      (Some (''vault.shard_read'', ''m'', zero_key), sample_after fs r)"
    using sample_first [OF add] by blast
  then have run: "server_run sample_server_env [(sample_server_io 1 ''r'', CShard ''m'' 0 (sample_headers 1)),
      (sample_server_io 2 ''q'', CHealth)] (sample_server fs) = ([(''vault.shard_read'', ''m'', zero_key)], sample_after fs r)"
    by (simp del: server_step.simps(2))
  have "verify_chain (sv_receipts (sample_server fs)) = Inr (True, ''genesis'')"
    by (simp add: sample_server_def verify_chain_def)
  from server_audit_complete [OF this run] run show ?thesis by (fastforce simp: sample_server_def)
qed

theorem server_no_replay_witness:
  "\<exists>fs sv1 sv2. server_step sample_server_env (sample_server_io 1 ''r'') (CShard ''m'' 0 (sample_headers 1)) (sample_server fs) =
       (Some (''vault.shard_read'', ''m'', zero_key), sv1) \<and>
     server_step sample_server_env (sample_server_io 601 ''q'') (CShard ''m'' 0 (sample_headers 601)) sv1 =
       (Some (''vault.shard_read'', ''m'', zero_key), sv2) \<and>
     so_nonce (sample_server_io 1 ''r'') + 600 \<le> so_nonce (sample_server_io 601 ''q'')"
proof -
  obtain mf fs where add: "add_file sample_env 4 sample_file ''m'' ''s'' ''mit'' [] sample_vault = (Inr mf, fs)"
    using sample_add by blast
  obtain r where r:
    "server_step sample_server_env (sample_server_io 1 ''r'') (CShard ''m'' 0 (sample_headers 1)) (sample_server fs) =
      (Some (''vault.shard_read'', ''m'', zero_key), sample_after fs r)"
    "vq_rows r = vq_rows (sv_receipts (sample_server fs)) @ [last (vq_rows r)]" "vr_id (last (vq_rows r)) = ''r''"
    using sample_first [OF add] by blast
  obtain row where row: "vq_rows r = [row]" "vr_id row = ''r''" using r(2,3) by (simp add: sample_server_def)
  have fields: "sv_receipts (sample_after fs r) = r" "sv_files (sample_after fs r) = fs" "sv_acl (sample_after fs r) = sample_acl"
    by (simp_all add: sample_server_def)
  obtain c where c: "nc_at (sv_nonces (sample_after fs r)) (zero_key, replicate 16 (CHR ''a'')) 601 = (True, c)"
    by (simp add: nc_at_unfold nc_purge_def Let_def nonce_cache_new_def dict_get_default_def)
  have "\<exists>q. server_step sample_server_env (sample_server_io 601 ''q'') (CShard ''m'' 0 (sample_headers 601)) (sample_after fs r) =
      (Some (''vault.shard_read'', ''m'', zero_key), (sample_after fs r)\<lparr>sv_nonces := c, sv_receipts := q\<rparr>) \<and>
      vq_rows q = vq_rows (sv_receipts (sample_after fs r)) @ [last (vq_rows q)] \<and> vr_id (last (vq_rows q)) = ''q''"
    by (rule sample_granted [OF add _ _ _ c]) (simp_all add: fields row)
  then obtain sv2 where sv2:
    "server_step sample_server_env (sample_server_io 601 ''q'') (CShard ''m'' 0 (sample_headers 601)) (sample_after fs r) =
      (Some (''vault.shard_read'', ''m'', zero_key), sv2)" by blast
  have "so_nonce (sample_server_io 1 ''r'') + 600 \<le> so_nonce (sample_server_io 601 ''q'')"
  proof (rule server_no_replay [where sv = "sample_server fs" and before = "[]" and later = "[]"
          and k = "(zero_key, replicate 16 (CHR ''a''))"])
    show "server_step sample_server_env (sample_server_io 1 ''r'') (CShard ''m'' 0 (sample_headers 1))
        (snd (server_run sample_server_env [] (sample_server fs))) =
        (Some (''vault.shard_read'', ''m'', zero_key), sample_after fs r)" using r(1) by (simp only: server_run.simps snd_conv)
    show "server_step sample_server_env (sample_server_io 601 ''q'') (CShard ''m'' 0 (sample_headers 601))
        (snd (server_run sample_server_env [] (sample_after fs r))) =
        (Some (''vault.shard_read'', ''m'', zero_key), sv2)" using sv2 by (simp only: server_run.simps snd_conv)
  qed (simp_all add: sample_server_def sample_headers_def)
  with r(1) sv2 show ?thesis by blast
qed

end
