(* ===== verification/Base64_Url.thy ===== *)
theory Base64_Url
  imports Base64
begin

text \<open>
  The two ways the storage package reads URL-safe base 64: \<open>b64decode\<close> with alternative characters and
  \<open>validate=True\<close>, and \<open>urlsafe_b64decode\<close>, which skips foreign characters. Both first translate the
  alternative characters, so the standard ones are accepted as well.
\<close>

definition url_to_std :: "char \<Rightarrow> char" where
  "url_to_std c = (if c = CHR ''-'' then CHR ''+'' else if c = CHR ''_'' then CHR ''/'' else c)"

definition b64_decode_altchars :: "string \<Rightarrow> bytes option" where
  "b64_decode_altchars s = b64_decode std_alt (map url_to_std s)"

text \<open>
  \<open>a2b_base64\<close> outside its strict mode: the position in the current group of four, the bits left over,
  and the padding seen since the last character. Padding that completes a group ends the input.
\<close>

fun b64_loose :: "nat \<Rightarrow> nat \<Rightarrow> nat \<Rightarrow> string \<Rightarrow> bytes option" where
  "b64_loose q left pads [] = (if q = 0 then Some [] else None)"
| "b64_loose q left pads (c # cs) =
     (if c = pad then
        (if 2 \<le> q \<and> 4 \<le> q + pads + 1 then Some []
         else b64_loose q left (if 2 \<le> q then pads + 1 else pads) cs)
      else (case b64_val std_alt c of
          None \<Rightarrow> b64_loose q left pads cs
        | Some v \<Rightarrow>
            if q = 0 then b64_loose 1 v 0 cs
            else if q = 1 then map_option ((#) (byte_nat (left * 4 + v div 16))) (b64_loose 2 (v mod 16) 0 cs)
            else if q = 2 then map_option ((#) (byte_nat (left * 16 + v div 4))) (b64_loose 3 (v mod 4) 0 cs)
            else map_option ((#) (byte_nat (left * 64 + v))) (b64_loose 0 0 0 cs)))"

definition b64_decode_urlsafe :: "string \<Rightarrow> bytes option" where
  "b64_decode_urlsafe s = (if list_all (\<lambda>c. code c < 128) s then b64_loose 0 0 0 (map url_to_std s) else None)"

section \<open>Decoding inverts encoding\<close>

lemma url_to_std_char: "n < 64 \<Longrightarrow> url_to_std (b64_char url_alt n) = b64_char std_alt n"
proof -
  assume n: "n < 64"
  note u = b64_char_code [OF n, of url_alt]
  have keep: "url_to_std c = c" if "code c \<noteq> 45" "code c \<noteq> 95" for c
    using that by (auto simp: url_to_std_def code_def)
  consider "n < 62" | "n = 62" | "n = 63" using n by linarith
  then show ?thesis
  proof cases
    case 1
    then have "code (b64_char url_alt n) \<noteq> 45" "code (b64_char url_alt n) \<noteq> 95"
      using u(1-3) by (cases "n < 26"; cases "n < 52"; simp)+
    moreover have "b64_char url_alt n = b64_char std_alt n" using 1 by (simp add: b64_char_def)
    ultimately show ?thesis using keep by metis
  qed (simp_all add: b64_char_def url_to_std_def url_alt_def std_alt_def)
qed

lemma url_to_std_pad: "url_to_std pad = pad"
  by (simp add: url_to_std_def pad_def)

lemma url_to_std_encode: "map url_to_std (b64_encode url_alt bs) = b64_encode std_alt bs"
proof (induction std_alt bs rule: b64_encode.induct)
  case (1 x y z rest)
  then show ?case using sextets [of "unat x" "unat y" "unat z"] by (simp add: Let_def url_to_std_char)
next
  case (2 x y)
  then show ?case using sextets [of "unat x" "unat y" 0] by (simp add: Let_def url_to_std_char url_to_std_pad)
next
  case (3 x)
  then show ?case using sextets [of "unat x" 0 0] by (simp add: Let_def url_to_std_char url_to_std_pad)
qed simp

lemma b64_altchars_roundtrip: "b64_decode_altchars (b64_encode url_alt bs) = Some bs"
  by (simp add: b64_decode_altchars_def url_to_std_encode b64_roundtrip)

lemma b64_loose_encode: "b64_loose 0 0 0 (b64_encode std_alt bs) = Some bs"
proof (induction std_alt bs rule: b64_encode.induct)
  case (1 x y z rest)
  note s = sextets [of "unat x" "unat y" "unat z"]
  show ?case using 1 s
    by (simp add: Let_def b64_val_char b64_char_pad byte_parts)
next
  case (2 x y)
  note s = sextets [of "unat x" "unat y" 0]
  show ?case using s
    by (simp add: Let_def b64_val_char b64_char_pad byte_parts)
next
  case (3 x)
  note s = sextets [of "unat x" 0 0]
  show ?case using s
    by (simp add: Let_def b64_val_char b64_char_pad)
qed simp

lemma b64_urlsafe_roundtrip: "b64_decode_urlsafe (b64_encode url_alt bs) = Some bs"
  using b64_encode_chars [of url_alt bs] by (simp add: b64_decode_urlsafe_def url_to_std_encode b64_loose_encode)

end
