(* ===== verification/Storage.thy ===== *)
theory Storage
  imports Base64_Url Access File_System Py_Convert
begin

text \<open>
  The encrypted object storage of the \<open>decillion\<close> package: content-addressed objects
  (\<open>objects.py\<close>), envelope keys (\<open>keys.py\<close>), signed receipts (\<open>receipts.py\<close>) and the engine that
  composes them (\<open>engine.py\<close>). Random bytes, the temporary names and the clock are arguments.
\<close>

section \<open>Receipts\<close>

record receipt =
  rc_version :: int
  rc_object :: string
  rc_owner :: string
  rc_name_hash :: string
  rc_plain :: int
  rc_cipher :: int
  rc_created :: string
  rc_wrapped :: string
  rc_signature :: string

definition canonical_json :: "json \<Rightarrow> bytes" where
  "canonical_json v = utf8_encode (dumps compact_ascii (sort_keys v))"

definition rc_unsigned :: "receipt \<Rightarrow> (string, json) dict" where
  "rc_unsigned r =
     [(''version'', JInt (rc_version r)), (''object_id'', JStr (rc_object r)), (''owner'', JStr (rc_owner r)),
      (''original_name_hash'', JStr (rc_name_hash r)), (''plaintext_size'', JInt (rc_plain r)),
      (''ciphertext_size'', JInt (rc_cipher r)), (''created_at'', JStr (rc_created r)),
      (''wrapped_key'', JStr (rc_wrapped r))]"

definition rc_to_dict :: "receipt \<Rightarrow> (string, json) dict" where
  "rc_to_dict r = rc_unsigned r @ [(''signature'', JStr (rc_signature r))]"

definition rc_digest :: "receipt \<Rightarrow> bytes" where
  "rc_digest r = sha256 (canonical_json (JObj (rc_unsigned r)))"

definition receipt_create :: "string \<Rightarrow> string \<Rightarrow> string \<Rightarrow> int \<Rightarrow> int \<Rightarrow> bytes \<Rightarrow> string \<Rightarrow> receipt" where
  "receipt_create object_id owner filename plain cipher wrapped now =
     \<lparr>rc_version = 1, rc_object = object_id, rc_owner = owner, rc_name_hash = sha_hex (utf8_encode filename),
      rc_plain = plain, rc_cipher = cipher, rc_created = now, rc_wrapped = b64_encode url_alt wrapped, rc_signature = []\<rparr>"

definition receipt_sign :: "ed25519 \<Rightarrow> bytes \<Rightarrow> receipt \<Rightarrow> receipt" where
  "receipt_sign C sk r = r\<lparr>rc_signature := b64_encode url_alt (ed_sign C sk (rc_digest r))\<rparr>"

definition verify_receipt :: "ed25519 \<Rightarrow> receipt \<Rightarrow> bytes \<Rightarrow> unit result" where
  "verify_receipt C r pk =
     (case b64_decode_altchars (rc_signature r) of
        None \<Rightarrow> Inl (IntegrityError ''receipt signature verification failed'')
      | Some s \<Rightarrow> if ed_verify C pk s (rc_digest r) then Inr ()
                  else Inl (IntegrityError ''receipt signature verification failed''))"

text \<open>\<open>merkle_root\<close> of a list of receipts: its own value for no receipts, and the level loop.\<close>

definition receipt_leaf :: "receipt \<Rightarrow> bytes" where
  "receipt_leaf r = sha256 (canonical_json (JObj (rc_to_dict r)))"

function root_loop :: "bytes list \<Rightarrow> bytes list" where
  "root_loop leaves =
     (if 1 < length leaves then
        (let even_leaves = (if odd (length leaves) then leaves @ [last leaves] else leaves) in
         root_loop (map (\<lambda>i. sha256 (even_leaves ! (2 * i) @ even_leaves ! (2 * i + 1))) [0..<length even_leaves div 2]))
      else leaves)"
  by pat_completeness auto
termination by (relation "measure length") (auto, presburger)

declare root_loop.simps [simp del]

definition receipts_root :: "receipt list \<Rightarrow> string" where
  "receipts_root rs =
     (let leaves = map receipt_leaf rs
      in if leaves = [] then sha_hex [] else hex (root_loop leaves ! 0))"

text \<open>
  \<open>load_or_create\<close>: the key file is read if it is there, else a fresh key is linked into place.
  \<open>race\<close> is what another process links between the check and the link of this one, if one does.
\<close>

definition load_signer :: "bytes \<Rightarrow> bytes result" where
  "load_signer bs = (if length bs = 32 then Inr bs else Inl (ValueError ''An Ed25519 private key is 32 bytes long''))"

definition load_or_create :: "path \<Rightarrow> bytes \<Rightarrow> bytes option \<Rightarrow> files \<Rightarrow> bytes result \<times> files" where
  "load_or_create target fresh race fs =
     (case dict_get fs target of
        Some bs \<Rightarrow> (load_signer bs, fs)
      | None \<Rightarrow>
          (case race of
             None \<Rightarrow> (Inr fresh, dict_set target fresh fs)
           | Some other \<Rightarrow> (load_signer other, dict_set target other fs)))"

section \<open>Keys\<close>

record key_provider =
  kp_master :: bytes
  kp_require :: bool

definition local_key_provider :: "bytes \<Rightarrow> bool \<Rightarrow> key_provider result" where
  "local_key_provider master require =
     (if length master \<noteq> 32 then Inl (ValueError ''master key must be exactly 32 bytes'')
      else Inr \<lparr>kp_master = master, kp_require = require\<rparr>)"

text \<open>The two environment variables, absent or set.\<close>

definition provider_from_env :: "string option \<Rightarrow> string option \<Rightarrow> key_provider result" where
  "provider_from_env encoded require =
     (case encoded of
        None \<Rightarrow> Inl (RuntimeError ''DECILLION_MASTER_KEY is required'')
      | Some e \<Rightarrow>
          if e = [] then Inl (RuntimeError ''DECILLION_MASTER_KEY is required'')
          else (case b64_decode_urlsafe e of
              None \<Rightarrow> Inl (ValueError ''DECILLION_MASTER_KEY must be URL-safe base64'')
            | Some key \<Rightarrow> local_key_provider key
                (map lower_char (case require of None \<Rightarrow> ''false'' | Some s \<Rightarrow> s) = ''true'')))"

definition key_wrap :: "aead \<Rightarrow> key_provider \<Rightarrow> bytes \<Rightarrow> bytes \<Rightarrow> bytes \<Rightarrow> bytes" where
  "key_wrap A K nonce data_key context_bytes = nonce @ aead_encrypt A (kp_master K) nonce data_key context_bytes"

definition key_unwrap :: "aead \<Rightarrow> key_provider \<Rightarrow> bytes \<Rightarrow> bytes \<Rightarrow> string option \<Rightarrow> bytes result" where
  "key_unwrap A K wrapped context_bytes attestation =
     (if kp_require K \<and> (case attestation of None \<Rightarrow> True | Some a \<Rightarrow> a = [])
        then Inl (AttestationError ''valid attestation is required before key release'')
      else if length wrapped < 29 then Inl (ValueError ''wrapped key is truncated'')
      else (case aead_decrypt A (kp_master K) (take 12 wrapped) (drop 12 wrapped) context_bytes of
          None \<Rightarrow> Inl InvalidTag | Some k \<Rightarrow> Inr k))"

definition generate_master_key :: "bytes \<Rightarrow> string" where
  "generate_master_key key = b64_encode url_alt key"

section \<open>Objects\<close>

definition object_path :: "string \<Rightarrow> path result" where
  "object_path oid =
     (if length oid \<noteq> 64 \<or> \<not> list_all (\<lambda>c. c \<in> set ''0123456789abcdef'') oid
        then Inl (ValueError ''object_id must be a lowercase SHA-256 digest'')
      else Inr (take 2 oid @ ''/'' @ take 2 (drop 2 oid) @ ''/'' @ oid))"

definition object_put :: "io_fault \<Rightarrow> path \<Rightarrow> string \<Rightarrow> bytes \<Rightarrow> files \<Rightarrow> unit result \<times> files" where
  "object_put fault tmp oid payload fs =
     (case object_path oid of
        Inl e \<Rightarrow> (Inl e, fs)
      | Inr p \<Rightarrow> atomic_put fault tmp p payload fs)"

definition object_get :: "string \<Rightarrow> files \<Rightarrow> bytes result" where
  "object_get oid fs = bindR (object_path oid) (\<lambda>p.
     (case dict_get fs p of None \<Rightarrow> Inl FileNotFoundError | Some bs \<Rightarrow> Inr bs))"

definition object_exists :: "string \<Rightarrow> files \<Rightarrow> bool result" where
  "object_exists oid fs = bindR (object_path oid) (\<lambda>p. Inr (dict_get fs p \<noteq> None))"

section \<open>The engine\<close>

record storage =
  sg_ed :: ed25519
  sg_aead :: aead
  sg_keys :: key_provider
  sg_sk :: bytes

text \<open>What one upload draws: the data key, two nonces, the temporary name, the time, and a failing call.\<close>

record upload_io =
  up_data_key :: bytes
  up_nonce :: bytes
  up_wrap_nonce :: bytes
  up_tmp :: path
  up_now :: string
  up_fault :: io_fault

definition magic :: bytes where
  "magic = utf8_encode ''DECILLION'' @ [1]"

definition storage_context :: "string \<Rightarrow> string \<Rightarrow> bytes" where
  "storage_context owner filename =
     utf8_encode ''decillion:v1'' @ [0] @ utf8_encode owner @ [0] @ sha256 (utf8_encode filename)"

definition storage_payload :: "aead \<Rightarrow> upload_io \<Rightarrow> string \<Rightarrow> string \<Rightarrow> bytes \<Rightarrow> bytes" where
  "storage_payload A io owner filename plaintext =
     magic @ up_nonce io @
     aead_encrypt A (up_data_key io) (up_nonce io) plaintext (storage_context owner filename)"

definition storage_upload ::
    "storage \<Rightarrow> upload_io \<Rightarrow> string \<Rightarrow> string \<Rightarrow> bytes \<Rightarrow> files \<Rightarrow> receipt result \<times> files" where
  "storage_upload G io owner filename plaintext fs =
     (if owner = [] \<or> 512 < length owner
        then (Inl (ValueError ''owner is required and must be at most 512 characters''), fs)
      else if filename = [] \<or> 1024 < length filename
        then (Inl (ValueError ''filename is required and must be at most 1024 characters''), fs)
      else
        (let context_bytes = storage_context owner filename;
             payload = storage_payload (sg_aead G) io owner filename plaintext;
             oid = sha_hex payload;
             wrapped = key_wrap (sg_aead G) (sg_keys G) (up_wrap_nonce io) (up_data_key io) context_bytes in
         (case object_put (up_fault io) (up_tmp io) oid payload fs of
            (Inl e, fs1) \<Rightarrow> (Inl e, fs1)
          | (Inr _, fs1) \<Rightarrow>
              (Inr (receipt_sign (sg_ed G) (sg_sk G)
                 (receipt_create oid owner filename (int (length plaintext)) (int (length payload)) wrapped (up_now io))), fs1))))"

definition storage_download ::
    "storage \<Rightarrow> receipt \<Rightarrow> string \<Rightarrow> string \<Rightarrow> string option \<Rightarrow> files \<Rightarrow> bytes result" where
  "storage_download G r owner filename attestation fs =
     bindR (verify_receipt (sg_ed G) r (ed_public (sg_ed G) (sg_sk G))) (\<lambda>_.
     if rc_owner r \<noteq> owner then Inl (AuthorizationError ''receipt owner does not match caller'')
     else if rc_name_hash r \<noteq> sha_hex (utf8_encode filename)
       then Inl (AuthorizationError ''filename binding does not match receipt'')
     else bindR (object_get (rc_object r) fs) (\<lambda>payload.
       if sha_hex payload \<noteq> rc_object r then Inl (IntegrityError ''stored ciphertext digest does not match receipt'')
       else if take (length magic) payload \<noteq> magic \<or> length payload < length magic + 28
         then Inl (IntegrityError ''invalid encrypted-object envelope'')
       else (case b64_decode_urlsafe (rc_wrapped r) of
           None \<Rightarrow> Inl (ValueError ''Invalid base64-encoded string'')
         | Some wrapped \<Rightarrow>
             bindR (key_unwrap (sg_aead G) (sg_keys G) wrapped (storage_context owner filename) attestation) (\<lambda>data_key.
               if length data_key \<notin> {16, 24, 32} then Inl (ValueError ''AESGCM key must be 128, 192, or 256 bits.'')
               else (case aead_decrypt (sg_aead G) data_key (take 12 (drop (length magic) payload))
                       (drop (length magic + 12) payload) (storage_context owner filename) of
                  None \<Rightarrow> Inl (IntegrityError ''ciphertext authentication failed'')
                | Some plain \<Rightarrow> Inr plain)))))"

end
