(* ===== verification/Storage_Api.thy ===== *)
theory Storage_Api
  imports Storage Manifest
begin

text \<open>
  The receipt catalog (\<open>decillion/catalog.py\<close>) and the HTTP gateway (\<open>decillion/api.py\<close>) over the
  storage engine. The table is the list of its rows in insertion order; the environment variables,
  random bytes and the clock are arguments.
\<close>

section \<open>The catalog\<close>

record catalog_row =
  ct_object :: string
  ct_owner :: string
  ct_json :: string
  ct_created :: string

type_synonym catalog = "catalog_row list"

definition receipt_text :: "receipt \<Rightarrow> string" where
  "receipt_text r = dumps compact_ascii (sort_keys (JObj (rc_to_dict r)))"

definition row_of :: "receipt \<Rightarrow> catalog_row" where
  "row_of r = \<lparr>ct_object = rc_object r, ct_owner = rc_owner r, ct_json = receipt_text r, ct_created = rc_created r\<rparr>"

definition catalog_add :: "receipt \<Rightarrow> catalog \<Rightarrow> catalog result" where
  "catalog_add r rows =
     (if rc_object r \<in> set (map ct_object rows) then Inl SqliteIntegrityError
      else Inr (rows @ [row_of r]))"

text \<open>\<open>Receipt(**json.loads(text))\<close>; a field of the wrong type, which the code would carry on with, counts
  as a \<open>TypeError\<close> here.\<close>

definition str_field :: "(string, json) dict \<Rightarrow> string \<Rightarrow> string result" where
  "str_field d k = (case dict_get d k of Some (JStr s) \<Rightarrow> Inr s | _ \<Rightarrow> Inl TypeError)"

definition int_field :: "(string, json) dict \<Rightarrow> string \<Rightarrow> int result" where
  "int_field d k = (case dict_get d k of Some (JInt i) \<Rightarrow> Inr i | _ \<Rightarrow> Inl TypeError)"

definition receipt_fields :: "string list" where
  "receipt_fields = [''version'', ''object_id'', ''owner'', ''original_name_hash'', ''plaintext_size'',
     ''ciphertext_size'', ''created_at'', ''wrapped_key'', ''signature'']"

definition receipt_of_dict :: "(string, json) dict \<Rightarrow> receipt result" where
  "receipt_of_dict d =
     (if \<not> known_fields receipt_fields d then Inl TypeError
      else
        bindR (int_field d ''version'') (\<lambda>v. bindR (str_field d ''object_id'') (\<lambda>oid.
        bindR (str_field d ''owner'') (\<lambda>owner. bindR (str_field d ''original_name_hash'') (\<lambda>nh.
        bindR (int_field d ''plaintext_size'') (\<lambda>ps. bindR (int_field d ''ciphertext_size'') (\<lambda>cs.
        bindR (str_field d ''created_at'') (\<lambda>made. bindR (str_field d ''wrapped_key'') (\<lambda>wk.
        bindR (if dict_get d ''signature'' = None then Inr [] else str_field d ''signature'') (\<lambda>sg.
          Inr \<lparr>rc_version = v, rc_object = oid, rc_owner = owner, rc_name_hash = nh, rc_plain = ps,
               rc_cipher = cs, rc_created = made, rc_wrapped = wk, rc_signature = sg\<rparr>))))))))))"

definition receipt_of_text :: "string \<Rightarrow> receipt result" where
  "receipt_of_text s = (case loads s of
       None \<Rightarrow> Inl (ValueError ''JSONDecodeError'')
     | Some (JObj d) \<Rightarrow> receipt_of_dict d
     | Some _ \<Rightarrow> Inl TypeError)"

definition catalog_get :: "string \<Rightarrow> catalog \<Rightarrow> receipt option result" where
  "catalog_get oid rows =
     (case find (\<lambda>row. ct_object row = oid) rows of
        None \<Rightarrow> Inr None
      | Some row \<Rightarrow> bindR (receipt_of_text (ct_json row)) (\<lambda>r. Inr (Some r)))"

text \<open>Newest first; rows of one instant in the order of a backward scan of the index.\<close>

definition list_owner :: "string \<Rightarrow> int \<Rightarrow> catalog \<Rightarrow> receipt list result" where
  "list_owner owner limit rows =
     mapR (\<lambda>row. receipt_of_text (ct_json row))
       (take (nat (min (max limit 1) 1000)) (rev (sort_key ct_created (filter (\<lambda>row. ct_owner row = owner) rows))))"

section \<open>The gateway\<close>

record api_env =
  ae_principals :: "string option"
  ae_stage :: "string option"
  ae_master :: "string option"
  ae_require :: "string option"
  ae_ed :: ed25519
  ae_aead :: aead

definition text_default :: "string option \<Rightarrow> string \<Rightarrow> string" where
  "text_default v d = (case v of None \<Rightarrow> d | Some s \<Rightarrow> s)"

definition principals :: "api_env \<Rightarrow> (string, string) dict result" where
  "principals E =
     (case loads (text_default (ae_principals E) ''{}'') of
        None \<Rightarrow> Inl (RuntimeError ''DECILLION_API_PRINCIPALS must be a JSON object'')
      | Some (JObj d) \<Rightarrow>
          (case those (map (\<lambda>(k, v). map_option (Pair k) (case v of JStr s \<Rightarrow> Some s | _ \<Rightarrow> None)) d) of
             None \<Rightarrow> Inl (RuntimeError ''DECILLION_API_PRINCIPALS must map tokens to owner IDs'')
           | Some p \<Rightarrow>
               Inr (if text_default (ae_stage E) ''development'' = ''development'' \<and> dict_get p ''development-token'' = None
                    then dict_set ''development-token'' ''development-owner'' p else p))
      | Some _ \<Rightarrow> Inl (RuntimeError ''DECILLION_API_PRINCIPALS must map tokens to owner IDs''))"

definition api_authorize :: "api_env \<Rightarrow> string option \<Rightarrow> string result" where
  "api_authorize E header =
     (if \<not> starts_with ''Bearer '' (text_default header [])
        then Inl (HTTPException 401 ''bearer token required'')
      else bindR (principals E) (\<lambda>p.
        (case dict_get p (drop 7 (text_default header [])) of
           None \<Rightarrow> Inl (HTTPException 403 ''invalid API token'')
         | Some owner \<Rightarrow>
             if owner = [] \<or> 512 < length owner
             then Inl (RuntimeError ''configured owner ID must contain 1-512 characters'') else Inr owner)))"

text \<open>The data directory, the table, and the services once they have been built.\<close>

record api =
  ap_root :: files
  ap_objects :: files
  ap_rows :: catalog
  ap_engine :: "storage option"

definition services :: "api_env \<Rightarrow> bytes \<Rightarrow> bytes option \<Rightarrow> api \<Rightarrow> storage result \<times> api" where
  "services E fresh race ap =
     (case ap_engine ap of
        Some g \<Rightarrow> (Inr g, ap)
      | None \<Rightarrow>
          if text_default (ae_master E) [] = []
          then (Inl (RuntimeError ''DECILLION_MASTER_KEY is required; run `decillion generate-master-key`''), ap)
          else (case load_or_create ''receipt-signing.key'' fresh race (ap_root ap) of
              (Inl e, fs) \<Rightarrow> (Inl e, ap\<lparr>ap_root := fs\<rparr>)
            | (Inr sk, fs) \<Rightarrow>
                (case provider_from_env (ae_master E) (ae_require E) of
                   Inl e \<Rightarrow> (Inl e, ap\<lparr>ap_root := fs\<rparr>)
                 | Inr k \<Rightarrow>
                     (let g = \<lparr>sg_ed = ae_ed E, sg_aead = ae_aead E, sg_keys = k, sg_sk = sk\<rparr>
                      in (Inr g, ap\<lparr>ap_root := fs, ap_engine := Some g\<rparr>)))))"

record api_io =
  ai_fresh :: bytes
  ai_race :: "bytes option"
  ai_upload :: upload_io

definition api_health :: json where
  "api_health = JObj [(''status'', JStr ''ok''), (''service'', JStr ''decillion''), (''version'', JStr ''0.1.0'')]"

definition upload_name :: "string option \<Rightarrow> string" where
  "upload_name filename = (if text_default filename [] = [] then ''unnamed'' else text_default filename [])"

definition api_upload :: "api_env \<Rightarrow> api_io \<Rightarrow> string option \<Rightarrow> string option \<Rightarrow> bytes \<Rightarrow> api \<Rightarrow> json result \<times> api" where
  "api_upload E io header filename body ap =
     (case api_authorize E header of
        Inl e \<Rightarrow> (Inl e, ap)
      | Inr owner \<Rightarrow>
          (case services E (ai_fresh io) (ai_race io) ap of
             (Inl e, ap1) \<Rightarrow> (Inl e, ap1)
           | (Inr g, ap1) \<Rightarrow>
               (case storage_upload g (ai_upload io) owner (upload_name filename) body (ap_objects ap1) of
                   (Inl (ValueError s), fs) \<Rightarrow> (Inl (HTTPException 422 s), ap1\<lparr>ap_objects := fs\<rparr>)
                 | (Inl e, fs) \<Rightarrow> (Inl e, ap1\<lparr>ap_objects := fs\<rparr>)
                 | (Inr r, fs) \<Rightarrow>
                     (case catalog_add r (ap_rows ap1) of
                        Inl e \<Rightarrow> (Inl e, ap1\<lparr>ap_objects := fs\<rparr>)
                      | Inr rows \<Rightarrow> (Inr (JObj (rc_to_dict r)), ap1\<lparr>ap_objects := fs, ap_rows := rows\<rparr>)))))"

text \<open>How the gateway answers an exception of the engine.\<close>

fun download_error :: "pyexn \<Rightarrow> pyexn" where
  "download_error (AuthorizationError s) = HTTPException 403 s"
| "download_error (AttestationError s) = HTTPException 403 s"
| "download_error (IntegrityError s) = HTTPException 409 s"
| "download_error e = e"

definition api_download ::
    "api_env \<Rightarrow> api_io \<Rightarrow> string option \<Rightarrow> string \<Rightarrow> string \<Rightarrow> string option \<Rightarrow> api \<Rightarrow> bytes result \<times> api" where
  "api_download E io header oid filename attestation ap =
     (case api_authorize E header of
        Inl e \<Rightarrow> (Inl e, ap)
      | Inr owner \<Rightarrow>
          (case services E (ai_fresh io) (ai_race io) ap of
             (Inl e, ap1) \<Rightarrow> (Inl e, ap1)
           | (Inr g, ap1) \<Rightarrow>
               (case catalog_get oid (ap_rows ap1) of
                  Inl e \<Rightarrow> (Inl e, ap1)
                | Inr None \<Rightarrow> (Inl (HTTPException 404 ''object not found''), ap1)
                | Inr (Some r) \<Rightarrow>
                    (case storage_download g r owner filename attestation (ap_objects ap1) of
                       Inl e \<Rightarrow> (Inl (download_error e), ap1)
                     | Inr payload \<Rightarrow> (Inr payload, ap1)))))"

definition api_receipt_root :: "api_env \<Rightarrow> api_io \<Rightarrow> string option \<Rightarrow> int \<Rightarrow> api \<Rightarrow> json result \<times> api" where
  "api_receipt_root E io header limit ap =
     (case api_authorize E header of
        Inl e \<Rightarrow> (Inl e, ap)
      | Inr owner \<Rightarrow>
          (case services E (ai_fresh io) (ai_race io) ap of
             (Inl e, ap1) \<Rightarrow> (Inl e, ap1)
           | (Inr g, ap1) \<Rightarrow>
               (case list_owner owner limit (ap_rows ap1) of
                  Inl e \<Rightarrow> (Inl e, ap1)
                | Inr rs \<Rightarrow> (Inr (JObj [(''owner'', JStr owner), (''count'', JInt (int (length rs))),
                    (''merkle_root'', JStr (receipts_root rs))]), ap1))))"

end
