(* ===== verification/Storage_Proofs.thy ===== *)
theory Storage_Proofs
  imports Storage_Api
begin

text \<open>
  What the storage package guarantees: uploads can be downloaded through the catalog, a receipt only ever
  gives back what was uploaded with it, to its owner, and the aggregate root is the vault's Merkle root.
\<close>

section \<open>Receipts\<close>

lemma rc_unsigned_sign [simp]: "rc_unsigned (receipt_sign C sk r) = rc_unsigned r"
  by (simp add: receipt_sign_def rc_unsigned_def)

lemma rc_digest_sign [simp]: "rc_digest (receipt_sign C sk r) = rc_digest r"
  by (simp add: rc_digest_def)

lemma verify_signed: "ed_correct C \<Longrightarrow> verify_receipt C (receipt_sign C sk r) (ed_public C sk) = Inr ()"
proof -
  have "rc_signature (receipt_sign C sk r) = b64_encode url_alt (ed_sign C sk (rc_digest r))"
    by (simp add: receipt_sign_def)
  then show "verify_receipt C (receipt_sign C sk r) (ed_public C sk) = Inr ()" if "ed_correct C"
    using that by (simp add: verify_receipt_def b64_altchars_roundtrip ed_correctD)
qed

lemma json_ok_receipt: "json_ok (JObj (rc_to_dict r))"
  by (simp add: rc_to_dict_def rc_unsigned_def)

lemma receipt_dict_ok [simp]: "dict_ok (rc_to_dict r)" "known_fields receipt_fields (rc_to_dict r)"
  by (simp_all add: rc_to_dict_def rc_unsigned_def known_fields_def receipt_fields_def)

lemma receipt_dict_get:
  "dict_get (rc_to_dict r) ''version'' = Some (JInt (rc_version r))"
  "dict_get (rc_to_dict r) ''object_id'' = Some (JStr (rc_object r))"
  "dict_get (rc_to_dict r) ''owner'' = Some (JStr (rc_owner r))"
  "dict_get (rc_to_dict r) ''original_name_hash'' = Some (JStr (rc_name_hash r))"
  "dict_get (rc_to_dict r) ''plaintext_size'' = Some (JInt (rc_plain r))"
  "dict_get (rc_to_dict r) ''ciphertext_size'' = Some (JInt (rc_cipher r))"
  "dict_get (rc_to_dict r) ''created_at'' = Some (JStr (rc_created r))"
  "dict_get (rc_to_dict r) ''wrapped_key'' = Some (JStr (rc_wrapped r))"
  "dict_get (rc_to_dict r) ''signature'' = Some (JStr (rc_signature r))"
  by (simp_all add: rc_to_dict_def rc_unsigned_def dict_get_def)

lemma receipt_read_back: "receipt_of_text (receipt_text r) = Inr r"
proof -
  have "loads (receipt_text r) = Some (JObj (sorted_dict (rc_to_dict r)))"
    unfolding receipt_text_def sort_keys_JObj [symmetric]
    by (rule loads_dumps) (simp_all add: json_ok_receipt del: sort_keys.simps json_ok.simps)
  moreover have "receipt_of_dict (sorted_dict (rc_to_dict r)) = Inr r"
    unfolding receipt_of_dict_def int_field_def str_field_def known_fields_sorted
    by (simp add: sorted_dict_get receipt_dict_get)
  ultimately show ?thesis by (simp add: receipt_of_text_def)
qed

section \<open>Uploads\<close>

text \<open>Nonces of twelve bytes, a data key, and a temporary name that no object has.\<close>

definition upload_ok :: "upload_io \<Rightarrow> bool" where
  "upload_ok io \<longleftrightarrow> length (up_nonce io) = 12 \<and> length (up_wrap_nonce io) = 12 \<and> length (up_data_key io) = 32 \<and>
     (\<forall>oid. object_path oid \<noteq> Inr (up_tmp io))"

definition uploaded :: "storage \<Rightarrow> upload_io \<Rightarrow> string \<Rightarrow> string \<Rightarrow> bytes \<Rightarrow> receipt" where
  "uploaded G io owner filename plaintext =
     (let payload = storage_payload (sg_aead G) io owner filename plaintext in
      receipt_sign (sg_ed G) (sg_sk G) (receipt_create (sha_hex payload) owner filename (int (length plaintext))
        (int (length payload)) (key_wrap (sg_aead G) (sg_keys G) (up_wrap_nonce io) (up_data_key io)
          (storage_context owner filename)) (up_now io)))"

lemma atomic_put_other:
  assumes "tmp \<noteq> p" and "tmp \<noteq> q"
  shows "dict_get (snd (atomic_put fault tmp p v fs)) q = (if q = p \<and> fault = NoFault then Some v else dict_get fs q)"
  using assms
  by (cases fault) (auto simp: atomic_put_def atomic_calls_def Let_def dict.lookup_store dict.lookup_remove)

lemma sha_hex_object: "\<exists>p. object_path (sha_hex bs) = Inr p"
proof -
  have digit: "hex_digit n \<in> set ''0123456789abcdef''" if "n < 16" for n
    unfolding hex_digit_def by (rule nth_mem) (use that in simp)
  have "c \<in> set ''0123456789abcdef''" if "c \<in> set (sha_hex bs)" for c
    using hex_chars [of c "sha256 bs"] that digit unfolding sha_hex_def by blast
  then show ?thesis by (simp add: object_path_def list_all_iff)
qed

lemma storage_upload_Inr:
  assumes "storage_upload G io owner filename plaintext fs = (Inr r, fs')" and "upload_ok io"
  shows "r = uploaded G io owner filename plaintext \<and> owner \<noteq> [] \<and> length owner \<le> 512 \<and> up_fault io = NoFault \<and>
     (\<exists>p. object_path (sha_hex (storage_payload (sg_aead G) io owner filename plaintext)) = Inr p \<and>
        dict_get fs' p = Some (storage_payload (sg_aead G) io owner filename plaintext))"
proof -
  let ?pl = "storage_payload (sg_aead G) io owner filename plaintext"
  obtain p where p: "object_path (sha_hex ?pl) = Inr p" using sha_hex_object by blast
  obtain x where put: "atomic_put (up_fault io) (up_tmp io) p ?pl fs = (Inr x, fs')"
    and r: "r = uploaded G io owner filename plaintext" "owner \<noteq> []" "length owner \<le> 512"
    using assms(1) p by (auto simp: storage_upload_def object_put_def Let_def uploaded_def split: if_splits sum.splits prod.splits)
  moreover have "up_fault io = NoFault"
    using atomic_put_result [of "up_fault io" "up_tmp io" p ?pl fs] put by simp
  moreover have "up_tmp io \<noteq> p" using assms(2) p by (auto simp: upload_ok_def)
  ultimately show ?thesis using r p put atomic_put_other [of "up_tmp io" p p "up_fault io" ?pl fs] by auto
qed

text \<open>The fields of the receipt, and what the engine makes of its payload.\<close>

lemma uploaded_fields [simp]:
  "rc_owner (uploaded G io owner filename p) = owner"
  "rc_object (uploaded G io owner filename p) = sha_hex (storage_payload (sg_aead G) io owner filename p)"
  "rc_name_hash (uploaded G io owner filename p) = sha_hex (utf8_encode filename)"
  "b64_decode_urlsafe (rc_wrapped (uploaded G io owner filename p)) =
     Some (key_wrap (sg_aead G) (sg_keys G) (up_wrap_nonce io) (up_data_key io) (storage_context owner filename))"
  by (simp_all add: uploaded_def receipt_sign_def receipt_create_def Let_def b64_urlsafe_roundtrip)

lemma uploaded_verifies:
  "ed_correct (sg_ed G) \<Longrightarrow> verify_receipt (sg_ed G) (uploaded G io owner filename p) (ed_public (sg_ed G) (sg_sk G)) = Inr ()"
  by (simp add: uploaded_def Let_def verify_signed)

lemma unwrap_own:
  assumes "aead_correct A" and "length n = 12" and "length k = 32"
  shows "key_unwrap A K (key_wrap A K n k c) c att =
     (if kp_require K \<and> (att = None \<or> att = Some []) then Inl (AttestationError ''valid attestation is required before key release'')
      else Inr k)"
proof -
  have "\<not> length (key_wrap A K n k c) < 29"
    using assms aead_correctD(2) [OF assms(1)] by (simp add: key_wrap_def)
  moreover have "take 12 (key_wrap A K n k c) = n" "drop 12 (key_wrap A K n k c) = aead_encrypt A (kp_master K) n k c"
    using assms(2) by (simp_all add: key_wrap_def)
  moreover have "(case att of None \<Rightarrow> True | Some a \<Rightarrow> a = []) \<longleftrightarrow> att = None \<or> att = Some []" by (cases att) simp_all
  ultimately show ?thesis using aead_correctD(1) [OF assms(1)] by (simp add: key_unwrap_def)
qed

definition attested :: "storage \<Rightarrow> string option \<Rightarrow> bool" where
  "attested G att \<longleftrightarrow> \<not> (kp_require (sg_keys G) \<and> (att = None \<or> att = Some []))"

lemma download_uploaded:
  assumes "aead_correct (sg_aead G)" and "ed_correct (sg_ed G)"
    and "length (up_nonce io) = 12" and "length (up_wrap_nonce io) = 12" and "length (up_data_key io) = 32"
    and "object_get (sha_hex (storage_payload (sg_aead G) io owner filename p)) fs = Inr (storage_payload (sg_aead G) io owner filename p)"
    and "attested G att"
  shows "storage_download G (uploaded G io owner filename p) owner filename att fs = Inr p"
proof -
  let ?pl = "storage_payload (sg_aead G) io owner filename p"
  let ?c = "aead_encrypt (sg_aead G) (up_data_key io) (up_nonce io) p (storage_context owner filename)"
  have pl: "?pl = magic @ up_nonce io @ ?c" by (simp add: storage_payload_def)
  have "drop (length magic + 12) ?pl = drop 12 (drop (length magic) ?pl)" by (simp add: add.commute)
  also have "\<dots> = ?c" unfolding pl using assms(3) by simp
  finally have c: "drop (length magic + 12) ?pl = ?c" .
  have parts: "take (length magic) ?pl = magic" "take 12 (drop (length magic) ?pl) = up_nonce io"
      "\<not> length ?pl < length magic + 28"
    unfolding pl using assms(3) aead_correctD(2) [OF assms(1)] by simp_all
  have key: "key_unwrap (sg_aead G) (sg_keys G) (key_wrap (sg_aead G) (sg_keys G) (up_wrap_nonce io)
      (up_data_key io) (storage_context owner filename)) (storage_context owner filename) att = Inr (up_data_key io)"
    using unwrap_own [OF assms(1,4,5)] assms(7) by (simp add: attested_def)
  show ?thesis
    using parts(3) assms(5)
    by (simp add: storage_download_def uploaded_verifies [OF assms(2)] assms(6) c parts(1,2) key
      aead_correctD(1) [OF assms(1)] del: not_less)
qed

section \<open>The aggregate root\<close>

lemma pair_hashes_index:
  "even (length xs) \<Longrightarrow>
     pair_hashes H xs = map (\<lambda>i. H (xs ! (2 * i) @ xs ! (2 * i + 1))) [0..<length xs div 2]"
proof (induction H xs rule: pair_hashes.induct)
  case (1 H a b r)
  have "[0..<length (a # b # r) div 2] = 0 # map Suc [0..<length r div 2]"
    by (simp add: upt_conv_Cons map_Suc_upt del: upt_Suc)
  with 1 show ?case by simp
qed auto

lemma root_loop_merkle_up: "root_loop xs = merkle_up hash xs"
proof (induction xs rule: root_loop.induct)
  case (1 xs)
  let ?e = "if odd (length xs) then xs @ [last xs] else xs"
  have "map (\<lambda>i. sha256 (?e ! (2 * i) @ ?e ! (2 * i + 1))) [0..<length ?e div 2] = merkle_level hash xs"
    by (simp add: merkle_level_def pad_even_def hash_def pair_hashes_index)
  with 1 show ?case by (simp add: root_loop.simps [of xs] merkle_up.simps [of hash xs] Let_def)
qed

text \<open>The level loop that aggregates receipts computes the vault's Merkle root of the receipt hashes;
  only for no receipts do the two differ.\<close>

theorem receipts_root_is_merkle_root:
  "receipts_root rs = (if rs = [] then sha_hex [] else hex (merkle_root (map receipt_leaf rs)))"
proof -
  have "merkle_up hash xs \<noteq> []" if "xs \<noteq> []" for xs
    using that
  proof (induction hash xs rule: merkle_up.induct)
    case (1 xs)
    have "merkle_level hash xs \<noteq> []" if "1 < length xs" using that length_merkle_level [of hash xs] by force
    with 1 show ?case by (simp add: merkle_up.simps [of hash xs])
  qed
  then show ?thesis
    by (simp add: receipts_root_def Let_def root_loop_merkle_up merkle_root_def hd_conv_nth)
qed

end
