(* ===== verification/Gateway_Safety.thy ===== *)
theory Gateway_Safety
  imports Storage_Proofs
begin

text \<open>
  The gateway over any run of requests, the object directory open to change from outside: what a request
  leaves in the catalog and on the disk, and what a later download can give back.
\<close>

section \<open>Runs\<close>

datatype api_call =
    GUpload "string option" "string option" bytes
  | GDownload "string option" string string "string option"
  | GRoot "string option" int
  | GDisk files

text \<open>Header, filename and body of an upload; header, object, filename and attestation of a download;
  \<^term>\<open>GDisk\<close> is somebody else's change of the object directory.\<close>

fun api_step :: "api_env \<Rightarrow> api_io \<times> api_call \<Rightarrow> api \<Rightarrow> api" where
  "api_step E (io, GUpload h fn body) ap = snd (api_upload E io h fn body ap)"
| "api_step E (io, GDownload h oid fn att) ap = snd (api_download E io h oid fn att ap)"
| "api_step E (io, GRoot h limit) ap = snd (api_receipt_root E io h limit ap)"
| "api_step E (io, GDisk fs) ap = ap\<lparr>ap_objects := fs\<rparr>"

definition api_run :: "api_env \<Rightarrow> (api_io \<times> api_call) list \<Rightarrow> api \<Rightarrow> api" where
  "api_run E rs ap = fold (api_step E) rs ap"

lemma api_run_simps [simp]:
  "api_run E [] ap = ap" "api_run E (r # rs) ap = api_run E rs (api_step E r ap)"
  "api_run E (rs @ [r]) ap = api_step E r (api_run E rs ap)"
  by (simp_all add: api_run_def)

text \<open>A process that has just started on an empty table.\<close>

definition api_start :: "api \<Rightarrow> bool" where
  "api_start ap \<longleftrightarrow> ap_rows ap = [] \<and> ap_engine ap = None"

definition requests_ok :: "(api_io \<times> api_call) list \<Rightarrow> bool" where
  "requests_ok rs \<longleftrightarrow> (\<forall>(io, c)\<in>set rs. upload_ok (ai_upload io))"

text \<open>The authorized uploads of a run, and the payloads they store.\<close>

fun upload_of :: "api_env \<Rightarrow> api_io \<times> api_call \<Rightarrow> (upload_io \<times> string \<times> string \<times> bytes) list" where
  "upload_of E (io, GUpload h fn body) =
     (case api_authorize E h of Inl _ \<Rightarrow> [] | Inr owner \<Rightarrow> [(ai_upload io, owner, upload_name fn, body)])"
| "upload_of E _ = []"

definition uploads :: "api_env \<Rightarrow> (api_io \<times> api_call) list \<Rightarrow> (upload_io \<times> string \<times> string \<times> bytes) list" where
  "uploads E rs = concat (map (upload_of E) rs)"

definition payloads :: "api_env \<Rightarrow> (api_io \<times> api_call) list \<Rightarrow> bytes set" where
  "payloads E rs = (\<lambda>(io, owner, name, body). storage_payload (ae_aead E) io owner name body) ` set (uploads E rs)"

lemma uploads_append [simp]: "uploads E (rs @ [r]) = uploads E rs @ upload_of E r" "uploads E [] = []"
  by (simp_all add: uploads_def)

section \<open>The engine\<close>

lemma object_path_end: "object_path a = Inr p \<Longrightarrow> drop 6 p = a"
proof -
  assume "object_path a = Inr p"
  then have p: "p = take 2 a @ ''/'' @ take 2 (drop 2 a) @ ''/'' @ a" and "length a = 64"
    unfolding object_path_def by (metis Inl_Inr_False sum.inject(2))+
  then show ?thesis by simp
qed

lemma object_path_inj: "object_path a = Inr p \<Longrightarrow> object_path b = Inr p \<Longrightarrow> a = b"
  using object_path_end by metis

lemma object_get_Inr: "object_path oid = Inr p \<Longrightarrow> object_get oid fs = Inr bs \<longleftrightarrow> dict_get fs p = Some bs"
  by (simp add: object_get_def split: option.split)

lemma storage_upload_other:
  assumes "upload_ok io" and "object_path oid = Inr p" and "storage_upload G io owner fn body fs = (r, fs')"
  shows "dict_get fs' p = dict_get fs p \<or>
     (sha_hex (storage_payload (sg_aead G) io owner fn body) = oid \<and>
      dict_get fs' p = Some (storage_payload (sg_aead G) io owner fn body))"
proof -
  let ?pl = "storage_payload (sg_aead G) io owner fn body"
  obtain q where q: "object_path (sha_hex ?pl) = Inr q" using sha_hex_object by blast
  have "fs' = fs \<or> fs' = snd (atomic_put (up_fault io) (up_tmp io) q ?pl fs)"
    using assms(3) q by (auto simp: storage_upload_def object_put_def Let_def split: if_splits sum.splits prod.splits)
  moreover have "dict_get (snd (atomic_put (up_fault io) (up_tmp io) q ?pl fs)) p =
      (if p = q \<and> up_fault io = NoFault then Some ?pl else dict_get fs p)"
    using assms(1,2) q by (intro atomic_put_other) (auto simp: upload_ok_def)
  ultimately show ?thesis using q assms(2) object_path_inj by (auto split: if_splits)
qed

text \<open>A receipt of an upload gives back what was uploaded, to its owner, whatever the disk holds.\<close>

lemma storage_context_name: "sha256 (utf8_encode a) = sha256 (utf8_encode b) \<Longrightarrow> storage_context owner a = storage_context owner b"
  by (simp add: storage_context_def)

lemma download_uploaded_sound:
  assumes "aead_correct (sg_aead G)" and "ed_correct (sg_ed G)" and "upload_ok io"
    and "storage_download G (uploaded G io owner fn body) owner' fn' att fs = Inr x"
    and "no_collision (set (map snd fs) \<union> {storage_payload (sg_aead G) io owner fn body})"
  shows "owner' = owner \<and> sha256 (utf8_encode fn') = sha256 (utf8_encode fn) \<and> x = body"
proof -
  let ?r = "uploaded G io owner fn body" and ?pl = "storage_payload (sg_aead G) io owner fn body"
  have own: "owner' = owner" and name: "sha256 (utf8_encode fn') = sha256 (utf8_encode fn)"
    using assms(4) uploaded_verifies [OF assms(2), of io owner fn body]
    by (auto simp: storage_download_def split: if_splits)
  note ctx = storage_context_name [OF name, of owner]
  have same: "storage_download G ?r owner' fn' att fs = storage_download G ?r owner fn att fs"
    unfolding own storage_download_def ctx using name by simp
  have ok: "storage_download G ?r owner fn att fs = Inr x" using assms(4) same by simp
  have u: "key_unwrap (sg_aead G) (sg_keys G) (key_wrap (sg_aead G) (sg_keys G) (up_wrap_nonce io)
      (up_data_key io) (storage_context owner fn)) (storage_context owner fn) att = Inr k \<Longrightarrow> attested G att" for k
    using unwrap_own [OF assms(1)] assms(3) by (auto simp: attested_def upload_ok_def split: if_splits)
  obtain pl where pl: "object_get (sha_hex ?pl) fs = Inr pl" "sha_hex pl = sha_hex ?pl" and att: "attested G att"
    using ok uploaded_verifies [OF assms(2), of io owner fn body] u
    by (auto simp: storage_download_def bindR_Inr_iff split: if_splits)
  obtain q where "map_of fs q = Some pl"
    using pl(1) by (auto simp: object_get_def bindR_Inr_iff dict_get_def split: option.splits)
  then have "pl \<in> set (map snd fs)" by (force dest: map_of_SomeD)
  then have "pl = ?pl" using no_collisionD [OF assms(5), of pl ?pl] pl(2) by simp
  with pl(1) have "storage_download G ?r owner fn att fs = Inr body"
    using download_uploaded [OF assms(1,2)] assms(3) att by (simp add: upload_ok_def)
  with ok own name show ?thesis by simp
qed


section \<open>The catalog holds receipts of uploads\<close>

definition row_made :: "storage \<Rightarrow> catalog_row \<Rightarrow> upload_io \<times> string \<times> string \<times> bytes \<Rightarrow> bool" where
  "row_made G row u \<longleftrightarrow> (case u of (io, owner, name, body) \<Rightarrow>
     upload_ok io \<and> row = row_of (uploaded G io owner name body))"

definition attest_needed :: "api_env \<Rightarrow> bool" where
  "attest_needed E \<longleftrightarrow> map lower_char (text_default (ae_require E) ''false'') = ''true''"

definition engine_ok :: "api_env \<Rightarrow> storage \<Rightarrow> bool" where
  "engine_ok E G \<longleftrightarrow> sg_ed G = ae_ed E \<and> sg_aead G = ae_aead E \<and> kp_require (sg_keys G) = attest_needed E"

definition api_inv :: "api_env \<Rightarrow> (api_io \<times> api_call) list \<Rightarrow> api \<Rightarrow> bool" where
  "api_inv E rs ap \<longleftrightarrow> (case ap_engine ap of None \<Rightarrow> ap_rows ap = []
     | Some G \<Rightarrow> engine_ok E G \<and> (\<forall>row\<in>set (ap_rows ap). \<exists>u\<in>set (uploads E rs). row_made G row u))"

lemma services_Inr:
  assumes "services E fresh race ap = (Inr G, ap1)" and "api_inv E rs ap"
  shows "ap_engine ap1 = Some G \<and> ap_rows ap1 = ap_rows ap \<and> ap_objects ap1 = ap_objects ap \<and> api_inv E rs ap1 \<and> engine_ok E G"
  using assms
  by (auto simp: services_def api_inv_def engine_ok_def attest_needed_def provider_from_env_def local_key_provider_def
      text_default_def Let_def split: option.splits if_splits sum.splits prod.splits)

lemma services_Inl:
  "services E fresh race ap = (Inl e, ap1) \<Longrightarrow>
     ap_engine ap = None \<and> ap_engine ap1 = None \<and> ap_rows ap1 = ap_rows ap \<and> ap_objects ap1 = ap_objects ap"
  by (auto simp: services_def Let_def split: option.splits if_splits sum.splits prod.splits)

lemma services_keeps:
  assumes "services E fresh race ap = (r, ap1)" and "api_inv E rs ap"
  shows "api_inv E rs ap1 \<and> ap_rows ap1 = ap_rows ap \<and> ap_objects ap1 = ap_objects ap \<and>
     (ap_engine ap = Some G \<longrightarrow> ap_engine ap1 = Some G)"
proof (cases r)
  case (Inl e)
  then show ?thesis using services_Inl [of E fresh race ap e ap1] assms by (auto simp: api_inv_def split: option.splits)
next
  case (Inr g)
  then show ?thesis using services_Inr [of E fresh race ap g ap1 rs] assms by (auto simp: services_def split: option.splits)
qed

text \<open>The catalog and the disk after an upload, and that the other handlers leave both alone.\<close>

lemma api_upload_cases:
  assumes "api_upload E io h fn body ap = (res, ap')" and "api_inv E rs ap" and "upload_ok (ai_upload io)"
  obtains (nothing) "\<not> is_ok res" "ap_rows ap' = ap_rows ap" "ap_objects ap' = ap_objects ap" "api_inv E rs ap'"
      "\<forall>G. ap_engine ap = Some G \<longrightarrow> ap_engine ap' = Some G"
  | (engine) owner G r where "api_authorize E h = Inr owner" "ap_engine ap' = Some G" "engine_ok E G"
      "\<forall>g. ap_engine ap = Some g \<longrightarrow> g = G" "ap_engine ap = None \<longrightarrow> ap_rows ap = []"
      "storage_upload G (ai_upload io) owner (upload_name fn) body (ap_objects ap) = (r, ap_objects ap')"
      "ap_rows ap' = (if is_ok res then ap_rows ap @ [row_of (projr r)] else ap_rows ap)"
      "is_ok res \<longrightarrow> is_ok r \<and> res = Inr (JObj (rc_to_dict (projr r))) \<and> rc_object (projr r) \<notin> set (map ct_object (ap_rows ap))"
proof (cases "api_authorize E h")
  case (Inl e)
  then have "res = Inl e" "ap' = ap" using assms(1) by (simp_all add: api_upload_def)
  then show thesis using assms(2) by (intro that(1)) simp_all
next
  case owner: (Inr owner)
  obtain s ap1 where s: "services E (ai_fresh io) (ai_race io) ap = (s, ap1)" by fastforce
  note k = services_keeps [OF s assms(2)]
  show thesis
  proof (cases s)
    case (Inl e)
    then have "res = Inl e" "ap' = ap1" using assms(1) owner s by (simp_all add: api_upload_def)
    then show thesis using k by (intro that(1)) simp_all
  next
    case (Inr G)
    note e = services_Inr [OF s [unfolded Inr] assms(2)]
    obtain r fs where up: "storage_upload G (ai_upload io) owner (upload_name fn) body (ap_objects ap1) = (r, fs)" by fastforce
    have eng: "\<forall>g. ap_engine ap = Some g \<longrightarrow> g = G" using k e by auto
    have none: "ap_engine ap = None \<longrightarrow> ap_rows ap = []" using assms(2) by (auto simp: api_inv_def)
    have a: "api_upload E io h fn body ap = (case r of Inl (ValueError s) \<Rightarrow> (Inl (HTTPException 422 s), ap1\<lparr>ap_objects := fs\<rparr>)
        | Inl e \<Rightarrow> (Inl e, ap1\<lparr>ap_objects := fs\<rparr>)
        | Inr r \<Rightarrow> (case catalog_add r (ap_rows ap1) of Inl e \<Rightarrow> (Inl e, ap1\<lparr>ap_objects := fs\<rparr>)
           | Inr rows \<Rightarrow> (Inr (JObj (rc_to_dict r)), ap1\<lparr>ap_objects := fs, ap_rows := rows\<rparr>)))"
      using owner s Inr up by (simp add: api_upload_def split: sum.split pyexn.split)
    have fin: "ap_engine ap' = Some G" "ap_objects ap' = fs"
        "ap_rows ap' = (if is_ok res then ap_rows ap @ [row_of (projr r)] else ap_rows ap)"
        "is_ok res \<longrightarrow> is_ok r \<and> res = Inr (JObj (rc_to_dict (projr r))) \<and> rc_object (projr r) \<notin> set (map ct_object (ap_rows ap))"
      using a assms(1) e by (auto simp: catalog_add_def split: sum.splits pyexn.splits if_splits)
    show thesis by (rule that(2) [OF owner fin(1) _ eng none _ fin(3,4)]) (use up e fin(2) in simp_all)
  qed
qed


lemma api_other_keeps:
  assumes "api_inv E rs ap" and "\<And>h fn body. c \<noteq> GUpload h fn body"
  shows "api_inv E rs (api_step E (io, c) ap) \<and> ap_rows (api_step E (io, c) ap) = ap_rows ap \<and>
     ((\<forall>fs. c \<noteq> GDisk fs) \<longrightarrow> ap_objects (api_step E (io, c) ap) = ap_objects ap) \<and>
     (ap_engine ap = Some G \<longrightarrow> ap_engine (api_step E (io, c) ap) = Some G)"
proof (cases c)
  case (GDisk fs)
  then show ?thesis using assms(1) by (cases "ap_engine ap") (simp_all add: api_inv_def)
next
  case (GDownload h oid fn att)
  have "api_step E (io, c) ap \<in> {ap, snd (services E (ai_fresh io) (ai_race io) ap)}"
    unfolding GDownload by (auto simp: api_download_def split: sum.splits option.splits prod.splits)
  then show ?thesis using assms(1) services_keeps [OF surjective_pairing assms(1), of "ai_fresh io" "ai_race io"] by auto
next
  case (GRoot h limit)
  have "api_step E (io, c) ap \<in> {ap, snd (services E (ai_fresh io) (ai_race io) ap)}"
    unfolding GRoot by (auto simp: api_receipt_root_def split: sum.splits prod.splits)
  then show ?thesis using assms(1) services_keeps [OF surjective_pairing assms(1), of "ai_fresh io" "ai_race io"] by auto
qed (use assms(2) in blast)

lemma api_inv_more: "api_inv E rs ap \<Longrightarrow> api_inv E (rs @ [r]) ap"
  by (auto simp: api_inv_def split: option.splits)

lemma api_inv_step:
  assumes "api_inv E rs ap" and "upload_ok (ai_upload io)"
  shows "api_inv E (rs @ [(io, c)]) (api_step E (io, c) ap)"
proof (cases "\<exists>h fn body. c = GUpload h fn body")
  case True
  then obtain h fn body where c: "c = GUpload h fn body" by blast
  obtain res ap' where step: "api_upload E io h fn body ap = (res, ap')" by fastforce
  from step assms show ?thesis
  proof (cases rule: api_upload_cases)
    case nothing
    then show ?thesis using step api_inv_more by (simp add: c)
  next
    case (engine owner G r)
    have "\<exists>u\<in>set (uploads E (rs @ [(io, c)])). row_made G row u" if "row \<in> set (ap_rows ap')" for row
    proof (cases "row \<in> set (ap_rows ap)")
      case True
      then show ?thesis using assms(1) engine(4) by (auto simp: api_inv_def split: option.splits)
    next
      case False
      with that engine(7,8) obtain r' where "row = row_of r'" "r = Inr r'"
        by (cases r) (auto split: if_splits)
      then show ?thesis using storage_upload_Inr [OF engine(6) [unfolded \<open>r = Inr r'\<close>] assms(2)] engine(1) assms(2)
        by (auto simp: c row_made_def)
    qed
    then show ?thesis using engine(2,3) step by (simp add: api_inv_def c)
  qed
next
  case False
  then have "\<And>h fn body. c \<noteq> GUpload h fn body" by blast
  from api_other_keeps [OF assms(1) this] show ?thesis by (intro api_inv_more) simp
qed

lemma api_inv_run:
  assumes "api_start ap" and "requests_ok rs"
  shows "api_inv E rs (api_run E rs ap)"
  using assms(2)
proof (induction rs rule: rev_induct)
  case Nil
  then show ?case using assms(1) by (simp add: api_start_def api_inv_def)
next
  case (snoc r rs)
  then show ?case using api_inv_step [of E rs _ "fst r" "snd r"] by (auto simp: requests_ok_def)
qed

lemma catalog_get_row:
  assumes "catalog_get oid rows = Inr (Some r)" and "\<And>row. row \<in> set rows \<Longrightarrow> \<exists>q. row = row_of q"
  shows "row_of r \<in> set rows \<and> rc_object r = oid"
proof -
  obtain row where row: "find (\<lambda>row. ct_object row = oid) rows = Some row" "receipt_of_text (ct_json row) = Inr r"
    using assms(1) by (auto simp: catalog_get_def bindR_Inr_iff split: option.splits)
  then have "row \<in> set rows" "ct_object row = oid" by (auto simp: find_Some_iff)
  moreover obtain q where "row = row_of q" using assms(2) calculation(1) by blast
  ultimately show ?thesis using row(2) receipt_read_back [of q] by (simp add: row_of_def)
qed

lemma catalog_get_found: "find (\<lambda>row. ct_object row = oid) rows = Some (row_of r) \<Longrightarrow> catalog_get oid rows = Inr (Some r)"
  by (simp add: catalog_get_def row_of_def receipt_read_back)

section \<open>What a download can give back\<close>

text \<open>C6: Whatever requests were handled and whatever was done to the object directory, a download that
  answers with content answers with the body of an earlier upload that carried a token of the same owner
  and a file name of the same hash.\<close>

theorem gateway_download_authentic:
  assumes "aead_correct (ae_aead E)" and "ed_correct (ae_ed E)" and "api_start ap" and "requests_ok rs"
    and "api_download E io h oid name att (api_run E rs ap) = (Inr content, ap')"
    and "no_collision (set (map snd (ap_objects (api_run E rs ap))) \<union> payloads E rs)"
  shows "\<exists>io' h' fn. (io', GUpload h' fn content) \<in> set rs \<and> api_authorize E h' = api_authorize E h \<and>
     sha_hex (utf8_encode (upload_name fn)) = sha_hex (utf8_encode name)"
proof -
  let ?ap = "api_run E rs ap"
  note inv = api_inv_run [OF assms(3,4), of E]
  obtain owner G ap1 r where d: "api_authorize E h = Inr owner" "services E (ai_fresh io) (ai_race io) ?ap = (Inr G, ap1)"
      "catalog_get oid (ap_rows ap1) = Inr (Some r)" "storage_download G r owner name att (ap_objects ap1) = Inr content"
    using assms(5) by (auto simp: api_download_def split: sum.splits prod.splits option.splits)
  note s = services_Inr [OF d(2) inv]
  have made: "\<forall>row\<in>set (ap_rows ap1). \<exists>u\<in>set (uploads E rs). row_made G row u" using s by (auto simp: api_inv_def)
  then have "row_of r \<in> set (ap_rows ap1)" using catalog_get_row [OF d(3)] by (fastforce simp: row_made_def)
  then obtain u where u: "u \<in> set (uploads E rs)" "row_made G (row_of r) u" using made by blast
  obtain uio own fn body where q: "u = (uio, own, fn, body)" by (cases u)
  have row: "upload_ok uio" "row_of r = row_of (uploaded G uio own fn body)" using u(2) q by (auto simp: row_made_def)
  have "receipt_text r = receipt_text (uploaded G uio own fn body)" using row(2) by (simp add: row_of_def)
  then have r: "r = uploaded G uio own fn body" using receipt_read_back by (metis sum.inject(2))
  have eng: "sg_aead G = ae_aead E" "sg_ed G = ae_ed E" using s by (auto simp: engine_ok_def)
  have "storage_payload (sg_aead G) uio own fn body \<in> payloads E rs" using u(1) q eng by (force simp: payloads_def)
  then have "no_collision (set (map snd (ap_objects ap1)) \<union> {storage_payload (sg_aead G) uio own fn body})"
    using s by (intro no_collision_mono [OF assms(6)]) auto
  from download_uploaded_sound [OF _ _ row(1) d(4) [unfolded r] this]
  have res: "owner = own" "sha256 (utf8_encode name) = sha256 (utf8_encode fn)" "content = body"
    using assms(1,2) eng by auto
  obtain req where req: "req \<in> set rs" "u \<in> set (upload_of E req)" using u(1) by (auto simp: uploads_def)
  show ?thesis using req(2) q res d(1) req(1) by (cases "(E, req)" rule: upload_of.cases) (auto split: sum.splits)
qed


section \<open>What an upload leaves stays\<close>

text \<open>The catalog row, and the payload in the object directory.\<close>

definition holds :: "storage \<Rightarrow> receipt \<Rightarrow> bytes \<Rightarrow> api \<Rightarrow> bool" where
  "holds G r pl ap \<longleftrightarrow> ap_engine ap = Some G \<and> find (\<lambda>row. ct_object row = rc_object r) (ap_rows ap) = Some (row_of r) \<and>
     rc_object r = sha_hex pl \<and> object_get (sha_hex pl) (ap_objects ap) = Inr pl"

lemma find_append: "find P (xs @ ys) = (case find P xs of None \<Rightarrow> find P ys | Some x \<Rightarrow> Some x)"
  by (induction xs) simp_all

lemma holds_step:
  assumes "holds G r pl ap" and "api_inv E rs ap" and "upload_ok (ai_upload io)" and "\<forall>fs. c \<noteq> GDisk fs"
    and "no_collision (insert pl (payloads E [(io, c)]))"
  shows "holds G r pl (api_step E (io, c) ap)"
proof (cases "\<exists>h fn body. c = GUpload h fn body")
  case True
  then obtain h fn body where c: "c = GUpload h fn body" by blast
  obtain res ap' where step: "api_upload E io h fn body ap = (res, ap')" by fastforce
  from step assms(2,3) show ?thesis
  proof (cases rule: api_upload_cases)
    case nothing
    then show ?thesis using assms(1) step by (auto simp: c holds_def)
  next
    case (engine owner G' q)
    let ?new = "storage_payload (sg_aead G') (ai_upload io) owner (upload_name fn) body"
    have rows: "find (\<lambda>row. ct_object row = rc_object r) (ap_rows ap') = Some (row_of r)"
      using assms(1) engine(7) unfolding holds_def by (auto simp: find_append)
    obtain p where p: "object_path (sha_hex pl) = Inr p" using sha_hex_object by blast
    have disk: "dict_get (ap_objects ap) p = Some pl" using assms(1) p by (simp add: holds_def object_get_Inr)
    have "?new \<in> payloads E [(io, c)]" using engine(1,3) by (simp add: payloads_def uploads_def c engine_ok_def)
    then have "sha_hex ?new = sha_hex pl \<Longrightarrow> ?new = pl" using no_collisionD [OF assms(5), of ?new pl] by simp
    then have "dict_get (ap_objects ap') p = Some pl"
      using storage_upload_other [OF assms(3) p engine(6)] disk by auto
    then show ?thesis using assms(1) rows engine(2,4) step p by (simp add: holds_def c object_get_Inr)
  qed
next
  case False
  then have "\<And>h fn body. c \<noteq> GUpload h fn body" by blast
  from api_other_keeps [OF assms(2) this, of io G] show ?thesis using assms(1,4) unfolding holds_def by auto
qed

lemma holds_run:
  assumes "holds G r pl ap" and "api_inv E before ap" and "requests_ok rs" and "\<forall>io fs. (io, GDisk fs) \<notin> set rs"
    and "no_collision (insert pl (payloads E rs))"
  shows "holds G r pl (api_run E rs ap) \<and> api_inv E (before @ rs) (api_run E rs ap)"
  using assms(3-)
proof (induction rs rule: rev_induct)
  case Nil
  then show ?case using assms(1,2) by simp
next
  case (snoc x rs)
  obtain io c where x: "x = (io, c)" by (cases x)
  have pay: "payloads E (rs @ [x]) = payloads E rs \<union> payloads E [x]"
    by (simp add: payloads_def uploads_def image_Un)
  have IH: "holds G r pl (api_run E rs ap) \<and> api_inv E (before @ rs) (api_run E rs ap)"
    using snoc.prems by (intro snoc.IH no_collision_mono [OF snoc.prems(3)]) (auto simp: requests_ok_def pay)
  have ok: "upload_ok (ai_upload io)" "\<forall>fs. c \<noteq> GDisk fs" using snoc.prems(1,2) by (auto simp: requests_ok_def x)
  have "no_collision (insert pl (payloads E [(io, c)]))"
    by (rule no_collision_mono [OF snoc.prems(3)]) (unfold pay, unfold x, blast)
  from holds_step [OF conjunct1 [OF IH] conjunct2 [OF IH] ok this] api_inv_step [OF conjunct2 [OF IH] ok(1), of c]
  show ?case by (simp add: x)
qed

lemma upload_holds:
  assumes "api_upload E io h fn body ap = (Inr j, ap')" and "api_inv E rs ap" and "upload_ok (ai_upload io)"
  shows "\<exists>G owner. api_authorize E h = Inr owner \<and> engine_ok E G \<and>
     (let r = uploaded G (ai_upload io) owner (upload_name fn) body in
      j = JObj (rc_to_dict r) \<and> holds G r (storage_payload (ae_aead E) (ai_upload io) owner (upload_name fn) body) ap')"
  using assms
proof (cases rule: api_upload_cases)
  case (engine owner G q)
  obtain r where r: "q = Inr r" using engine(8) by (cases q) simp_all
  let ?pl = "storage_payload (ae_aead E) (ai_upload io) owner (upload_name fn) body"
  have aead: "sg_aead G = ae_aead E" using engine(3) by (simp add: engine_ok_def)
  note up = storage_upload_Inr [OF engine(6) [unfolded r] assms(3), unfolded aead]
  obtain p where p: "object_path (sha_hex ?pl) = Inr p" "dict_get (ap_objects ap') p = Some ?pl" using up by blast
  have fresh: "find (\<lambda>row. ct_object row = rc_object r) (ap_rows ap) = None"
    using engine(8) r by (force simp: find_None_iff)
  have "find (\<lambda>row. ct_object row = rc_object r) (ap_rows ap') = Some (row_of r)"
    using engine(7) r fresh by (simp add: find_append row_of_def)
  then have "holds G r ?pl ap'" using engine(2) up p aead by (simp add: holds_def object_get_Inr)
  moreover have "r = uploaded G (ai_upload io) owner (upload_name fn) body" using up by blast
  ultimately show ?thesis using engine(1,3,8) r by (auto simp: Let_def)
qed simp

text \<open>C7: Once an upload was answered, whatever requests are handled after it (more uploads that fail or
  succeed, downloads by anyone), its owner's download of the object under its name gives the body back,
  with an attestation where one is required.\<close>

theorem gateway_upload_durable:
  assumes "aead_correct (ae_aead E)" and "ed_correct (ae_ed E)" and "api_start start"
    and "requests_ok (before @ later)" and "upload_ok (ai_upload io)" and "\<forall>i fs. (i, GDisk fs) \<notin> set later"
    and "api_upload E io h fn body (api_run E before start) = (Inr (JObj d), ap)"
    and "no_collision (payloads E ((io, GUpload h fn body) # later))"
    and "attest_needed E \<longrightarrow> (\<exists>a. att = Some a \<and> a \<noteq> [])"
  shows "\<exists>oid. dict_get d ''object_id'' = Some (JStr oid) \<and>
     fst (api_download E io' h oid (upload_name fn) att (api_run E later ap)) = Inr body"
proof -
  have ok: "requests_ok before" "requests_ok later" using assms(4) by (auto simp: requests_ok_def)
  note inv = api_inv_run [OF assms(3) ok(1), of E]
  obtain G owner where g: "api_authorize E h = Inr owner" "engine_ok E G"
    and r: "JObj d = JObj (rc_to_dict (uploaded G (ai_upload io) owner (upload_name fn) body))"
      "holds G (uploaded G (ai_upload io) owner (upload_name fn) body)
         (storage_payload (ae_aead E) (ai_upload io) owner (upload_name fn) body) ap"
    using upload_holds [OF assms(7) inv assms(5)] by (auto simp: Let_def)
  let ?r = "uploaded G (ai_upload io) owner (upload_name fn) body"
  let ?pl = "storage_payload (ae_aead E) (ai_upload io) owner (upload_name fn) body"
  have inv': "api_inv E (before @ [(io, GUpload h fn body)]) ap"
    using api_inv_step [OF inv assms(5), of "GUpload h fn body"] assms(7) by simp
  have "payloads E ((io, GUpload h fn body) # later) = insert ?pl (payloads E later)"
    using g(1) by (simp add: payloads_def uploads_def)
  then have h: "holds G ?r ?pl (api_run E later ap)"
    using holds_run [OF r(2) inv' ok(2) assms(6)] assms(8) by simp
  have dl: "storage_download G ?r owner (upload_name fn) att (ap_objects (api_run E later ap)) = Inr body"
    using h g(2) assms(1,2,5,9)
    by (intro download_uploaded) (auto simp: holds_def engine_ok_def upload_ok_def attested_def)
  have "services E (ai_fresh io') (ai_race io') (api_run E later ap) = (Inr G, api_run E later ap)"
    using h by (simp add: services_def holds_def)
  moreover have "catalog_get (rc_object ?r) (ap_rows (api_run E later ap)) = Inr (Some ?r)"
    using h by (intro catalog_get_found) (simp add: holds_def)
  ultimately have "fst (api_download E io' h (rc_object ?r) (upload_name fn) att (api_run E later ap)) = Inr body"
    using g(1) dl by (simp add: api_download_def)
  moreover have "dict_get d ''object_id'' = Some (JStr (rc_object ?r))" using r(1) by (simp only: json.inject receipt_dict_get)
  ultimately show ?thesis by blast
qed

end
