(* ===== verification/Gateway_Examples.thy ===== *)
theory Gateway_Examples
  imports Gateway_Safety
begin

text \<open>One upload to a fresh gateway of the development stage, and its download.\<close>

definition sample_api_env :: api_env where
  "sample_api_env = \<lparr>ae_principals = None, ae_stage = None, ae_master = Some (generate_master_key (replicate 32 7)),
     ae_require = None, ae_ed = sample_ed, ae_aead = sample_aead\<rparr>"

definition sample_api_io :: api_io where
  "sample_api_io = \<lparr>ai_fresh = replicate 32 3, ai_race = None,
     ai_upload = \<lparr>up_data_key = replicate 32 5, up_nonce = replicate 12 1, up_wrap_nonce = replicate 12 2,
       up_tmp = ''t'', up_now = ''2026'', up_fault = NoFault\<rparr>\<rparr>"

definition sample_bearer :: "string option" where
  "sample_bearer = Some ''Bearer development-token''"

definition sample_api :: api where
  "sample_api = \<lparr>ap_root = [], ap_objects = [], ap_rows = [], ap_engine = None\<rparr>"

lemma sample_api_owner: "api_authorize sample_api_env sample_bearer = Inr ''development-owner''"
proof -
  have "loads ''{}'' = Some (JObj [])" by code_simp
  then show ?thesis
    by (simp add: api_authorize_def sample_bearer_def sample_api_env_def principals_def text_default_def dict_get_def
        dict_set_def starts_with_def)
qed

lemma sample_upload_ok: "upload_ok (ai_upload sample_api_io)"
proof -
  have "object_path oid \<noteq> Inr ''t''" for oid using object_path_end [of oid "''t''"] by (auto simp: object_path_def)
  then show ?thesis by (simp add: upload_ok_def sample_api_io_def)
qed

lemma generate_master_key_not_empty: "generate_master_key (replicate 32 7) \<noteq> []"
  by code_simp

text \<open>The state after the upload.\<close>

lemma sample_api_upload:
  "\<exists>d ap p pl. api_upload sample_api_env sample_api_io sample_bearer (Some ''f'') [1, 2, 3] sample_api = (Inr (JObj d), ap) \<and>
     ap_objects ap = [(p, pl)] \<and>
     payloads sample_api_env [(sample_api_io, GUpload sample_bearer (Some ''f'') [1, 2, 3])] = {pl}"
proof -
  let ?G = "\<lparr>sg_ed = sample_ed, sg_aead = sample_aead, sg_keys = \<lparr>kp_master = replicate 32 7, kp_require = False\<rparr>,
    sg_sk = replicate 32 3\<rparr>"
  let ?pl = "storage_payload sample_aead (ai_upload sample_api_io) ''development-owner'' ''f'' [1, 2, 3]"
  obtain p where p: "object_path (sha_hex ?pl) = Inr p" using sha_hex_object by blast
  then have np: "p \<noteq> ''t''" using sample_upload_ok by (auto simp: upload_ok_def sample_api_io_def)
  have s: "services sample_api_env (replicate 32 3) None sample_api =
      (Inr ?G, sample_api\<lparr>ap_root := [(''receipt-signing.key'', replicate 32 3)], ap_engine := Some ?G\<rparr>)"
    using generate_master_key_not_empty b64_urlsafe_roundtrip [of "replicate 32 7"]
    by (simp add: services_def sample_api_def sample_api_env_def text_default_def load_or_create_def provider_from_env_def
        local_key_provider_def generate_master_key_def dict_get_def dict_set_def Let_def lower_char_def)
  have "atomic_put NoFault ''t'' p ?pl [] = (Inr (), [(p, ?pl)])"
    using np by (simp add: atomic_put_def atomic_calls_def dict_set_def dict_del_def dict_get_def)
  then have "\<exists>r. storage_upload ?G (ai_upload sample_api_io) ''development-owner'' ''f'' [1, 2, 3] [] = (Inr r, [(p, ?pl)])"
    using p by (simp add: storage_upload_def object_put_def Let_def sample_api_io_def)
  then obtain r where up: "storage_upload ?G (ai_upload sample_api_io) ''development-owner'' ''f'' [1, 2, 3] [] = (Inr r, [(p, ?pl)])"
    by blast
  have pay: "payloads sample_api_env [(sample_api_io, GUpload sample_bearer (Some ''f'') [1, 2, 3])] = {?pl}"
    using sample_api_owner by (simp add: payloads_def uploads_def upload_name_def text_default_def sample_api_env_def)
  have "ai_fresh sample_api_io = replicate 32 3" "ai_race sample_api_io = None" by (simp_all add: sample_api_io_def)
  then show ?thesis using pay s up sample_api_owner
    by (simp add: api_upload_def upload_name_def text_default_def catalog_add_def sample_api_def)
qed

theorem gateway_upload_durable_witness:
  "\<exists>d ap oid. api_upload sample_api_env sample_api_io sample_bearer (Some ''f'') [1, 2, 3] sample_api = (Inr (JObj d), ap) \<and>
     dict_get d ''object_id'' = Some (JStr oid) \<and>
     fst (api_download sample_api_env sample_api_io sample_bearer oid ''f'' None
       (api_run sample_api_env [(sample_api_io, GRoot sample_bearer 5)] ap)) = Inr [1, 2, 3]"
proof -
  obtain d ap p pl where up: "api_upload sample_api_env sample_api_io sample_bearer (Some ''f'') [1, 2, 3] sample_api = (Inr (JObj d), ap)"
    and pay: "payloads sample_api_env [(sample_api_io, GUpload sample_bearer (Some ''f'') [1, 2, 3])] = {pl}"
    using sample_api_upload by blast
  have pay2: "payloads sample_api_env [(sample_api_io, GUpload sample_bearer (Some ''f'') [1, 2, 3]), (sample_api_io, GRoot sample_bearer 5)] = {pl}"
    using pay by (simp add: payloads_def uploads_def)
  have "\<exists>oid. dict_get d ''object_id'' = Some (JStr oid) \<and>
     fst (api_download sample_api_env sample_api_io sample_bearer oid (upload_name (Some ''f'')) None
       (api_run sample_api_env [(sample_api_io, GRoot sample_bearer 5)] ap)) = Inr [1, 2, 3]"
    by (rule gateway_upload_durable [where before = "[]" and start = sample_api, OF _ _ _ _ sample_upload_ok])
      (use up pay2 sample_upload_ok in \<open>simp_all add: sample_api_env_def sample_api_def api_start_def requests_ok_def
        attest_needed_def text_default_def lower_char_def\<close>)
  with up show ?thesis by (auto simp: upload_name_def text_default_def)
qed

lemma sample_api_download:
  assumes "api_upload sample_api_env sample_api_io sample_bearer (Some ''f'') [1, 2, 3] sample_api = (Inr (JObj d), ap)"
  shows "\<exists>oid ap'. api_download sample_api_env sample_api_io sample_bearer oid ''f'' None ap = (Inr [1, 2, 3], ap')"
proof -
  have inv: "api_inv sample_api_env [] sample_api" by (simp add: api_inv_def sample_api_def)
  have nm: "upload_name (Some ''f'') = ''f''" by (simp add: upload_name_def text_default_def)
  obtain G where g: "engine_ok sample_api_env G"
      "holds G (uploaded G (ai_upload sample_api_io) ''development-owner'' ''f'' [1, 2, 3])
         (storage_payload sample_aead (ai_upload sample_api_io) ''development-owner'' ''f'' [1, 2, 3]) ap"
    using upload_holds [OF assms inv sample_upload_ok] sample_api_owner nm
    by (auto simp: Let_def sample_api_env_def)
  let ?r = "uploaded G (ai_upload sample_api_io) ''development-owner'' ''f'' [1, 2, 3]"
  have eng: "sg_aead G = sample_aead" "sg_ed G = sample_ed" "\<not> kp_require (sg_keys G)"
    using g(1) by (simp_all add: engine_ok_def sample_api_env_def attest_needed_def text_default_def lower_char_def)
  have "storage_download G ?r ''development-owner'' ''f'' None (ap_objects ap) = Inr [1, 2, 3]"
    using g(2) eng sample_upload_ok by (intro download_uploaded) (auto simp: holds_def upload_ok_def attested_def)
  moreover have "catalog_get (rc_object ?r) (ap_rows ap) = Inr (Some ?r)"
    using g(2) by (intro catalog_get_found) (simp add: holds_def)
  moreover have "services sample_api_env (ai_fresh sample_api_io) (ai_race sample_api_io) ap = (Inr G, ap)"
    using g(2) by (simp add: services_def holds_def)
  ultimately have "api_download sample_api_env sample_api_io sample_bearer (rc_object ?r) ''f'' None ap = (Inr [1, 2, 3], ap)"
    using sample_api_owner by (simp add: api_download_def)
  then show ?thesis by blast
qed

theorem gateway_download_authentic_witness:
  "\<exists>rs oid ap'. api_download sample_api_env sample_api_io sample_bearer oid ''f'' None (api_run sample_api_env rs sample_api) =
       (Inr [1, 2, 3], ap') \<and>
     (\<exists>io' h' fn. (io', GUpload h' fn [1, 2, 3]) \<in> set rs \<and> api_authorize sample_api_env h' = Inr ''development-owner'')"
proof -
  let ?rs = "[(sample_api_io, GUpload sample_bearer (Some ''f'') [1, 2, 3])]"
  obtain d ap p pl where up: "api_upload sample_api_env sample_api_io sample_bearer (Some ''f'') [1, 2, 3] sample_api = (Inr (JObj d), ap)"
    and disk: "ap_objects ap = [(p, pl)]" and pay: "payloads sample_api_env ?rs = {pl}"
    using sample_api_upload by blast
  have run: "api_run sample_api_env ?rs sample_api = ap" using up by simp
  obtain oid ap' where dl: "api_download sample_api_env sample_api_io sample_bearer oid ''f'' None (api_run sample_api_env ?rs sample_api) = (Inr [1, 2, 3], ap')"
    using sample_api_download [OF up] run by metis
  have col: "no_collision (set (map snd (ap_objects (api_run sample_api_env ?rs sample_api))) \<union> payloads sample_api_env ?rs)"
    unfolding run pay by (simp add: disk)
  have "\<exists>io' h' fn. (io', GUpload h' fn [1, 2, 3]) \<in> set ?rs \<and> api_authorize sample_api_env h' = api_authorize sample_api_env sample_bearer \<and>
      sha_hex (utf8_encode (upload_name fn)) = sha_hex (utf8_encode ''f'')"
    by (rule gateway_download_authentic [OF _ _ _ _ dl col])
      (use sample_upload_ok in \<open>simp_all add: sample_api_env_def sample_api_def api_start_def requests_ok_def\<close>)
  then show ?thesis using dl sample_api_owner by fastforce
qed

end
