(* ===== verification/Weight_Vault.thy ===== *)
theory Weight_Vault
  imports File_System Py_Convert Sha256
begin

text \<open>
  The external weight vault, \<open>decillion/vault.py\<close>. The disk below the vault's root is a dictionary from
  paths, lists of components, to nodes; renaming a directory renames every path below it. The git test,
  the free space, the clock, random names and failing system calls are arguments.
\<close>

section \<open>The disk\<close>

text \<open>A link leads to a regular file with the given contents, or nowhere.\<close>

datatype node = FFile bytes | FDir | FLink "bytes option"

type_synonym wpath = "string list"
type_synonym disk = "(wpath, node) dict"

definition path_exists :: "disk \<Rightarrow> wpath \<Rightarrow> bool" where
  "path_exists d p = (case dict_get d p of None \<Rightarrow> False | Some (FLink None) \<Rightarrow> False | Some _ \<Rightarrow> True)"

fun node_file :: "node \<Rightarrow> bytes option" where
  "node_file (FFile bs) = Some bs"
| "node_file FDir = None"
| "node_file (FLink t) = t"

text \<open>\<open>read_text\<close> and \<open>is_file\<close> follow links.\<close>

definition read_file :: "disk \<Rightarrow> wpath \<Rightarrow> bytes option" where
  "read_file d p = Option.bind (dict_get d p) node_file"

definition below :: "wpath \<Rightarrow> wpath \<Rightarrow> bool" where
  "below base p \<longleftrightarrow> starts_with base p \<and> p \<noteq> base"

text \<open>\<open>sorted(base.rglob("*"))\<close>, relative to \<open>base\<close>: paths compare component by component.\<close>

definition rglob :: "wpath \<Rightarrow> disk \<Rightarrow> (wpath \<times> node) list" where
  "rglob base d = sort_key fst (map (\<lambda>(p, n). (drop (length base) p, n)) (filter (\<lambda>(p, n). below base p) d))"

definition rename_tree :: "wpath \<Rightarrow> wpath \<Rightarrow> disk \<Rightarrow> disk" where
  "rename_tree old new d = map (\<lambda>(p, n). (if starts_with old p then new @ drop (length old) p else p, n)) d"

definition rmtree :: "wpath \<Rightarrow> disk \<Rightarrow> disk" where
  "rmtree base d = filter (\<lambda>(p, n). \<not> starts_with base p) d"

text \<open>\<open>mkdir(parents=True, exist_ok=True)\<close>, given the directory and its parents from the top.\<close>

fun mkdirs :: "wpath list \<Rightarrow> disk \<Rightarrow> unit result \<times> disk" where
  "mkdirs [] d = (Inr (), d)"
| "mkdirs (p # ps) d =
     (case dict_get d p of
        None \<Rightarrow> mkdirs ps (dict_set p FDir d)
      | Some FDir \<Rightarrow> mkdirs ps d
      | Some _ \<Rightarrow> (Inl (FileExistsError ''mkdir''), d))"

definition path_and_parents :: "wpath \<Rightarrow> wpath list" where
  "path_and_parents p = map (\<lambda>n. take (Suc n) p) [0..<length p]"

definition mkdir_new :: "wpath \<Rightarrow> disk \<Rightarrow> unit result \<times> disk" where
  "mkdir_new p d = (if dict_get d p = None then (Inr (), dict_set p FDir d) else (Inl (FileExistsError ''mkdir''), d))"

section \<open>JSON files\<close>

definition json_file :: "json \<Rightarrow> bytes" where
  "json_file v = utf8_encode (dumps pretty (sort_keys v)) @ [10]"

definition atomic_json :: "io_fault \<Rightarrow> wpath \<Rightarrow> wpath \<Rightarrow> json \<Rightarrow> disk \<Rightarrow> unit result \<times> disk" where
  "atomic_json fault tmp p v d =
     (let finally_unlink = (\<lambda>s. if path_exists s tmp then dict_del tmp s else s);
          created = dict_set tmp (FFile []) d;
          written = dict_set tmp (FFile (json_file v)) created
      in case fault of
           FailWrite n \<Rightarrow> (Inl (OSError ''write''), finally_unlink (dict_set tmp (FFile (take n (json_file v))) created))
         | FailRename \<Rightarrow> (Inl (OSError ''replace''), finally_unlink written)
         | NoFault \<Rightarrow>
             if dict_get d p = Some FDir then (Inl (OSError ''replace''), finally_unlink written)
             else (Inr (), finally_unlink (dict_set p (FFile (json_file v)) (dict_del tmp written))))"

text \<open>\<open>json.loads(path.read_text())\<close> of a file's bytes.\<close>

definition loads_bytes :: "bytes \<Rightarrow> json result" where
  "loads_bytes bs = (case utf8_decode bs of
       None \<Rightarrow> Inl (ValueError ''UnicodeDecodeError'')
     | Some t \<Rightarrow> (case loads t of None \<Rightarrow> Inl (ValueError ''JSONDecodeError'') | Some v \<Rightarrow> Inr v))"

text \<open>A number compared with an integer, as \<open>==\<close> does.\<close>

definition eq_int :: "json option \<Rightarrow> int \<Rightarrow> bool" where
  "eq_int v n \<longleftrightarrow> Option.bind v py_num = Some (of_int n)"

section \<open>Opening\<close>

definition marker :: string where "marker = ''.decillion-vault.json''"
definition manifest_name :: string where "manifest_name = ''decillion-manifest.json''"
definition format_version :: int where "format_version = 1"

record weight_vault =
  wv_root :: string
  wv_config :: "(string, json) dict"

definition wv_new :: "string \<Rightarrow> json \<Rightarrow> weight_vault result" where
  "wv_new home config =
     (case config of
        JObj c \<Rightarrow>
          if eq_int (dict_get c ''format_version'') format_version then Inr \<lparr>wv_root = home, wv_config = c\<rparr>
          else Inl (VaultError ''unsupported or missing vault format version'')
      | _ \<Rightarrow> Inl AttributeError)"

definition wv_open :: "string \<Rightarrow> disk \<Rightarrow> weight_vault result" where
  "wv_open home d =
     (case read_file d [marker] of
        None \<Rightarrow> Inl (VaultError (''vault is not initialized: '' @ home))
      | Some bs \<Rightarrow>
          (case loads_bytes bs of
             Inl e \<Rightarrow> Inl (if e = ValueError ''JSONDecodeError'' then VaultError ''vault marker is unreadable'' else e)
           | Inr config \<Rightarrow> wv_new home config))"

record wv_io =
  wi_git :: bool
  wi_fault :: io_fault
  wi_tmp :: wpath
  wi_uuid :: string
  wi_now :: string

definition wv_initialize :: "wv_io \<Rightarrow> string \<Rightarrow> int \<Rightarrow> int \<Rightarrow> disk \<Rightarrow> weight_vault result \<times> disk" where
  "wv_initialize io home quota reserve d =
     (if quota < 0 \<or> reserve < 0 then (Inl (VaultError ''quota and reserve must be non-negative''), d)
      else if wi_git io then (Inl (VaultError ''model vault must be outside every Git working tree''), d)
      else if path_exists d [marker] then (wv_open home d, d)
      else
        (let config = JObj [(''format_version'', JInt format_version), (''vault_id'', JStr (wi_uuid io)),
               (''created_at'', JStr (wi_now io)), (''quota_bytes'', JInt quota), (''reserve_bytes'', JInt reserve)] in
         (case atomic_json (wi_fault io) (wi_tmp io) [marker] config d of
            (Inl e, d1) \<Rightarrow> (Inl e, d1)
          | (Inr _, d1) \<Rightarrow>
              (case mkdir_new [''models''] d1 of
                 (Inl e, d2) \<Rightarrow> (Inl e, d2)
               | (Inr _, d2) \<Rightarrow>
                   (case mkdir_new [''.staging''] d2 of
                      (Inl e, d3) \<Rightarrow> (Inl e, d3)
                    | (Inr _, d3) \<Rightarrow>
                        (case mkdir_new [''.locks''] d3 of
                           (Inl e, d4) \<Rightarrow> (Inl e, d4)
                         | (Inr _, d4) \<Rightarrow> (wv_new home config, d4)))))))"

section \<open>Paths\<close>

definition alnum :: "char \<Rightarrow> bool" where
  "alnum c \<longleftrightarrow> (48 \<le> code c \<and> code c \<le> 57) \<or> (65 \<le> code c \<and> code c \<le> 90) \<or> (97 \<le> code c \<and> code c \<le> 122)"

definition component_ok :: "string \<Rightarrow> bool" where
  "component_ok s \<longleftrightarrow> (case s of
       [] \<Rightarrow> False
     | c # cs \<Rightarrow> alnum c \<and> length cs \<le> 127 \<and> list_all (\<lambda>x. alnum x \<or> x \<in> set ''._-'') cs)"

definition safe_component :: "string \<Rightarrow> string result" where
  "safe_component s =
     (if component_ok s then Inr s else Inl (VaultError (''unsafe model path component: '' @ str_repr s)))"

text \<open>\<open>str.split\<close> with a separator of one character.\<close>

fun split_on :: "char \<Rightarrow> string \<Rightarrow> string list" where
  "split_on x [] = [[]]"
| "split_on x (c # cs) =
     (if c = x then [] # split_on x cs
      else (case split_on x cs of [] \<Rightarrow> [[c]] | p # ps \<Rightarrow> (c # p) # ps))"

definition snapshot_path :: "string \<Rightarrow> string \<Rightarrow> wpath result" where
  "snapshot_path model_id revision =
     (case split_on (CHR ''/'') model_id of
        [organization, name] \<Rightarrow>
          bindR (safe_component organization) (\<lambda>o'. bindR (safe_component name) (\<lambda>n'.
          bindR (safe_component revision) (\<lambda>r. Inr [''models'', o', n', r])))
      | _ \<Rightarrow> Inl (VaultError ''model ID must use organization/name form''))"

section \<open>Capacity\<close>

record vault_status =
  vs_root :: string
  vs_id :: string
  vs_quota :: int
  vs_reserve :: int
  vs_used :: int
  vs_free :: int
  vs_snapshots :: int

definition used_bytes :: "disk \<Rightarrow> int" where
  "used_bytes d =
     sum_list (map (\<lambda>(p, n). case node_file n of None \<Rightarrow> 0 | Some bs \<Rightarrow> int (length bs)) (rglob [''models''] d))"

definition wv_status :: "weight_vault \<Rightarrow> int \<Rightarrow> disk \<Rightarrow> vault_status result" where
  "wv_status V free d =
     (case dict_get (wv_config V) ''vault_id'' of
        None \<Rightarrow> Inl KeyError
      | Some vid \<Rightarrow>
          bindR (py_int (dict_get_default (wv_config V) ''quota_bytes'' (JInt 0))) (\<lambda>quota.
          bindR (py_int (dict_get_default (wv_config V) ''reserve_bytes'' (JInt 0))) (\<lambda>reserve.
            Inr \<lparr>vs_root = wv_root V, vs_id = py_str vid, vs_quota = quota, vs_reserve = reserve,
                 vs_used = used_bytes d, vs_free = free,
                 vs_snapshots = int (length (filter (\<lambda>(p, n). last p = manifest_name \<and> n \<noteq> FLink None) (rglob [''models''] d)))\<rparr>)))"

definition require_capacity :: "weight_vault \<Rightarrow> int \<Rightarrow> int \<Rightarrow> disk \<Rightarrow> unit result" where
  "require_capacity V free expected d =
     (if expected < 0 then Inl (VaultError ''expected size must be non-negative'')
      else bindR (wv_status V free d) (\<lambda>status.
        if vs_quota status \<noteq> 0 \<and> vs_quota status < vs_used status + expected
          then Inl (VaultError ''download would exceed vault quota'')
        else if vs_free status < expected + vs_reserve status
          then Inl (VaultError ''download would violate free-space reserve'')
        else Inr ()))"

section \<open>Download slots\<close>

definition slot_key :: "string \<Rightarrow> string \<Rightarrow> string" where
  "slot_key model_id revision = sha_hex (utf8_encode (model_id @ ''@'' @ revision))"

definition lock_path :: "string \<Rightarrow> string \<Rightarrow> wpath" where
  "lock_path model_id revision = [''.locks'', slot_key model_id revision @ ''.lock'']"

text \<open>Entering the slot: the suffix is the random part of \<open>mkdtemp\<close>, and \<open>mk_fails\<close> says it raises.\<close>

definition slot_enter :: "string \<Rightarrow> bool \<Rightarrow> string \<Rightarrow> string \<Rightarrow> disk \<Rightarrow> wpath result \<times> disk" where
  "slot_enter suffix mk_fails model_id revision d =
     (if dict_get d [''.locks''] \<noteq> Some FDir then (Inl FileNotFoundError, d)
      else if dict_get d (lock_path model_id revision) \<noteq> None
        then (Inl (VaultError ''this model revision is already being downloaded''), d)
      else
        (let d1 = dict_set (lock_path model_id revision) (FFile []) d;
             staging = [''.staging'', take 12 (slot_key model_id revision) @ ''-'' @ suffix] in
         if mk_fails \<or> dict_get d [''.staging''] \<noteq> Some FDir then (Inl (OSError ''mkdtemp''), d1)
         else (Inr staging, dict_set staging FDir d1)))"

definition slot_exit :: "wpath \<Rightarrow> string \<Rightarrow> string \<Rightarrow> disk \<Rightarrow> disk" where
  "slot_exit staging model_id revision d = dict_del (lock_path model_id revision) (rmtree staging d)"

section \<open>Inventories and snapshots\<close>

type_synonym inventory = "(string \<times> int \<times> string) list"

definition posix :: "wpath \<Rightarrow> string" where
  "posix p = join ''/'' p"

fun inventory_loop :: "string \<Rightarrow> (wpath \<times> node) list \<Rightarrow> inventory result" where
  "inventory_loop base [] = Inr []"
| "inventory_loop base ((p, n) # rest) =
     (case n of
        FLink _ \<Rightarrow> Inl (VaultError (''symbolic links are not allowed in snapshots: '' @ base @ ''/'' @ posix p))
      | FDir \<Rightarrow> inventory_loop base rest
      | FFile bs \<Rightarrow>
          if last p = manifest_name then inventory_loop base rest
          else bindR (inventory_loop base rest) (\<lambda>files. Inr ((posix p, int (length bs), sha_hex bs) # files)))"

definition inventory_total :: "inventory \<Rightarrow> int" where
  "inventory_total fs = sum_list (map (\<lambda>(p, n, h). n) fs)"

definition inventory :: "weight_vault \<Rightarrow> wpath \<Rightarrow> disk \<Rightarrow> inventory result" where
  "inventory V base d = inventory_loop (wv_root V @ ''/'' @ posix base) (rglob base d)"

definition inventory_json :: "inventory \<Rightarrow> json" where
  "inventory_json fs = JArr (map (\<lambda>(p, n, h). JObj [(''path'', JStr p), (''size'', JInt n), (''sha256'', JStr h)]) fs)"

text \<open>\<open>files == manifest.get("files")\<close>: a list of dictionaries, compared member by member.\<close>

fun entry_eq :: "string \<times> int \<times> string \<Rightarrow> json \<Rightarrow> bool" where
  "entry_eq (p, n, h) (JObj e) =
     (length e = 3 \<and> dict_get e ''path'' = Some (JStr p) \<and> eq_int (dict_get e ''size'') n \<and>
      dict_get e ''sha256'' = Some (JStr h))"
| "entry_eq _ _ = False"

definition inventory_eq :: "inventory \<Rightarrow> json option \<Rightarrow> bool" where
  "inventory_eq fs v = (case v of Some (JArr es) \<Rightarrow> list_all2 entry_eq fs es | _ \<Rightarrow> False)"

definition wv_verify :: "weight_vault \<Rightarrow> string \<Rightarrow> string \<Rightarrow> disk \<Rightarrow> (string, json) dict result" where
  "wv_verify V model_id revision d =
     bindR (snapshot_path model_id revision) (\<lambda>target.
       (case read_file d (target @ [manifest_name]) of
          None \<Rightarrow> Inl (IntegrityError ''model manifest is missing'')
        | Some bs \<Rightarrow>
            (case loads_bytes bs of
               Inl e \<Rightarrow> Inl (if e = ValueError ''JSONDecodeError'' then IntegrityError ''model manifest is unreadable'' else e)
             | Inr v \<Rightarrow>
                 bindR (inventory V target d) (\<lambda>files.
                   (case v of
                      JObj m \<Rightarrow>
                        if \<not> inventory_eq files (dict_get m ''files'') \<or> \<not> eq_int (dict_get m ''total_bytes'') (inventory_total files)
                          then Inl (IntegrityError ''model snapshot failed SHA-256 inventory verification'')
                        else if dict_get m ''model_id'' \<noteq> Some (JStr model_id) \<or> dict_get m ''revision'' \<noteq> Some (JStr revision)
                          then Inl (IntegrityError ''model manifest identity does not match its path'')
                        else Inr m
                    | _ \<Rightarrow> Inl AttributeError)))))"

definition snapshot_manifest :: "string \<Rightarrow> string \<Rightarrow> string \<Rightarrow> string \<Rightarrow> inventory \<Rightarrow> (string, json) dict" where
  "snapshot_manifest model_id revision license now files =
     [(''format_version'', JInt format_version), (''model_id'', JStr model_id), (''revision'', JStr revision),
      (''license'', JStr license), (''created_at'', JStr now), (''total_bytes'', JInt (inventory_total files)),
      (''files'', inventory_json files)]"

record commit_io =
  co_free :: int
  co_fault :: io_fault
  co_tmp :: string
  co_now :: string

definition commit_snapshot ::
    "weight_vault \<Rightarrow> commit_io \<Rightarrow> wpath \<Rightarrow> string \<Rightarrow> string \<Rightarrow> string \<Rightarrow> disk \<Rightarrow> (string, json) dict result \<times> disk" where
  "commit_snapshot V io staging model_id revision license d =
     (case snapshot_path model_id revision of
        Inl e \<Rightarrow> (Inl e, d)
      | Inr target \<Rightarrow>
          if path_exists d target then (wv_verify V model_id revision d, d)
          else (case inventory V staging d of
              Inl e \<Rightarrow> (Inl e, d)
            | Inr files \<Rightarrow>
                if files = [] then (Inl (VaultError ''refusing to commit an empty model snapshot''), d)
                else (case require_capacity V (co_free io) (inventory_total files) d of
                    Inl e \<Rightarrow> (Inl e, d)
                  | Inr _ \<Rightarrow>
                      (let m = snapshot_manifest model_id revision license (co_now io) files in
                       (case atomic_json (co_fault io) (staging @ [co_tmp io]) (staging @ [manifest_name]) (JObj m) d of
                          (Inl e, d1) \<Rightarrow> (Inl e, d1)
                        | (Inr _, d1) \<Rightarrow>
                            (case mkdirs (path_and_parents (butlast target)) d1 of
                               (Inl e, d2) \<Rightarrow> (Inl e, d2)
                             | (Inr _, d2) \<Rightarrow>
                                 if dict_get d2 target \<noteq> None then (Inl (OSError ''replace''), d2)
                                 else (Inr m, rename_tree staging target d2)))))))"

end
