(* ===== verification/Model_Mirror.thy ===== *)
theory Model_Mirror
  imports Weight_Vault Manifest
begin

text \<open>
  License-gated discovery and mirroring, \<open>decillion/models.py\<close>. The Hugging Face hub is a parameter: what
  it says of a model, and the nodes a download puts below the directory it is given, with the exception
  it may end in.
\<close>

section \<open>Licenses\<close>

definition license_aliases :: "(string, string) dict" where
  "license_aliases = [(''mit'', ''mit''), (''apache-2.0'', ''apache-2.0''), (''apache 2.0'', ''apache-2.0'')]"

definition normalize_license :: "json \<Rightarrow> string result" where
  "normalize_license value =
     (case (if truthy value then value else JStr ''unknown'') of
        JStr s \<Rightarrow> (let raw = map lower_latin (strip s) in Inr (dict_get_default license_aliases raw raw))
      | _ \<Rightarrow> Inl AttributeError)"

definition require_license :: "json \<Rightarrow> string \<Rightarrow> string result" where
  "require_license actual expected =
     bindR (normalize_license actual) (\<lambda>a. bindR (normalize_license (JStr expected)) (\<lambda>e.
       if a \<noteq> e then Inl (LicensePolicyError (''model license '' @ str_repr a @ '' does not match required '' @ str_repr e))
       else Inr a))"

section \<open>The hub\<close>

text \<open>A sibling has its size and the size its LFS entry gives, either of which may be missing.\<close>

record model_info =
  mi_id :: string
  mi_sha :: "string option"
  mi_license :: json
  mi_downloads :: "int option"
  mi_siblings :: "(int option \<times> int option) list"

record hub =
  hub_list :: "string \<Rightarrow> int \<Rightarrow> model_info list"
  hub_info :: "string \<Rightarrow> bool \<Rightarrow> model_info result"
  hub_snapshot :: "string \<Rightarrow> string \<Rightarrow> string list option \<Rightarrow> (wpath \<times> node) list \<times> pyexn option"

record model_record =
  mx_model :: string
  mx_revision :: "string option"
  mx_license :: string
  mx_downloads :: int
  mx_discovered :: string

definition discover :: "hub \<Rightarrow> (nat \<Rightarrow> string) \<Rightarrow> string \<Rightarrow> int \<Rightarrow> model_record list result" where
  "discover H now license_name limit =
     mapR (\<lambda>(i, model). bindR (require_license (mi_license model) license_name) (\<lambda>verified.
         Inr \<lparr>mx_model = mi_id model, mx_revision = mi_sha model, mx_license = verified,
              mx_downloads = (case mi_downloads model of None \<Rightarrow> 0 | Some n \<Rightarrow> n), mx_discovered = now i\<rparr>))
       (enumerate 0 (hub_list H (''license:'' @ license_name) limit))"

definition sibling_size :: "int option \<times> int option \<Rightarrow> int" where
  "sibling_size s = (case s of (Some n, _) \<Rightarrow> n | (None, Some n) \<Rightarrow> n | (None, None) \<Rightarrow> 0)"

definition expected_size :: "model_info \<Rightarrow> int" where
  "expected_size info = sum_list (map sibling_size (mi_siblings info))"

section \<open>Mirroring\<close>

record mirror_io =
  mo_free :: int
  mo_suffix :: string
  mo_mk_fails :: bool
  mo_commit :: commit_io

text \<open>A revision that is not text is refused by the pattern match, after the two parts of the model.\<close>

definition info_path :: "string \<Rightarrow> string option \<Rightarrow> (wpath \<times> string) result" where
  "info_path model_id sha =
     (case sha of
        Some revision \<Rightarrow> bindR (snapshot_path model_id revision) (\<lambda>p. Inr (p, revision))
      | None \<Rightarrow> bindR (snapshot_path model_id ''x'') (\<lambda>_. Inl TypeError))"

definition mirror_record :: "string \<Rightarrow> string option \<Rightarrow> string \<Rightarrow> (string, json) dict" where
  "mirror_record model_id sha verified =
     [(''model_id'', JStr model_id), (''revision'', case sha of None \<Rightarrow> JNull | Some s \<Rightarrow> JStr s),
      (''license'', JStr verified), (''downloaded_weights'', JBool False)]"

definition mirror_update ::
    "string \<Rightarrow> int \<Rightarrow> (string, json) dict \<Rightarrow> (string, json) dict \<Rightarrow> (string, json) dict result" where
  "mirror_update destination expected_bytes rec manifest =
     (case dict_get manifest ''total_bytes'' of
        None \<Rightarrow> Inl KeyError
      | Some verified_bytes \<Rightarrow>
          (case dict_get manifest ''files'' of
             None \<Rightarrow> Inl KeyError
           | Some files \<Rightarrow> bindR (py_len files) (\<lambda>n.
               Inr (dict_set ''downloaded_weights'' (JBool True) rec @
                 [(''destination'', JStr destination), (''expected_bytes'', JInt expected_bytes),
                  (''verified_bytes'', verified_bytes), (''verified_files'', JInt n)]))))"

definition mirror_slot ::
    "hub \<Rightarrow> mirror_io \<Rightarrow> weight_vault \<Rightarrow> string \<Rightarrow> string \<Rightarrow> string \<Rightarrow> string list option \<Rightarrow> disk \<Rightarrow>
      (string, json) dict result \<times> disk" where
  "mirror_slot H io V model_id revision verified patterns d =
     (case slot_enter (mo_suffix io) (mo_mk_fails io) model_id revision d of
        (Inl e, d1) \<Rightarrow> (Inl e, d1)
      | (Inr staging, d1) \<Rightarrow>
          (let (files, failed) = hub_snapshot H model_id revision patterns;
               d2 = d1 @ map (\<lambda>(p, n). (staging @ p, n)) files;
               (r, d3) = (case failed of
                   Some e \<Rightarrow> (Inl e, d2)
                 | None \<Rightarrow> commit_snapshot V (mo_commit io) staging model_id revision verified d2)
           in (r, slot_exit staging model_id revision d3)))"

definition mirror ::
    "hub \<Rightarrow> mirror_io \<Rightarrow> string \<Rightarrow> string \<Rightarrow> string \<Rightarrow> bool \<Rightarrow> string list option \<Rightarrow> disk \<Rightarrow>
      (string, json) dict result \<times> disk" where
  "mirror H io model_id expected_license destination include_weights patterns d =
     (case hub_info H model_id include_weights of
        Inl e \<Rightarrow> (Inl e, d)
      | Inr info \<Rightarrow>
          (case require_license (mi_license info) expected_license of
             Inl e \<Rightarrow> (Inl e, d)
           | Inr verified \<Rightarrow>
               (let rec = mirror_record model_id (mi_sha info) verified in
                if \<not> include_weights then (Inr rec, d)
                else (case wv_open destination d of
                    Inl e \<Rightarrow> (Inl e, d)
                  | Inr V \<Rightarrow>
                      (case require_capacity V (mo_free io) (expected_size info) d of
                         Inl e \<Rightarrow> (Inl e, d)
                       | Inr _ \<Rightarrow>
                           (case info_path model_id (mi_sha info) of
                              Inl e \<Rightarrow> (Inl e, d)
                            | Inr (target, revision) \<Rightarrow>
                                (let (r, d') = (if path_exists d target then (wv_verify V model_id revision d, d)
                                       else mirror_slot H io V model_id revision verified patterns d)
                                 in (bindR r (mirror_update (destination @ ''/'' @ posix target) (expected_size info) rec), d'))))))))"

end
