(* ===== verification/Weight_Vault_Proofs.thy ===== *)
theory Weight_Vault_Proofs
  imports Model_Mirror "HOL-Library.Multiset"
begin

text \<open>
  The disk seen as a map from paths to nodes, inventories as sets of files, and what committing,
  verifying and mirroring do to snapshots.
\<close>

section \<open>The disk as a map\<close>

text \<open>Every entry has a name, and its directory is there; component names are not empty and have no slash.\<close>

definition name_ok :: "string \<Rightarrow> bool" where
  "name_ok c \<longleftrightarrow> c \<noteq> [] \<and> CHR ''/'' \<notin> set c"

definition disk_ok :: "disk \<Rightarrow> bool" where
  "disk_ok d \<longleftrightarrow> dict_ok d \<and>
     (\<forall>p n. dict_get d p = Some n \<longrightarrow> p \<noteq> [] \<and> list_all name_ok p \<and>
        (butlast p = [] \<or> dict_get d (butlast p) = Some FDir))"

lemma disk_okD:
  assumes "disk_ok d"
  shows "dict_ok d" and "dict_get d p = Some n \<Longrightarrow> p \<noteq> []" and "dict_get d p = Some n \<Longrightarrow> list_all name_ok p"
    and "dict_get d (p @ [c]) = Some n \<Longrightarrow> p \<noteq> [] \<Longrightarrow> dict_get d p = Some FDir"
  using assms by (auto simp: disk_ok_def)

lemma disk_parent:
  assumes "disk_ok d" and "dict_get d (p @ q) = Some n" and "p \<noteq> []" and "q \<noteq> []"
  shows "dict_get d p = Some FDir"
  using assms(2,4)
proof (induction q arbitrary: n rule: rev_induct)
  case (snoc c q)
  have parent: "dict_get d (p @ q) = Some FDir"
    using disk_okD(4) [OF assms(1), of "p @ q" c n] snoc.prems(1) assms(3) by simp
  then show ?case using snoc.IH [of FDir] by (cases "q = []") auto
qed simp

lemma below_append: "below base (base @ q) \<longleftrightarrow> q \<noteq> []"
  by (simp add: below_def)

lemma below_iff: "below base p \<longleftrightarrow> (\<exists>q. q \<noteq> [] \<and> p = base @ q)"
proof
  assume b: "below base p"
  then have p: "p = base @ drop (length base) p" by (simp add: below_def starts_withD)
  moreover from p b have "drop (length base) p \<noteq> []" by (metis append_Nil2 below_def)
  ultimately show "\<exists>q. q \<noteq> [] \<and> p = base @ q" by blast
qed (auto simp: below_def)

lemma starts_with_iff: "starts_with base p \<longleftrightarrow> (\<exists>q. p = base @ q)"
  using starts_withD [of base p] by auto

lemma rglob_set:
  assumes "dict_ok d"
  shows "set (rglob base d) = {(q, n). q \<noteq> [] \<and> dict_get d (base @ q) = Some n}"
proof -
  have "x \<in> set (rglob base d) \<longleftrightarrow> fst x \<noteq> [] \<and> (base @ fst x, snd x) \<in> set d" for x
    by (cases x) (force simp: rglob_def below_iff image_iff)
  then show ?thesis using assms by (auto simp: dict_get_iff)
qed

lemma rglob_sorted: "sorted (map fst (rglob base d))"
  by (simp add: rglob_def)

lemma rglob_distinct:
  assumes "dict_ok d"
  shows "distinct (map fst (rglob base d))"
proof -
  have "distinct (map (\<lambda>(p, n). drop (length base) p) (filter (\<lambda>(p, n). below base p) d))"
    using assms
  proof (induction d)
    case (Cons x d)
    have "drop (length base) (fst x) \<noteq> drop (length base) (fst y)" if "below base (fst x)" "below base (fst y)" "y \<in> set d" for y
      using that Cons.prems by (force simp: below_iff)
    with Cons show ?case by (auto simp: split_beta)
  qed simp
  then have "distinct (map fst (map (\<lambda>(p, n). (drop (length base) p, n)) (filter (\<lambda>(p, n). below base p) d)))"
    by (simp add: comp_def split_beta cong: map_cong)
  moreover have "mset (map fst (sort_key fst xs)) = mset (map fst xs)" for xs :: "(wpath \<times> node) list"
    by simp
  ultimately show ?thesis unfolding rglob_def by (metis mset_eq_imp_distinct_iff)
qed


text \<open>A filtered listing is determined by the set it lists.\<close>

lemma listing_unique:
  fixes xs ys :: "(wpath \<times> node) list"
  assumes "sorted (map fst xs)" and "distinct (map fst xs)" and "sorted (map fst ys)" and "distinct (map fst ys)"
    and "set xs = set ys"
  shows "xs = ys"
proof (rule map_sorted_distinct_set_unique [OF _ assms(1,2,3,4,5)])
  show "inj_on fst (set xs \<union> set ys)" using assms(2,5) by (simp add: distinct_map)
qed

lemma filter_rglob_unique:
  assumes "dict_ok d" and "dict_ok d'"
    and "\<And>q n. q \<noteq> [] \<Longrightarrow> P (q, n) \<Longrightarrow> dict_get d (b @ q) = Some n \<longleftrightarrow> dict_get d' (b' @ q) = Some n"
  shows "filter P (rglob b d) = filter P (rglob b' d')"
proof (rule listing_unique)
  show "set (filter P (rglob b d)) = set (filter P (rglob b' d'))"
    using assms(3) by (auto simp: rglob_set [OF assms(1)] rglob_set [OF assms(2)])
qed (use rglob_sorted rglob_distinct assms(1,2) in \<open>auto simp: sorted_filter distinct_map_filter\<close>)

section \<open>Inventories\<close>

fun counted :: "wpath \<times> node \<Rightarrow> bool" where
  "counted (p, FFile bs) = (last p \<noteq> manifest_name)"
| "counted _ = False"

fun is_link :: "wpath \<times> node \<Rightarrow> bool" where
  "is_link (p, FLink t) = True"
| "is_link _ = False"

fun entry_of :: "wpath \<times> node \<Rightarrow> string \<times> int \<times> string" where
  "entry_of (p, FFile bs) = (posix p, int (length bs), sha_hex bs)"
| "entry_of (p, _) = (posix p, 0, [])"

lemma inventory_loop_eq:
  "inventory_loop t xs = Inr fs \<longleftrightarrow> filter is_link xs = [] \<and> fs = map entry_of (filter counted xs)"
  by (induction t xs arbitrary: fs rule: inventory_loop.induct)
    (auto simp: bindR_Inr_iff split: node.split)

lemma inventory_Inr:
  "inventory V base d = Inr fs \<longleftrightarrow> filter is_link (rglob base d) = [] \<and> fs = map entry_of (filter counted (rglob base d))"
  by (simp add: inventory_def inventory_loop_eq)

lemma is_link_iff: "is_link x \<longleftrightarrow> (\<exists>q t. x = (q, FLink t))"
  by (cases x rule: is_link.cases) auto

lemma no_links_iff:
  "dict_ok d \<Longrightarrow> filter is_link (rglob base d) = [] \<longleftrightarrow> (\<forall>q t. q \<noteq> [] \<longrightarrow> dict_get d (base @ q) \<noteq> Some (FLink t))"
  unfolding filter_empty_conv is_link_iff by (simp add: rglob_set) blast

text \<open>The regular files of a snapshot, by their relative paths, other than the manifests.\<close>

definition snapshot_files :: "wpath \<Rightarrow> disk \<Rightarrow> (wpath \<times> bytes) set" where
  "snapshot_files base d = {(q, bs). q \<noteq> [] \<and> last q \<noteq> manifest_name \<and> dict_get d (base @ q) = Some (FFile bs)}"

lemma counted_iff: "counted x \<longleftrightarrow> (\<exists>q bs. x = (q, FFile bs) \<and> last q \<noteq> manifest_name)"
  by (cases x rule: counted.cases) auto

lemma counted_set:
  "dict_ok d \<Longrightarrow> set (filter counted (rglob base d)) = (\<lambda>(q, bs). (q, FFile bs)) ` snapshot_files base d"
  by (force simp: rglob_set snapshot_files_def counted_iff)

lemma counted_eq_iff:
  assumes "dict_ok d" and "dict_ok d'"
  shows "filter counted (rglob b d) = filter counted (rglob b' d') \<longleftrightarrow> snapshot_files b d = snapshot_files b' d'"
proof
  have inj: "inj (\<lambda>(q, bs). (q :: wpath, FFile bs))" by (auto intro: injI)
  show "filter counted (rglob b d) = filter counted (rglob b' d') \<Longrightarrow> snapshot_files b d = snapshot_files b' d'"
    using counted_set [OF assms(1), of b] counted_set [OF assms(2), of b'] inj_image_eq_iff [OF inj] by metis
next
  assume eq: "snapshot_files b d = snapshot_files b' d'"
  show "filter counted (rglob b d) = filter counted (rglob b' d')"
  proof (rule filter_rglob_unique [OF assms])
    fix q n
    assume "q \<noteq> []" "counted (q, n)"
    then obtain bs where "n = FFile bs" "last q \<noteq> manifest_name" by (auto simp: counted_iff)
    then show "dict_get d (b @ q) = Some n \<longleftrightarrow> dict_get d' (b' @ q) = Some n"
      using eq \<open>q \<noteq> []\<close> by (auto simp: snapshot_files_def set_eq_iff)
  qed
qed

section \<open>Relative paths as text\<close>

lemma split_on_nonempty [simp]: "split_on x s \<noteq> []"
  by (cases s) (auto split: list.split)

lemma split_on_append: "x \<notin> set c \<Longrightarrow> split_on x (c @ x # s) = c # split_on x s"
  by (induction c) auto

lemma split_on_free: "x \<notin> set c \<Longrightarrow> split_on x c = [c]"
  by (induction c) auto

lemma split_on_join: "ps \<noteq> [] \<Longrightarrow> \<forall>c\<in>set ps. x \<notin> set c \<Longrightarrow> split_on x (join [x] ps) = ps"
proof (induction "[x]" ps rule: join.induct)
  case (3 a b r)
  then show ?case using split_on_append [of x a "join [x] (b # r)"] by simp
qed (auto simp: split_on_free)

lemma posix_inj:
  assumes "list_all name_ok p" and "list_all name_ok q" and "p \<noteq> []" and "q \<noteq> []" and "posix p = posix q"
  shows "p = q"
proof -
  have "split_on (CHR ''/'') (posix ps) = ps" if "list_all name_ok ps" "ps \<noteq> []" for ps
    using that unfolding posix_def by (intro split_on_join) (auto simp: name_ok_def list_all_iff)
  then show ?thesis using assms by metis
qed

text \<open>Two listings with the same inventory list the same files, hashes without collision.\<close>

lemma map_entry_inj:
  assumes "map entry_of xs = map entry_of ys" and "\<forall>x\<in>set xs \<union> set ys. counted x \<and> fst x \<noteq> [] \<and> list_all name_ok (fst x)"
    and "no_collision {bs. \<exists>q. (q, FFile bs) \<in> set xs \<union> set ys}"
  shows "xs = ys"
proof -
  have "inj_on entry_of (set xs \<union> set ys)"
  proof (rule inj_onI)
    fix x y
    assume x: "x \<in> set xs \<union> set ys" and y: "y \<in> set xs \<union> set ys" and eq: "entry_of x = entry_of y"
    obtain p a q b where xy: "x = (p, FFile a)" "y = (q, FFile b)" using assms(2) x y unfolding counted_iff by metis
    have "fst x \<noteq> [] \<and> list_all name_ok (fst x)" "fst y \<noteq> [] \<and> list_all name_ok (fst y)" using assms(2) x y by blast+
    then have "p = q" using eq posix_inj [of p q] by (simp add: xy)
    have "sha256 a = sha256 b" "a \<in> {bs. \<exists>q. (q, FFile bs) \<in> set xs \<union> set ys}" "b \<in> {bs. \<exists>q. (q, FFile bs) \<in> set xs \<union> set ys}"
      using eq x y xy by auto
    then have "a = b" by (rule no_collisionD [OF assms(3)])
    with \<open>p = q\<close> show "x = y" by (simp add: xy)
  qed
  then show ?thesis using inj_on_map_eq_map assms(1) by blast
qed


section \<open>What the disk operations do\<close>

lemma rmtree_get: "dict_get (rmtree base d) q = (if starts_with base q then None else dict_get d q)"
proof -
  have "dict_get (filter (\<lambda>(p, n). P p) d) q = (if P q then dict_get d q else None)" for P :: "wpath \<Rightarrow> bool"
    by (induction d) (auto simp: dict_get_def)
  from this [of "\<lambda>p. \<not> starts_with base p"] show ?thesis by (simp add: rmtree_def)
qed

lemma rmtree_ok: "dict_ok d \<Longrightarrow> dict_ok (rmtree base d)"
  by (simp add: rmtree_def distinct_map_filter)

lemma rename_tree_ok:
  assumes "dict_ok d" and "\<And>q. dict_get d (new @ q) = None"
  shows "dict_ok (rename_tree old new d)"
proof -
  let ?f = "\<lambda>p. if starts_with old p then new @ drop (length old) p else p"
  have free: "new @ r \<notin> set (map fst d)" for r using assms(2) [of r] by (simp add: dict_get_None_iff)
  have "inj_on ?f (set (map fst d))"
  proof (rule inj_onI)
    fix p q
    assume p: "p \<in> set (map fst d)" and q: "q \<in> set (map fst d)" and eq: "?f p = ?f q"
    have "\<not> starts_with new p" "\<not> starts_with new q"
      using p q free unfolding starts_with_iff by blast+
    then show "p = q" using eq starts_withD [of old p] starts_withD [of old q]
      by (auto split: if_splits)
  qed
  moreover have "map fst (rename_tree old new d) = map ?f (map fst d)" by (simp add: rename_tree_def split_beta)
  ultimately show ?thesis using assms(1) by (simp only: distinct_map)
qed

lemma rename_tree_get:
  assumes "dict_ok d" and "\<And>q. dict_get d (new @ q) = None" and "\<not> starts_with old new" and "\<not> starts_with new old"
  shows "dict_get (rename_tree old new d) q =
     (if starts_with new q then dict_get d (old @ drop (length new) q)
      else if starts_with old q then None else dict_get d q)"
proof -
  have mem: "(q, n) \<in> set (rename_tree old new d) \<longleftrightarrow>
      (\<exists>p. (p, n) \<in> set d \<and> q = (if starts_with old p then new @ drop (length old) p else p))" for n
    by (force simp: rename_tree_def)
  have free: "(new @ r, n) \<notin> set d" for r n using assms(2) [of r] by (simp add: dict_get_def map_of_eq_None_iff) force
  have "dict_get (rename_tree old new d) q = Some n \<longleftrightarrow>
      (if starts_with new q then dict_get d (old @ drop (length new) q)
       else if starts_with old q then None else dict_get d q) = Some n" for n
  proof (cases "starts_with new q")
    case True
    then obtain r where q: "q = new @ r" by (auto simp: starts_with_iff)
    have "(\<exists>p. (p, n) \<in> set d \<and> q = (if starts_with old p then new @ drop (length old) p else p)) \<longleftrightarrow> (old @ r, n) \<in> set d"
    proof
      assume "\<exists>p. (p, n) \<in> set d \<and> q = (if starts_with old p then new @ drop (length old) p else p)"
      then obtain p where p: "(p, n) \<in> set d" "q = (if starts_with old p then new @ drop (length old) p else p)" by blast
      then have "starts_with old p" using free q by (auto split: if_splits)
      then show "(old @ r, n) \<in> set d" using p q starts_withD [of old p] by simp
    qed (use q in \<open>auto intro!: exI [of _ "old @ r"]\<close>)
    then show ?thesis using True q assms(1) rename_tree_ok [OF assms(1,2)] mem by (simp add: dict_get_iff)
  next
    case False
    have "(\<exists>p. (p, n) \<in> set d \<and> q = (if starts_with old p then new @ drop (length old) p else p)) \<longleftrightarrow>
        \<not> starts_with old q \<and> (q, n) \<in> set d"
      using False by (auto split: if_splits) (metis starts_with_append)
    then show ?thesis using False assms(1) rename_tree_ok [OF assms(1,2)] mem by (simp add: dict_get_iff)
  qed
  then show ?thesis by (metis not_Some_eq)
qed

lemma mkdirs_ok: "dict_ok d \<Longrightarrow> dict_ok (snd (mkdirs ps d))"
  by (induction ps d rule: mkdirs.induct) (auto split: option.split node.split simp: dict.wf_store)

lemma mkdirs_get:
  "mkdirs ps d = (r, d') \<Longrightarrow> dict_get d' q = dict_get d q \<or> (q \<in> set ps \<and> dict_get d q = None \<and> dict_get d' q = Some FDir)"
proof (induction ps d rule: mkdirs.induct)
  case (2 p ps d)
  then show ?case by (auto split: option.splits node.splits simp: dict.lookup_store split: if_splits)
qed simp

lemma mkdirs_made: "mkdirs ps d = (Inr u, d') \<Longrightarrow> q \<in> set ps \<Longrightarrow> dict_get d' q = Some FDir"
proof (induction ps d rule: mkdirs.induct)
  case (2 p ps d)
  show ?case
  proof (cases "q = p")
    case True
    let ?d1 = "if dict_get d p = None then dict_set p FDir d else d"
    have "dict_get ?d1 p = Some FDir \<and> mkdirs ps ?d1 = (Inr u, d')"
      using "2.prems"(1) by (auto split: option.splits node.splits)
    then obtain d1 where "dict_get d1 p = Some FDir" "mkdirs ps d1 = (Inr u, d')" by blast
    then show ?thesis using mkdirs_get [of ps d1 "Inr u" d' p] True by auto
  next
    case False
    then show ?thesis using 2 by (auto split: option.splits node.splits)
  qed
qed simp

lemma atomic_json_get:
  assumes "tmp \<noteq> p" and "dict_get d tmp = None"
  shows "dict_get (snd (atomic_json fault tmp p v d)) q =
     (if q = p \<and> is_ok (fst (atomic_json fault tmp p v d)) then Some (FFile (json_file v)) else dict_get d q)"
  using assms
  by (cases fault) (auto simp: atomic_json_def Let_def path_exists_def dict.lookup_store dict.lookup_remove split: option.split node.split)

lemma atomic_json_ok: "dict_ok d \<Longrightarrow> dict_ok (snd (atomic_json fault tmp p v d))"
  by (cases fault) (auto simp: atomic_json_def Let_def dict.wf_store dict.wf_remove)

end
