(* ===== verification/Weight_Vault_Safety.thy ===== *)
theory Weight_Vault_Safety
  imports Weight_Vault_Proofs
begin

text \<open>
  What a commit publishes, what verification detects, and what mirroring leaves of the disk when anything
  goes wrong on the way.
\<close>

section \<open>Snapshot paths\<close>

lemma join_split_on: "join [x] (split_on x s) = s"
proof (induction s)
  case (Cons c s)
  obtain p ps where "split_on x s = p # ps" using split_on_nonempty [of x s] by (cases "split_on x s") blast+
  with Cons show ?case by (cases ps) auto
qed simp

lemma component_name_ok: "component_ok s \<Longrightarrow> name_ok s"
  by (auto simp: component_ok_def name_ok_def alnum_def code_def list_all_iff split: list.splits)

lemma snapshot_path_Inr:
  "snapshot_path model_id revision = Inr t \<longleftrightarrow>
     (\<exists>o' n. t = [''models'', o', n, revision] \<and> component_ok o' \<and> component_ok n \<and> component_ok revision \<and>
        model_id = o' @ ''/'' @ n)"
proof
  assume "snapshot_path model_id revision = Inr t"
  then obtain o' n where split: "split_on (CHR ''/'') model_id = [o', n]"
    and ok: "t = [''models'', o', n, revision]" "component_ok o'" "component_ok n" "component_ok revision"
    by (auto simp: snapshot_path_def bindR_Inr_iff safe_component_def split: list.splits if_splits)
  have "model_id = o' @ ''/'' @ n" using join_split_on [of "CHR ''/''" model_id] split by simp
  with ok show "\<exists>o' n. t = [''models'', o', n, revision] \<and> component_ok o' \<and> component_ok n \<and> component_ok revision \<and>
        model_id = o' @ ''/'' @ n" by blast
next
  assume "\<exists>o' n. t = [''models'', o', n, revision] \<and> component_ok o' \<and> component_ok n \<and> component_ok revision \<and>
        model_id = o' @ ''/'' @ n"
  then obtain o' n where ok: "t = [''models'', o', n, revision]" "component_ok o'" "component_ok n" "component_ok revision"
    and m: "model_id = o' @ ''/'' @ n" by blast
  have free: "CHR ''/'' \<notin> set o'" "CHR ''/'' \<notin> set n" using ok component_name_ok by (auto simp: name_ok_def)
  have "split_on (CHR ''/'') model_id = [o', n]"
    using split_on_append [OF free(1), of n] split_on_free [OF free(2)] by (simp add: m)
  then show "snapshot_path model_id revision = Inr t" using ok by (simp add: snapshot_path_def safe_component_def)
qed

text \<open>C17: Whatever model identifier and revision are given, a snapshot path has exactly three parts below
  \<open>models\<close>, each of one to 128 characters without a slash and not starting with a dot, so it cannot leave the
  vault; and no two models or revisions share one.\<close>

theorem snapshot_path_safe:
  assumes "snapshot_path model_id revision = Inr t"
  shows "length t = 4 \<and> hd t = ''models'' \<and> last t = revision \<and>
     list_all (\<lambda>c. c \<noteq> [] \<and> length c \<le> 128 \<and> CHR ''/'' \<notin> set c \<and> hd c \<noteq> CHR ''.'') (tl t) \<and>
     (snapshot_path model_id2 revision2 = Inr t \<longrightarrow> model_id2 = model_id \<and> revision2 = revision)"
proof -
  obtain o' n where t: "t = [''models'', o', n, revision]" "component_ok o'" "component_ok n" "component_ok revision"
      "model_id = o' @ ''/'' @ n"
    using assms by (auto simp: snapshot_path_Inr)
  have c: "c \<noteq> [] \<and> length c \<le> 128 \<and> CHR ''/'' \<notin> set c \<and> hd c \<noteq> CHR ''.''" if "component_ok c" for c
    using that component_name_ok [OF that] by (auto simp: component_ok_def name_ok_def alnum_def code_def split: list.splits)
  have "snapshot_path model_id2 revision2 = Inr t \<longrightarrow> model_id2 = model_id \<and> revision2 = revision"
    using t by (auto simp: snapshot_path_Inr)
  then show ?thesis using t c by simp
qed

theorem snapshot_path_safe_witness:
  "\<exists>t. snapshot_path ''o/m'' ''v1.0'' = Inr t \<and> length t = 4 \<and> last t = ''v1.0''"
proof -
  have "snapshot_path ''o/m'' ''v1.0'' = Inr [''models'', ''o'', ''m'', ''v1.0'']" by code_simp
  with snapshot_path_safe [OF this] show ?thesis by blast
qed

text \<open>The paths of snapshots, of the staging area and of the locks lie apart.\<close>

lemma target_facts:
  assumes "snapshot_path model_id revision = Inr t"
  shows "length t = 4" and "t \<noteq> []" and "butlast t \<noteq> []" and "\<not> starts_with t [''.staging'', x]"
    and "\<not> starts_with [''.staging'', x] t" and "\<And>q. q \<in> set (path_and_parents (butlast t)) \<Longrightarrow> \<not> starts_with t q"
    and "\<And>q. q \<in> set (path_and_parents (butlast t)) \<Longrightarrow> hd q = ''models'' \<and> q \<noteq> []"
    and "hd t = ''models''"
  using assms
  by (auto simp: snapshot_path_Inr starts_with_def path_and_parents_def less_Suc_eq numeral_3_eq_3)

section \<open>Committing\<close>

lemma commit_cases:
  assumes "commit_snapshot V io staging model_id revision license d = (r, d')"
    and "snapshot_path model_id revision = Inr t"
  obtains (untouched) "d' = d" "path_exists d t \<longrightarrow> r = wv_verify V model_id revision d" "\<not> path_exists d t \<longrightarrow> \<not> is_ok r"
  | (stopped) files m where "m = snapshot_manifest model_id revision license (co_now io) files"
      "\<not> path_exists d t" "\<not> is_ok r"
      "d' = snd (atomic_json (co_fault io) (staging @ [co_tmp io]) (staging @ [manifest_name]) (JObj m) d)"
  | (place) files m d1 d2 u where "m = snapshot_manifest model_id revision license (co_now io) files"
      "\<not> path_exists d t" "inventory V staging d = Inr files" "files \<noteq> []"
      "atomic_json (co_fault io) (staging @ [co_tmp io]) (staging @ [manifest_name]) (JObj m) d = (Inr (), d1)"
      "mkdirs (path_and_parents (butlast t)) d1 = (u, d2)"
      "(is_ok r \<and> r = Inr m \<and> u = Inr () \<and> dict_get d2 t = None \<and> d' = rename_tree staging t d2 \<and>
          require_capacity V (co_free io) (inventory_total files) d = Inr ()) \<or> (\<not> is_ok r \<and> d' = d2)"
proof (cases "path_exists d t")
  case True
  then show thesis using assms by (intro that(1)) (auto simp: commit_snapshot_def)
next
  case fresh: False
  show thesis
  proof (cases "inventory V staging d")
    case (Inl e)
    then show thesis using assms fresh by (intro that(1)) (auto simp: commit_snapshot_def)
  next
    case (Inr files)
    let ?m = "snapshot_manifest model_id revision license (co_now io) files"
    obtain w d1 where w: "atomic_json (co_fault io) (staging @ [co_tmp io]) (staging @ [manifest_name]) (JObj ?m) d = (w, d1)"
      by fastforce
    obtain u d2 where u: "mkdirs (path_and_parents (butlast t)) d1 = (u, d2)" by fastforce
    consider "files = []" | "files \<noteq> []" "\<exists>e. require_capacity V (co_free io) (inventory_total files) d = Inl e"
      | "files \<noteq> []" "require_capacity V (co_free io) (inventory_total files) d = Inr ()" "\<exists>e. w = Inl e"
      | "files \<noteq> []" "require_capacity V (co_free io) (inventory_total files) d = Inr ()" "w = Inr ()"
      by (metis sum.exhaust unit.exhaust)
    then show thesis
    proof cases
      case 1
      then show thesis using assms fresh Inr by (intro that(1)) (auto simp: commit_snapshot_def)
    next
      case 2
      then show thesis using assms fresh Inr by (intro that(1)) (auto simp: commit_snapshot_def)
    next
      case 3
      then show thesis using assms fresh Inr w by (intro that(2) [OF refl, of files]) (auto simp: commit_snapshot_def Let_def)
    next
      case 4
      then show thesis using assms fresh Inr w u
        by (intro that(3) [OF refl fresh Inr _ _ u])
          (auto simp: commit_snapshot_def Let_def split: sum.splits if_splits)
    qed
  qed
qed


text \<open>A staging directory, and a temporary name in it that is new and is not the manifest's.\<close>

definition staging_ok :: "commit_io \<Rightarrow> wpath \<Rightarrow> disk \<Rightarrow> bool" where
  "staging_ok io staging d \<longleftrightarrow> (\<exists>x. staging = [''.staging'', x]) \<and> co_tmp io \<noteq> manifest_name \<and>
     dict_get d (staging @ [co_tmp io]) = None"

lemma commit_free:
  assumes "disk_ok d" and "snapshot_path model_id revision = Inr t" and "\<not> path_exists d t" and "staging = [''.staging'', x]"
    and "\<And>p. dict_get d1 p = (if p = staging @ [manifest_name] then v else dict_get d p)"
    and "mkdirs (path_and_parents (butlast t)) d1 = (u, d2)" and "dict_get d2 t = None"
  shows "dict_get d2 (t @ p) = None"
proof (cases "p = []")
  case False
  note t = target_facts [OF assms(2)]
  have "dict_get d t \<noteq> Some FDir" using assms(3) by (auto simp: path_exists_def)
  then have "dict_get d (t @ p) = None" using disk_parent [OF assms(1) _ t(2) False] by (metis not_Some_eq)
  moreover have "t @ p \<noteq> staging @ [manifest_name]" using t(2,8) assms(4) by (cases t) auto
  moreover have "t @ p \<notin> set (path_and_parents (butlast t))" using t(6) [of "t @ p"] by auto
  ultimately show ?thesis using mkdirs_get [OF assms(6), of "t @ p"] assms(5) [of "t @ p"] by auto
qed (simp add: assms(7))

text \<open>Nothing but the staging directory, the new snapshot and the directories above it changes; the snapshot
  changes only when a new one is put there.\<close>

lemma commit_frame:
  assumes "commit_snapshot V io staging model_id revision license d = (r, d')"
    and "snapshot_path model_id revision = Inr t" and "disk_ok d" and "staging_ok io staging d"
    and "\<not> starts_with staging q"
  shows "(starts_with t q \<longrightarrow> path_exists d t \<or> \<not> is_ok r \<longrightarrow> dict_get d' q = dict_get d q) \<and>
     (\<not> starts_with t q \<longrightarrow> dict_get d' q = dict_get d q \<or>
        (q \<in> set (path_and_parents (butlast t)) \<and> dict_get d q = None \<and> dict_get d' q = Some FDir))"
proof -
  obtain x where x: "staging = [''.staging'', x]" and tmp: "staging @ [co_tmp io] \<noteq> staging @ [manifest_name]"
      "dict_get d (staging @ [co_tmp io]) = None"
    using assms(4) by (auto simp: staging_ok_def)
  note t = target_facts [OF assms(2)]
  have qm: "q \<noteq> staging @ [manifest_name]" using assms(5) by (auto simp: starts_with_def)
  from assms(1,2) show ?thesis
  proof (cases rule: commit_cases)
    case untouched
    then show ?thesis by simp
  next
    case (stopped files m)
    then show ?thesis using atomic_json_get [OF tmp] qm by simp
  next
    case (place files m d1 d2 u)
    have d1: "dict_get d1 p = (if p = staging @ [manifest_name] then Some (FFile (json_file (JObj m))) else dict_get d p)" for p
      using atomic_json_get [OF tmp, of "co_fault io" "JObj m" p] place(5) by simp
    note d2 = mkdirs_get [OF place(6)]
    have ok1: "dict_ok d2" using mkdirs_ok [of d1] atomic_json_ok [OF disk_okD(1) [OF assms(3)]] place(5,6) by (metis snd_conv)
    from place(7) show ?thesis
    proof (elim disjE conjE)
      assume "\<not> is_ok r" "d' = d2"
      then show ?thesis using d2 [of q] d1 [of q] qm t(6) [of q] by auto
    next
      assume ok: "is_ok r" and none: "dict_get d2 t = None" and d': "d' = rename_tree staging t d2"
      have free: "dict_get d2 (t @ p) = None" for p
        by (rule commit_free [OF assms(3,2) place(2) x d1 place(6) none])
      have get: "dict_get d' q = (if starts_with t q then dict_get d2 (staging @ drop (length t) q) else dict_get d2 q)"
        unfolding d' using rename_tree_get [OF ok1 free] t(4,5) x assms(5) by simp
      then show ?thesis using ok place(2) d2 [of q] d1 [of q] qm by auto
    qed
  qed
qed

text \<open>A new snapshot is the staging directory with the manifest.\<close>

lemma commit_publishes:
  assumes "commit_snapshot V io staging model_id revision license d = (Inr m, d')"
    and "snapshot_path model_id revision = Inr t" and "disk_ok d" and "staging_ok io staging d" and "\<not> path_exists d t"
  shows "\<exists>files. inventory V staging d = Inr files \<and> m = snapshot_manifest model_id revision license (co_now io) files \<and>
     dict_ok d' \<and> (\<forall>q. dict_get d' (t @ q) =
       (if q = [manifest_name] then Some (FFile (json_file (JObj m))) else dict_get d (staging @ q))) \<and>
     require_capacity V (co_free io) (inventory_total files) d = Inr ()"
proof -
  obtain x where x: "staging = [''.staging'', x]" and tmp: "staging @ [co_tmp io] \<noteq> staging @ [manifest_name]"
      "dict_get d (staging @ [co_tmp io]) = None"
    using assms(4) by (auto simp: staging_ok_def)
  note t = target_facts [OF assms(2)]
  from assms(1,2) show ?thesis
  proof (cases rule: commit_cases)
    case (place files m' d1 d2 u)
    then have r: "m' = m" "dict_get d2 t = None" "d' = rename_tree staging t d2"
        "require_capacity V (co_free io) (inventory_total files) d = Inr ()" by auto
    have d1: "dict_get d1 p = (if p = staging @ [manifest_name] then Some (FFile (json_file (JObj m))) else dict_get d p)" for p
      using atomic_json_get [OF tmp, of "co_fault io" "JObj m" p] place(5) r(1) by simp
    note d2 = mkdirs_get [OF place(6)]
    have ok2: "dict_ok d2" using mkdirs_ok [of d1] atomic_json_ok [OF disk_okD(1) [OF assms(3)]] place(5,6) by (metis snd_conv)
    have free: "dict_get d2 (t @ p) = None" for p
      by (rule commit_free [OF assms(3,2) place(2) x d1 place(6) r(2)])
    have "dict_get d' (t @ q) = dict_get d2 (staging @ q)" for q
      unfolding r(3) using rename_tree_get [OF ok2 free] t(4,5) x by simp
    moreover have "dict_get d2 (staging @ q) = dict_get d1 (staging @ q)" for q
      using d2 [of "staging @ q"] t(7) [of "staging @ q"] x by auto
    moreover have "dict_ok d'" unfolding r(3) by (rule rename_tree_ok [OF ok2 free])
    ultimately show ?thesis using place(1,3) r(1,4) d1 by auto
  qed (use assms(5) in auto)
qed


section \<open>Verification\<close>

lemma json_ok_snapshot: "json_ok (JObj (snapshot_manifest model_id revision license now files))"
  by (auto simp: snapshot_manifest_def inventory_json_def list_all_iff)

lemma read_json_file: "json_ok (JObj m) \<Longrightarrow> loads_bytes (json_file (JObj m)) = Inr (JObj (sorted_dict m))"
  unfolding loads_bytes_def json_file_def utf8_newline sort_keys_JObj [symmetric]
  by (simp add: loads_dumps_ws is_ws_def code_def del: sort_keys.simps json_ok.simps)

lemma entry_eq_sorted:
  "entry_eq (p, n, h) (sort_keys (JObj [(''path'', JStr q), (''size'', JInt k), (''sha256'', JStr g)])) \<longleftrightarrow>
     p = q \<and> n = k \<and> h = g"
proof -
  let ?e = "[(''path'', JStr q), (''size'', JInt k), (''sha256'', JStr g)]"
  have "dict_get (sorted_dict ?e) ''path'' = Some (JStr q)" "dict_get (sorted_dict ?e) ''size'' = Some (JInt k)"
      "dict_get (sorted_dict ?e) ''sha256'' = Some (JStr g)"
    by (simp_all add: sorted_dict_get) (simp_all add: dict_get_def)
  moreover have "length (sorted_dict ?e) = 3" by (simp add: sorted_dict_def)
  ultimately show ?thesis unfolding sort_keys_JObj by (auto simp: eq_int_def)
qed

lemma inventory_eq_sorted: "inventory_eq fs (Some (sort_keys (inventory_json files))) \<longleftrightarrow> fs = files"
proof -
  have "list_all2 entry_eq fs (map sort_keys (map (\<lambda>(p, n, h). JObj [(''path'', JStr p), (''size'', JInt n), (''sha256'', JStr h)]) files))
      \<longleftrightarrow> fs = files"
  proof (induction fs arbitrary: files)
    case Nil
    then show ?case by auto
  next
    case (Cons f fs)
    show ?case
    proof (cases files)
      case (Cons g gs)
      obtain p n h q k i where "f = (p, n, h)" "g = (q, k, i)" by (cases f, cases g)
      then show ?thesis using Cons.IH [of gs] entry_eq_sorted [of p n h q k i] Cons by (auto simp del: sort_keys.simps entry_eq.simps)
    qed simp
  qed
  then show ?thesis by (simp add: inventory_eq_def inventory_json_def)
qed

text \<open>What verification answers of a snapshot whose manifest is the one that was committed.\<close>

lemma wv_verify_committed:
  assumes "snapshot_path model_id revision = Inr t"
    and "read_file d (t @ [manifest_name]) = Some (json_file (JObj (snapshot_manifest model_id revision license now files)))"
  shows "wv_verify V model_id revision d =
     bindR (inventory V t d) (\<lambda>fs. if fs = files then Inr (sorted_dict (snapshot_manifest model_id revision license now files))
       else Inl (IntegrityError ''model snapshot failed SHA-256 inventory verification''))"
proof -
  let ?m = "snapshot_manifest model_id revision license now files"
  have ok: "dict_ok ?m" using json_ok_snapshot [of model_id revision license now files] by simp
  have get: "dict_get (sorted_dict ?m) ''files'' = Some (sort_keys (inventory_json files))"
      "dict_get (sorted_dict ?m) ''total_bytes'' = Some (JInt (inventory_total files))"
      "dict_get (sorted_dict ?m) ''model_id'' = Some (JStr model_id)" "dict_get (sorted_dict ?m) ''revision'' = Some (JStr revision)"
    unfolding sorted_dict_get [OF ok] by (simp_all add: snapshot_manifest_def dict_get_def)
  have "eq_int (Some (JInt n)) k \<longleftrightarrow> n = k" for n k by (simp add: eq_int_def)
  then show ?thesis using assms read_json_file [OF json_ok_snapshot [of model_id revision license now files]]
    by (cases "inventory V t d") (auto simp: wv_verify_def get inventory_eq_sorted)
qed

lemma commit_then_verify_base:
  assumes "commit_snapshot V io staging model_id revision license d = (Inr m, d')"
    and "snapshot_path model_id revision = Inr t" and "disk_ok d" and "staging_ok io staging d" and "\<not> path_exists d t"
  shows "wv_verify V model_id revision d' = Inr (sorted_dict m)"
proof -
  obtain files where f: "inventory V staging d = Inr files" "m = snapshot_manifest model_id revision license (co_now io) files"
      "dict_ok d'" "\<forall>q. dict_get d' (t @ q) =
       (if q = [manifest_name] then Some (FFile (json_file (JObj m))) else dict_get d (staging @ q))"
    using commit_publishes [OF assms] by blast
  note ok = disk_okD(1) [OF assms(3)]
  have links: "filter is_link (rglob t d') = []" using f(1,4) by (simp add: inventory_Inr no_links_iff [OF f(3)] no_links_iff [OF ok])
  have "filter counted (rglob t d') = filter counted (rglob staging d)"
    by (rule filter_rglob_unique [OF f(3) ok]) (use f(4) in \<open>auto simp: counted_iff\<close>)
  then have "inventory V t d' = Inr files" using links f(1) by (simp add: inventory_Inr)
  moreover have "read_file d' (t @ [manifest_name]) = Some (json_file (JObj m))" using f(4) by (simp add: read_file_def)
  ultimately show ?thesis using wv_verify_committed [OF assms(2)] f(2) by simp
qed

lemma snapshot_files_eq:
  "snapshot_files a d = snapshot_files b e \<longleftrightarrow> (\<forall>q bs. q \<noteq> [] \<longrightarrow> last q \<noteq> manifest_name \<longrightarrow>
     (dict_get d (a @ q) = Some (FFile bs) \<longleftrightarrow> dict_get e (b @ q) = Some (FFile bs)))"
  by (auto simp: snapshot_files_def set_eq_iff)

text \<open>C14: As long as the manifest written by the commit is still the snapshot's manifest, the snapshot
  verifies exactly if there is no link below it and every path in it, except paths whose last component is
  itself \<open>decillion-manifest.json\<close>, is a file with given bytes just when it was one in the staging
  directory: a changed, missing or added file of any other name is detected, provided SHA-256 does not
  collide on the files committed and found. Files of that name in subdirectories are outside the inventory,
  and one that is added or changed stays unseen.\<close>

theorem wv_verify_exact:
  assumes "commit_snapshot V io staging model_id revision license d0 = (Inr m, d1)"
    and "snapshot_path model_id revision = Inr t" and "disk_ok d0" and "staging_ok io staging d0" and "\<not> path_exists d0 t"
    and "disk_ok d" and "read_file d (t @ [manifest_name]) = read_file d1 (t @ [manifest_name])"
    and "no_collision (snd ` (snapshot_files staging d0 \<union> snapshot_files t d))"
  shows "is_ok (wv_verify V model_id revision d) \<longleftrightarrow>
     (\<forall>q l. q \<noteq> [] \<longrightarrow> dict_get d (t @ q) \<noteq> Some (FLink l)) \<and>
     (\<forall>q bs. q \<noteq> [] \<longrightarrow> last q \<noteq> ''decillion-manifest.json'' \<longrightarrow>
        (dict_get d (t @ q) = Some (FFile bs) \<longleftrightarrow> dict_get d0 (staging @ q) = Some (FFile bs)))"
proof -
  obtain files where f: "inventory V staging d0 = Inr files" "m = snapshot_manifest model_id revision license (co_now io) files"
      "\<forall>q. dict_get d1 (t @ q) = (if q = [manifest_name] then Some (FFile (json_file (JObj m))) else dict_get d0 (staging @ q))"
    using commit_publishes [OF assms(1-5)] by blast
  note ok0 = disk_okD(1) [OF assms(3)] and ok = disk_okD(1) [OF assms(6)]
  have "read_file d (t @ [manifest_name]) = Some (json_file (JObj m))" using assms(7) f(3) by (simp add: read_file_def)
  then have v: "wv_verify V model_id revision d = bindR (inventory V t d) (\<lambda>fs. if fs = files then Inr (sorted_dict m)
      else Inl (IntegrityError ''model snapshot failed SHA-256 inventory verification''))"
    unfolding f(2) by (rule wv_verify_committed [OF assms(2)])
  have files: "files = map entry_of (filter counted (rglob staging d0))" using f(1) by (simp add: inventory_Inr)
  let ?xs = "filter counted (rglob t d)" and ?ys = "filter counted (rglob staging d0)"
  have inj: "?xs = ?ys" if "map entry_of ?xs = map entry_of ?ys"
  proof (rule map_entry_inj [OF that])
    show "\<forall>x\<in>set ?xs \<union> set ?ys. counted x \<and> fst x \<noteq> [] \<and> list_all name_ok (fst x)"
      by (auto simp: rglob_set ok ok0 dest: disk_okD(3) [OF assms(3)] disk_okD(3) [OF assms(6)])
    have "{bs. \<exists>q. (q, FFile bs) \<in> set ?xs \<union> set ?ys} \<subseteq> snd ` (snapshot_files staging d0 \<union> snapshot_files t d)"
      unfolding counted_set [OF ok] counted_set [OF ok0] by force
    then show "no_collision {bs. \<exists>q. (q, FFile bs) \<in> set ?xs \<union> set ?ys}" by (rule no_collision_mono [OF assms(8)])
  qed
  have "is_ok (wv_verify V model_id revision d) \<longleftrightarrow> inventory V t d = Inr files"
    unfolding v by (cases "inventory V t d") auto
  also have "\<dots> \<longleftrightarrow> filter is_link (rglob t d) = [] \<and> ?xs = ?ys"
    unfolding inventory_Inr files using inj by auto
  finally have "is_ok (wv_verify V model_id revision d) \<longleftrightarrow>
      (\<forall>q l. q \<noteq> [] \<longrightarrow> dict_get d (t @ q) \<noteq> Some (FLink l)) \<and> snapshot_files t d = snapshot_files staging d0"
    by (simp add: no_links_iff [OF ok] counted_eq_iff [OF ok ok0])
  then show ?thesis unfolding snapshot_files_eq manifest_name_def .
qed

text \<open>Verification looks only at the snapshot, and in its subdirectories not at files named like the manifest.\<close>

lemma inventory_loop_filter:
  "inventory_loop s xs = inventory_loop s (filter (\<lambda>x. counted x \<or> is_link x) xs)"
  by (induction s xs rule: inventory_loop.induct) (auto split: node.split)

lemma wv_verify_cong:
  assumes "snapshot_path model_id revision = Inr t" and "dict_ok d" and "dict_ok d'"
    and "\<And>q. dict_get d (t @ q) = dict_get d' (t @ q) \<or>
       (2 \<le> length q \<and> last q = manifest_name \<and> (\<forall>l. dict_get d (t @ q) \<noteq> Some (FLink l) \<and> dict_get d' (t @ q) \<noteq> Some (FLink l)))"
  shows "wv_verify V model_id revision d' = wv_verify V model_id revision d"
proof -
  have "filter (\<lambda>x. counted x \<or> is_link x) (rglob t d) = filter (\<lambda>x. counted x \<or> is_link x) (rglob t d')"
  proof (rule filter_rglob_unique [OF assms(2,3)])
    fix q n
    assume "counted (q, n) \<or> is_link (q, n)"
    then show "dict_get d (t @ q) = Some n \<longleftrightarrow> dict_get d' (t @ q) = Some n"
      using assms(4) [of q] by (auto simp: counted_iff is_link_iff)
  qed
  then have "inventory V t d' = inventory V t d"
    unfolding inventory_def by (metis inventory_loop_filter)
  moreover have "read_file d' (t @ [manifest_name]) = read_file d (t @ [manifest_name])"
    using assms(4) [of "[manifest_name]"] by (simp add: read_file_def)
  ultimately show ?thesis unfolding wv_verify_def assms(1) bindR_simps by (simp cong: option.case_cong sum.case_cong)
qed

end
