(* ===== verification/Mirror_Safety.thy ===== *)
theory Mirror_Safety
  imports Weight_Vault_Safety
begin

text \<open>
  Mirroring as a whole: the download slot, what the hub puts into it, the commit and the clean-up, with
  every failure on the way. The disk stays well formed, so runs of mirrors can be chained.
\<close>

section \<open>Well-formed disks stay well formed\<close>

lemma disk_okI:
  assumes "dict_ok d"
    and "\<And>p n. dict_get d p = Some n \<Longrightarrow> p \<noteq> [] \<and> list_all name_ok p \<and> (butlast p = [] \<or> dict_get d (butlast p) = Some FDir)"
  shows "disk_ok d"
  using assms by (simp add: disk_ok_def)

lemma disk_ok_entry:
  "disk_ok d \<Longrightarrow> dict_get d p = Some n \<Longrightarrow> p \<noteq> [] \<and> list_all name_ok p \<and> (butlast p = [] \<or> dict_get d (butlast p) = Some FDir)"
  by (simp add: disk_ok_def)

lemma disk_ok_set:
  assumes "disk_ok d" and "p \<noteq> []" and "list_all name_ok p" and "butlast p = [] \<or> dict_get d (butlast p) = Some FDir"
    and "n = FDir \<or> dict_get d p \<noteq> Some FDir"
  shows "disk_ok (dict_set p n d)"
proof (rule disk_okI)
  fix q k
  assume q: "dict_get (dict_set p n d) q = Some k"
  have "butlast p \<noteq> p" using assms(2) by (metis append_butlast_last_id not_Cons_self2 self_append_conv)
  then show "q \<noteq> [] \<and> list_all name_ok q \<and> (butlast q = [] \<or> dict_get (dict_set p n d) (butlast q) = Some FDir)"
    using q assms disk_ok_entry [OF assms(1), of q k] by (auto simp: dict.lookup_store split: if_splits)
qed (rule dict.wf_store [OF disk_okD(1) [OF assms(1)]])

lemma disk_ok_del:
  assumes "disk_ok d" and "dict_get d p \<noteq> Some FDir"
  shows "disk_ok (dict_del p d)"
proof (rule disk_okI)
  fix q k
  assume "dict_get (dict_del p d) q = Some k"
  then show "q \<noteq> [] \<and> list_all name_ok q \<and> (butlast q = [] \<or> dict_get (dict_del p d) (butlast q) = Some FDir)"
    using assms disk_ok_entry [OF assms(1), of q k] by (auto simp: dict.lookup_remove split: if_splits)
qed (rule dict.wf_remove [OF disk_okD(1) [OF assms(1)]])

lemma starts_with_butlast: "starts_with base (butlast q) \<Longrightarrow> starts_with base q"
  by (metis append_butlast_last_id append_assoc butlast.simps(1) starts_with_iff)

lemma disk_ok_rmtree:
  assumes "disk_ok d"
  shows "disk_ok (rmtree base d)"
proof (rule disk_okI)
  fix q k
  assume "dict_get (rmtree base d) q = Some k"
  then show "q \<noteq> [] \<and> list_all name_ok q \<and> (butlast q = [] \<or> dict_get (rmtree base d) (butlast q) = Some FDir)"
    using disk_ok_entry [OF assms, of q k] starts_with_butlast [of base q] by (auto simp: rmtree_get split: if_splits)
qed (rule rmtree_ok [OF disk_okD(1) [OF assms]])

lemma disk_ok_rename:
  assumes "disk_ok d" and "\<And>q. dict_get d (new @ q) = None" and "\<not> starts_with old new" and "\<not> starts_with new old"
    and "list_all name_ok new" and "new \<noteq> []" and "old \<noteq> []" and "dict_get d (butlast new) = Some FDir"
  shows "disk_ok (rename_tree old new d)"
proof (rule disk_okI)
  note get = rename_tree_get [OF disk_okD(1) [OF assms(1)] assms(2-4)]
  have parent: "dict_get (rename_tree old new d) (butlast new) = Some FDir"
  proof -
    have "\<not> starts_with old (butlast new)" using assms(3) starts_with_butlast by blast
    moreover have "\<not> starts_with new (butlast new)"
      using assms(6) by (metis append_butlast_last_id append_is_Nil_conv not_Cons_self2 append_eq_append_conv2 same_append_eq self_append_conv starts_with_iff)
    ultimately show ?thesis using assms(8) by (simp add: get)
  qed
  fix q k
  assume q: "dict_get (rename_tree old new d) q = Some k"
  show "q \<noteq> [] \<and> list_all name_ok q \<and> (butlast q = [] \<or> dict_get (rename_tree old new d) (butlast q) = Some FDir)"
  proof (cases "starts_with new q")
    case True
    then obtain r where r: "q = new @ r" by (auto simp: starts_with_iff)
    then have k: "dict_get d (old @ r) = Some k" using q by (simp add: get)
    show ?thesis
    proof (cases "r = []")
      case True
      then show ?thesis using r parent assms(5,6) by simp
    next
      case False
      then have "dict_get d (old @ butlast r) = Some FDir"
        using disk_ok_entry [OF assms(1) k] assms(7) by (simp add: butlast_append)
      moreover have "butlast q = new @ butlast r" using r False by (simp add: butlast_append)
      ultimately show ?thesis using r assms(5,6) disk_ok_entry [OF assms(1) k] by (simp add: get)
    qed
  next
    case False
    then have "\<not> starts_with old q" "dict_get d q = Some k" using q by (simp_all add: get split: if_splits)
    then show ?thesis using False disk_ok_entry [OF assms(1), of q k] starts_with_butlast by (auto simp: get)
  qed
qed (rule rename_tree_ok [OF disk_okD(1) [OF assms(1)] assms(2)])

lemma path_and_parents_simp: "path_and_parents p = map (\<lambda>n. take n p) [1..<Suc (length p)]"
  by (simp add: path_and_parents_def map_Suc_upt [symmetric] comp_def del: upt_Suc)

lemma disk_ok_mkdirs:
  assumes "disk_ok d" and "list_all name_ok p" and "i \<le> length p" and "i = 0 \<or> dict_get d (take i p) = Some FDir"
  shows "disk_ok (snd (mkdirs (map (\<lambda>n. take n p) [Suc i..<Suc (length p)]) d))"
  using assms
proof (induction "length p - i" arbitrary: i d)
  case (Suc k)
  then have i: "i < length p" by linarith
  let ?q = "take (Suc i) p"
  have step: "[Suc i..<Suc (length p)] = Suc i # [Suc (Suc i)..<Suc (length p)]" using i by (simp add: upt_conv_Cons)
  have q: "?q \<noteq> []" "butlast ?q = take i p" "list_all name_ok ?q"
    using i Suc.prems(2) by (auto simp: butlast_take list_all_iff dest: in_set_takeD)
  have rest: "disk_ok (snd (mkdirs (map (\<lambda>n. take n p) [Suc (Suc i)..<Suc (length p)]) d'))"
    if "disk_ok d'" "dict_get d' ?q = Some FDir" for d'
    using that Suc.prems(2) Suc.hyps(2) i by (intro Suc.hyps(1)) auto
  show ?case
  proof (cases "dict_get d ?q")
    case None
    have "disk_ok (dict_set ?q FDir d)"
      using Suc.prems(1,4) q by (intro disk_ok_set) auto
    then show ?thesis using None rest [of "dict_set ?q FDir d"] by (simp add: step del: upt_Suc)
  next
    case (Some n)
    then show ?thesis using rest [of d] Suc.prems(1) by (cases n) (simp_all add: step del: upt_Suc)
  qed
qed simp

lemma disk_ok_parents: "disk_ok d \<Longrightarrow> list_all name_ok p \<Longrightarrow> disk_ok (snd (mkdirs (path_and_parents p) d))"
  using disk_ok_mkdirs [of d p 0] by (simp add: path_and_parents_simp)


lemma atomic_json_disk_ok:
  assumes "disk_ok d" and "dict_get d dir = Some FDir" and "dir \<noteq> []" and "name_ok name" and "name_ok c" and "c \<noteq> name"
    and "dict_get d (dir @ [c]) = None" and "list_all name_ok dir"
  shows "disk_ok (snd (atomic_json fault (dir @ [c]) (dir @ [name]) v d))"
proof -
  have tmp: "dir @ [c] \<noteq> dir @ [name]" using assms(6) by simp
  let ?r = "atomic_json fault (dir @ [c]) (dir @ [name]) v d"
  have get: "dict_get (snd ?r) q = (if q = dir @ [name] \<and> is_ok (fst ?r) then Some (FFile (json_file v)) else dict_get d q)" for q
    by (rule atomic_json_get [OF tmp assms(7)])
  have nodir: "is_ok (fst ?r) \<Longrightarrow> dict_get d (dir @ [name]) \<noteq> Some FDir"
    by (cases fault) (auto simp: atomic_json_def Let_def split: if_splits)
  show ?thesis
  proof (rule disk_okI)
    show "dict_ok (snd ?r)" by (rule atomic_json_ok [OF disk_okD(1) [OF assms(1)]])
    fix q n
    assume q: "dict_get (snd ?r) q = Some n"
    show "q \<noteq> [] \<and> list_all name_ok q \<and> (butlast q = [] \<or> dict_get (snd ?r) (butlast q) = Some FDir)"
    proof (cases "q = dir @ [name] \<and> is_ok (fst ?r)")
      case True
      then show ?thesis using assms by (auto simp: get)
    next
      case False
      then have "dict_get d q = Some n" using q by (simp add: get split: if_splits)
      then show ?thesis using disk_ok_entry [OF assms(1), of q n] nodir by (auto simp: get)
    qed
  qed
qed

lemma manifest_name_ok: "name_ok manifest_name"
  by (simp add: name_ok_def manifest_name_def)

lemma target_name_ok: "snapshot_path model_id revision = Inr t \<Longrightarrow> list_all name_ok t"
  by (auto simp: snapshot_path_Inr component_name_ok) (simp add: name_ok_def)

text \<open>A commit leaves a well-formed disk, whatever it does.\<close>

lemma commit_disk_ok:
  assumes "commit_snapshot V io staging model_id revision license d = (r, d')"
    and "snapshot_path model_id revision = Inr t" and "disk_ok d" and "staging_ok io staging d"
    and "dict_get d staging = Some FDir" and "name_ok (co_tmp io)"
  shows "disk_ok d'"
proof -
  obtain x where x: "staging = [''.staging'', x]" and tmp: "staging @ [co_tmp io] \<noteq> staging @ [manifest_name]"
      "dict_get d (staging @ [co_tmp io]) = None"
    using assms(4) by (auto simp: staging_ok_def)
  note t = target_facts [OF assms(2)]
  have dir: "list_all name_ok staging" "staging \<noteq> []" using disk_ok_entry [OF assms(3,5)] by auto
  have aj: "disk_ok (snd (atomic_json (co_fault io) (staging @ [co_tmp io]) (staging @ [manifest_name]) v d))" for v
    using tmp assms(3,5,6) dir manifest_name_ok by (intro atomic_json_disk_ok) auto
  have names: "list_all name_ok (butlast t)" using target_name_ok [OF assms(2)] by (auto simp: list_all_iff dest: in_set_butlastD)
  from assms(1,2) show ?thesis
  proof (cases rule: commit_cases)
    case untouched
    then show ?thesis using assms(3) by simp
  next
    case (stopped files m)
    then show ?thesis using aj by simp
  next
    case (place files m d1 d2 u)
    have ok1: "disk_ok d1" using aj [of "JObj m"] place(5) by simp
    have ok2: "disk_ok d2" using disk_ok_parents [OF ok1 names] place(6) by simp
    have d1: "dict_get d1 p = (if p = staging @ [manifest_name] then Some (FFile (json_file (JObj m))) else dict_get d p)" for p
      using atomic_json_get [OF tmp, of "co_fault io" "JObj m" p] place(5) by simp
    from place(7) show ?thesis
    proof (elim disjE conjE)
      assume "u = Inr ()" and none: "dict_get d2 t = None" and d': "d' = rename_tree staging t d2"
      have free: "dict_get d2 (t @ p) = None" for p
        by (rule commit_free [OF assms(3,2) place(2) x d1 place(6) none])
      have "butlast t \<in> set (path_and_parents (butlast t))"
        using t(1) unfolding path_and_parents_simp set_map
        by (intro image_eqI [of _ _ "length (butlast t)"]) (auto simp: Suc_le_eq simp del: butlast.simps)
      then have "dict_get d2 (butlast t) = Some FDir" using mkdirs_made [of _ d1 "()" d2] place(6) \<open>u = Inr ()\<close> by simp
      then show ?thesis unfolding d'
        using t x dir target_name_ok [OF assms(2)] by (intro disk_ok_rename [OF ok2 free]) auto
    qed (use ok2 in simp)
  qed
qed


section \<open>The slot and the download\<close>

text \<open>
  What a mirror needs of the world: the name that \<open>mkdtemp\<close> draws is new, whether or not it then fails, and
  the hub's download is a tree of named nodes without the temporary name of the manifest.
\<close>

definition slot_dir :: "string \<Rightarrow> string \<Rightarrow> string \<Rightarrow> wpath" where
  "slot_dir suffix model_id revision = [''.staging'', take 12 (slot_key model_id revision) @ ''-'' @ suffix]"

definition mirror_ok :: "hub \<Rightarrow> mirror_io \<Rightarrow> disk \<Rightarrow> bool" where
  "mirror_ok H io d \<longleftrightarrow> name_ok (mo_suffix io) \<and>
     name_ok (co_tmp (mo_commit io)) \<and> co_tmp (mo_commit io) \<noteq> manifest_name \<and>
     (\<forall>m r p. disk_ok (fst (hub_snapshot H m r p)) \<and> dict_get (fst (hub_snapshot H m r p)) [co_tmp (mo_commit io)] = None) \<and>
     (\<forall>m r. dict_get d (slot_dir (mo_suffix io) m r) = None)"

definition slot_filled :: "hub \<Rightarrow> mirror_io \<Rightarrow> string \<Rightarrow> string \<Rightarrow> string list option \<Rightarrow> disk \<Rightarrow> disk" where
  "slot_filled H io model_id revision patterns d =
     (let s = slot_dir (mo_suffix io) model_id revision in
      dict_set s FDir (dict_set (lock_path model_id revision) (FFile []) d) @
        map (\<lambda>(p, n). (s @ p, n)) (fst (hub_snapshot H model_id revision patterns)))"

lemma slot_key_name: "name_ok (take 12 (slot_key m r) @ ''-'' @ suffix) \<longleftrightarrow> CHR ''/'' \<notin> set suffix"
    "name_ok (slot_key m r @ ''.lock'')"
proof -
  have "CHR ''/'' \<notin> set (sha_hex bs)" for bs
  proof
    assume "CHR ''/'' \<in> set (sha_hex bs)"
    then obtain n where "n < 16" "CHR ''/'' = hex_digit n" using hex_chars unfolding sha_hex_def by blast
    then have "48 \<le> code (CHR ''/'')" using hex_digit_ascii by metis
    then show False by (simp add: code_def)
  qed
  then show "name_ok (take 12 (slot_key m r) @ ''-'' @ suffix) \<longleftrightarrow> CHR ''/'' \<notin> set suffix" "name_ok (slot_key m r @ ''.lock'')"
    by (auto simp: name_ok_def slot_key_def dest: in_set_takeD)
qed

lemma map_of_shift: "map_of (map (\<lambda>(p, n). (s @ p, n)) fs) q = (if starts_with s q then map_of fs (drop (length s) q) else None)"
  by (induction fs) (auto simp: starts_with_iff)

lemma slot_filled_get:
  assumes "disk_ok d" and "dict_get d (slot_dir (mo_suffix io) m r) = None" and "disk_ok (fst (hub_snapshot H m r p))"
  shows "dict_get (slot_filled H io m r p d) q =
     (if q = lock_path m r then Some (FFile [])
      else if starts_with (slot_dir (mo_suffix io) m r) q then
        (if q = slot_dir (mo_suffix io) m r then Some FDir
         else dict_get (fst (hub_snapshot H m r p)) (drop 2 q))
      else dict_get d q)"
proof -
  let ?s = "slot_dir (mo_suffix io) m r" and ?fs = "fst (hub_snapshot H m r p)"
  have self: "starts_with ?s ?s" by (simp add: starts_with_def)
  have s: "length ?s = 2" "\<not> starts_with ?s (lock_path m r)" "?s \<noteq> lock_path m r"
    by (simp_all add: slot_dir_def lock_path_def starts_with_def)
  have empty: "dict_get d (?s @ q) = None" for q
  proof (cases "q = []")
    case False
    then show ?thesis using disk_parent [OF assms(1), of ?s q] assms(2) by (metis not_Some_eq option.distinct(1) length_0_conv s(1) zero_neq_numeral)
  qed (simp add: assms(2))
  have "dict_get ?fs [] = None" using disk_okD(2) [OF assms(3), of "[]"] by (metis not_Some_eq)
  have *: "dict_get (slot_filled H io m r p d) q =
      (case dict_get (dict_set ?s FDir (dict_set (lock_path m r) (FFile []) d)) q of
         Some n \<Rightarrow> Some n | None \<Rightarrow> (if starts_with ?s q then dict_get ?fs (drop 2 q) else None))"
    unfolding slot_filled_def Let_def dict_get_def map_of_append map_add_def map_of_shift s(1)
    by (auto split: option.split)
  show ?thesis
  proof (cases "starts_with ?s q")
    case True
    then obtain q' where q: "q = ?s @ q'" by (auto simp: starts_with_iff)
    show ?thesis using True s(2,3) empty [of q'] unfolding * by (auto simp: q dict.lookup_store s(1) split: option.split)
  qed (use s(2,3) self in \<open>auto simp: * dict.lookup_store split: option.split\<close>)
qed


lemma slot_filled_ok:
  assumes "disk_ok d" and "mirror_ok H io d" and "dict_get d [''.locks''] = Some FDir" and "dict_get d [''.staging''] = Some FDir"
    and "dict_get d (lock_path m r) = None"
  shows "disk_ok (slot_filled H io m r p d)"
proof (rule disk_okI)
  let ?s = "slot_dir (mo_suffix io) m r" and ?fs = "fst (hub_snapshot H m r p)"
  have w: "dict_get d ?s = None" "disk_ok ?fs" "name_ok (mo_suffix io)" using assms(2) by (auto simp: mirror_ok_def)
  note get = slot_filled_get [OF assms(1) w(1,2)]
  have s: "length ?s = 2" "butlast ?s = [''.staging'']" "butlast (lock_path m r) = [''.locks'']" "?s \<noteq> []" "?s \<noteq> lock_path m r"
    "\<not> starts_with ?s (lock_path m r)" "\<not> starts_with ?s [''.staging'']" "\<not> starts_with ?s [''.locks'']"
    "lock_path m r \<noteq> [''.staging'']" "lock_path m r \<noteq> [''.locks'']" "lock_path m r \<noteq> []"
    by (simp_all add: slot_dir_def lock_path_def starts_with_def)
  have names: "list_all name_ok ?s" "list_all name_ok (lock_path m r)"
    using w(3) slot_key_name by (simp_all add: slot_dir_def lock_path_def) (simp_all add: name_ok_def)
  show "dict_ok (slot_filled H io m r p d)"
  proof -
    let ?d1 = "dict_set ?s FDir (dict_set (lock_path m r) (FFile []) d)"
    have ok1: "dict_ok ?d1" using disk_okD(1) [OF assms(1)] by (intro dict.wf_store)
    have apart: "?s @ q \<notin> set (map fst ?d1)" if "q \<in> set (map fst ?fs)" for q
    proof -
      have "q \<noteq> []" using that disk_okD(2) [OF w(2)] by (metis dict_get_None_iff not_Some_eq)
      then have "dict_get d (?s @ q) = None" using disk_parent [OF assms(1), of ?s q] w(1) s(4) by (metis not_Some_eq option.distinct(1))
      moreover have "?s @ q \<noteq> lock_path m r" using s(6) by (metis starts_with_append)
      ultimately have "dict_get ?d1 (?s @ q) = None" using \<open>q \<noteq> []\<close> by (simp add: dict.lookup_store)
      then show ?thesis by (simp add: dict_get_None_iff)
    qed
    have "distinct (map ((@) ?s) (map fst ?fs))" using disk_okD(1) [OF w(2)] by (auto simp: distinct_map inj_on_def)
    moreover have "map fst (slot_filled H io m r p d) = map fst ?d1 @ map ((@) ?s) (map fst ?fs)"
      by (simp add: slot_filled_def Let_def split_beta)
    moreover have "x \<notin> set (map fst ?d1)" if x: "x \<in> set (map ((@) ?s) (map fst ?fs))" for x
    proof -
      obtain q where "q \<in> set (map fst ?fs)" "x = ?s @ q" using x unfolding set_map [of "(@) ?s"] by blast
      then show ?thesis using apart by simp
    qed
    ultimately show ?thesis using ok1 by (simp only: distinct_append) blast
  qed
  fix q n
  assume q: "dict_get (slot_filled H io m r p d) q = Some n"
  show "q \<noteq> [] \<and> list_all name_ok q \<and> (butlast q = [] \<or> dict_get (slot_filled H io m r p d) (butlast q) = Some FDir)"
  proof (cases "q = lock_path m r")
    case True
    then show ?thesis using s names assms(3) by (simp add: get)
  next
    case nolock: False
    show ?thesis
    proof (cases "starts_with ?s q")
      case True
      then obtain q' where q': "q = ?s @ q'" by (auto simp: starts_with_iff)
      show ?thesis
      proof (cases "q' = []")
        case True
        then show ?thesis using s names assms(4) by (simp add: get q')
      next
        case False
        have f: "dict_get ?fs q' = Some n" using q nolock False by (simp add: get q' s(1))
        have b: "butlast q = ?s @ butlast q'" using False by (simp add: q' butlast_append)
        have "?s @ butlast q' \<noteq> lock_path m r" using s(6) by (metis starts_with_append)
        then show ?thesis using disk_ok_entry [OF w(2) f] names s(1,4) unfolding b by (auto simp: get q')
      qed
    next
      case False
      then have f: "dict_get d q = Some n" using q nolock by (simp add: get)
      have "\<not> starts_with ?s (butlast q)" using False starts_with_butlast by blast
      moreover have "butlast q \<noteq> lock_path m r" using disk_ok_entry [OF assms(1) f] assms(5) s(11) by auto
      ultimately show ?thesis using disk_ok_entry [OF assms(1) f] by (auto simp: get)
    qed
  qed
qed


lemma commit_target_free:
  assumes "commit_snapshot V io staging model_id revision license d = (Inr m, d')"
    and "snapshot_path model_id revision = Inr t" and "disk_ok d" and "staging_ok io staging d" and "\<not> path_exists d t"
  shows "dict_get d (t @ q) = None"
proof -
  obtain x where x: "staging = [''.staging'', x]" and tmp: "staging @ [co_tmp io] \<noteq> staging @ [manifest_name]"
      "dict_get d (staging @ [co_tmp io]) = None"
    using assms(4) by (auto simp: staging_ok_def)
  note t = target_facts [OF assms(2)]
  from assms(1,2) show ?thesis
  proof (cases rule: commit_cases)
    case (place files m' d1 d2 u)
    have d1: "dict_get d1 p = (if p = staging @ [manifest_name] then Some (FFile (json_file (JObj m'))) else dict_get d p)" for p
      using atomic_json_get [OF tmp, of "co_fault io" "JObj m'" p] place(5) by simp
    have none: "dict_get d2 t = None" using place(7) by auto
    have "dict_get d2 (t @ q) = None" by (rule commit_free [OF assms(3,2,5) x d1 place(6) none])
    moreover have "t @ q \<noteq> staging @ [manifest_name]" using t(2,8) x by (cases t) auto
    ultimately show ?thesis using mkdirs_get [OF place(6), of "t @ q"] d1 [of "t @ q"] by auto
  qed (use assms(5) in simp_all)
qed

lemma slot_exit_get:
  "dict_get (slot_exit s m r d) q = (if q = lock_path m r \<or> starts_with s q then None else dict_get d q)"
  by (simp add: slot_exit_def dict.lookup_remove rmtree_get)

lemma mirror_slot_cases:
  assumes "mirror_slot H io V m r lic pats d = (res, d')" and "dict_get d [''.staging''] = Some FDir"
  obtains (refused) "d' = d" "\<not> is_ok res"
  | (stuck) "mo_mk_fails io" "dict_get d [''.locks''] = Some FDir" "dict_get d (lock_path m r) = None"
      "d' = dict_set (lock_path m r) (FFile []) d" "\<not> is_ok res"
  | (run) d3 where "dict_get d [''.locks''] = Some FDir" "dict_get d (lock_path m r) = None"
      "(\<not> is_ok res \<and> d3 = slot_filled H io m r pats d) \<or>
         commit_snapshot V (mo_commit io) (slot_dir (mo_suffix io) m r) m r lic (slot_filled H io m r pats d) = (res, d3)"
      "d' = slot_exit (slot_dir (mo_suffix io) m r) m r d3"
proof (cases "dict_get d [''.locks''] = Some FDir \<and> dict_get d (lock_path m r) = None")
  case False
  then show thesis using assms by (intro that(1)) (auto simp: mirror_slot_def slot_enter_def split: if_splits)
next
  case True
  show thesis
  proof (cases "mo_mk_fails io")
    case mk: True
    then show thesis using assms(1) True
      by (intro that(2)) (auto simp: mirror_slot_def slot_enter_def Let_def)
  next
    case mk: False
  from True have "slot_enter (mo_suffix io) (mo_mk_fails io) m r d = (Inr (slot_dir (mo_suffix io) m r),
      dict_set (slot_dir (mo_suffix io) m r) FDir (dict_set (lock_path m r) (FFile []) d))"
    using assms(2) mk by (simp add: slot_enter_def slot_dir_def Let_def)
  note enter = this
  obtain files failed where hub: "hub_snapshot H m r pats = (files, failed)" by fastforce
  have filled: "slot_filled H io m r pats d = dict_set (slot_dir (mo_suffix io) m r) FDir
      (dict_set (lock_path m r) (FFile []) d) @ map (\<lambda>(p, n). (slot_dir (mo_suffix io) m r @ p, n)) files"
    by (simp add: slot_filled_def hub Let_def)
  show thesis
  proof (cases failed)
    case None
    obtain d3 where "commit_snapshot V (mo_commit io) (slot_dir (mo_suffix io) m r) m r lic (slot_filled H io m r pats d) = (res, d3)"
        "d' = slot_exit (slot_dir (mo_suffix io) m r) m r d3"
      using assms(1) by (simp add: mirror_slot_def enter hub None filled [symmetric] split: prod.splits)
    then show thesis using True by (intro that(3)) simp_all
  next
    case (Some e)
    then have "\<not> is_ok res" "d' = slot_exit (slot_dir (mo_suffix io) m r) m r (slot_filled H io m r pats d)"
      using assms(1) by (simp_all add: mirror_slot_def enter hub filled [symmetric]) (auto simp: Let_def)
    then show thesis using True by (intro that(3)) simp_all
  qed
  qed
qed

text \<open>The one thing a failure can leave outside the models: the lock, when \<open>mkdtemp\<close> fails after it was taken.\<close>

definition lock_stays :: "mirror_io \<Rightarrow> string \<Rightarrow> disk \<Rightarrow> wpath \<Rightarrow> bool" where
  "lock_stays io m d' q \<longleftrightarrow> mo_mk_fails io \<and> (\<exists>r. q = lock_path m r) \<and> dict_get d' q = Some (FFile [])"

text \<open>What a mirror does to the disk once it enters the slot.\<close>

lemma mirror_slot_effect:
  assumes "mirror_slot H io V m r lic pats d = (res, d')" and "snapshot_path m r = Inr t" and "disk_ok d" and "mirror_ok H io d"
    and "dict_get d [''.staging''] = Some FDir" and "\<not> path_exists d t"
  shows "disk_ok d' \<and> (dict_get d q \<noteq> None \<longrightarrow> dict_get d' q = dict_get d q) \<and>
      (hd q \<noteq> ''models'' \<longrightarrow> dict_get d' q = dict_get d q \<or> \<not> is_ok res \<and> lock_stays io m d' q) \<and>
      (\<not> is_ok res \<longrightarrow> dict_get d' q \<in> {dict_get d q, Some FDir} \<or> lock_stays io m d' q) \<and>
      (res = Inr man \<longrightarrow> wv_verify V m r d' = Inr (sorted_dict man) \<and>
         (\<exists>files. man = snapshot_manifest m r lic (co_now (mo_commit io)) files))"
proof -
  from assms(1,5) show ?thesis
  proof (cases rule: mirror_slot_cases)
    case refused
    then show ?thesis using assms(3) by auto
  next
    case stuck
    have names: "list_all name_ok (lock_path m r)" "lock_path m r \<noteq> []" "butlast (lock_path m r) = [''.locks'']"
      using slot_key_name(2) by (simp_all add: lock_path_def) (simp add: name_ok_def)
    then have "disk_ok d'" using stuck disk_ok_set [OF assms(3), of "lock_path m r" "FFile []"] by simp
    moreover have "dict_get d' q = (if q = lock_path m r then Some (FFile []) else dict_get d q)"
      using stuck(4) by (simp add: dict.lookup_store)
    ultimately show ?thesis using stuck(1,3,5) by (auto simp: lock_stays_def)
  next
    case (run d3)
    let ?s = "slot_dir (mo_suffix io) m r" and ?d2 = "slot_filled H io m r pats d" and ?fs = "fst (hub_snapshot H m r pats)"
    have w: "dict_get d ?s = None" "disk_ok ?fs" "dict_get ?fs [co_tmp (mo_commit io)] = None"
      using assms(4) by (auto simp: mirror_ok_def)
    note get2 = slot_filled_get [OF assms(3) w(1,2)] and ok2 = slot_filled_ok [OF assms(3,4) run(1) assms(5) run(2), of pats]
    note t = target_facts [OF assms(2)]
    have s: "length ?s = 2" "\<not> starts_with ?s (lock_path m r)" "?s \<noteq> lock_path m r" "starts_with ?s ?s" "?s \<noteq> []"
      by (simp_all add: slot_dir_def lock_path_def starts_with_def)
    have far: "\<not> starts_with ?s (t @ p)" "t @ p \<noteq> lock_path m r" for p
      using t(2,8) by (cases t; auto simp: slot_dir_def starts_with_def lock_path_def)+
    have under: "dict_get d p = None" if "starts_with ?s p" for p
    proof -
      obtain p' where p: "p = ?s @ p'" using \<open>starts_with ?s p\<close> by (auto simp: starts_with_iff)
      show ?thesis
      proof (cases "p' = []")
        case False
        then have "dict_get d (?s @ p') \<noteq> Some n" for n using disk_parent [OF assms(3) _ s(5) False, of n] w(1) by auto
        then show ?thesis unfolding p by (cases "dict_get d (?s @ p')") auto
      qed (use w(1) p in simp)
    qed
    have pe: "\<not> path_exists ?d2 t" using assms(6) far [of "[]"] by (simp add: path_exists_def get2)
    have st: "staging_ok (mo_commit io) ?s ?d2"
      using assms(4) w(3) s(2) by (simp add: staging_ok_def mirror_ok_def get2 slot_dir_def lock_path_def starts_with_def)
    have sd: "dict_get ?d2 ?s = Some FDir" using s by (simp add: get2)
    have tmp: "name_ok (co_tmp (mo_commit io))" using assms(4) by (simp add: mirror_ok_def)
    have exit: "dict_get d' p = (if p = lock_path m r \<or> starts_with ?s p then None else dict_get d3 p)" for p
      using run(4) by (simp add: slot_exit_get)
    have keeps2: "dict_get ?d2 p = dict_get d p" if "p \<noteq> lock_path m r" "\<not> starts_with ?s p" for p
      using that by (simp add: get2)
    have frame: "(starts_with t p \<longrightarrow> \<not> is_ok res \<longrightarrow> dict_get d3 p = dict_get ?d2 p) \<and>
       (\<not> starts_with t p \<longrightarrow> dict_get d3 p = dict_get ?d2 p \<or>
          (p \<in> set (path_and_parents (butlast t)) \<and> dict_get ?d2 p = None \<and> dict_get d3 p = Some FDir))"
      if "\<not> starts_with ?s p" for p
      using run(3) commit_frame [OF _ assms(2) ok2 st that] by blast
    have ok3: "disk_ok d3" using run(3) ok2 commit_disk_ok [OF _ assms(2) ok2 st sd tmp] by blast
    have lock3: "dict_get d3 (lock_path m r) \<noteq> Some FDir"
    proof -
      have "\<not> starts_with t (lock_path m r)" using t(2,8) by (auto simp: starts_with_iff lock_path_def Cons_eq_append_conv)
      moreover have "lock_path m r \<notin> set (path_and_parents (butlast t))" using t(7) [of "lock_path m r"] by (auto simp: lock_path_def)
      ultimately show ?thesis using frame [OF s(2)] by (simp add: get2)
    qed
    have okd: "disk_ok d'" unfolding run(4) slot_exit_def
      by (intro disk_ok_del disk_ok_rmtree ok3) (use lock3 in \<open>simp add: rmtree_get\<close>)
    have new: "dict_get d (t @ p) = None" if "is_ok res" for p
      using run(3) that commit_target_free [OF _ assms(2) ok2 st pe] keeps2 [OF far(2,1), of p]
      by (cases res) auto
    have keep: "dict_get d q \<noteq> None \<longrightarrow> dict_get d' q = dict_get d q"
      using exit [of q] under [of q] run(2) frame [of q] keeps2 [of q] new
      by (cases "is_ok res"; cases "starts_with t q") (auto simp: starts_with_iff)
    have other: "hd q \<noteq> ''models'' \<longrightarrow> dict_get d' q = dict_get d q"
    proof
      assume "hd q \<noteq> ''models''"
      then have "\<not> starts_with t q" "q \<notin> set (path_and_parents (butlast t))"
        using t(2,8) t(7) [of q] by (auto simp: starts_with_iff)
      then show "dict_get d' q = dict_get d q" using exit [of q] under [of q] run(2) frame [of q] keeps2 [of q] by auto
    qed
    have failed: "\<not> is_ok res \<longrightarrow> dict_get d' q \<in> {dict_get d q, Some FDir}"
      using exit [of q] under [of q] run(2) frame [of q] keeps2 [of q] by auto
    have verified: "res = Inr man \<longrightarrow> wv_verify V m r d' = Inr (sorted_dict man) \<and>
        (\<exists>files. man = snapshot_manifest m r lic (co_now (mo_commit io)) files)"
    proof
      assume res: "res = Inr man"
      then have c: "commit_snapshot V (mo_commit io) ?s m r lic ?d2 = (Inr man, d3)" using run(3) by auto
      have "dict_get d3 (t @ p) = dict_get d' (t @ p)" for p using exit [of "t @ p"] far [of p] by simp
      then have "wv_verify V m r d' = wv_verify V m r d3"
        using wv_verify_cong [OF assms(2) disk_okD(1) [OF ok3] disk_okD(1) [OF okd]] by blast
      then show "wv_verify V m r d' = Inr (sorted_dict man) \<and>
          (\<exists>files. man = snapshot_manifest m r lic (co_now (mo_commit io)) files)"
        using commit_then_verify_base [OF c assms(2) ok2 st pe] commit_publishes [OF c assms(2) ok2 st pe] by auto
    qed
    show ?thesis
      using okd keep other failed verified by blast
  qed
qed


section \<open>Mirroring\<close>

lemma snapshot_manifest_get:
  "dict_get (snapshot_manifest m r lic now files) ''total_bytes'' = Some (JInt (inventory_total files))"
  "dict_get (snapshot_manifest m r lic now files) ''files'' = Some (inventory_json files)"
  by (simp_all add: snapshot_manifest_def dict_get_def)

lemma mirror_update_committed: "is_ok (mirror_update dest n rec (snapshot_manifest m r lic now files))"
  by (simp add: mirror_update_def snapshot_manifest_get inventory_json_def)

lemma info_path_Inr: "info_path m sha = Inr (t, r) \<longleftrightarrow> sha = Some r \<and> snapshot_path m r = Inr t"
  by (auto simp: info_path_def bindR_Inr_iff split: option.split)

lemma mirror_cases:
  assumes "mirror H io m expected dest w pats d = (res, d')"
  obtains (light) "d' = d" "is_ok res \<longrightarrow> \<not> w"
  | (present) info V r t lic where "w" "d' = d" "hub_info H m w = Inr info" "mi_sha info = Some r" "wv_open dest d = Inr V"
      "require_license (mi_license info) expected = Inr lic" "snapshot_path m r = Inr t" "path_exists d t"
      "res = bindR (wv_verify V m r d) (mirror_update (dest @ ''/'' @ posix t) (expected_size info) (mirror_record m (Some r) lic))"
  | (slot) info V r t lic man where "w" "hub_info H m w = Inr info" "mi_sha info = Some r" "wv_open dest d = Inr V"
      "require_license (mi_license info) expected = Inr lic" "snapshot_path m r = Inr t" "\<not> path_exists d t"
      "mirror_slot H io V m r lic pats d = (man, d')"
      "res = bindR man (mirror_update (dest @ ''/'' @ posix t) (expected_size info) (mirror_record m (Some r) lic))"
proof (cases "hub_info H m w")
  case (Inl e)
  then show thesis using assms by (intro that(1)) (auto simp: mirror_def)
next
  case info: (Inr info)
  show thesis
  proof (cases "require_license (mi_license info) expected")
    case (Inl e)
    then show thesis using assms info by (intro that(1)) (auto simp: mirror_def)
  next
    case lic: (Inr lic)
    show thesis
    proof (cases "w \<and> is_ok (wv_open dest d) \<and> is_ok (info_path m (mi_sha info)) \<and>
        (\<exists>V. wv_open dest d = Inr V \<and> require_capacity V (mo_free io) (expected_size info) d = Inr ())")
      case False
      then show thesis using assms info lic
        by (intro that(1)) (auto simp: mirror_def Let_def split: if_splits sum.splits)
    next
      case True
      then obtain V t r where v: "wv_open dest d = Inr V" "require_capacity V (mo_free io) (expected_size info) d = Inr ()"
        and p: "info_path m (mi_sha info) = Inr (t, r)" by (cases "info_path m (mi_sha info)") auto
      have sha: "mi_sha info = Some r" "snapshot_path m r = Inr t" using p info_path_Inr by metis+
      obtain man d1 where md: "(if path_exists d t then (wv_verify V m r d, d) else mirror_slot H io V m r lic pats d) = (man, d1)"
        by fastforce
      have "res = bindR man (mirror_update (dest @ ''/'' @ posix t) (expected_size info) (mirror_record m (Some r) lic)) \<and> d' = d1"
        using assms info lic True v p md sha(1) by (simp add: mirror_def Let_def)
      then show thesis using that(2) [OF _ _ info sha(1) v(1) lic sha(2)] that(3) [OF _ info sha(1) v(1) lic sha(2)] md True
        by (cases "path_exists d t") auto
    qed
  qed
qed

lemma mirror_effect:
  assumes "mirror H io m expected dest w pats d = (res, d')" and "disk_ok d" and "mirror_ok H io d"
    and "dict_get d [''.staging''] = Some FDir"
  shows "(hd q \<noteq> ''models'' \<longrightarrow> dict_get d' q = dict_get d q \<or> \<not> is_ok res \<and> lock_stays io m d' q) \<and>
     (dict_get d q \<noteq> None \<longrightarrow> dict_get d' q = dict_get d q) \<and>
     (\<not> is_ok res \<longrightarrow> dict_get d' q \<in> {dict_get d q, Some FDir} \<or> lock_stays io m d' q)"
  using assms(1)
proof (cases rule: mirror_cases)
  case (slot info V r t lic man)
  have e: "disk_ok d' \<and> (dict_get d q \<noteq> None \<longrightarrow> dict_get d' q = dict_get d q) \<and>
      (hd q \<noteq> ''models'' \<longrightarrow> dict_get d' q = dict_get d q \<or> \<not> is_ok man \<and> lock_stays io m d' q) \<and>
      (\<not> is_ok man \<longrightarrow> dict_get d' q \<in> {dict_get d q, Some FDir} \<or> lock_stays io m d' q) \<and>
      (man = Inr x \<longrightarrow> wv_verify V m r d' = Inr (sorted_dict x) \<and>
         (\<exists>files. x = snapshot_manifest m r lic (co_now (mo_commit io)) files))" for x
    by (rule mirror_slot_effect [OF slot(8,6) assms(2-4) slot(7)])
  have returns: "is_ok res" if ok: "is_ok man"
  proof -
    obtain x where "man = Inr x" using ok by (cases man) simp_all
    moreover obtain files where "x = snapshot_manifest m r lic (co_now (mo_commit io)) files" using e [of x] \<open>man = Inr x\<close> by blast
    ultimately show ?thesis using slot(9) mirror_update_committed by simp
  qed
  have "is_ok man" if "is_ok res" using that slot(9) by (cases man) simp_all
  then show ?thesis using e returns by blast
qed simp_all

text \<open>C13: Whatever tree of named entries the hub delivers and whatever write, check or download fails, with temporary
  names that are new mirroring never changes or removes what is on the disk already; outside the models it adds nothing, its lock and its staging directory
  are gone again; and when it raises it has added no file among the models, only directories. The single
  exception is a failing \<open>mkdtemp\<close>, which comes after the lock was taken and outside the \<open>try\<close>: then
  nothing but an empty lock file of that model is left.\<close>

theorem mirror_all_or_nothing:
  assumes "mirror H io m expected dest w pats d = (res, d')" and "disk_ok d" and "mirror_ok H io d"
    and "dict_get d [''.staging''] = Some FDir"
  shows "(dict_get d q \<noteq> None \<longrightarrow> dict_get d' q = dict_get d q) \<and>
     (hd q \<noteq> ''models'' \<longrightarrow> dict_get d' q = dict_get d q \<or>
        \<not> is_ok res \<and> mo_mk_fails io \<and> (\<exists>r. q = lock_path m r) \<and> dict_get d' q = Some (FFile [])) \<and>
     (\<not> is_ok res \<longrightarrow> dict_get d' q \<in> {dict_get d q, Some FDir} \<or>
        mo_mk_fails io \<and> (\<exists>r. q = lock_path m r) \<and> dict_get d' q = Some (FFile []))"
  using mirror_effect [OF assms, of q] unfolding lock_stays_def by blast

text \<open>A mirror with weights that returns has passed the licence gate, and the snapshot it names verifies
  on the disk it leaves.\<close>

theorem mirror_verified:
  assumes "mirror H io m expected dest True pats d = (Inr rec, d')" and "disk_ok d" and "mirror_ok H io d"
    and "dict_get d [''.staging''] = Some FDir"
  shows "\<exists>info V r man. hub_info H m True = Inr info \<and> mi_sha info = Some r \<and> wv_open dest d = Inr V \<and>
     normalize_license (mi_license info) = normalize_license (JStr expected) \<and> wv_verify V m r d' = Inr man"
proof -
  have lic: "normalize_license a = normalize_license (JStr b)" if "require_license a b = Inr l" for a b l
    using that by (auto simp: require_license_def bindR_Inr_iff split: if_splits)
  from assms(1) show ?thesis
  proof (cases rule: mirror_cases)
    case (present info V r t l)
    then obtain man where "wv_verify V m r d = Inr man" using present(9) [symmetric] unfolding bindR_Inr_iff by blast
    then show ?thesis using present lic by metis
  next
    case (slot info V r t l man)
    then obtain x where "man = Inr x" using slot(9) [symmetric] unfolding bindR_Inr_iff by blast
    then have "wv_verify V m r d' = Inr (sorted_dict x)"
      using mirror_slot_effect [OF slot(8,6) assms(2-4) slot(7)] by blast
    then show ?thesis using slot lic by metis
  qed simp
qed

section \<open>Runs of mirrors\<close>

text \<open>Any number of mirrors one after the other, each with its own outcome.\<close>

inductive mirrored :: "hub \<Rightarrow> disk \<Rightarrow> disk \<Rightarrow> bool" for H where
  none: "mirrored H d d"
| more: "mirrored H d d1 \<Longrightarrow> mirror_ok H io d1 \<Longrightarrow> mirror H io m expected dest w pats d1 = (res, d2) \<Longrightarrow> mirrored H d d2"

lemma mirror_step:
  assumes "mirror H io m expected dest w pats d = (res, d')" and "disk_ok d" and "mirror_ok H io d"
    and "dict_get d [''.staging''] = Some FDir"
  shows "disk_ok d' \<and> dict_get d' [''.staging''] = Some FDir \<and> (dict_get d q \<noteq> None \<longrightarrow> dict_get d' q = dict_get d q)"
  using assms(1)
proof (cases rule: mirror_cases)
  case (slot info V r t lic man)
  then show ?thesis
    using mirror_slot_effect [OF slot(8,6) assms(2-4) slot(7)] assms(4) by (metis not_None_eq)
qed (use assms in simp_all)

lemma mirrored_keeps:
  assumes "mirrored H d d'" and "disk_ok d" and "dict_get d [''.staging''] = Some FDir"
  shows "disk_ok d' \<and> dict_get d' [''.staging''] = Some FDir \<and> (\<forall>q. dict_get d q \<noteq> None \<longrightarrow> dict_get d' q = dict_get d q)"
  using assms
proof (induction rule: mirrored.induct)
  case (more d d1 io m expected dest w pats res d2)
  then have h: "disk_ok d1" "dict_get d1 [''.staging''] = Some FDir" "\<forall>q. dict_get d q \<noteq> None \<longrightarrow> dict_get d1 q = dict_get d q"
    by auto
  show ?case using mirror_step [OF more.hyps(3) h(1) more.hyps(2) h(2)] h(3) by metis
qed simp


lemma wv_verify_keeps:
  assumes "wv_verify V m r d = Inr man" and "disk_ok d" and "disk_ok d'"
    and "\<And>q. dict_get d q \<noteq> None \<Longrightarrow> dict_get d' q = dict_get d q"
    and "\<And>t q. snapshot_path m r = Inr t \<Longrightarrow> dict_get d (t @ q) = None \<Longrightarrow> dict_get d' (t @ q) = None"
  shows "wv_verify V m r d' = Inr man"
proof -
  obtain t where t: "snapshot_path m r = Inr t" using assms(1) by (auto simp: wv_verify_def bindR_Inr_iff)
  have "dict_get d (t @ q) = dict_get d' (t @ q)" for q using assms(4) assms(5) [OF t] by (cases "dict_get d (t @ q)") metis+
  then have "wv_verify V m r d' = wv_verify V m r d"
    using wv_verify_cong [OF t disk_okD(1) [OF assms(2)] disk_okD(1) [OF assms(3)]] by blast
  with assms(1) show ?thesis by simp
qed

text \<open>A mirror adds nothing below a snapshot that has its manifest.\<close>

lemma mirror_adds_nothing:
  assumes "mirror H io m expected dest w pats d = (res, d')" and "disk_ok d" and "mirror_ok H io d"
    and "dict_get d [''.staging''] = Some FDir" and "snapshot_path model_id revision = Inr t" and "dict_get d t = Some FDir"
    and "dict_get d (t @ q) = None"
  shows "dict_get d' (t @ q) = None"
  using assms(1)
proof (cases rule: mirror_cases)
  case (slot info V r t' lic man)
  have ne: "t' \<noteq> t" using slot(7) assms(6) by (auto simp: path_exists_def)
  then have away: "\<not> starts_with t' (t @ q)"
    using target_facts(1) [OF assms(5)] target_facts(1) [OF slot(6)] by (auto simp: starts_with_def)
  have np: "t @ q \<notin> set (path_and_parents (butlast t'))"
  proof
    assume "t @ q \<in> set (path_and_parents (butlast t'))"
    then obtain i where "t @ q = take i (butlast t')" by (auto simp: path_and_parents_def)
    then have "length (t @ q) \<le> length (butlast t')" by (metis length_take min.cobounded1)
    then show False using target_facts(1) [OF assms(5)] target_facts(1) [OF slot(6)] by simp
  qed
  from slot(8) assms(4) show ?thesis
  proof (cases rule: mirror_slot_cases)
    case stuck
    have "t @ q \<noteq> lock_path m r" using target_facts(2,8) [OF assms(5)] by (cases t) (auto simp: lock_path_def)
    then show ?thesis using stuck(4) assms(7) by (simp add: dict.lookup_store)
  next
    case (run d3)
    let ?s = "slot_dir (mo_suffix io) m r" and ?d2 = "slot_filled H io m r pats d" and ?fs = "fst (hub_snapshot H m r pats)"
    have w: "dict_get d ?s = None" "disk_ok ?fs" "dict_get ?fs [co_tmp (mo_commit io)] = None"
      using assms(3) by (auto simp: mirror_ok_def)
    note get2 = slot_filled_get [OF assms(2) w(1,2)] and ok2 = slot_filled_ok [OF assms(2,3) run(1) assms(4) run(2), of pats]
    have far: "\<not> starts_with ?s (t @ q)" "t @ q \<noteq> lock_path m r"
      using target_facts(2,8) [OF assms(5)] by (cases t; auto simp: slot_dir_def starts_with_def lock_path_def)+
    have st: "staging_ok (mo_commit io) ?s ?d2"
      using assms(3) w(3) by (simp add: staging_ok_def mirror_ok_def get2 slot_dir_def lock_path_def starts_with_def)
    have "dict_get d3 (t @ q) = dict_get ?d2 (t @ q)"
      using run(3) commit_frame [OF _ slot(6) ok2 st far(1)] away np by blast
    then show ?thesis using run(4) far assms(7) by (simp add: slot_exit_get get2)
  qed (use assms(7) in simp)
qed (use assms(7) in simp_all)

lemma mirrored_verified:
  assumes "mirrored H d d'" and "disk_ok d" and "dict_get d [''.staging''] = Some FDir" and "wv_verify V m r d = Inr man"
  shows "disk_ok d' \<and> dict_get d' [''.staging''] = Some FDir \<and> wv_verify V m r d' = Inr man"
  using assms
proof (induction rule: mirrored.induct)
  case (more d d1 io mm expected dest w pats res d2)
  then have h: "disk_ok d1" "dict_get d1 [''.staging''] = Some FDir" "wv_verify V m r d1 = Inr man" by auto
  note k = mirror_step [OF more.hyps(3) h(1) more.hyps(2) h(2)]
  have dir: "dict_get d1 t = Some FDir" if t: "snapshot_path m r = Inr t" for t
  proof -
    obtain n where "dict_get d1 (t @ [manifest_name]) = Some n"
      using h(3) t by (cases "dict_get d1 (t @ [manifest_name])") (auto simp: wv_verify_def read_file_def)
    then show ?thesis using disk_parent [OF h(1), of t "[manifest_name]"] target_facts(2) [OF t] by simp
  qed
  have "wv_verify V m r d2 = Inr man"
    using k mirror_adds_nothing [OF more.hyps(3) h(1) more.hyps(2) h(2) _ dir]
    by (intro wv_verify_keeps [OF h(3,1)]) auto
  then show ?case using k [of "[''.staging'']"] h(2) by simp
qed simp

text \<open>A snapshot that verifies keeps verifying with the same manifest through any run of mirrors, of this or
  other models, whatever each of them ends in.\<close>

theorem mirrored_snapshots_stay:
  assumes "mirrored H d d'" and "disk_ok d" and "dict_get d [''.staging''] = Some FDir" and "wv_verify V m r d = Inr man"
  shows "wv_verify V m r d' = Inr man"
  using mirrored_verified [OF assms] by blast

end
