(* ===== verification/Download_Slots.thy ===== *)
theory Download_Slots
  imports Mirror_Safety
begin

text \<open>
  Processes that share a vault: entering and leaving download slots interleave with any other change of
  the disk outside the lock directory. The lock file is what makes a slot exclusive, and what a failing
  \<open>mkdtemp\<close> leaves behind.
\<close>

section \<open>Interleavings\<close>

text \<open>A holder is a process with the model and revision it downloads and its staging directory.\<close>

record holder =
  ho_process :: nat
  ho_model :: string
  ho_revision :: string
  ho_staging :: wpath

definition ho_lock :: "holder \<Rightarrow> wpath" where
  "ho_lock h = lock_path (ho_model h) (ho_revision h)"

definition locks_same :: "disk \<Rightarrow> disk \<Rightarrow> bool" where
  "locks_same d d' \<longleftrightarrow> (\<forall>q. q \<noteq> [] \<longrightarrow> hd q = ''.locks'' \<longrightarrow> dict_get d' q = dict_get d q)"

inductive slot_step :: "disk \<times> holder set \<Rightarrow> disk \<times> holder set \<Rightarrow> bool" where
  enter: "slot_enter suffix mk m r d = (Inr s, d') \<Longrightarrow>
     slot_step (d, H) (d', insert \<lparr>ho_process = i, ho_model = m, ho_revision = r, ho_staging = s\<rparr> H)"
| refused: "slot_enter suffix mk m r d = (Inl e, d') \<Longrightarrow> slot_step (d, H) (d', H)"
| leave: "h \<in> H \<Longrightarrow> slot_step (d, H) (slot_exit (ho_staging h) (ho_model h) (ho_revision h) d, H - {h})"
| other: "locks_same d d' \<Longrightarrow> slot_step (d, H) (d', H)"

inductive slots_reach :: "disk \<times> holder set \<Rightarrow> disk \<times> holder set \<Rightarrow> bool" where
  start: "slots_reach c c"
| step: "slots_reach c c' \<Longrightarrow> slot_step c' c'' \<Longrightarrow> slots_reach c c''"

text \<open>Every holder's lock is there, nobody shares one, and staging directories lie outside the locks.\<close>

definition slots_inv :: "disk \<times> holder set \<Rightarrow> bool" where
  "slots_inv c \<longleftrightarrow> (\<forall>h\<in>snd c. dict_get (fst c) (ho_lock h) \<noteq> None \<and> ho_staging h \<noteq> [] \<and> hd (ho_staging h) = ''.staging'') \<and>
     inj_on ho_lock (snd c)"

lemma lock_path_hd [simp]: "hd (lock_path m r) = ''.locks''" "lock_path m r \<noteq> []"
  by (simp_all add: lock_path_def)

lemma slot_enter_Inr:
  assumes "slot_enter suffix mk m r d = (Inr s, d')"
  shows "dict_get d (lock_path m r) = None \<and> hd s = ''.staging'' \<and> s \<noteq> [] \<and>
     dict_get d' (lock_path m r) = Some (FFile []) \<and>
     (\<forall>q. q \<noteq> lock_path m r \<longrightarrow> hd q = ''.locks'' \<longrightarrow> q \<noteq> [] \<longrightarrow> dict_get d' q = dict_get d q)"
proof -
  have s: "s = [''.staging'', take 12 (slot_key m r) @ ''-'' @ suffix]"
    and d': "d' = dict_set s FDir (dict_set (lock_path m r) (FFile []) d)" and none: "dict_get d (lock_path m r) = None"
    using assms by (auto simp: slot_enter_def Let_def split: if_splits)
  have "s \<noteq> q" if "hd q = ''.locks''" for q using that s by auto
  moreover have "s \<noteq> lock_path m r" "hd s = ''.staging''" "s \<noteq> []" by (simp_all add: s lock_path_def)
  ultimately show ?thesis using none unfolding d' by (auto simp: dict.lookup_store)
qed

lemma slot_enter_Inl:
  assumes "slot_enter suffix mk m r d = (Inl e, d')"
  shows "d' = d \<or> (dict_get d (lock_path m r) = None \<and> d' = dict_set (lock_path m r) (FFile []) d)"
  using assms by (auto simp: slot_enter_def Let_def split: if_splits)

lemma slot_exit_locks:
  assumes "hd s = ''.staging''" and "s \<noteq> []" and "q \<noteq> []" and "hd q = ''.locks''"
  shows "dict_get (slot_exit s m r d) q = (if q = lock_path m r then None else dict_get d q)"
proof -
  have "\<not> starts_with s q" using assms by (cases s; cases q) (auto simp: starts_with_iff)
  then show ?thesis by (simp add: slot_exit_get)
qed

lemma slots_inv_step: "slot_step c c' \<Longrightarrow> slots_inv c \<Longrightarrow> slots_inv c'"
proof (induction rule: slot_step.induct)
  case (enter suffix mk m r d s d' H i)
  note e = slot_enter_Inr [OF enter.hyps]
  let ?h = "\<lparr>ho_process = i, ho_model = m, ho_revision = r, ho_staging = s\<rparr>"
  have fresh: "ho_lock h \<noteq> lock_path m r" if "h \<in> H" for h using that enter.prems e by (auto simp: slots_inv_def)
  have "dict_get d' (ho_lock h) \<noteq> None" if "h \<in> H" for h
    using e fresh [OF that] enter.prems that by (simp add: slots_inv_def ho_lock_def)
  then show ?case using enter.prems e fresh by (auto simp: slots_inv_def ho_lock_def inj_on_def)
next
  case (refused suffix mk m r d e d' H)
  then show ?case using slot_enter_Inl [OF refused.hyps] by (auto simp: slots_inv_def dict.lookup_store)
next
  case (leave h H d)
  have s: "hd (ho_staging h) = ''.staging''" "ho_staging h \<noteq> []" using leave by (auto simp: slots_inv_def)
  have "dict_get (slot_exit (ho_staging h) (ho_model h) (ho_revision h) d) (ho_lock g) \<noteq> None" if "g \<in> H - {h}" for g
  proof -
    have "ho_lock g \<noteq> ho_lock h" using leave that by (auto simp: slots_inv_def inj_on_def)
    then show ?thesis using leave.prems that slot_exit_locks [OF s, of "ho_lock g"] by (auto simp: slots_inv_def ho_lock_def)
  qed
  then show ?case using leave.prems by (auto simp: slots_inv_def inj_on_diff)
next
  case (other d d' H)
  then show ?case by (simp add: slots_inv_def locks_same_def ho_lock_def)
qed

lemma slots_inv_reach: "slots_reach c c' \<Longrightarrow> slots_inv c \<Longrightarrow> slots_inv c'"
  by (induction rule: slots_reach.induct) (auto intro: slots_inv_step)

text \<open>C16: However processes interleave, no two of them are ever in the slot of the same model revision.\<close>

theorem slot_exclusive:
  assumes "slots_reach (d, {}) (d', H)" and "g \<in> H" and "h \<in> H"
    and "ho_model g = ho_model h" and "ho_revision g = ho_revision h"
  shows "g = h"
proof -
  have "slots_inv (d', H)" by (rule slots_inv_reach [OF assms(1)]) (simp add: slots_inv_def)
  moreover have "ho_lock g = ho_lock h" using assms(4,5) by (simp add: ho_lock_def)
  ultimately show ?thesis using assms(2,3) by (auto simp: slots_inv_def dest: inj_onD)
qed

section \<open>A lock nobody holds\<close>

definition orphan :: "string \<Rightarrow> string \<Rightarrow> disk \<times> holder set \<Rightarrow> bool" where
  "orphan m r c \<longleftrightarrow> (\<forall>h\<in>snd c. ho_lock h \<noteq> lock_path m r) \<and> dict_get (fst c) (lock_path m r) \<noteq> None"

lemma orphan_step: "slot_step c c' \<Longrightarrow> slots_inv c \<Longrightarrow> orphan m r c \<Longrightarrow> orphan m r c'"
proof (induction rule: slot_step.induct)
  case (enter suffix mk m' r' d s d' H i)
  note e = slot_enter_Inr [OF enter.hyps]
  have "lock_path m r \<noteq> lock_path m' r'" using e enter.prems by (auto simp: orphan_def)
  then show ?case using e enter.prems by (auto simp: orphan_def ho_lock_def)
next
  case (refused suffix mk m' r' d e d' H)
  then show ?case using slot_enter_Inl [OF refused.hyps] by (auto simp: orphan_def dict.lookup_store)
next
  case (leave h H d)
  have s: "hd (ho_staging h) = ''.staging''" "ho_staging h \<noteq> []" using leave by (auto simp: slots_inv_def)
  have "lock_path m r \<noteq> lock_path (ho_model h) (ho_revision h)" using leave by (auto simp: orphan_def ho_lock_def)
  then show ?case using leave.prems slot_exit_locks [OF s, of "lock_path m r"] by (auto simp: orphan_def)
next
  case (other d d' H)
  then show ?case by (simp add: orphan_def locks_same_def)
qed

lemma orphan_lock_stays: "slots_reach c c' \<Longrightarrow> slots_inv c \<Longrightarrow> orphan m r c \<Longrightarrow> orphan m r c'"
  by (induction rule: slots_reach.induct) (auto intro: orphan_step slots_inv_reach)

text \<open>The lock file is made before the staging directory and outside the \<open>try\<close>: when \<open>mkdtemp\<close> fails the lock
  stays, and no download of that model revision is ever let in again.\<close>

theorem failed_mkdtemp_blocks_forever:
  assumes "slots_reach (d, {}) (d1, H1)" and "dict_get d1 [''.locks''] = Some FDir" and "dict_get d1 (lock_path m r) = None"
    and "slots_reach (snd (slot_enter suffix True m r d1), H1) (d2, H2)"
  shows "\<not> is_ok (fst (slot_enter suffix2 mk m r d2))"
proof -
  have e: "slot_enter suffix True m r d1 = (Inl (OSError ''mkdtemp''), dict_set (lock_path m r) (FFile []) d1)"
    using assms(2,3) by (simp add: slot_enter_def Let_def)
  have inv1: "slots_inv (d1, H1)" by (rule slots_inv_reach [OF assms(1)]) (simp add: slots_inv_def)
  have inv: "slots_inv (snd (slot_enter suffix True m r d1), H1)"
    using slots_inv_step [OF slot_step.refused [OF e], of H1] inv1 e by simp
  have "\<forall>h\<in>H1. ho_lock h \<noteq> lock_path m r" using inv1 assms(3) by (auto simp: slots_inv_def)
  then have "dict_get d2 (lock_path m r) \<noteq> None"
    using orphan_lock_stays [OF assms(4) inv, of m r] e by (simp add: orphan_def)
  then show ?thesis by (auto simp: slot_enter_def)
qed

section \<open>Files verification does not look at\<close>

text \<open>A file named like the manifest, anywhere below the top of a snapshot, is not in the inventory: whatever it
  holds, verification answers the same.\<close>

theorem nested_manifest_unseen:
  assumes "snapshot_path m r = Inr t" and "disk_ok d" and "dict_get d (t @ dir) = Some FDir" and "dir \<noteq> []"
    and "\<forall>l. dict_get d (t @ dir @ [manifest_name]) \<noteq> Some (FLink l)"
  shows "wv_verify V m r (dict_set (t @ dir @ [manifest_name]) (FFile bs) d) = wv_verify V m r d"
  by (rule wv_verify_cong [OF assms(1) disk_okD(1) [OF assms(2)] dict.wf_store [OF disk_okD(1) [OF assms(2)]]])
    (use assms in \<open>cases dir; auto simp: dict.lookup_store\<close>)

end
