(* ===== verification/Mirror_Examples.thy ===== *)
theory Mirror_Examples
  imports Download_Slots
begin

text \<open>One vault, one model of one file, mirrored; the disk it leaves; and two processes at one slot.\<close>

section \<open>Commits that succeed\<close>

lemma mkdirs_succeeds: "\<forall>p\<in>set ps. dict_get d p \<in> {None, Some FDir} \<Longrightarrow> fst (mkdirs ps d) = Inr ()"
proof (induction ps d rule: mkdirs.induct)
  case (2 p ps d)
  then show ?case by (auto simp: dict.lookup_store split: option.split node.split)
qed simp

lemma commit_succeeds:
  assumes "snapshot_path m r = Inr t" and "dict_get d t = None" and "inventory V staging d = Inr files" and "files \<noteq> []"
    and "require_capacity V (co_free io) (inventory_total files) d = Inr ()" and "co_fault io = NoFault"
    and "staging_ok io staging d" and "dict_get d (staging @ [manifest_name]) \<noteq> Some FDir"
    and "\<forall>p\<in>set (path_and_parents (butlast t)). dict_get d p \<in> {None, Some FDir}"
  shows "\<exists>d'. commit_snapshot V io staging m r lic d = (Inr (snapshot_manifest m r lic (co_now io) files), d')"
proof -
  let ?m = "snapshot_manifest m r lic (co_now io) files"
  let ?a = "atomic_json (co_fault io) (staging @ [co_tmp io]) (staging @ [manifest_name]) (JObj ?m) d"
  obtain x where x: "staging = [''.staging'', x]" and tmp: "staging @ [co_tmp io] \<noteq> staging @ [manifest_name]"
      "dict_get d (staging @ [co_tmp io]) = None"
    using assms(7) by (auto simp: staging_ok_def)
  note t = target_facts [OF assms(1)]
  obtain d1 where a: "?a = (Inr (), d1)" using assms(6,8) by (simp add: atomic_json_def Let_def)
  have d1: "dict_get d1 q = (if q = staging @ [manifest_name] then Some (FFile (json_file (JObj ?m))) else dict_get d q)" for q
    using atomic_json_get [OF tmp, of "co_fault io" "JObj ?m" q] a by simp
  have far: "q \<noteq> staging @ [manifest_name]" if "hd q = ''models''" for q using that x by auto
  have "\<forall>p\<in>set (path_and_parents (butlast t)). dict_get d1 p \<in> {None, Some FDir}" using assms(9) t(7) far by (simp add: d1)
  then obtain d2 where u: "mkdirs (path_and_parents (butlast t)) d1 = (Inr (), d2)" using mkdirs_succeeds by (metis prod.collapse)
  have "dict_get d2 t = None" using mkdirs_get [OF u, of t] t(6) [of t] assms(2) far [OF t(8)] by (auto simp: d1 starts_with_def)
  moreover have "\<not> path_exists d t" using assms(2) by (simp add: path_exists_def)
  ultimately show ?thesis using assms(1,3,4,5) a u by (simp add: commit_snapshot_def Let_def)
qed

section \<open>The sample\<close>

definition sample_config :: "(string, json) dict" where
  "sample_config = [(''format_version'', JInt 1), (''vault_id'', JStr ''v''), (''created_at'', JStr ''2026''),
     (''quota_bytes'', JInt 0), (''reserve_bytes'', JInt 0)]"

definition sample_disk :: disk where
  "sample_disk = [([marker], FFile (json_file (JObj sample_config))), ([''models''], FDir), ([''.staging''], FDir), ([''.locks''], FDir)]"

definition sample_info :: model_info where
  "sample_info = \<lparr>mi_id = ''o/m'', mi_sha = Some ''r'', mi_license = JStr '' MIT'', mi_downloads = None, mi_siblings = []\<rparr>"

definition sample_hub :: hub where
  "sample_hub = \<lparr>hub_list = (\<lambda>_ _. []),
     hub_info = (\<lambda>_ _. Inr sample_info),
     hub_snapshot = (\<lambda>_ _ _. ([([''w''], FFile [1, 2])], None))\<rparr>"

definition sample_mirror_io :: mirror_io where
  "sample_mirror_io = \<lparr>mo_free = 100, mo_suffix = ''x'', mo_mk_fails = False,
     mo_commit = \<lparr>co_free = 100, co_fault = NoFault, co_tmp = ''t'', co_now = ''2026''\<rparr>\<rparr>"

definition sample_wv :: weight_vault where
  "sample_wv = \<lparr>wv_root = ''/v'', wv_config = sorted_dict sample_config\<rparr>"

lemma sample_keys:
  "dict_get sample_disk p = (if p = [marker] then Some (FFile (json_file (JObj sample_config)))
     else if p \<in> {[''models''], [''.staging''], [''.locks'']} then Some FDir else None)"
  by (simp add: sample_disk_def dict_get_def)

lemma sample_names: "name_ok marker" "name_ok ''models''" "name_ok ''.staging''" "name_ok ''.locks''" "name_ok ''w''" "name_ok ''x''" "name_ok ''t''"
  by (simp_all add: name_ok_def marker_def)

lemma sample_disk_ok: "disk_ok sample_disk"
  by (rule disk_okI) (auto simp: sample_keys sample_names split: if_splits, simp add: sample_disk_def marker_def)

lemma sample_open: "wv_open ''/v'' sample_disk = Inr sample_wv"
proof -
  have ok: "json_ok (JObj sample_config)" by (simp add: sample_config_def)
  have "dict_get (sorted_dict sample_config) ''format_version'' = Some (JInt 1)"
    by (subst sorted_dict_get) (simp_all add: sample_config_def dict_get_def)
  then show ?thesis using read_json_file [OF ok]
    by (simp add: wv_open_def read_file_def sample_keys wv_new_def eq_int_def format_version_def sample_wv_def)
qed

lemma sample_capacity:
  assumes "rglob [''models''] d = []" and "0 \<le> n" and "n \<le> free"
  shows "require_capacity sample_wv free n d = Inr ()"
proof -
  have "dict_get (sorted_dict sample_config) k = map_option sort_keys (dict_get sample_config k)" for k
    by (rule sorted_dict_get) (simp add: sample_config_def)
  then have "dict_get (sorted_dict sample_config) ''vault_id'' = Some (JStr ''v'')"
      "dict_get (sorted_dict sample_config) ''quota_bytes'' = Some (JInt 0)"
      "dict_get (sorted_dict sample_config) ''reserve_bytes'' = Some (JInt 0)"
    by (simp_all add: sample_config_def dict_get_def)
  then show ?thesis using assms
    by (simp add: require_capacity_def wv_status_def sample_wv_def used_bytes_def dict_get_default_eq)
qed

lemma sample_mirror_ok: "mirror_ok sample_hub sample_mirror_io sample_disk"
proof -
  have "disk_ok [([''w''], FFile [1, 2])]"
    by (rule disk_okI) (auto simp: dict_get_def sample_names split: if_splits)
  moreover have "manifest_name \<noteq> ''t''" by (simp add: manifest_name_def)
  moreover have "dict_get [([''w''], FFile [1, 2])] [''t''] = None" by (simp add: dict_get_def)
  ultimately show ?thesis
    by (simp add: mirror_ok_def sample_hub_def sample_mirror_io_def sample_names sample_keys slot_dir_def)
qed

lemma sample_path: "snapshot_path ''o/m'' ''r'' = Inr [''models'', ''o'', ''m'', ''r'']"
  by (simp add: snapshot_path_def safe_component_def component_ok_def alnum_def code_def)

lemma sample_license: "require_license (JStr '' MIT'') ''mit'' = Inr ''mit''"
  by code_simp

text \<open>The staging directory after the download.\<close>

abbreviation sample_slot :: wpath where
  "sample_slot \<equiv> slot_dir ''x'' ''o/m'' ''r''"

abbreviation sample_filled :: disk where
  "sample_filled \<equiv> slot_filled sample_hub sample_mirror_io ''o/m'' ''r'' None sample_disk"

lemma sample_locked: "dict_get sample_disk [''.locks''] = Some FDir" "dict_get sample_disk [''.staging''] = Some FDir"
    "dict_get sample_disk (lock_path m r) = None"
  by (simp_all add: sample_keys lock_path_def marker_def)

lemma sample_filled_ok: "disk_ok sample_filled"
  by (rule slot_filled_ok [OF sample_disk_ok sample_mirror_ok sample_locked])

lemma sample_filled_get:
  "dict_get sample_filled q =
     (if q = lock_path ''o/m'' ''r'' then Some (FFile [])
      else if starts_with sample_slot q then
        (if q = sample_slot then Some FDir else if q = sample_slot @ [''w''] then Some (FFile [1, 2]) else None)
      else dict_get sample_disk q)"
proof -
  have w: "dict_get sample_disk (slot_dir (mo_suffix sample_mirror_io) ''o/m'' ''r'') = None"
    "disk_ok (fst (hub_snapshot sample_hub ''o/m'' ''r'' None))"
    using sample_mirror_ok unfolding mirror_ok_def by blast+
  have len: "length sample_slot = 2" by (simp add: slot_dir_def)
  show ?thesis
    using slot_filled_get [OF sample_disk_ok w, of q] len
    by (auto simp: sample_mirror_io_def sample_hub_def dict_get_def starts_with_iff split: if_splits)
qed

lemma sample_rglob_models: "rglob [''models''] sample_filled = []"
proof -
  have "set (rglob [''models''] sample_filled) = {}"
    by (auto simp: rglob_set [OF disk_okD(1) [OF sample_filled_ok]] sample_filled_get sample_keys lock_path_def slot_dir_def
        starts_with_def split: if_splits)
  then show ?thesis by simp
qed

lemma sample_rglob_slot: "rglob sample_slot sample_filled = [([''w''], FFile [1, 2])]"
proof (rule listing_unique)
  have "\<not> starts_with sample_slot (lock_path ''o/m'' ''r'')" by (simp add: slot_dir_def lock_path_def starts_with_def)
  then have "sample_slot @ q \<noteq> lock_path ''o/m'' ''r''" for q by (metis starts_with_append)
  then show "set (rglob sample_slot sample_filled) = set [([''w''], FFile [1, 2])]"
    by (auto simp: rglob_set [OF disk_okD(1) [OF sample_filled_ok]] sample_filled_get split: if_splits)
qed (simp_all add: rglob_sorted rglob_distinct [OF disk_okD(1) [OF sample_filled_ok]])

definition sample_files :: inventory where
  "sample_files = [(''w'', 2, sha_hex [1, 2])]"

lemma sample_inventory: "inventory sample_wv sample_slot sample_filled = Inr sample_files"
  by (simp add: inventory_Inr sample_rglob_slot sample_files_def posix_def manifest_name_def)

lemma sample_staging: "staging_ok (mo_commit sample_mirror_io) sample_slot sample_filled"
proof -
  have "sample_slot @ [''t''] \<noteq> lock_path ''o/m'' ''r''" by (simp add: slot_dir_def lock_path_def)
  then have "dict_get sample_filled (sample_slot @ [''t'']) = None" by (simp add: sample_filled_get)
  moreover have "co_tmp (mo_commit sample_mirror_io) = ''t''" by (simp add: sample_mirror_io_def)
  moreover have "\<exists>x. sample_slot = [''.staging'', x]" by (simp add: slot_dir_def)
  ultimately show ?thesis by (simp add: staging_ok_def manifest_name_def)
qed

lemma sample_commit:
  "\<exists>d'. commit_snapshot sample_wv (mo_commit sample_mirror_io) sample_slot ''o/m'' ''r'' ''mit'' sample_filled =
     (Inr (snapshot_manifest ''o/m'' ''r'' ''mit'' ''2026'' sample_files), d')"
proof -
  have cap: "require_capacity sample_wv 100 (inventory_total sample_files) sample_filled = Inr ()"
    by (rule sample_capacity [OF sample_rglob_models]) (simp_all add: sample_files_def inventory_total_def)
  have "\<exists>d'. commit_snapshot sample_wv (mo_commit sample_mirror_io) sample_slot ''o/m'' ''r'' ''mit'' sample_filled =
     (Inr (snapshot_manifest ''o/m'' ''r'' ''mit'' (co_now (mo_commit sample_mirror_io)) sample_files), d')"
  proof (rule commit_succeeds [OF sample_path _ sample_inventory _ _ _ sample_staging])
    show "dict_get sample_filled [''models'', ''o'', ''m'', ''r''] = None"
      by (simp add: sample_filled_get sample_keys lock_path_def slot_dir_def starts_with_def marker_def)
    show "dict_get sample_filled (sample_slot @ [manifest_name]) \<noteq> Some FDir"
      by (simp add: sample_filled_get manifest_name_def)
    show "\<forall>p\<in>set (path_and_parents (butlast [''models'', ''o'', ''m'', ''r''])). dict_get sample_filled p \<in> {None, Some FDir}"
      by (simp add: path_and_parents_def upt_rec sample_filled_get sample_keys lock_path_def slot_dir_def starts_with_def marker_def)
  qed (use cap in \<open>simp_all add: sample_mirror_io_def sample_files_def\<close>)
  then show ?thesis by (simp add: sample_mirror_io_def)
qed


section \<open>Witnesses\<close>

lemma sample_mirror:
  "\<exists>rec d'. mirror sample_hub sample_mirror_io ''o/m'' ''mit'' ''/v'' True None sample_disk = (Inr rec, d') \<and>
     wv_verify sample_wv ''o/m'' ''r'' d' = Inr (sorted_dict (snapshot_manifest ''o/m'' ''r'' ''mit'' ''2026'' sample_files))"
proof -
  let ?man = "snapshot_manifest ''o/m'' ''r'' ''mit'' ''2026'' sample_files"
  obtain d3 where c: "commit_snapshot sample_wv (mo_commit sample_mirror_io) sample_slot ''o/m'' ''r'' ''mit'' sample_filled = (Inr ?man, d3)"
    using sample_commit by blast
  have suffix: "mo_suffix sample_mirror_io = ''x''" "\<not> mo_mk_fails sample_mirror_io" by (simp_all add: sample_mirror_io_def)
  have "slot_enter ''x'' False ''o/m'' ''r'' sample_disk = (Inr sample_slot,
      dict_set sample_slot FDir (dict_set (lock_path ''o/m'' ''r'') (FFile []) sample_disk))"
    using sample_locked by (simp add: slot_enter_def slot_dir_def Let_def)
  moreover have "sample_filled = dict_set sample_slot FDir (dict_set (lock_path ''o/m'' ''r'') (FFile []) sample_disk) @
      [(sample_slot @ [''w''], FFile [1, 2])]"
    by (simp add: slot_filled_def sample_hub_def sample_mirror_io_def Let_def)
  moreover have "hub_snapshot sample_hub ''o/m'' ''r'' None = ([([''w''], FFile [1, 2])], None)" by (simp add: sample_hub_def)
  ultimately have slot: "mirror_slot sample_hub sample_mirror_io sample_wv ''o/m'' ''r'' ''mit'' None sample_disk =
      (Inr ?man, slot_exit sample_slot ''o/m'' ''r'' d3)"
    using c suffix by (simp add: mirror_slot_def)
  have fresh: "\<not> path_exists sample_disk [''models'', ''o'', ''m'', ''r'']" by (simp add: path_exists_def sample_keys marker_def)
  have "rglob [''models''] sample_disk = []" by (simp add: rglob_def sample_disk_def below_def starts_with_def marker_def)
  then have cap: "require_capacity sample_wv 100 0 sample_disk = Inr ()" by (rule sample_capacity) simp_all
  obtain rec where rec: "mirror_update (''/v'' @ ''/'' @ posix [''models'', ''o'', ''m'', ''r'']) 0 (mirror_record ''o/m'' (Some ''r'') ''mit'') ?man = Inr rec"
    using mirror_update_committed [of "''/v'' @ ''/'' @ posix [''models'', ''o'', ''m'', ''r'']"] by (metis is_ok.elims(2))
  have info: "hub_info sample_hub ''o/m'' True = Inr sample_info" "mi_sha sample_info = Some ''r''" "mi_license sample_info = JStr '' MIT''"
      "expected_size sample_info = 0" "mo_free sample_mirror_io = 100"
      "info_path ''o/m'' (Some ''r'') = Inr ([''models'', ''o'', ''m'', ''r''], ''r'')"
    using sample_path by (simp_all add: sample_hub_def sample_info_def expected_size_def sample_mirror_io_def info_path_def)
  have "mirror sample_hub sample_mirror_io ''o/m'' ''mit'' ''/v'' True None sample_disk = (Inr rec, slot_exit sample_slot ''o/m'' ''r'' d3)"
    using slot fresh cap rec sample_open sample_path sample_license info by (simp add: mirror_def Let_def)
  moreover have "wv_verify sample_wv ''o/m'' ''r'' (slot_exit sample_slot ''o/m'' ''r'' d3) = Inr (sorted_dict ?man)"
    using mirror_slot_effect [OF slot sample_path sample_disk_ok sample_mirror_ok sample_locked(2) fresh] by blast
  ultimately show ?thesis by blast
qed

lemma sample_mk: "\<not> mo_mk_fails sample_mirror_io"
  by (simp add: sample_mirror_io_def)

theorem mirror_verified_witness:
  "\<exists>rec d' info V r man. mirror sample_hub sample_mirror_io ''o/m'' ''mit'' ''/v'' True None sample_disk = (Inr rec, d') \<and>
     hub_info sample_hub ''o/m'' True = Inr info \<and> mi_sha info = Some r \<and> wv_verify V ''o/m'' r d' = Inr man"
  using sample_mirror mirror_verified [OF _ sample_disk_ok sample_mirror_ok sample_locked(2)] by metis

theorem mirrored_snapshots_stay_witness:
  "\<exists>d d' man. mirrored sample_hub d d' \<and> wv_verify sample_wv ''o/m'' ''r'' d = Inr man \<and>
     wv_verify sample_wv ''o/m'' ''r'' d' = Inr man"
proof -
  obtain rec d where m: "mirror sample_hub sample_mirror_io ''o/m'' ''mit'' ''/v'' True None sample_disk = (Inr rec, d)"
    and v: "wv_verify sample_wv ''o/m'' ''r'' d = Inr (sorted_dict (snapshot_manifest ''o/m'' ''r'' ''mit'' ''2026'' sample_files))"
    using sample_mirror by blast
  note k = mirror_step [OF m sample_disk_ok sample_mirror_ok sample_locked(2)]
  obtain res d2 where m2: "mirror sample_hub sample_mirror_io ''p/q'' ''mit'' ''/v'' True None d = (res, d2)" by fastforce
  have "dict_get d (slot_dir ''x'' mm r) = None" for mm r
  proof -
    have "hd (slot_dir ''x'' mm r) \<noteq> ''models''" by (simp add: slot_dir_def)
    then have "dict_get d (slot_dir ''x'' mm r) = dict_get sample_disk (slot_dir ''x'' mm r)"
      using mirror_effect [OF m sample_disk_ok sample_mirror_ok sample_locked(2), of "slot_dir ''x'' mm r"] sample_mk
      unfolding lock_stays_def by satx
    then show ?thesis by (simp add: sample_keys slot_dir_def)
  qed
  then have ok: "mirror_ok sample_hub sample_mirror_io d"
    using sample_mirror_ok by (simp add: mirror_ok_def) (simp add: sample_mirror_io_def)
  have run: "mirrored sample_hub d d2" by (rule mirrored.more [OF mirrored.none ok m2])
  have "wv_verify sample_wv ''o/m'' ''r'' d2 = Inr (sorted_dict (snapshot_manifest ''o/m'' ''r'' ''mit'' ''2026'' sample_files))"
    by (rule mirrored_snapshots_stay [OF run _ _ v]) (use k [of "[''.staging'']"] sample_locked(2) in auto)
  with run v show ?thesis by blast
qed


text \<open>A download that breaks off after its first file.\<close>

definition broken_hub :: hub where
  "broken_hub = sample_hub\<lparr>hub_snapshot := (\<lambda>_ _ _. ([([''w''], FFile [1])], Some ConnectionError))\<rparr>"

theorem mirror_all_or_nothing_witness:
  "\<exists>res d'. mirror broken_hub sample_mirror_io ''o/m'' ''mit'' ''/v'' True None sample_disk = (res, d') \<and>
     dict_get d' (lock_path ''o/m'' ''r'') = None \<and> dict_get d' [''.staging'', ''x''] = None \<and>
     dict_get d' [''models''] = Some FDir"
proof -
  obtain res d' where m: "mirror broken_hub sample_mirror_io ''o/m'' ''mit'' ''/v'' True None sample_disk = (res, d')" by fastforce
  have "disk_ok [([''w''], FFile [1])]" by (rule disk_okI) (auto simp: dict_get_def sample_names split: if_splits)
  moreover have "dict_get [([''w''], FFile [1 :: byte])] [''t''] = None" by (simp add: dict_get_def)
  ultimately have ok: "mirror_ok broken_hub sample_mirror_io sample_disk"
    using sample_mirror_ok by (simp add: mirror_ok_def broken_hub_def) (simp add: sample_mirror_io_def)
  have e: "dict_get d' q = dict_get sample_disk q" if "hd q \<noteq> ''models'' \<or> dict_get sample_disk q \<noteq> None" for q
    using mirror_all_or_nothing [OF m sample_disk_ok ok sample_locked(2), of q] sample_mk that by satx
  have "dict_get d' (lock_path ''o/m'' ''r'') = None" using e [of "lock_path ''o/m'' ''r''"] sample_locked(3)
    by (simp add: lock_path_def)
  moreover have "dict_get d' [''.staging'', ''x''] = None" using e [of "[''.staging'', ''x'']"] by (simp add: sample_keys)
  moreover have "dict_get d' [''models''] = Some FDir" using e [of "[''models'']"] by (simp add: sample_keys marker_def)
  ultimately show ?thesis using m by blast
qed

theorem wv_verify_exact_witness:
  "\<exists>d t. snapshot_path ''o/m'' ''r'' = Inr t \<and> is_ok (wv_verify sample_wv ''o/m'' ''r'' d) \<and>
     snapshot_files t d = {([''w''], [1, 2])}"
proof -
  let ?t = "[''models'', ''o'', ''m'', ''r'']"
  let ?m = "snapshot_manifest ''o/m'' ''r'' ''mit'' ''2026'' sample_files"
  obtain d where c: "commit_snapshot sample_wv (mo_commit sample_mirror_io) sample_slot ''o/m'' ''r'' ''mit'' sample_filled = (Inr ?m, d)"
    using sample_commit by blast
  have fresh: "\<not> path_exists sample_filled ?t"
    by (simp add: path_exists_def sample_filled_get sample_keys lock_path_def slot_dir_def starts_with_def marker_def)
  have "sample_slot \<noteq> lock_path ''o/m'' ''r''" "starts_with sample_slot sample_slot"
    by (simp_all add: slot_dir_def lock_path_def starts_with_def)
  then have "dict_get sample_filled sample_slot = Some FDir" by (simp add: sample_filled_get)
  moreover have "name_ok (co_tmp (mo_commit sample_mirror_io))" by (simp add: sample_mirror_io_def sample_names)
  ultimately have okd: "disk_ok d" by (rule commit_disk_ok [OF c sample_path sample_filled_ok sample_staging])
  have "\<not> starts_with sample_slot (lock_path ''o/m'' ''r'')" by (simp add: slot_dir_def lock_path_def starts_with_def)
  then have apart: "sample_slot @ q \<noteq> lock_path ''o/m'' ''r''" for q by (metis starts_with_append)
  have staged: "snapshot_files sample_slot sample_filled = {([''w''], [1, 2])}"
    by (auto simp: snapshot_files_def sample_filled_get apart manifest_name_def split: if_splits)
  have same: "dict_get d (''models'' # ''o'' # ''m'' # ''r'' # q) = (if q = [manifest_name] then Some (FFile (json_file (JObj ?m))) else dict_get sample_filled (sample_slot @ q))" for q
    using commit_publishes [OF c sample_path sample_filled_ok sample_staging fresh] by fastforce
  have "snapshot_files ?t d = snapshot_files sample_slot sample_filled"
    by (auto simp: snapshot_files_def same split: if_splits)
  moreover from this have "no_collision (snd ` (snapshot_files sample_slot sample_filled \<union> snapshot_files ?t d))" by (simp add: staged)
  moreover have "dict_get d (?t @ q) \<noteq> Some (FLink l)" for q l by (simp add: same sample_filled_get apart)
  moreover have "\<forall>q bs. q \<noteq> [] \<longrightarrow> last q \<noteq> ''decillion-manifest.json'' \<longrightarrow>
      (dict_get d (?t @ q) = Some (FFile bs) \<longleftrightarrow> dict_get sample_filled (sample_slot @ q) = Some (FFile bs))"
    using calculation(1) unfolding snapshot_files_eq manifest_name_def .
  ultimately have "is_ok (wv_verify sample_wv ''o/m'' ''r'' d)"
    using wv_verify_exact [OF c sample_path sample_filled_ok sample_staging fresh okd refl] by blast
  then show ?thesis using \<open>snapshot_files ?t d = _\<close> staged sample_path by auto
qed

theorem slot_exclusive_witness:
  "\<exists>d H g h. slots_reach (sample_disk, {}) (d, H) \<and> g \<in> H \<and> h \<in> H \<and> ho_model g = ho_model h \<and>
     ho_revision g = ho_revision h \<and> g = h"
proof -
  have "\<exists>d. slot_enter ''x'' False ''o/m'' ''r'' sample_disk = (Inr sample_slot, d)"
    using sample_locked by (simp add: slot_enter_def slot_dir_def Let_def)
  then obtain d where d: "slot_enter ''x'' False ''o/m'' ''r'' sample_disk = (Inr sample_slot, d)" by blast
  let ?h = "\<lparr>ho_process = 1, ho_model = ''o/m'', ho_revision = ''r'', ho_staging = sample_slot\<rparr>"
  have one: "slots_reach (sample_disk, {}) (d, {?h})"
    using slots_reach.step [OF slots_reach.start slot_step.enter [OF d]] by simp
  obtain e d2 where two: "slot_enter ''y'' False ''o/m'' ''r'' d = (Inl e, d2)"
    using slot_enter_Inr [OF d] by (cases "slot_enter ''y'' False ''o/m'' ''r'' d") (auto simp: slot_enter_def split: if_splits)
  have reach: "slots_reach (sample_disk, {}) (d2, {?h})" by (rule slots_reach.step [OF one slot_step.refused [OF two]])
  have "?h = ?h" by (rule slot_exclusive [OF reach]) simp_all
  with reach show ?thesis by blast
qed

end
