(* ===== verification/Py_Values.thy ===== *)
theory Py_Values
  imports Py_Convert
begin

text \<open>
  What Python does with a value whose type is only known at run time: equality, iteration, building
  a set, membership and substring tests. The proof service and its fixture apply these to the fields
  of submitted contracts and attempts.
\<close>

section \<open>Numbers and equality\<close>

fun num_val :: "json \<Rightarrow> pyfloat option" where
  "num_val (JInt i) = Some (Fin (of_int i))"
| "num_val (JBool b) = Some (Fin (if b then 1 else 0))"
| "num_val (JFloat x) = Some x"
| "num_val _ = None"

lemma json_item_size: "v \<in> set vs \<Longrightarrow> size v < Suc (size_list size vs)"
  by (induction vs) auto

text \<open>
  Equality by value. A NaN is unequal to everything at the top, but a comparison inside a tuple, a list,
  a dictionary or a set tests identity first, and the JSON parser makes a single NaN object; the flag
  tells which case applies.
\<close>

function py_eq :: "bool \<Rightarrow> json \<Rightarrow> json \<Rightarrow> bool" where
  "py_eq inner v w =
     (case (v, w) of
        (JNull, JNull) \<Rightarrow> True
      | (JStr s, JStr t) \<Rightarrow> s = t
      | (JArr vs, JArr ws) \<Rightarrow> list_all2 (py_eq True) vs ws
      | (JObj a, JObj b) \<Rightarrow> length a = length b \<and>
          list_all (\<lambda>(k, x). case dict_get b k of None \<Rightarrow> False | Some y \<Rightarrow> py_eq True x y) a
      | _ \<Rightarrow> (case (num_val v, num_val w) of
                (Some x, Some y) \<Rightarrow> if x = NaN then inner \<and> y = NaN else x = y
              | _ \<Rightarrow> False))"
  by pat_completeness auto
termination
  by (relation "measure (\<lambda>(_, v, _). size v)") (auto simp: json_item_size json_member_size)

declare py_eq.simps [simp del]

lemma py_eq_JStr [simp]: "py_eq i (JStr s) w \<longleftrightarrow> w = JStr s"
  by (cases w) (auto simp: py_eq.simps)

lemma py_eq_JNull [simp]: "py_eq i JNull w \<longleftrightarrow> w = JNull"
  by (cases w) (auto simp: py_eq.simps)

lemma py_eq_inner: "py_eq False v w \<Longrightarrow> py_eq True v w"
  by (subst py_eq.simps, subst (asm) py_eq.simps) (auto split: json.splits option.splits if_splits)

section \<open>Iteration, sets and membership\<close>

text \<open>\<open>for x in v\<close>: a string gives its characters, a dictionary its keys.\<close>

fun py_iter :: "json \<Rightarrow> json list result" where
  "py_iter (JStr s) = Inr (map (\<lambda>c. JStr [c]) s)"
| "py_iter (JArr vs) = Inr vs"
| "py_iter (JObj kvs) = Inr (map (JStr \<circ> fst) kvs)"
| "py_iter _ = Inl TypeError"

fun hashable :: "json \<Rightarrow> bool" where
  "hashable (JArr _) = False"
| "hashable (JObj _) = False"
| "hashable _ = True"

definition py_set :: "json \<Rightarrow> json list result" where
  "py_set v = bindR (py_iter v) (\<lambda>vs. if list_all hashable vs then Inr vs else Inl TypeError)"

definition set_subset :: "json list \<Rightarrow> json list \<Rightarrow> bool" where
  "set_subset xs ys \<longleftrightarrow> list_all (\<lambda>x. list_ex (py_eq True x) ys) xs"

fun has_infix :: "string \<Rightarrow> string \<Rightarrow> bool" where
  "has_infix p [] = (p = [])"
| "has_infix p (c # cs) = (starts_with p (c # cs) \<or> has_infix p cs)"

text \<open>\<open>s in v\<close> for a string \<open>s\<close>.\<close>

fun str_in :: "string \<Rightarrow> json \<Rightarrow> bool result" where
  "str_in s (JStr t) = Inr (has_infix s t)"
| "str_in s (JArr vs) = Inr (list_ex (py_eq True (JStr s)) vs)"
| "str_in s (JObj kvs) = Inr (s \<in> set (map fst kvs))"
| "str_in s _ = Inl TypeError"

text \<open>\<open>d.get(k, default)\<close> on a value that may be no dictionary, with a key that may be no string.\<close>

definition py_get :: "json \<Rightarrow> json \<Rightarrow> json \<Rightarrow> json result" where
  "py_get d k dflt =
     (case d of
        JObj kvs \<Rightarrow>
          if \<not> hashable k then Inl TypeError
          else (case k of JStr s \<Rightarrow> Inr (dict_get_default kvs s dflt) | _ \<Rightarrow> Inr dflt)
      | _ \<Rightarrow> Inl AttributeError)"

text \<open>\<open>str.replace\<close>, for a text that is not empty.\<close>

fun replace_text :: "string \<Rightarrow> string \<Rightarrow> string \<Rightarrow> string" where
  "replace_text old new [] = []"
| "replace_text old new (c # cs) =
     (if old \<noteq> [] \<and> starts_with old (c # cs) then new @ replace_text old new (drop (length old - 1) cs)
      else c # replace_text old new cs)"

lemma set_subset_mono: "set xs \<subseteq> set zs \<Longrightarrow> set_subset zs ys \<Longrightarrow> set_subset xs ys"
  by (auto simp: set_subset_def list_all_iff)

end
