(* ===== verification/Proof_Bridge.thy ===== *)
theory Proof_Bridge
  imports Access Py_Values
begin

text \<open>
  The communications receipt bridge, \<open>proof_process/vonage_pop_bridge.py\<close>: minting and verifying a signed
  receipt of a provider response, and verifying a signed webhook. Ed25519 and the JWT library are
  parameters; the clock is an argument.
\<close>

section \<open>Canonical text and identifiers\<close>

definition bridge_json :: "json \<Rightarrow> bytes" where
  "bridge_json v = utf8_encode (dumps compact_utf8 (sort_keys v))"

definition sha256_hex :: "bytes \<Rightarrow> string" where
  "sha256_hex data = ''sha256:'' @ hex (sha256 data)"

definition utc_now :: "string \<Rightarrow> string" where
  "utc_now isoformat = replace_text ''+00:00'' ''Z'' isoformat"

section \<open>Minting\<close>

definition signer_tiers :: "string list" where
  "signer_tiers = [''T0'', ''T0.5'', ''T2'']"

definition bridge_proves :: "string \<Rightarrow> string \<Rightarrow> json" where
  "bridge_proves channel tier = JArr
     [JStr (''the Vonage '' @ channel @ '' API response fields recorded here were returned to this client''),
      JStr ''the recorded receipt body is unchanged since signing when verification succeeds'',
      JStr (''the receipt signature is valid for the pinned Ed25519 key ('' @ tier @ '')'')]"

definition bridge_does_not_prove :: "string \<Rightarrow> json" where
  "bridge_does_not_prove tier = JArr
     [JStr (''the signer key is hardware-backed ('' @ tier @ ''=software)''),
      JStr ''carrier delivery beyond the provider response status'',
      JStr ''recipient reading or acknowledgement'',
      JStr ''that the signer key was not exposed from process memory'',
      JStr ''that any external blockchain anchor exists'']"

definition bridge_disclosures :: json where
  "bridge_disclosures = JArr
     [JStr (''this receipt binds the recorded Vonage response fields, '' @ ''not an unrecorded HTTP byte stream''),
      JStr (''delivery status must arrive through a verified Vonage webhook '' @
            ''before it is treated as provider evidence''),
      JStr (''the receipt signature uses a deterministic JSON serialization profile; '' @
            ''RFC 8785 JCS is not claimed'')]"

definition bridge_body :: "string \<Rightarrow> string \<Rightarrow> (string, json) dict \<Rightarrow> string \<Rightarrow> string \<Rightarrow> string \<Rightarrow> (string, json) dict" where
  "bridge_body created channel response signer_id tier public_key_hex =
     [(''spec'', JStr ''innovulis-vonage-receipt/1.1''),
      (''created_at'', JStr created),
      (''channel'', JStr channel),
      (''vonage_response'', JObj response),
      (''signer'', JObj [(''id'', JStr signer_id), (''tier'', JStr tier), (''public_key_hex'', JStr public_key_hex)]),
      (''anchor'', JNull),
      (''proves'', bridge_proves channel tier),
      (''does_not_prove'', bridge_does_not_prove tier),
      (''disclosures'', bridge_disclosures),
      (''genesis_authority'', JNull)]"

definition mint_signed_receipt ::
    "ed25519 \<Rightarrow> string \<Rightarrow> string \<Rightarrow> (string, json) dict \<Rightarrow> bytes \<Rightarrow> string \<Rightarrow> string \<Rightarrow> (string, json) dict result" where
  "mint_signed_receipt C isoformat channel response sk signer_id tier =
     (if tier \<notin> set signer_tiers then Inl (ValueError (''unsupported signer tier: '' @ tier))
      else
        let body = bridge_body (utc_now isoformat) channel response signer_id tier (hex (ed_public C sk));
            body1 = dict_set ''receipt_id'' (JStr (sha256_hex (bridge_json (JObj body)))) body
        in Inr (dict_set ''signature'' (JStr (hex (ed_sign C sk (bridge_json (JObj body1))))) body1))"

section \<open>Verifying a receipt\<close>

definition required_keys :: "string list" where
  "required_keys = [''spec'', ''receipt_id'', ''signature'', ''channel'', ''vonage_response'', ''signer'',
     ''proves'', ''does_not_prove'', ''disclosures'']"

text \<open>The dictionary comprehensions that leave keys out.\<close>

definition without :: "string list \<Rightarrow> (string, json) dict \<Rightarrow> (string, json) dict" where
  "without ks d = filter (\<lambda>(k, v). k \<notin> set ks) d"

definition json_from_hex :: "json \<Rightarrow> bytes result" where
  "json_from_hex v =
     (case v of
        JStr s \<Rightarrow> (case from_hex s of None \<Rightarrow> Inl (ValueError ''non-hexadecimal number found in fromhex() arg'')
                   | Some bs \<Rightarrow> Inr bs)
      | _ \<Rightarrow> Inl TypeError)"

definition check_signature :: "ed25519 \<Rightarrow> json \<Rightarrow> json \<Rightarrow> bytes \<Rightarrow> unit result" where
  "check_signature C pk_hex signature message =
     bindR (json_from_hex pk_hex) (\<lambda>pk.
       if \<not> ed_load C pk then Inl (ValueError ''An Ed25519 public key is 32 bytes long'')
       else bindR (json_from_hex signature) (\<lambda>s.
              if ed_verify C pk s message then Inr () else Inl InvalidSignature))"

definition limits_item :: "string \<Rightarrow> bool" where
  "limits_item item = (has_infix ''software'' (map lower_latin item) \<or> has_infix ''process memory'' (map lower_latin item))"

fun any_limit :: "json list \<Rightarrow> bool result" where
  "any_limit [] = Inr False"
| "any_limit (JStr s # vs) = (if limits_item s then Inr True else any_limit vs)"
| "any_limit (v # vs) = Inl AttributeError"

fun anchor_errors :: "json \<Rightarrow> string list \<Rightarrow> string list result" where
  "anchor_errors anchor [] = Inr []"
| "anchor_errors anchor (k # ks) =
     bindR (py_get anchor (JStr k) JNull) (\<lambda>v.
       if v = JNull then Inr [''anchor is partial''] else anchor_errors anchor ks)"

text \<open>\<open>explain\<close> is the text of an exception, \<open>str(exc)\<close>.\<close>

definition verify_vonage_receipt ::
    "ed25519 \<Rightarrow> (pyexn \<Rightarrow> string) \<Rightarrow> (string, json) dict \<Rightarrow> string option \<Rightarrow> (bool \<times> string list) result" where
  "verify_vonage_receipt C explain receipt expected =
     (let missing = map (\<lambda>k. ''missing key: '' @ k) (filter (\<lambda>k. dict_get receipt k = None) required_keys);
          field = dict_get_default receipt
      in if missing \<noteq> [] then Inr (False, missing)
         else
           let id_errors = (if JStr (sha256_hex (bridge_json (JObj (without [''receipt_id'', ''signature''] receipt))))
                               \<noteq> field ''receipt_id'' JNull then [''receipt_id mismatch''] else [])
           in bindR (if expected \<noteq> None \<and> expected \<noteq> Some [] then Inr (JStr (the expected))
                     else py_get (field ''signer'' JNull) (JStr ''public_key_hex'') (JStr [])) (\<lambda>pk_hex.
              let sig_errors =
                (case check_signature C pk_hex (field ''signature'' JNull) (bridge_json (JObj (without [''signature''] receipt))) of
                   Inl e \<Rightarrow> [''signature invalid: '' @ explain e]
                 | Inr _ \<Rightarrow> [])
              in bindR (py_get (field ''signer'' JNull) (JStr ''tier'') JNull) (\<lambda>tier.
                 bindR (if tier \<noteq> JStr ''T0'' then Inr []
                        else bindR (bindR (py_iter (field ''does_not_prove'' JNull)) any_limit) (\<lambda>limited.
                               Inr (if limited then [] else [''T0 signer missing software-key limitation'']))) (\<lambda>tier_errors.
                 bindR (let anchor = field ''anchor'' JNull in
                        if anchor = JNull then Inr []
                        else anchor_errors anchor [''chain'', ''block_height'', ''txid'', ''ots_file'']) (\<lambda>anchor_errs.
                   let errors = id_errors @ sig_errors @ tier_errors @ anchor_errs
                   in Inr (errors = [], errors))))))"

section \<open>Verifying a webhook\<close>

text \<open>\<open>json.loads\<close> on bytes: the encoding is guessed from the first bytes.\<close>

fun utf16_decode :: "bool \<Rightarrow> bytes \<Rightarrow> string option" where
  "utf16_decode big [] = Some []"
| "utf16_decode big [b] = None"
| "utf16_decode big (a # b # bs) =
     (if (if big then a else b) = 0 then map_option ((#) (chr (unat (if big then b else a)))) (utf16_decode big bs)
      else None)"

fun utf32_decode :: "bool \<Rightarrow> bytes \<Rightarrow> string option" where
  "utf32_decode big [] = Some []"
| "utf32_decode big (a # b # c # d # bs) =
     (if b = 0 \<and> c = 0 \<and> (if big then a else d) = 0
      then map_option ((#) (chr (unat (if big then d else a)))) (utf32_decode big bs) else None)"
| "utf32_decode big bs = None"

definition json_bytes_text :: "bytes \<Rightarrow> string option" where
  "json_bytes_text b =
     (if starts_with [0, 0, 0xFE, 0xFF] b then utf32_decode True (drop 4 b)
      else if starts_with [0xFF, 0xFE, 0, 0] b then utf32_decode False (drop 4 b)
      else if starts_with [0xFE, 0xFF] b then utf16_decode True (drop 2 b)
      else if starts_with [0xFF, 0xFE] b then utf16_decode False (drop 2 b)
      else if starts_with [0xEF, 0xBB, 0xBF] b then utf8_decode (drop 3 b)
      else if 4 \<le> length b \<and> b ! 0 = 0 then (if b ! 1 \<noteq> 0 then utf16_decode True b else utf32_decode True b)
      else if 4 \<le> length b \<and> b ! 1 = 0 then
        (if b ! 2 \<noteq> 0 \<or> b ! 3 \<noteq> 0 then utf16_decode False b else utf32_decode False b)
      else if length b = 2 \<and> b ! 0 = 0 then utf16_decode True b
      else if length b = 2 \<and> b ! 1 = 0 then utf16_decode False b
      else utf8_decode b)"

text \<open>The format \<open>.0f\<close>: rounded to the nearest integer, ties to the even one, keeping the sign.\<close>

definition round_even :: "rat \<Rightarrow> int" where
  "round_even r = (if r - of_int \<lfloor>r\<rfloor> < 1 / 2 \<or> (r - of_int \<lfloor>r\<rfloor> = 1 / 2 \<and> even \<lfloor>r\<rfloor>) then \<lfloor>r\<rfloor> else \<lfloor>r\<rfloor> + 1)"

fun format_seconds :: "pyfloat \<Rightarrow> string" where
  "format_seconds (Fin r) = (if r < 0 then ''-'' else []) @ uint_str (round_even \<bar>r\<bar>)"
| "format_seconds x = float_str x"

definition webhook_refusal :: "string \<Rightarrow> (string, json) dict" where
  "webhook_refusal reason = [(''ok'', JBool False), (''reason'', JStr reason), (''payload'', JNull)]"

text \<open>
  \<open>jwt\<close> is the \<open>decode\<close> of the JWT library for HS256 with \<open>iat\<close>, \<open>jti\<close> and \<open>payload_hash\<close> required,
  applied to the token and the secret; \<^term>\<open>None\<close> when the library is not installed.
\<close>

definition verify_vonage_webhook ::
    "(string \<Rightarrow> string \<Rightarrow> (string, json) dict result) option \<Rightarrow> (pyexn \<Rightarrow> string) \<Rightarrow> pyfloat \<Rightarrow>
     string \<Rightarrow> bytes \<Rightarrow> string \<Rightarrow> int \<Rightarrow> (string, json) dict result" where
  "verify_vonage_webhook jwt explain clock header body secret max_age =
     (case jwt of
        None \<Rightarrow> Inr (webhook_refusal ''pyjwt not installed'')
      | Some decode \<Rightarrow>
          if \<not> starts_with ''Bearer '' header then Inr (webhook_refusal ''missing Bearer header'')
          else (case decode (strip (drop 7 header)) secret of
            Inl e \<Rightarrow> Inr (webhook_refusal (''jwt verify: '' @ explain e))
          | Inr decoded \<Rightarrow>
              bindR (bindR (bindR (subscript decoded ''iat'') py_int) (\<lambda>i. py_float (JInt i))) (\<lambda>iat.
                let age = fl_sub clock iat in
                if fl_less age (Fin (- 30)) \<or> fl_gt age (Fin (of_int max_age))
                  then Inr (webhook_refusal (''stale iat: '' @ format_seconds age @ ''s''))
                else bindR (subscript decoded ''payload_hash'') (\<lambda>h.
                  if h \<noteq> JStr (hex (sha256 body)) then Inr (webhook_refusal ''payload_hash mismatch'')
                  else (case json_bytes_text body of
                      None \<Rightarrow> Inl (ValueError ''UnicodeDecodeError'')
                    | Some text \<Rightarrow>
                        (case loads text of
                           None \<Rightarrow> Inr (webhook_refusal ''invalid JSON body'')
                         | Some payload \<Rightarrow>
                             bindR (subscript decoded ''jti'') (\<lambda>jti.
                               Inr [(''ok'', JBool True), (''reason'', JStr ''verified''), (''payload'', payload),
                                    (''jti'', jti),
                                    (''application_id'', dict_get_default decoded ''application_id'' JNull),
                                    (''api_key'', dict_get_default decoded ''api_key'' JNull)])))))))"

end
