(* ===== verification/Proof_Service.thy ===== *)
theory Proof_Service
  imports Proof_Bridge
begin

text \<open>
  The proof service, \<open>proof-process/backend.py\<close>: canonical text and digests, authorisation, the two tables
  of the database, submission, verification and status; and the contract fixture,
  \<open>proof-process/contract_fixture.py\<close>. The tables are lists of rows in insertion order; a transaction that
  raises leaves them as they were. Environment, key file and the result of opening the database are
  fields of an environment record, as is the text SQLite stores for a real number.
\<close>

section \<open>Canonical text\<close>

fun finite_json :: "json \<Rightarrow> bool" where
  "finite_json (JFloat x) = fl_finite x"
| "finite_json (JArr vs) = list_all finite_json vs"
| "finite_json (JObj kvs) = list_all (\<lambda>(k, v). finite_json v) kvs"
| "finite_json _ = True"

definition proof_text :: "json \<Rightarrow> string result" where
  "proof_text v =
     (if finite_json v then Inr (dumps compact_ascii (sort_keys v))
      else Inl (ValueError ''Out of range float values are not JSON compliant''))"

definition proof_canon :: "json \<Rightarrow> bytes result" where
  "proof_canon v = bindR (proof_text v) (\<lambda>t. Inr (utf8_encode t))"

definition proof_digest :: "json \<Rightarrow> string result" where
  "proof_digest v = bindR (proof_canon v) (\<lambda>b. Inr (''sha256:'' @ hex (sha256 b)))"

section \<open>Environment and database\<close>

record proof_env =
  pe_token :: "string option"
  pe_reviewer_keys :: "string option"
  pe_signer_file :: "string option"
  pe_db_path :: "string option"
  pe_read :: "string \<Rightarrow> bytes option"
  pe_connects :: bool
  pe_real_text :: "rat \<Rightarrow> string"

record issued_row =
  is_claim :: string
  is_version :: string
  is_cert :: string
  is_revoked :: int

record event_row =
  ev_body :: string
  ev_digest :: string

record proof_db =
  pd_issued :: "issued_row list"
  pd_events :: "event_row list"

definition buddy_refused :: "unit result" where
  "buddy_refused = Inl (HTTPException 401 ''Buddy authorization required'')"

definition proof_auth :: "proof_env \<Rightarrow> string option \<Rightarrow> unit result" where
  "proof_auth E authorization =
     (case (pe_token E, authorization) of
        (Some token, Some a) \<Rightarrow>
          if token = [] \<or> a = [] then buddy_refused
          else if \<not> (is_ascii a \<and> is_ascii (''Bearer '' @ token)) then Inl TypeError
          else if a = ''Bearer '' @ token then Inr () else buddy_refused
      | _ \<Rightarrow> buddy_refused)"

text \<open>The signing key; the connection is the database of the model.\<close>

definition proof_state :: "proof_env \<Rightarrow> bytes result" where
  "proof_state E =
     (case (pe_signer_file E, pe_db_path E) of
        (Some keyfile, Some path) \<Rightarrow>
          if keyfile = [] \<or> path = [] then Inl (HTTPException 503 ''durable signer and database required'')
          else (case pe_read E keyfile of
              None \<Rightarrow> Inl (HTTPException 503 ''durable signer and database required'')
            | Some key \<Rightarrow>
                if length key \<noteq> 32 \<or> \<not> pe_connects E then Inl (HTTPException 503 ''invalid signer or database'')
                else Inr key)
      | _ \<Rightarrow> Inl (HTTPException 503 ''durable signer and database required''))"

definition event_json :: "string \<Rightarrow> json \<Rightarrow> string \<Rightarrow> json" where
  "event_json kind payload prev = JObj [(''kind'', JStr kind), (''payload'', payload), (''prev'', JStr prev)]"

definition last_digest :: "event_row list \<Rightarrow> string" where
  "last_digest events = (if events = [] then ''genesis'' else ev_digest (last events))"

definition add_event :: "string \<Rightarrow> json \<Rightarrow> proof_db \<Rightarrow> (string \<times> proof_db) result" where
  "add_event kind payload db =
     (let body = event_json kind payload (last_digest (pd_events db)) in
      bindR (proof_digest body) (\<lambda>hash_value. bindR (proof_text body) (\<lambda>text.
        Inr (hash_value, db\<lparr>pd_events := pd_events db @ [\<lparr>ev_body = text, ev_digest = hash_value\<rparr>]\<rparr>))))"

section \<open>Submission\<close>

record submission =
  sb_contract :: "(string, json) dict"
  sb_attempt :: "(string, json) dict"
  sb_reviewer_key :: string
  sb_reviewer_signature :: string

abbreviation field :: "(string, json) dict \<Rightarrow> string \<Rightarrow> json" where
  "field d k \<equiv> dict_get_default d k JNull"

definition unprocessable :: "string \<Rightarrow> 'a result" where
  "unprocessable reason = Inl (HTTPException 422 reason)"

definition reviewed_json :: "(string, json) dict \<Rightarrow> (string, json) dict \<Rightarrow> json" where
  "reviewed_json c a = JObj [(''contract'', JObj c), (''attempt'', JObj a)]"

text \<open>Loading a key, reading a signature and checking it over a canonical text, as both handlers do.\<close>

definition signed_canon :: "ed25519 \<Rightarrow> json \<Rightarrow> json \<Rightarrow> json \<Rightarrow> unit result" where
  "signed_canon C pk_hex signature v =
     bindR (json_from_hex pk_hex) (\<lambda>pk.
       if \<not> ed_load C pk then Inl (ValueError ''An Ed25519 public key is 32 bytes long'')
       else bindR (json_from_hex signature) (\<lambda>s. bindR (proof_canon v) (\<lambda>m.
              if ed_verify C pk s m then Inr () else Inl InvalidSignature)))"

definition checks_pass :: "json \<Rightarrow> json \<Rightarrow> bool result" where
  "checks_pass required passed =
     bindR (py_set required) (\<lambda>req. bindR (py_set passed) (\<lambda>have_passed. Inr (set_subset req have_passed)))"

fun evidence_loop :: "json \<Rightarrow> json list \<Rightarrow> unit result" where
  "evidence_loop evidence [] = Inr ()"
| "evidence_loop evidence (name # names) =
     bindR (py_get evidence name (JStr [])) (\<lambda>value.
       case value of
         JStr s \<Rightarrow> if starts_with ''sha256:'' s then evidence_loop evidence names else unprocessable ''evidence missing''
       | _ \<Rightarrow> unprocessable ''evidence missing'')"

definition within_budget :: "json \<Rightarrow> json \<Rightarrow> bool" where
  "within_budget spent budget =
     (case (num_val spent, num_val budget) of
        (Some s, Some b) \<Rightarrow> fl_le (Fin 0) s \<and> fl_le s b
      | _ \<Rightarrow> False)"

definition reviewer_registered :: "proof_env \<Rightarrow> string \<Rightarrow> bool result" where
  "reviewer_registered E key =
     (case loads (case pe_reviewer_keys E of None \<Rightarrow> ''[]'' | Some t \<Rightarrow> t) of
        None \<Rightarrow> Inl (ValueError ''JSONDecodeError'')
      | Some keys \<Rightarrow> str_in key keys)"

definition same_claim :: "(string, json) dict \<Rightarrow> (string, json) dict \<Rightarrow> bool" where
  "same_claim c a \<longleftrightarrow> py_eq True (field c ''claim_id'') (field a ''claim_id'') \<and>
     py_eq True (field c ''claim_version'') (field a ''claim_version'')"

definition attempt_satisfied :: "(string, json) dict \<Rightarrow> bool" where
  "attempt_satisfied a \<longleftrightarrow> truthy (field a ''executed'') \<and> field a ''decision'' = JStr ''REQUIREMENTS_SATISFIED''"

definition submit_checks :: "ed25519 \<Rightarrow> proof_env \<Rightarrow> submission \<Rightarrow> unit result" where
  "submit_checks C E data =
     (let c = sb_contract data; a = sb_attempt data in
      bindR (reviewer_registered E (sb_reviewer_key data)) (\<lambda>registered.
      if \<not> registered then Inl (HTTPException 403 ''reviewer key not registered'')
      else if \<not> same_claim c a \<or> \<not> truthy (field c ''claim_id'') \<or> \<not> truthy (field c ''claim_version'')
        then unprocessable ''claim/version mismatch''
      else if \<not> py_eq False (field c ''criteria_version'') (field a ''criteria_version'')
        then unprocessable ''criteria changed''
      else if field a ''generator_public_key'' = JStr (sb_reviewer_key data)
        then unprocessable ''generator cannot review''
      else if signed_canon C (JStr (sb_reviewer_key data)) (JStr (sb_reviewer_signature data)) (reviewed_json c a) \<noteq> Inr ()
        then unprocessable ''invalid reviewer signature''
      else if \<not> attempt_satisfied a then unprocessable ''attempt not satisfied''
      else if truthy (field a ''checks_failed'') \<or> truthy (field a ''blocking_issues'')
        then unprocessable ''blocking checks''
      else bindR (checks_pass (dict_get_default c ''required_checks'' (JArr [])) (dict_get_default a ''checks_passed'' (JArr [])))
        (\<lambda>passed.
      if \<not> passed then unprocessable ''required check missing''
      else bindR (bindR (py_iter (dict_get_default c ''evidence_requirements'' (JArr [])))
                   (evidence_loop (dict_get_default a ''evidence'' (JObj [])))) (\<lambda>_.
      if \<not> within_budget (field a ''spent_usd'') (field c ''budget_usd'') then unprocessable ''budget exceeded''
      else Inr ()))))"

section \<open>Certificates\<close>

definition cert_body :: "ed25519 \<Rightarrow> bytes \<Rightarrow> submission \<Rightarrow> string \<Rightarrow> string \<Rightarrow> (string, json) dict" where
  "cert_body C sk data contract_hash attempt_hash =
     (let c = sb_contract data in
      [(''certificate_type'', JStr ''Buddy_Certified_UR1''),
       (''claim_id'', field c ''claim_id''),
       (''claim_version'', field c ''claim_version''),
       (''contract_hash'', JStr contract_hash), (''attempt_hash'', JStr attempt_hash),
       (''reviewer_public_key'', JStr (sb_reviewer_key data)),
       (''reviewer_signature'', JStr (sb_reviewer_signature data)),
       (''issuer_public_key'', JStr (hex (ed_public C sk))),
       (''scope'', dict_get_default c ''scope'' (JStr ''declared checks only'')),
       (''limits'', JStr ''No universal factual truth, PUF or external anchor proven'')])"

definition make_cert :: "ed25519 \<Rightarrow> bytes \<Rightarrow> submission \<Rightarrow> (string, json) dict result" where
  "make_cert C sk data =
     bindR (proof_digest (JObj (sb_contract data))) (\<lambda>ch.
     bindR (proof_digest (JObj (sb_attempt data))) (\<lambda>ah.
       let body = cert_body C sk data ch ah in
       bindR (proof_canon (JObj body)) (\<lambda>m.
       bindR (proof_digest (JObj body)) (\<lambda>d.
         Inr (dict_set ''ur1_receipt'' (JStr (''urn:ur1:'' @ d))
                (dict_set ''signature'' (JStr (hex (ed_sign C sk m))) body))))))"

text \<open>
  A value bound to a \<open>TEXT\<close> column: numbers are stored as text, lists and dictionaries are refused.
  Null, NaN and infinities do not occur: the claim is truthy and its canonical text was just made.
\<close>

fun sql_text :: "(rat \<Rightarrow> string) \<Rightarrow> json \<Rightarrow> string result" where
  "sql_text real_text (JStr s) = Inr s"
| "sql_text real_text (JInt i) = (if - (2 ^ 63) \<le> i \<and> i < 2 ^ 63 then Inr (int_str i) else Inl OverflowError)"
| "sql_text real_text (JBool b) = Inr (if b then ''1'' else ''0'')"
| "sql_text real_text (JFloat (Fin r)) = Inr (real_text r)"
| "sql_text real_text _ = Inl SqliteError"

definition insert_issued :: "issued_row \<Rightarrow> proof_db \<Rightarrow> proof_db result" where
  "insert_issued row db =
     (if (is_claim row, is_version row) \<in> set (map (\<lambda>r. (is_claim r, is_version r)) (pd_issued db))
      then Inl SqliteIntegrityError
      else Inr (db\<lparr>pd_issued := pd_issued db @ [row]\<rparr>))"

text \<open>The transaction: both insertions or none.\<close>

definition issue_cert :: "proof_env \<Rightarrow> submission \<Rightarrow> (string, json) dict \<Rightarrow> proof_db \<Rightarrow> proof_db result" where
  "issue_cert E data cert db =
     bindR (proof_text (JObj cert)) (\<lambda>text.
     bindR (sql_text (pe_real_text E) (field (sb_contract data) ''claim_id'')) (\<lambda>claim.
     bindR (sql_text (pe_real_text E) (field (sb_contract data) ''claim_version'')) (\<lambda>version.
     bindR (insert_issued \<lparr>is_claim = claim, is_version = version, is_cert = text, is_revoked = 0\<rparr> db) (\<lambda>db1.
     bindR (add_event ''issued'' (JObj [(''receipt'', field cert ''ur1_receipt'')]) db1) (\<lambda>(_, db2). Inr db2)))))"

definition cert_bundle :: "submission \<Rightarrow> (string, json) dict \<Rightarrow> (string, json) dict" where
  "cert_bundle data cert =
     [(''contract'', JObj (sb_contract data)), (''attempt'', JObj (sb_attempt data)), (''certification'', JObj cert)]"

definition proof_submit ::
    "ed25519 \<Rightarrow> proof_env \<Rightarrow> submission \<Rightarrow> proof_db \<Rightarrow> (string, json) dict result \<times> proof_db" where
  "proof_submit C E data db =
     (case bindR (submit_checks C E data) (\<lambda>_. bindR (proof_state E) (\<lambda>sk. make_cert C sk data)) of
        Inl e \<Rightarrow> (Inl e, db)
      | Inr cert \<Rightarrow>
          (case issue_cert E data cert db of
             Inl e \<Rightarrow> (Inl (if e = SqliteIntegrityError then HTTPException 409 ''certificate already issued'' else e), db)
           | Inr db' \<Rightarrow> (Inr (cert_bundle data cert), db')))"

section \<open>Verification and status\<close>

definition as_dict :: "json \<Rightarrow> (string, json) dict result" where
  "as_dict v = (case v of JObj d \<Rightarrow> Inr d | _ \<Rightarrow> Inl AttributeError)"

definition require :: "bool \<Rightarrow> string \<Rightarrow> unit result" where
  "require b reason = (if b then Inr () else Inl (ValueError reason))"

definition verify_bundle :: "ed25519 \<Rightarrow> (string, json) dict \<Rightarrow> unit result" where
  "verify_bundle C bundle =
     bindR (subscript bundle ''contract'') (\<lambda>c.
     bindR (subscript bundle ''attempt'') (\<lambda>a.
     bindR (bindR (subscript bundle ''certification'') as_dict) (\<lambda>cert.
       let body = without [''signature'', ''ur1_receipt''] cert in
       bindR (subscript body ''contract_hash'') (\<lambda>ch. bindR (proof_digest c) (\<lambda>dc.
       bindR (require (ch = JStr dc) ''mismatched digest'') (\<lambda>_.
       bindR (subscript body ''attempt_hash'') (\<lambda>ah. bindR (proof_digest a) (\<lambda>da.
       bindR (require (ah = JStr da) ''mismatched digest'') (\<lambda>_.
       bindR (subscript cert ''ur1_receipt'') (\<lambda>u. bindR (proof_digest (JObj body)) (\<lambda>db.
       bindR (require (u = JStr (''urn:ur1:'' @ db)) ''receipt mismatch'') (\<lambda>_.
       bindR (subscript body ''issuer_public_key'') (\<lambda>ik. bindR (subscript cert ''signature'') (\<lambda>s.
       bindR (signed_canon C ik s (JObj body)) (\<lambda>_.
       bindR (subscript body ''reviewer_public_key'') (\<lambda>rk. bindR (subscript body ''reviewer_signature'') (\<lambda>rs.
         signed_canon C rk rs (JObj [(''contract'', c), (''attempt'', a)]))))))))))))))))))"

definition proof_verify :: "ed25519 \<Rightarrow> (string, json) dict \<Rightarrow> (string, json) dict" where
  "proof_verify C bundle =
     [(''integrity_verified'', JBool (is_ok (verify_bundle C bundle))), (''revocation_checked'', JBool False),
      (''external_anchor_verified'', JBool False)]"

definition find_issued :: "string \<Rightarrow> string \<Rightarrow> proof_db \<Rightarrow> issued_row option" where
  "find_issued claim version db = find (\<lambda>r. is_claim r = claim \<and> is_version r = version) (pd_issued db)"

definition proof_status :: "proof_env \<Rightarrow> string \<Rightarrow> string \<Rightarrow> proof_db \<Rightarrow> (string, json) dict result" where
  "proof_status E claim version db =
     bindR (proof_state E) (\<lambda>_.
       case find_issued claim version db of
         None \<Rightarrow> Inl (HTTPException 404 ''unknown claim'')
       | Some row \<Rightarrow> (case loads (is_cert row) of
             None \<Rightarrow> Inl (ValueError ''JSONDecodeError'')
           | Some cert \<Rightarrow> Inr [(''certificate'', cert), (''revoked'', JBool (is_revoked row \<noteq> 0))]))"

definition proof_health :: "(string, json) dict" where
  "proof_health = [(''status'', JStr ''reference''), (''external_anchor'', JBool False), (''live_ai'', JBool False)]"

text \<open>The two endpoints behind the token.\<close>

definition api_submit ::
    "ed25519 \<Rightarrow> proof_env \<Rightarrow> string option \<Rightarrow> submission \<Rightarrow> proof_db \<Rightarrow> (string, json) dict result \<times> proof_db" where
  "api_submit C E authorization data db =
     (case proof_auth E authorization of Inl e \<Rightarrow> (Inl e, db) | Inr _ \<Rightarrow> proof_submit C E data db)"

definition api_status :: "proof_env \<Rightarrow> string option \<Rightarrow> string \<Rightarrow> string \<Rightarrow> proof_db \<Rightarrow> (string, json) dict result" where
  "api_status E authorization claim version db =
     bindR (proof_auth E authorization) (\<lambda>_. proof_status E claim version db)"

section \<open>The contract fixture\<close>

fun all_present :: "json \<Rightarrow> json list \<Rightarrow> bool result" where
  "all_present evidence [] = Inr True"
| "all_present evidence (k # ks) =
     bindR (py_get evidence k JNull) (\<lambda>v. if v = JNull then Inr False else all_present evidence ks)"

definition not_certified :: string where
  "not_certified = ''NOT_CERTIFIED''"

definition decide_attempt :: "(string, json) dict \<Rightarrow> (string, json) dict \<Rightarrow> string result" where
  "decide_attempt contract attempt =
     bindR (subscript contract ''claim_id'') (\<lambda>claim. bindR (subscript contract ''claim_version'') (\<lambda>version.
       if \<not> (py_eq True claim (field attempt ''claim_id'') \<and> py_eq True version (field attempt ''claim_version''))
         then Inr not_certified
       else if \<not> truthy (field attempt ''executed'') then Inr not_certified
       else if field attempt ''decision'' \<noteq> JStr ''REQUIREMENTS_SATISFIED'' then Inr not_certified
       else if truthy (field attempt ''checks_failed'') \<or> truthy (field attempt ''blocking_issues'') then Inr not_certified
       else bindR (py_set (dict_get_default attempt ''checks_passed'' (JArr []))) (\<lambda>passed.
            bindR (bindR (subscript contract ''required_checks'') py_set) (\<lambda>required.
              if \<not> set_subset required passed then Inr not_certified
              else bindR (bindR (subscript contract ''required_evidence'') py_iter) (\<lambda>names.
                   bindR (all_present (dict_get_default attempt ''evidence'' (JObj [])) names) (\<lambda>present.
                     Inr (if present then ''CHECKS_SATISFIED_NOT_SIGNED'' else not_certified)))))))"

end
