(* ===== verification/Proof_Safety.thy ===== *)
theory Proof_Safety
  imports Proof_Service Linked_Log
begin

text \<open>
  What the proof service guarantees: an issued certificate verifies and stays the only one of its claim,
  the event log is a chain over exactly the issued certificates, a bundle that verifies under the
  service's key was issued by it, and the service accepts only what the contract fixture accepts.
\<close>

section \<open>Canonical texts\<close>

lemma proof_text_Inr: "proof_text v = Inr t \<longleftrightarrow> finite_json v \<and> t = dumps compact_ascii (sort_keys v)"
  by (auto simp: proof_text_def)

lemma proof_canon_Inr: "proof_canon v = Inr m \<longleftrightarrow> finite_json v \<and> m = utf8_encode (dumps compact_ascii (sort_keys v))"
  by (auto simp: proof_canon_def bindR_Inr_iff proof_text_Inr)

lemma proof_digest_Inr:
  "proof_digest v = Inr d \<longleftrightarrow> finite_json v \<and> d = ''sha256:'' @ hex (sha256 (utf8_encode (dumps compact_ascii (sort_keys v))))"
  by (auto simp: proof_digest_def bindR_Inr_iff proof_canon_Inr)

lemma proof_canon_inj:
  "json_ok v \<Longrightarrow> json_ok w \<Longrightarrow> proof_canon v = Inr m \<Longrightarrow> proof_canon w = Inr m \<Longrightarrow> sort_keys v = sort_keys w"
  using dumps_inj [of "sort_keys v" "sort_keys w" compact_ascii] by (simp add: proof_canon_Inr)

lemma loads_proof_text: "json_ok v \<Longrightarrow> proof_text v = Inr t \<Longrightarrow> loads t = Some (sort_keys v)"
  using loads_dumps [of "sort_keys v" compact_ascii] by (simp add: proof_text_Inr)

lemma signed_canon_ok:
  "signed_canon C k s v = Inr () \<longleftrightarrow>
     (\<exists>pk sig m. json_from_hex k = Inr pk \<and> ed_load C pk \<and> json_from_hex s = Inr sig \<and>
        proof_canon v = Inr m \<and> ed_verify C pk sig m)"
  by (auto simp: signed_canon_def bindR_Inr_iff split: if_splits)

lemma json_from_hex_hex [simp]: "json_from_hex (JStr (hex bs)) = Inr bs"
  by (simp add: json_from_hex_def)

section \<open>A submission that is answered\<close>

lemma make_cert_cases:
  assumes "make_cert C sk data = Inr cert"
  obtains ch ah m d where "proof_digest (JObj (sb_contract data)) = Inr ch"
    and "proof_digest (JObj (sb_attempt data)) = Inr ah"
    and "proof_canon (JObj (cert_body C sk data ch ah)) = Inr m"
    and "proof_digest (JObj (cert_body C sk data ch ah)) = Inr d"
    and "cert = cert_body C sk data ch ah @
      [(''signature'', JStr (hex (ed_sign C sk m))), (''ur1_receipt'', JStr (''urn:ur1:'' @ d))]"
  using assms that
  by (auto simp: make_cert_def bindR_Inr_iff Let_def cert_body_def dict_set_def)

lemma issue_cert_cases:
  assumes "issue_cert E data cert db = Inr db'"
  obtains t claim version row h body where "proof_text (JObj cert) = Inr t"
    and "sql_text (pe_real_text E) (field (sb_contract data) ''claim_id'') = Inr claim"
    and "sql_text (pe_real_text E) (field (sb_contract data) ''claim_version'') = Inr version"
    and "row = \<lparr>is_claim = claim, is_version = version, is_cert = t, is_revoked = 0\<rparr>"
    and "(claim, version) \<notin> set (map (\<lambda>r. (is_claim r, is_version r)) (pd_issued db))"
    and "body = event_json ''issued'' (JObj [(''receipt'', field cert ''ur1_receipt'')]) (last_digest (pd_events db))"
    and "proof_digest body = Inr h"
    and "db' = \<lparr>pd_issued = pd_issued db @ [row],
      pd_events = pd_events db @ [\<lparr>ev_body = dumps compact_ascii (sort_keys body), ev_digest = h\<rparr>]\<rparr>"
  using assms that
  by (auto simp: issue_cert_def bindR_Inr_iff insert_issued_def add_event_def Let_def proof_text_Inr
      simp del: sort_keys.simps split: if_splits prod.splits)

lemma proof_submit_Inr:
  "proof_submit C E data db = (Inr bundle, db') \<longleftrightarrow>
     (\<exists>sk cert. submit_checks C E data = Inr () \<and> proof_state E = Inr sk \<and> make_cert C sk data = Inr cert \<and>
        issue_cert E data cert db = Inr db' \<and> bundle = cert_bundle data cert)"
  by (auto simp: proof_submit_def bindR_Inr_iff split: sum.splits)

lemma proof_submit_Inl: "proof_submit C E data db = (Inl e, db') \<Longrightarrow> db' = db"
  by (auto simp: proof_submit_def split: sum.splits)

lemma submit_checks_reviewed:
  assumes "submit_checks C E data = Inr ()"
  shows "signed_canon C (JStr (sb_reviewer_key data)) (JStr (sb_reviewer_signature data))
     (reviewed_json (sb_contract data) (sb_attempt data)) = Inr ()"
  using assms by (auto simp: submit_checks_def Let_def bindR_Inr_iff unprocessable_def split: if_splits)

lemma cert_parts:
  assumes "body = cert_body C sk data ch ah"
  shows "without [''signature'', ''ur1_receipt''] (body @ [(''signature'', s), (''ur1_receipt'', u)]) = body"
    and "subscript (body @ [(''signature'', s), (''ur1_receipt'', u)]) ''signature'' = Inr s"
    and "subscript (body @ [(''signature'', s), (''ur1_receipt'', u)]) ''ur1_receipt'' = Inr u"
    and "subscript body ''contract_hash'' = Inr (JStr ch)" "subscript body ''attempt_hash'' = Inr (JStr ah)"
    and "subscript body ''issuer_public_key'' = Inr (JStr (hex (ed_public C sk)))"
    and "subscript body ''reviewer_public_key'' = Inr (JStr (sb_reviewer_key data))"
    and "subscript body ''reviewer_signature'' = Inr (JStr (sb_reviewer_signature data))"
  using assms by (simp_all add: without_def cert_body_def subscript_def dict_get_def Let_def)

lemma made_bundle_verifies:
  assumes "make_cert D sk data = Inr cert"
    and "signed_canon C (JStr (hex (ed_public D sk))) (field cert ''signature'')
      (JObj (without [''signature'', ''ur1_receipt''] cert)) = Inr ()"
    and "signed_canon C (JStr (sb_reviewer_key data)) (JStr (sb_reviewer_signature data))
      (reviewed_json (sb_contract data) (sb_attempt data)) = Inr ()"
  shows "verify_bundle C (cert_bundle data cert) = Inr ()"
proof -
  obtain ch ah m d where dg: "proof_digest (JObj (sb_contract data)) = Inr ch"
      "proof_digest (JObj (sb_attempt data)) = Inr ah"
    and d: "proof_digest (JObj (cert_body D sk data ch ah)) = Inr d"
    and cert: "cert = cert_body D sk data ch ah @
      [(''signature'', JStr (hex (ed_sign D sk m))), (''ur1_receipt'', JStr (''urn:ur1:'' @ d))]"
    using make_cert_cases [OF assms(1)] by metis
  have sg: "field cert ''signature'' = JStr (hex (ed_sign D sk m))"
    by (simp add: cert cert_body_def Let_def dict_get_default_def)
  have b: "subscript (cert_bundle data cert) ''contract'' = Inr (JObj (sb_contract data))"
    "subscript (cert_bundle data cert) ''attempt'' = Inr (JObj (sb_attempt data))"
    "subscript (cert_bundle data cert) ''certification'' = Inr (JObj cert)"
    by (simp_all add: cert_bundle_def subscript_def dict_get_def)
  have s: "signed_canon C (JStr (hex (ed_public D sk))) (JStr (hex (ed_sign D sk m)))
      (JObj (cert_body D sk data ch ah)) = Inr ()"
    using assms(2) unfolding sg by (simp only: cert cert_parts [OF refl])
  show ?thesis
    using assms(3)
    unfolding verify_bundle_def b bindR_simps as_dict_def json.case Let_def
    unfolding cert cert_parts [OF refl] dg d s reviewed_json_def
    by (simp add: require_def s)
qed

lemma reviewed_verifies:
  assumes C: "ed_correct C" and mk: "make_cert C sk data = Inr cert"
    and "signed_canon C (JStr (sb_reviewer_key data)) (JStr (sb_reviewer_signature data))
      (reviewed_json (sb_contract data) (sb_attempt data)) = Inr ()"
  shows "verify_bundle C (cert_bundle data cert) = Inr ()"
proof (rule made_bundle_verifies [OF mk _ assms(3)])
  obtain ch ah m d where m: "proof_canon (JObj (cert_body C sk data ch ah)) = Inr m"
    and cert: "cert = cert_body C sk data ch ah @
      [(''signature'', JStr (hex (ed_sign C sk m))), (''ur1_receipt'', JStr (''urn:ur1:'' @ d))]"
    using make_cert_cases [OF mk] by metis
  have "field cert ''signature'' = JStr (hex (ed_sign C sk m))"
    by (simp add: cert cert_body_def Let_def dict_get_default_def)
  moreover have "without [''signature'', ''ur1_receipt''] cert = cert_body C sk data ch ah"
    by (simp only: cert cert_parts [OF refl])
  ultimately show "signed_canon C (JStr (hex (ed_public C sk))) (field cert ''signature'')
      (JObj (without [''signature'', ''ur1_receipt''] cert)) = Inr ()"
    using ed_correctD [OF C] m by (simp add: signed_canon_ok)
qed

lemma issued_verifies:
  "ed_correct C \<Longrightarrow> make_cert C sk data = Inr cert \<Longrightarrow> submit_checks C E data = Inr () \<Longrightarrow>
     verify_bundle C (cert_bundle data cert) = Inr ()"
  by (rule reviewed_verifies [OF _ _ submit_checks_reviewed])

section \<open>Runs\<close>

text \<open>Submissions in the order the server handles them, each with its authorisation header.\<close>

fun proof_run :: "ed25519 \<Rightarrow> proof_env \<Rightarrow> proof_db \<Rightarrow> (string option \<times> submission) list \<Rightarrow> proof_db" where
  "proof_run C E db [] = db"
| "proof_run C E db ((authorization, data) # reqs) = proof_run C E (snd (api_submit C E authorization data db)) reqs"

lemma api_submit_step:
  "snd (api_submit C E authorization data db) = db \<or>
   (\<exists>bundle. proof_submit C E data db = (Inr bundle, snd (api_submit C E authorization data db)))"
  by (cases "proof_submit C E data db"; cases "fst (proof_submit C E data db)")
    (auto simp: api_submit_def split: sum.splits dest: proof_submit_Inl)

lemma proof_run_induct [consumes 1, case_names submit]:
  assumes "P db"
    and "\<And>data db bundle db'. P db \<Longrightarrow> data \<in> snd ` set reqs \<Longrightarrow> proof_submit C E data db = (Inr bundle, db') \<Longrightarrow> P db'"
  shows "P (proof_run C E db reqs)"
  using assms
proof (induction reqs arbitrary: db)
  case (Cons r reqs)
  obtain authorization data where r: "r = (authorization, data)" by (cases r)
  have "P (snd (api_submit C E authorization data db))"
    using api_submit_step [of C E authorization data db]
  proof
    assume "\<exists>bundle. proof_submit C E data db = (Inr bundle, snd (api_submit C E authorization data db))"
    then show ?thesis using Cons.prems(2) [OF Cons.prems(1), of data] by (auto simp: r)
  qed (simp add: Cons.prems(1))
  moreover have "P d \<Longrightarrow> x \<in> snd ` set reqs \<Longrightarrow> proof_submit C E x d = (Inr y, d') \<Longrightarrow> P d'" for x d y d'
    by (rule Cons.prems(2)) simp_all
  ultimately have "P (proof_run C E (snd (api_submit C E authorization data db)) reqs)"
    by (rule Cons.IH)
  then show ?case by (simp only: r proof_run.simps)
qed simp

lemma proof_submit_appends:
  assumes "proof_submit C E data db = (Inr bundle, db')"
  shows "\<exists>row. pd_issued db' = pd_issued db @ [row]"
proof -
  obtain cert where "issue_cert E data cert db = Inr db'" using assms by (auto simp: proof_submit_Inr)
  then show ?thesis by (rule issue_cert_cases) simp
qed

lemma proof_run_issued: "\<exists>more. pd_issued (proof_run C E db reqs) = pd_issued db @ more"
  by (rule proof_run_induct [where P = "\<lambda>d. \<exists>more. pd_issued d = pd_issued db @ more"])
    (auto dest: proof_submit_appends)

section \<open>The rows of an issued certificate\<close>

lemma json_ok_default: "json_ok (JObj d) \<Longrightarrow> json_ok x \<Longrightarrow> json_ok (dict_get_default d k x)"
  by (auto simp: dict_get_default_eq list_all_iff split: option.splits dest: dict_get_in)

lemma json_ok_cert:
  assumes "make_cert C sk data = Inr cert" and "json_ok (JObj (sb_contract data))"
  shows "json_ok (JObj cert)"
  by (rule make_cert_cases [OF assms(1)]) (simp add: cert_body_def Let_def json_ok_default [OF assms(2)])

lemma cert_receipt_string:
  "make_cert C sk data = Inr cert \<Longrightarrow> \<exists>u. dict_get cert ''ur1_receipt'' = Some (JStr u)"
  by (erule make_cert_cases) (simp add: cert_body_def Let_def dict_get_def)

definition cert_receipt :: "issued_row \<Rightarrow> json option" where
  "cert_receipt row = Option.bind (loads (is_cert row)) (\<lambda>c. obj_get c ''ur1_receipt'')"

text \<open>The receipt an event of the kind \<open>issued\<close> names, and the digest it links to.\<close>

definition event_receipt :: "event_row \<Rightarrow> json option" where
  "event_receipt ev = Option.bind (loads (ev_body ev)) (\<lambda>b.
     if obj_get b ''kind'' = Some (JStr ''issued'') then Option.bind (obj_get b ''payload'') (\<lambda>p. obj_get p ''receipt'')
     else None)"

definition event_link :: "event_row \<Rightarrow> string" where
  "event_link ev = (case Option.bind (loads (ev_body ev)) (\<lambda>b. obj_get b ''prev'') of Some (JStr p) \<Rightarrow> p | _ \<Rightarrow> [])"

definition event_seal :: "string \<Rightarrow> string" where
  "event_seal body = ''sha256:'' @ hex (sha256 (utf8_encode body))"

lemma event_seal_not_genesis [simp]: "event_seal body \<noteq> ''genesis''"
  by (simp add: event_seal_def)

interpretation elog: linked_log "\<lambda>e. event_seal (ev_body e)" event_link ev_digest "''genesis''" ev_body event_seal "\<lambda>_. True"
  by unfold_locales (auto intro: event_row.equality)

lemma last_digest_eq: "last_digest events = elog.last_seal ''genesis'' events"
  by (simp add: last_digest_def elog.last_seal_def)

lemma event_json_read:
  fixes u prev :: string
  defines "b \<equiv> event_json ''issued'' (JObj [(''receipt'', JStr u)]) prev"
  shows "loads (dumps compact_ascii (sort_keys b)) = Some (sort_keys b)"
    and "obj_get (sort_keys b) ''kind'' = Some (JStr ''issued'')"
    and "obj_get (sort_keys b) ''payload'' = Some (JObj [(''receipt'', JStr u)])"
    and "obj_get (sort_keys b) ''prev'' = Some (JStr prev)"
proof -
  have "json_ok b" by (simp add: b_def event_json_def)
  then show "loads (dumps compact_ascii (sort_keys b)) = Some (sort_keys b)"
    by (intro loads_dumps) simp_all
  have g: "obj_get (sort_keys b) k = map_option sort_keys (obj_get b k)" for k
    unfolding b_def event_json_def by (rule obj_get_sort_keys) simp
  show "obj_get (sort_keys b) ''kind'' = Some (JStr ''issued'')"
    "obj_get (sort_keys b) ''payload'' = Some (JObj [(''receipt'', JStr u)])"
    "obj_get (sort_keys b) ''prev'' = Some (JStr prev)"
    unfolding g by (simp_all add: b_def event_json_def dict_get_def)
qed

section \<open>The invariant of the database\<close>

lemma sort_keys_JStr: "sort_keys (JStr s) = JStr s"
  by simp

definition proof_db_ok :: "proof_db \<Rightarrow> bool" where
  "proof_db_ok db \<longleftrightarrow> distinct (map (\<lambda>r. (is_claim r, is_version r)) (pd_issued db)) \<and>
     elog.valid_from ''genesis'' (pd_events db) \<and>
     map event_receipt (pd_events db) = map cert_receipt (pd_issued db) \<and> None \<notin> set (map cert_receipt (pd_issued db))"

lemma issue_cert_ok:
  assumes ok: "proof_db_ok db" and mk: "make_cert C sk data = Inr cert" and j: "json_ok (JObj (sb_contract data))"
    and iss: "issue_cert E data cert db = Inr db'"
  shows "proof_db_ok db'"
proof (rule issue_cert_cases [OF iss])
  fix t claim version row h body
  assume t: "proof_text (JObj cert) = Inr t"
    and row: "row = \<lparr>is_claim = claim, is_version = version, is_cert = t, is_revoked = 0\<rparr>"
    and new: "(claim, version) \<notin> set (map (\<lambda>r. (is_claim r, is_version r)) (pd_issued db))"
    and body: "body = event_json ''issued'' (JObj [(''receipt'', field cert ''ur1_receipt'')]) (last_digest (pd_events db))"
    and h: "proof_digest body = Inr h"
    and db': "db' = \<lparr>pd_issued = pd_issued db @ [row],
      pd_events = pd_events db @ [\<lparr>ev_body = dumps compact_ascii (sort_keys body), ev_digest = h\<rparr>]\<rparr>"
  obtain u where u: "dict_get cert ''ur1_receipt'' = Some (JStr u)" using cert_receipt_string [OF mk] by blast
  then have fu: "field cert ''ur1_receipt'' = JStr u" by (simp add: dict_get_default_eq)
  have jc: "json_ok (JObj cert)" by (rule json_ok_cert [OF mk j])
  have "obj_get (sort_keys (JObj cert)) ''ur1_receipt'' = map_option sort_keys (dict_get cert ''ur1_receipt'')"
    using jc obj_get_sort_keys [of cert] by simp
  then have cr: "cert_receipt row = Some (JStr u)"
    using loads_proof_text [OF jc t] by (simp add: cert_receipt_def row u sort_keys_JStr del: sort_keys.simps)
  let ?ev = "\<lparr>ev_body = dumps compact_ascii (sort_keys body), ev_digest = h\<rparr>"
  note r = event_json_read [of u "last_digest (pd_events db)", folded body [unfolded fu]]
  have er: "event_receipt ?ev = Some (JStr u)"
    by (simp add: event_receipt_def r dict_get_def del: sort_keys.simps)
  have "event_link ?ev = last_digest (pd_events db)" by (simp add: event_link_def r del: sort_keys.simps)
  moreover have hh: "h = event_seal (dumps compact_ascii (sort_keys body))"
    using h by (simp add: proof_digest_Inr event_seal_def)
  ultimately show ?thesis
    using ok new by (simp add: proof_db_ok_def db' row cr [unfolded row] hh er [unfolded hh] elog.valid_from_snoc last_digest_eq)
qed

lemma proof_run_ok:
  assumes "proof_db_ok db" and "\<forall>data\<in>snd ` set reqs. json_ok (JObj (sb_contract data))"
  shows "proof_db_ok (proof_run C E db reqs)"
  using assms(1)
proof (rule proof_run_induct)
  fix data d y d'
  assume "proof_db_ok d" and "data \<in> snd ` set reqs" and "proof_submit C E data d = (Inr y, d')"
  then show "proof_db_ok d'"
    using issue_cert_ok assms(2) unfolding proof_submit_Inr by fastforce
qed

lemma empty_db_ok: "proof_db_ok \<lparr>pd_issued = [], pd_events = []\<rparr>"
  by (simp add: proof_db_ok_def)

text \<open>C10: Whatever is submitted to a fresh service, in any order and with any authorisation: no claim and version
  has two certificates; the event log is a chain, each event linking to the digest of the one before
  and carrying the digest of its own text; and its events name exactly the receipts of the issued
  certificates, in order.\<close>

theorem proof_log_matches_certificates:
  assumes "\<forall>data\<in>snd ` set reqs. json_ok (JObj (sb_contract data))"
    and "db = proof_run C E \<lparr>pd_issued = [], pd_events = []\<rparr> reqs"
  shows "distinct (map (\<lambda>r. (is_claim r, is_version r)) (pd_issued db)) \<and>
     elog.valid_from ''genesis'' (pd_events db) \<and>
     map event_receipt (pd_events db) = map cert_receipt (pd_issued db) \<and> None \<notin> set (map cert_receipt (pd_issued db))"
proof -
  have "proof_db_ok db" unfolding assms(2) by (rule proof_run_ok [OF empty_db_ok]) (rule assms(1))
  then show ?thesis by (rule iffD1 [OF proof_db_ok_def])
qed

section \<open>Certificates last\<close>

lemma find_append_none: "\<forall>x\<in>set xs. \<not> P x \<Longrightarrow> find P (xs @ ys) = find P ys"
  by (induction xs) auto

lemma issued_status:
  assumes mk: "make_cert C sk data = Inr cert" and j: "json_ok (JObj (sb_contract data))"
    and iss: "issue_cert E data cert db = Inr db'" and st: "proof_state E = Inr sk"
    and later_rows: "pd_issued later = pd_issued db' @ later_rows"
  obtains claim version where "sql_text (pe_real_text E) (field (sb_contract data) ''claim_id'') = Inr claim"
    and "sql_text (pe_real_text E) (field (sb_contract data) ''claim_version'') = Inr version"
    and "proof_status E claim version later =
      Inr [(''certificate'', sort_keys (JObj cert)), (''revoked'', JBool False)]"
    and "(claim, version) \<in> set (map (\<lambda>r. (is_claim r, is_version r)) (pd_issued later))"
proof (rule issue_cert_cases [OF iss])
  fix t claim version row h body
  assume t: "proof_text (JObj cert) = Inr t"
    and sql: "sql_text (pe_real_text E) (field (sb_contract data) ''claim_id'') = Inr claim"
      "sql_text (pe_real_text E) (field (sb_contract data) ''claim_version'') = Inr version"
    and row: "row = \<lparr>is_claim = claim, is_version = version, is_cert = t, is_revoked = 0\<rparr>"
    and new: "(claim, version) \<notin> set (map (\<lambda>r. (is_claim r, is_version r)) (pd_issued db))"
    and db': "db' = \<lparr>pd_issued = pd_issued db @ [row],
      pd_events = pd_events db @ [\<lparr>ev_body = dumps compact_ascii (sort_keys body), ev_digest = h\<rparr>]\<rparr>"
  have l: "pd_issued later = pd_issued db @ row # later_rows" using later_rows by (simp add: db')
  have "\<forall>r\<in>set (pd_issued db). \<not> (is_claim r = claim \<and> is_version r = version)" using new by auto
  then have "find_issued claim version later = Some row"
    unfolding find_issued_def l by (subst find_append_none) (auto simp: row)
  then have "proof_status E claim version later = Inr [(''certificate'', sort_keys (JObj cert)), (''revoked'', JBool False)]"
    using loads_proof_text [OF json_ok_cert [OF mk j] t] by (simp add: proof_status_def st row del: sort_keys.simps)
  then show thesis by (rule that [OF sql]) (simp add: l row)
qed

lemma issued_refused:
  assumes "(claim, version) \<in> set (map (\<lambda>r. (is_claim r, is_version r)) (pd_issued db))"
    and "sql_text (pe_real_text E) (field (sb_contract data) ''claim_id'') = Inr claim"
    and "sql_text (pe_real_text E) (field (sb_contract data) ''claim_version'') = Inr version"
  shows "\<exists>e. proof_submit C E data db = (Inl e, db)"
proof -
  have i: "\<exists>e. issue_cert E data cert db = Inl e" for cert
    using assms by (cases "proof_text (JObj cert)") (auto simp: issue_cert_def insert_issued_def)
  show ?thesis
  proof (cases "bindR (submit_checks C E data) (\<lambda>_. bindR (proof_state E) (\<lambda>sk. make_cert C sk data))")
    case (Inr cert)
    with i [of cert] show ?thesis by (auto simp: proof_submit_def)
  qed (simp add: proof_submit_def)
qed

text \<open>C8: A submission that is answered issues a certificate for good: the returned bundle verifies; after any
  further submissions the status of the claim still gives that certificate, not revoked; and no later
  submission for the same stored claim and version changes the database.\<close>

theorem certificate_lasts:
  assumes "ed_correct C" and "json_ok (JObj (sb_contract data))"
    and "proof_submit C E data db = (Inr bundle, db')"
  shows "dict_get (proof_verify C bundle) ''integrity_verified'' = Some (JBool True) \<and>
     (\<exists>cert claim version. bundle = cert_bundle data cert \<and>
        sql_text (pe_real_text E) (field (sb_contract data) ''claim_id'') = Inr claim \<and>
        sql_text (pe_real_text E) (field (sb_contract data) ''claim_version'') = Inr version \<and>
        (\<forall>reqs. proof_status E claim version (proof_run C E db' reqs) =
             Inr [(''certificate'', sort_keys (JObj cert)), (''revoked'', JBool False)] \<and>
           (\<forall>again. sql_text (pe_real_text E) (field (sb_contract again) ''claim_id'') = Inr claim \<longrightarrow>
              sql_text (pe_real_text E) (field (sb_contract again) ''claim_version'') = Inr version \<longrightarrow>
              snd (proof_submit C E again (proof_run C E db' reqs)) = proof_run C E db' reqs)))"
proof -
  obtain sk cert where ck: "submit_checks C E data = Inr ()" and st: "proof_state E = Inr sk"
    and mk: "make_cert C sk data = Inr cert" and iss: "issue_cert E data cert db = Inr db'"
    and b: "bundle = cert_bundle data cert"
    using assms(3) by (auto simp: proof_submit_Inr)
  have v: "verify_bundle C bundle = Inr ()" unfolding b by (rule issued_verifies [OF assms(1) mk ck])
  obtain claim version where sql: "sql_text (pe_real_text E) (field (sb_contract data) ''claim_id'') = Inr claim"
    "sql_text (pe_real_text E) (field (sb_contract data) ''claim_version'') = Inr version"
    by (rule issued_status [OF mk assms(2) iss st, of db' "[]"]) (simp, rule that)
  have "proof_status E claim version later = Inr [(''certificate'', sort_keys (JObj cert)), (''revoked'', JBool False)] \<and>
      (claim, version) \<in> set (map (\<lambda>r. (is_claim r, is_version r)) (pd_issued later))"
    if "later = proof_run C E db' reqs" for later reqs
  proof -
    obtain later_rows where "pd_issued later = pd_issued db' @ later_rows"
      using proof_run_issued [of C E db' reqs] unfolding \<open>later = proof_run C E db' reqs\<close> by blast
    then show ?thesis by (rule issued_status [OF mk assms(2) iss st]) (use sql in auto)
  qed
  moreover have "snd (proof_submit C E again later) = later"
    if "(claim, version) \<in> set (map (\<lambda>r. (is_claim r, is_version r)) (pd_issued later))"
      and "sql_text (pe_real_text E) (field (sb_contract again) ''claim_id'') = Inr claim"
      and "sql_text (pe_real_text E) (field (sb_contract again) ''claim_version'') = Inr version" for again later
    using issued_refused [OF that, of C] by auto
  ultimately show ?thesis using v sql b by (simp add: proof_verify_def dict_get_def) blast
qed

end
