(* ===== verification/Bridge_Safety.thy ===== *)
theory Bridge_Safety
  imports Proof_Bridge
begin

text \<open>
  What the receipt bridge guarantees: a minted receipt verifies, also after a trip through JSON; an
  accepted receipt was signed; and the exact conditions under which a webhook is accepted.
\<close>

section \<open>Minted receipts\<close>

lemma bridge_json_canonical: "bridge_json v = canonical v"
  by (simp add: bridge_json_def canonical_def)

lemma mint_cases:
  assumes "mint_signed_receipt C isot channel response sk sid tier = Inr r"
  obtains body rid sig where "tier \<in> set signer_tiers"
    and "body = bridge_body (utc_now isot) channel response sid tier (hex (ed_public C sk))"
    and "rid = sha256_hex (bridge_json (JObj body))"
    and "sig = hex (ed_sign C sk (bridge_json (JObj (body @ [(''receipt_id'', JStr rid)]))))"
    and "r = body @ [(''receipt_id'', JStr rid), (''signature'', JStr sig)]"
  using assms that by (auto simp: mint_signed_receipt_def Let_def dict_set_def bridge_body_def split: if_splits)

lemma json_ok_bridge_body:
  "json_ok (JObj response) \<Longrightarrow> json_ok (JObj (bridge_body t ch response sid tier pk))"
  by (simp add: bridge_body_def bridge_proves_def bridge_does_not_prove_def bridge_disclosures_def)

lemma without_minted:
  assumes "body = bridge_body t ch response sid tier pk"
  shows "without [''receipt_id'', ''signature''] (body @ [(''receipt_id'', i), (''signature'', s)]) = body"
    and "without [''signature''] (body @ [(''receipt_id'', i), (''signature'', s)]) = body @ [(''receipt_id'', i)]"
  using assms by (simp_all add: without_def bridge_body_def)

lemma has_infix_append: "has_infix p t \<Longrightarrow> has_infix p (s @ t)"
  by (induction s) auto

lemma has_infix_prefix: "starts_with p t \<Longrightarrow> has_infix p t"
  by (cases t) (auto simp: starts_with_def)

lemma bridge_does_not_prove_limits:
  "bindR (py_iter (bridge_does_not_prove ''T0'')) any_limit = Inr True"
  by (simp add: bridge_does_not_prove_def) code_simp

lemma check_signature_signed:
  "ed_correct C \<Longrightarrow> check_signature C (JStr (hex (ed_public C sk))) (JStr (hex (ed_sign C sk m))) m = Inr ()"
  by (simp add: check_signature_def json_from_hex_def ed_correctD)

lemma hex_public_nonempty: "ed_correct C \<Longrightarrow> hex (ed_public C sk) \<noteq> []"
  using ed_correctD(1) [of C sk] length_hex [of "ed_public C sk"] by force

lemma signed_body_verifies:
  assumes b: "body = bridge_body t ch response sid tier pub"
    and i: "rid = sha256_hex (bridge_json (JObj body))"
    and r: "r = body @ [(''receipt_id'', JStr rid), (''signature'', JStr sig)]"
    and ok: "check_signature C (JStr pub) (JStr sig) (bridge_json (JObj (body @ [(''receipt_id'', JStr rid)]))) = Inr ()"
    and e: "expected \<in> {None, Some [], Some pub}"
  shows "verify_vonage_receipt C explain r expected = Inr (True, [])"
proof -
  let ?signer = "JObj [(''id'', JStr sid), (''tier'', JStr tier), (''public_key_hex'', JStr pub)]"
  have no_missing: "filter (\<lambda>k. dict_get r k = None) required_keys = []"
    by (simp add: r b bridge_body_def required_keys_def dict_get_def)
  have f: "dict_get_default r ''receipt_id'' JNull = JStr rid" "dict_get_default r ''signature'' JNull = JStr sig"
    "dict_get_default r ''anchor'' JNull = JNull"
    "dict_get_default r ''does_not_prove'' JNull = bridge_does_not_prove tier"
    "dict_get_default r ''signer'' JNull = ?signer"
    by (simp_all add: r b bridge_body_def dict_get_default_def)
  have t0: "bindR (py_iter (bridge_does_not_prove tier)) any_limit = Inr True" if "tier = ''T0''"
    using that bridge_does_not_prove_limits by simp
  have pk: "(if expected \<noteq> None \<and> expected \<noteq> Some [] then Inr (JStr (the expected))
      else py_get ?signer (JStr ''public_key_hex'') (JStr [])) = Inr (JStr pub)"
    using e by (auto simp: py_get_def dict_get_default_def)
  have tr: "py_get ?signer (JStr ''tier'') JNull = Inr (JStr tier)"
    by (simp add: py_get_def dict_get_default_def)
  show ?thesis
    unfolding verify_vonage_receipt_def no_missing f Let_def pk
    using t0 by (simp add: r without_minted [OF b] i [symmetric] ok tr)
qed

lemma minted_verifies:
  assumes C: "ed_correct C" and r: "mint_signed_receipt C isot channel response sk sid tier = Inr r"
    and e: "expected \<in> {None, Some [], Some (hex (ed_public C sk))}"
  shows "verify_vonage_receipt C explain r expected = Inr (True, [])"
proof -
  obtain body rid sig where "body = bridge_body (utc_now isot) channel response sid tier (hex (ed_public C sk))"
    and "rid = sha256_hex (bridge_json (JObj body))"
    and s: "sig = hex (ed_sign C sk (bridge_json (JObj (body @ [(''receipt_id'', JStr rid)]))))"
    and "r = body @ [(''receipt_id'', JStr rid), (''signature'', JStr sig)]"
    using mint_cases [OF r] by metis
  then show ?thesis
    using signed_body_verifies [OF _ _ _ _ e] check_signature_signed [OF C] by metis
qed

lemma minted_json:
  assumes "json_ok (JObj response)" and "mint_signed_receipt C isot channel response sk sid tier = Inr r"
    and "good_cfg c"
  shows "loads (dumps c (JObj r)) = Some (JObj r)"
proof -
  obtain body rid sig where b: "body = bridge_body (utc_now isot) channel response sid tier (hex (ed_public C sk))"
    and rr: "r = body @ [(''receipt_id'', JStr rid), (''signature'', JStr sig)]"
    using mint_cases [OF assms(2)] by metis
  have "json_ok (JObj body)" unfolding b by (rule json_ok_bridge_body [OF assms(1)])
  moreover have "''receipt_id'' \<notin> fst ` set body" "''signature'' \<notin> fst ` set body"
    by (simp_all add: b bridge_body_def)
  ultimately have "json_ok (JObj r)" by (simp add: rr)
  then show ?thesis by (rule loads_dumps [OF _ assms(3)])
qed

text \<open>C36: A minted receipt verifies wherever it goes: written as JSON in any of the program's formats and read
  back it is the same receipt, and it is accepted with no error both without a pinned key and with the
  signer's own key pinned.\<close>

theorem minted_receipt_verifies:
  assumes "ed_correct C" and "json_ok (JObj response)" and "good_cfg c"
    and "mint_signed_receipt C isot channel response sk sid tier = Inr r"
  shows "loads (dumps c (JObj r)) = Some (JObj r) \<and> verify_vonage_receipt C explain r None = Inr (True, []) \<and>
     verify_vonage_receipt C explain r (Some (hex (ed_public C sk))) = Inr (True, [])"
  using minted_json [OF assms(2,4,3)] minted_verifies [OF assms(1,4)] by simp

lemma mint_ok: "tier \<in> set signer_tiers \<Longrightarrow> \<exists>r. mint_signed_receipt C isot channel response sk sid tier = Inr r"
  by (simp add: mint_signed_receipt_def Let_def)

theorem minted_receipt_verifies_witness:
  "\<exists>r. mint_signed_receipt sample_ed ''2026-01-01T00:00:00+00:00'' ''sms'' [(''id'', JInt 7)] [1] ''node'' ''T0'' = Inr r \<and>
     verify_vonage_receipt sample_ed (\<lambda>_. []) r None = Inr (True, [])"
proof -
  obtain r where r: "mint_signed_receipt sample_ed ''2026-01-01T00:00:00+00:00'' ''sms'' [(''id'', JInt 7)] [1] ''node'' ''T0'' = Inr r"
    using mint_ok [of "''T0''"] unfolding signer_tiers_def by (metis list.set_intros(1))
  show ?thesis using r minted_receipt_verifies [OF _ _ _ r, of compact_utf8] by simp
qed

section \<open>Accepted receipts\<close>

lemma verify_vonage_receipt_True:
  assumes "verify_vonage_receipt C explain receipt (Some pinned) = Inr (True, errors)" and "pinned \<noteq> []"
  shows "errors = []"
    and "dict_get_default receipt ''receipt_id'' JNull =
      JStr (sha256_hex (bridge_json (JObj (without [''receipt_id'', ''signature''] receipt))))"
    and "check_signature C (JStr pinned) (dict_get_default receipt ''signature'' JNull)
      (bridge_json (JObj (without [''signature''] receipt))) = Inr ()"
    and "\<And>k. k \<in> set required_keys \<Longrightarrow> dict_get receipt k \<noteq> None"
  using assms
  by (auto simp: verify_vonage_receipt_def Let_def bindR_Inr_iff filter_empty_conv split: if_splits sum.splits)

lemma check_signature_ok:
  "check_signature C (JStr pk) s m = Inr () \<Longrightarrow> \<exists>k sig. from_hex pk = Some k \<and> ed_load C k \<and> ed_verify C k sig m"
  by (auto simp: check_signature_def json_from_hex_def bindR_Inr_iff split: if_splits json.splits option.splits)

lemma json_ok_without: "json_ok (JObj d) \<Longrightarrow> json_ok (JObj (without ks d))"
  by (auto simp: without_def list_all_iff distinct_map_filter)

text \<open>C35: An accepted receipt is one the pinned key signed: if the key verifies only signatures on the receipts
  in \<open>issued\<close> (bodies with their identifier), a receipt accepted under it reports no error, carries every
  required field and agrees with an issued one in every field but the signature, up to the order of keys;
  its identifier is the hash of its body.\<close>

theorem accepted_receipt_was_minted:
  assumes "from_hex pinned = Some pk" and "pinned \<noteq> []"
    and "\<And>s t. ed_verify C pk s t \<Longrightarrow> \<exists>q\<in>issued. t = bridge_json (JObj q)"
    and "\<And>q. q \<in> issued \<Longrightarrow> json_ok (JObj q)" and "json_ok (JObj receipt)"
    and "verify_vonage_receipt C explain receipt (Some pinned) = Inr (True, errors)"
  shows "errors = [] \<and> (\<forall>k\<in>set required_keys. dict_get receipt k \<noteq> None) \<and>
     (\<exists>q\<in>issued. sort_keys (JObj (without [''signature''] receipt)) = sort_keys (JObj q)) \<and>
     dict_get_default receipt ''receipt_id'' JNull =
       JStr (sha256_hex (bridge_json (JObj (without [''receipt_id'', ''signature''] receipt))))"
proof -
  note v = verify_vonage_receipt_True [OF assms(6,2)]
  obtain s where "ed_verify C pk s (bridge_json (JObj (without [''signature''] receipt)))"
    using check_signature_ok [OF v(3)] assms(1) by auto
  from assms(3) [OF this] obtain q where q: "q \<in> issued"
      and "bridge_json (JObj (without [''signature''] receipt)) = bridge_json (JObj q)" by blast
  then have "sort_keys (JObj (without [''signature''] receipt)) = sort_keys (JObj q)"
    using canonical_inj [OF json_ok_without [OF assms(5)] assms(4) [OF q]] unfolding bridge_json_canonical by blast
  with q v show ?thesis by blast
qed

definition one_receipt :: "(string, json) dict" where
  "one_receipt = (let body = bridge_body ''2026-01-01T00:00:00Z'' ''sms'' [(''id'', JInt 7)] ''node'' ''T0'' (hex (replicate 32 7))
     in body @ [(''receipt_id'', JStr (sha256_hex (bridge_json (JObj body)))), (''signature'', JStr (hex [1]))])"

definition one_receipt_ed :: ed25519 where
  "one_receipt_ed = sample_ed\<lparr>ed_verify := (\<lambda>pk s t. t = bridge_json (JObj (without [''signature''] one_receipt)))\<rparr>"

lemma one_receipt_ed_verify:
  "ed_verify one_receipt_ed pk s t \<longleftrightarrow> t = bridge_json (JObj (without [''signature''] one_receipt))"
  by (simp add: one_receipt_ed_def)

lemma one_receipt_accepted:
  "verify_vonage_receipt one_receipt_ed explain one_receipt (Some (hex (replicate 32 7))) = Inr (True, [])"
proof (rule signed_body_verifies)
  let ?body = "bridge_body ''2026-01-01T00:00:00Z'' ''sms'' [(''id'', JInt 7)] ''node'' ''T0'' (hex (replicate 32 7))"
  have "without [''signature''] one_receipt = ?body @ [(''receipt_id'', JStr (sha256_hex (bridge_json (JObj ?body))))]"
    unfolding one_receipt_def Let_def by (rule without_minted(2) [OF refl])
  then show "check_signature one_receipt_ed (JStr (hex (replicate 32 7))) (JStr (hex [1]))
      (bridge_json (JObj (?body @ [(''receipt_id'', JStr (sha256_hex (bridge_json (JObj ?body))))]))) = Inr ()"
    by (simp add: check_signature_def json_from_hex_def one_receipt_ed_def sample_ed_def)
qed (simp_all add: one_receipt_def Let_def)

theorem accepted_receipt_was_minted_witness:
  "dict_get_default one_receipt ''receipt_id'' JNull =
     JStr (sha256_hex (bridge_json (JObj (without [''receipt_id'', ''signature''] one_receipt))))"
proof -
  have ok: "json_ok (JObj one_receipt)"
    by (simp add: one_receipt_def Let_def bridge_body_def bridge_proves_def bridge_does_not_prove_def bridge_disclosures_def)
  have "[] = ([] :: string list) \<and> (\<forall>k\<in>set required_keys. dict_get one_receipt k \<noteq> None) \<and>
     (\<exists>q\<in>{without [''signature''] one_receipt}. sort_keys (JObj (without [''signature''] one_receipt)) = sort_keys (JObj q)) \<and>
     dict_get_default one_receipt ''receipt_id'' JNull =
       JStr (sha256_hex (bridge_json (JObj (without [''receipt_id'', ''signature''] one_receipt))))"
  proof (rule accepted_receipt_was_minted)
    show "from_hex (hex (replicate 32 7)) = Some (replicate 32 (7 :: byte))" by simp
    show "hex (replicate 32 7) \<noteq> []" using length_hex [of "replicate 32 7"] by force
    show "ed_verify one_receipt_ed pk s t \<Longrightarrow> \<exists>q\<in>{without [''signature''] one_receipt}. t = bridge_json (JObj q)" for pk s t
      unfolding one_receipt_ed_verify by blast
    show "q \<in> {without [''signature''] one_receipt} \<Longrightarrow> json_ok (JObj q)" for q
      using json_ok_without [OF ok] by blast
  qed (rule ok, rule one_receipt_accepted)
  then show ?thesis by blast
qed

section \<open>Webhooks\<close>

lemma refusal_not_ok [simp]: "dict_get (webhook_refusal x) ''ok'' \<noteq> Some (JBool True)"
  by (simp add: webhook_refusal_def dict_get_def)

text \<open>A webhook is accepted exactly when the header is a bearer token that the JWT library verifies under the
  secret, its \<open>iat\<close> lies between 30 seconds ahead and the allowed age behind, its \<open>payload_hash\<close> is the
  SHA-256 of the raw body and the body is JSON; the answer then carries the body's own value.\<close>

theorem webhook_accepted_iff:
  "(verify_vonage_webhook (Some decode) explain (Fin now) header body secret max_age = Inr d \<and>
      dict_get d ''ok'' = Some (JBool True)) \<longleftrightarrow>
   (\<exists>token decoded claim iat text payload jti.
      header = ''Bearer '' @ token \<and> decode (strip token) secret = Inr decoded \<and>
      dict_get decoded ''iat'' = Some claim \<and> py_int claim = Inr iat \<and> \<bar>iat\<bar> < float_overflow \<and>
      - 30 \<le> now - of_int iat \<and> now - of_int iat \<le> of_int max_age \<and>
      dict_get decoded ''payload_hash'' = Some (JStr (hex (sha256 body))) \<and>
      json_bytes_text body = Some text \<and> loads text = Some payload \<and> dict_get decoded ''jti'' = Some jti \<and>
      d = [(''ok'', JBool True), (''reason'', JStr ''verified''), (''payload'', payload), (''jti'', jti),
           (''application_id'', dict_get_default decoded ''application_id'' JNull),
           (''api_key'', dict_get_default decoded ''api_key'' JNull)])"
  (is "?l \<longleftrightarrow> ?r")
proof
  assume l: ?l
  then have st: "starts_with ''Bearer '' header" by (auto simp: verify_vonage_webhook_def split: if_splits)
  have "header = ''Bearer '' @ drop 7 header" using starts_withD [OF st] by (simp add: eval_nat_numeral)
  with l st show ?r
    by (fastforce simp: verify_vonage_webhook_def bindR_Inr_iff subscript_def Let_def
        split: sum.splits if_splits option.splits)
next
  assume ?r
  then show ?l
    using starts_with_append [of "''Bearer ''"]
    by (auto simp: verify_vonage_webhook_def subscript_def Let_def dict_get_def [of _ "''ok''"] not_less not_le)
qed

end
