(* ===== verification/Proof_Review.thy ===== *)
theory Proof_Review
  imports Proof_Safety Bridge_Safety
begin

text \<open>
  What a verifying bundle and an accepted submission say, with instances of the service's theorems on
  a concrete submission.
\<close>

section \<open>Verifying bundles\<close>

lemma verify_bundle_cases:
  assumes "verify_bundle C bundle = Inr ()"
  obtains c a cert body dc da u ik s rk rs where "dict_get bundle ''contract'' = Some c" and "dict_get bundle ''attempt'' = Some a"
    and "dict_get bundle ''certification'' = Some (JObj cert)" and "body = without [''signature'', ''ur1_receipt''] cert"
    and "proof_digest c = Inr dc" and "proof_digest a = Inr da"
    and "dict_get body ''contract_hash'' = Some (JStr dc)" and "dict_get body ''attempt_hash'' = Some (JStr da)"
    and "proof_digest (JObj body) = Inr u" and "dict_get cert ''ur1_receipt'' = Some (JStr (''urn:ur1:'' @ u))"
    and "dict_get body ''issuer_public_key'' = Some ik" and "signed_canon C ik s (JObj body) = Inr ()"
    and "dict_get body ''reviewer_public_key'' = Some rk" and "dict_get body ''reviewer_signature'' = Some rs"
    and "signed_canon C rk rs (JObj [(''contract'', c), (''attempt'', a)]) = Inr ()"
  using assms that
  by (auto simp: verify_bundle_def bindR_Inr_iff Let_def require_def as_dict_def subscript_def
      split: if_splits json.splits option.splits)

lemma proof_verify_true: "dict_get (proof_verify C bundle) ''integrity_verified'' = Some (JBool True) \<longleftrightarrow> verify_bundle C bundle = Inr ()"
  by (cases "verify_bundle C bundle") (auto simp: proof_verify_def dict_get_def)

lemma signed_canon_text:
  assumes "signed_canon C (JStr k) s v = Inr ()" and "from_hex k = Some pk"
  shows "\<exists>sig m. proof_canon v = Inr m \<and> ed_verify C pk sig m"
  using assms by (auto simp: signed_canon_ok json_from_hex_def)

lemma proof_digest_sort: "sort_keys v = sort_keys w \<Longrightarrow> proof_digest v = Inr d \<Longrightarrow> proof_digest w = Inr d' \<Longrightarrow> d = d'"
  by (simp add: proof_digest_Inr)

text \<open>Two values of one digest are the same value, up to the order of keys.\<close>

lemma proof_digest_inj:
  assumes "json_ok v" and "json_ok w" and "proof_digest v = Inr d" and "proof_digest w = Inr d"
    and "no_collision {m. \<exists>x\<in>{v, w}. proof_canon x = Inr m}"
  shows "sort_keys v = sort_keys w"
proof -
  obtain m n where m: "proof_canon v = Inr m" "proof_canon w = Inr n"
    and "sha256 m = sha256 n"
    using assms(3,4) by (auto simp: proof_digest_Inr proof_canon_Inr)
  then have "m = n" using no_collisionD [OF assms(5)] by blast
  then show ?thesis using proof_canon_inj [OF assms(1,2)] m by blast
qed

lemma sorted_string:
  assumes "json_ok (JObj d)" and "json_ok (JObj e)" and "sort_keys (JObj d) = sort_keys (JObj e)"
    and "dict_get d k = Some v" and "dict_get e k = Some (JStr x)"
  shows "v = JStr x"
proof -
  have "obj_get (sort_keys (JObj d)) k = map_option sort_keys (dict_get d k)"
    "obj_get (sort_keys (JObj e)) k = map_option sort_keys (dict_get e k)"
    using obj_get_sort_keys assms(1,2) by auto
  then have "sort_keys v = JStr x" using assms(3-5) by simp
  then show ?thesis by (cases v) simp_all
qed

text \<open>C9: A bundle that verifies and names the service's public key was made by the service: if the only texts that key
  verifies are the certificate bodies the service makes for the submissions in \<open>issued\<close>, then for one of
  them the bundle's contract, attempt and certificate body are, up to the order of keys, the submitted
  contract, the submitted attempt and the certificate's body, its receipt is the certificate's, and the
  reviewer's signature in the submission verifies over the bundle's own contract and attempt; provided
  SHA-256 does not collide on the contracts, nor on the attempts. The key must be compared by the reader:
  verification pins no issuer and no reviewer.\<close>

theorem verified_bundle_was_issued:
  assumes "dict_get (proof_verify C bundle) ''integrity_verified'' = Some (JBool True)" and "json_ok (JObj bundle)"
    and "dict_get bundle ''contract'' = Some c" and "dict_get bundle ''attempt'' = Some a"
    and "dict_get bundle ''certification'' = Some (JObj cert)"
    and "body = without [''signature'', ''ur1_receipt''] cert"
    and "dict_get body ''issuer_public_key'' = Some (JStr key)" and "from_hex key = Some pk"
    and "\<And>s t. ed_verify C pk s t \<Longrightarrow> \<exists>data\<in>issued. \<exists>crt. make_cert C sk data = Inr crt \<and>
      proof_canon (JObj (without [''signature'', ''ur1_receipt''] crt)) = Inr t"
    and "\<And>data. data \<in> issued \<Longrightarrow> json_ok (JObj (sb_contract data)) \<and> json_ok (JObj (sb_attempt data))"
    and "no_collision {m. \<exists>v\<in>insert c ((\<lambda>data. JObj (sb_contract data)) ` issued). proof_canon v = Inr m}"
    and "no_collision {m. \<exists>v\<in>insert a ((\<lambda>data. JObj (sb_attempt data)) ` issued). proof_canon v = Inr m}"
  shows "\<exists>data\<in>issued. \<exists>crt. make_cert C sk data = Inr crt \<and>
     sort_keys c = sort_keys (JObj (sb_contract data)) \<and> sort_keys a = sort_keys (JObj (sb_attempt data)) \<and>
     sort_keys (JObj body) = sort_keys (JObj (without [''signature'', ''ur1_receipt''] crt)) \<and>
     dict_get cert ''ur1_receipt'' = dict_get crt ''ur1_receipt'' \<and>
     signed_canon C (JStr (sb_reviewer_key data)) (JStr (sb_reviewer_signature data))
       (JObj [(''contract'', c), (''attempt'', a)]) = Inr ()"
proof (rule verify_bundle_cases [OF iffD1 [OF proof_verify_true assms(1)]])
  fix c' a' cert' body' dc da u ik s rk rs
  assume eqs: "dict_get bundle ''contract'' = Some c'" "dict_get bundle ''attempt'' = Some a'"
      "dict_get bundle ''certification'' = Some (JObj cert')" "body' = without [''signature'', ''ur1_receipt''] cert'"
    and "proof_digest c' = Inr dc" and "proof_digest a' = Inr da"
    and "dict_get body' ''contract_hash'' = Some (JStr dc)" and "dict_get body' ''attempt_hash'' = Some (JStr da)"
    and "proof_digest (JObj body') = Inr u" and "dict_get cert' ''ur1_receipt'' = Some (JStr (''urn:ur1:'' @ u))"
    and "dict_get body' ''issuer_public_key'' = Some ik" and "signed_canon C ik s (JObj body') = Inr ()"
    and "dict_get body' ''reviewer_public_key'' = Some rk" and "dict_get body' ''reviewer_signature'' = Some rs"
    and "signed_canon C rk rs (JObj [(''contract'', c'), (''attempt'', a')]) = Inr ()"
  moreover have same: "c' = c" "a' = a" "cert' = cert" "body' = body" using eqs assms(3-6) by simp_all
  ultimately have d: "proof_digest c = Inr dc" "proof_digest a = Inr da" "proof_digest (JObj body) = Inr u"
    and h: "dict_get body ''contract_hash'' = Some (JStr dc)" "dict_get body ''attempt_hash'' = Some (JStr da)"
      "dict_get cert ''ur1_receipt'' = Some (JStr (''urn:ur1:'' @ u))"
    and si: "signed_canon C (JStr key) s (JObj body) = Inr ()"
    and rv: "dict_get body ''reviewer_public_key'' = Some rk" "dict_get body ''reviewer_signature'' = Some rs"
      "signed_canon C rk rs (JObj [(''contract'', c), (''attempt'', a)]) = Inr ()"
    using assms(7) by simp_all
  have member: "json_ok v" if "dict_get bundle n = Some v" for n v
    using assms(2) dict_get_in [OF that] by (auto simp: list_all_iff)
  have jb: "json_ok (JObj body)" unfolding assms(6) by (rule json_ok_without) (rule member [OF assms(5)])
  obtain sig m where m: "proof_canon (JObj body) = Inr m" "ed_verify C pk sig m"
    using signed_canon_text [OF si assms(8)] by blast
  obtain data crt where data: "data \<in> issued" and mk: "make_cert C sk data = Inr crt"
    and cm: "proof_canon (JObj (without [''signature'', ''ur1_receipt''] crt)) = Inr m"
    using assms(9) [OF m(2)] by blast
  have jd: "json_ok (JObj (sb_contract data))" "json_ok (JObj (sb_attempt data))" using assms(10) [OF data] by auto
  obtain ch ah m' d' where dg: "proof_digest (JObj (sb_contract data)) = Inr ch" "proof_digest (JObj (sb_attempt data)) = Inr ah"
      "proof_digest (JObj (cert_body C sk data ch ah)) = Inr d'"
    and crt: "crt = cert_body C sk data ch ah @
      [(''signature'', JStr (hex (ed_sign C sk m'))), (''ur1_receipt'', JStr (''urn:ur1:'' @ d'))]"
    using make_cert_cases [OF mk] by metis
  let ?b = "cert_body C sk data ch ah"
  have wb: "without [''signature'', ''ur1_receipt''] crt = ?b" unfolding crt by (rule cert_parts(1) [OF refl])
  have jo: "json_ok (JObj ?b)" unfolding wb [symmetric] by (rule json_ok_without) (rule json_ok_cert [OF mk jd(1)])
  have sb: "sort_keys (JObj body) = sort_keys (JObj ?b)" by (rule proof_canon_inj [OF jb jo m(1) cm [unfolded wb]])
  have str: "v = JStr x" if "dict_get body k = Some v" "dict_get ?b k = Some (JStr x)" for k v x
    by (rule sorted_string [OF jb jo sb that])
  have parts: "dict_get ?b ''contract_hash'' = Some (JStr ch)" "dict_get ?b ''attempt_hash'' = Some (JStr ah)"
    "dict_get ?b ''reviewer_public_key'' = Some (JStr (sb_reviewer_key data))"
    "dict_get ?b ''reviewer_signature'' = Some (JStr (sb_reviewer_signature data))"
    by (simp_all add: cert_body_def Let_def dict_get_def)
  have "dc = ch" "da = ah" using str [OF h(1) parts(1)] str [OF h(2) parts(2)] by simp_all
  then have "sort_keys c = sort_keys (JObj (sb_contract data))"
    using d(1) dg(1) data
    by (intro proof_digest_inj [OF member [OF assms(3)] jd(1)] no_collision_mono [OF assms(11)]) auto
  moreover have "sort_keys a = sort_keys (JObj (sb_attempt data))"
    using d(2) dg(2) data \<open>da = ah\<close>
    by (intro proof_digest_inj [OF member [OF assms(4)] jd(2)] no_collision_mono [OF assms(12)]) auto
  moreover have "dict_get crt ''ur1_receipt'' = Some (JStr (''urn:ur1:'' @ d'))"
    by (simp add: crt cert_body_def Let_def dict_get_def)
  then have "dict_get cert ''ur1_receipt'' = dict_get crt ''ur1_receipt''"
    using h(3) proof_digest_sort [OF sb d(3) dg(3)] by simp
  moreover have "signed_canon C (JStr (sb_reviewer_key data)) (JStr (sb_reviewer_signature data))
      (JObj [(''contract'', c), (''attempt'', a)]) = Inr ()"
    using rv str [OF rv(1) parts(3)] str [OF rv(2) parts(4)] by simp
  ultimately show ?thesis using data mk sb unfolding wb [symmetric] by blast
qed

text \<open>
  What verification does not show: the bundle anyone makes with a key of their own verifies, the maker
  being reviewer as well, and no check of the service having run.
\<close>

lemma unpinned_bundle_verifies:
  assumes "ed_correct C" and "make_cert C sk data = Inr cert"
    and "proof_canon (reviewed_json (sb_contract data) (sb_attempt data)) = Inr m"
    and "sb_reviewer_key data = hex (ed_public C rk)" and "sb_reviewer_signature data = hex (ed_sign C rk m)"
  shows "dict_get (proof_verify C (cert_bundle data cert)) ''integrity_verified'' = Some (JBool True)"
proof -
  have "signed_canon C (JStr (sb_reviewer_key data)) (JStr (sb_reviewer_signature data))
      (reviewed_json (sb_contract data) (sb_attempt data)) = Inr ()"
    using ed_correctD [OF assms(1)] assms(3-5) by (simp add: signed_canon_ok)
  then show ?thesis
    unfolding proof_verify_true by (rule reviewed_verifies [OF assms(1,2)])
qed

section \<open>The fixture\<close>

lemma evidence_present:
  "evidence_loop evidence names = Inr () \<Longrightarrow> all_present evidence names = Inr True"
proof (induction names)
  case (Cons n ns)
  obtain x where x: "py_get evidence n (JStr []) = Inr x"
    and c: "(case x of JStr s \<Rightarrow> if starts_with ''sha256:'' s then evidence_loop evidence ns else unprocessable ''evidence missing''
       | _ \<Rightarrow> unprocessable ''evidence missing'') = Inr ()"
    using Cons.prems by (auto simp: bindR_Inr_iff)
  obtain s where s: "py_get evidence n (JStr []) = Inr (JStr s)" "starts_with ''sha256:'' s" "evidence_loop evidence ns = Inr ()"
    using x c by (cases x) (auto simp: unprocessable_def split: if_splits)
  then have "py_get evidence n JNull = Inr (JStr s)"
    by (auto simp: py_get_def dict_get_default_def starts_with_def split: json.splits if_splits option.splits)
  then show ?case using Cons.IH [OF s(3)] by simp
qed simp

lemma submit_checks_facts:
  assumes "submit_checks C E data = Inr ()" and "c = sb_contract data" and "a = sb_attempt data"
  shows "same_claim c a" and "truthy (field c ''claim_id'')" and "truthy (field c ''claim_version'')"
    and "attempt_satisfied a" and "\<not> truthy (field a ''checks_failed'')" and "\<not> truthy (field a ''blocking_issues'')"
    and "checks_pass (dict_get_default c ''required_checks'' (JArr [])) (dict_get_default a ''checks_passed'' (JArr [])) = Inr True"
    and "\<exists>names. py_iter (dict_get_default c ''evidence_requirements'' (JArr [])) = Inr names \<and>
      evidence_loop (dict_get_default a ''evidence'' (JObj [])) names = Inr ()"
    and "within_budget (field a ''spent_usd'') (field c ''budget_usd'')"
  using assms by (auto simp: submit_checks_def Let_def bindR_Inr_iff unprocessable_def split: if_splits)

text \<open>C12: An answered submission satisfies the fixture's \<open>decide\<close> for the contract as the service reads it, that is with
  \<open>required_checks\<close> the submitted list or none and with \<open>required_evidence\<close> set to the submitted
  \<open>evidence_requirements\<close> or none; and the attempt stayed within the budget. The field
  \<open>required_evidence\<close> of the submitted contract, the one the fixture reads, is not read by the service.\<close>

theorem certified_is_satisfied:
  assumes "proof_submit C E data db = (Inr bundle, db')"
    and "contract = dict_set ''required_checks'' (dict_get_default (sb_contract data) ''required_checks'' (JArr []))
      (dict_set ''required_evidence'' (dict_get_default (sb_contract data) ''evidence_requirements'' (JArr [])) (sb_contract data))"
  shows "decide_attempt contract (sb_attempt data) = Inr ''CHECKS_SATISFIED_NOT_SIGNED'' \<and>
     within_budget (field (sb_attempt data) ''spent_usd'') (field (sb_contract data) ''budget_usd'')"
proof -
  have "submit_checks C E data = Inr ()" using assms(1) by (auto simp: proof_submit_Inr)
  note f = submit_checks_facts [OF this refl refl]
  have key: "\<exists>v. dict_get (sb_contract data) k = Some v \<and> field (sb_contract data) k = v"
    if "truthy (field (sb_contract data) k)" for k
    using that by (cases "dict_get (sb_contract data) k") (auto simp: dict_get_default_eq)
  obtain i v where "dict_get (sb_contract data) ''claim_id'' = Some i" "field (sb_contract data) ''claim_id'' = i"
    "dict_get (sb_contract data) ''claim_version'' = Some v" "field (sb_contract data) ''claim_version'' = v"
    using key [OF f(2)] key [OF f(3)] by blast
  then have "dict_get contract ''claim_id'' = Some i" "dict_get contract ''claim_version'' = Some v"
    "field (sb_contract data) ''claim_id'' = i" "field (sb_contract data) ''claim_version'' = v"
    by (simp_all add: assms(2))
  moreover have "dict_get contract ''required_checks'' = Some (dict_get_default (sb_contract data) ''required_checks'' (JArr []))"
    "dict_get contract ''required_evidence'' = Some (dict_get_default (sb_contract data) ''evidence_requirements'' (JArr []))"
    by (simp_all add: assms(2))
  moreover obtain req passed where
      "py_set (dict_get_default (sb_contract data) ''required_checks'' (JArr [])) = Inr req" "set_subset req passed"
      "py_set (dict_get_default (sb_attempt data) ''checks_passed'' (JArr [])) = Inr passed"
    using f(7) by (auto simp: checks_pass_def bindR_Inr_iff)
  moreover obtain ns where "py_iter (dict_get_default (sb_contract data) ''evidence_requirements'' (JArr [])) = Inr ns"
      "all_present (dict_get_default (sb_attempt data) ''evidence'' (JObj [])) ns = Inr True"
    using f(8) evidence_present by auto
  ultimately show ?thesis
    using f(1,4-6,9) by (simp add: decide_attempt_def subscript_def same_claim_def attempt_satisfied_def)
qed

end
