(* ===== verification/Proof_Examples.thy ===== *)
theory Proof_Examples
  imports Proof_Review Protocol
begin

text \<open>
  A concrete submission for the proof service's theorems, and what it shows of the rule that a
  generator cannot review: the two keys are compared as texts.
\<close>

section \<open>A submission\<close>

definition reviewer_hex :: string where
  "reviewer_hex = hex (replicate 32 7)"

definition demo_env :: proof_env where
  "demo_env = \<lparr>pe_token = Some ''t'', pe_reviewer_keys = Some (dumps compact_ascii (JArr [JStr reviewer_hex])),
     pe_signer_file = Some ''key'', pe_db_path = Some ''db'', pe_read = (\<lambda>_. Some (replicate 32 1)),
     pe_connects = True, pe_real_text = (\<lambda>_. [])\<rparr>"

definition demo_contract :: "(string, json) dict" where
  "demo_contract = [(''claim_id'', JStr ''c''), (''claim_version'', JStr ''v1''),
     (''required_checks'', JArr [JStr ''test'']), (''evidence_requirements'', JArr [JStr ''input'']),
     (''required_evidence'', JArr [JStr ''input'']), (''budget_usd'', JInt 5)]"

definition demo_attempt :: "string \<Rightarrow> (string, json) dict" where
  "demo_attempt generator = [(''claim_id'', JStr ''c''), (''claim_version'', JStr ''v1''),
     (''generator_public_key'', JStr generator), (''executed'', JBool True),
     (''decision'', JStr ''REQUIREMENTS_SATISFIED''), (''checks_passed'', JArr [JStr ''test'']),
     (''evidence'', JObj [(''input'', JStr ''sha256:00'')]), (''spent_usd'', JInt 1)]"

definition demo_submission :: "string \<Rightarrow> submission" where
  "demo_submission generator = \<lparr>sb_contract = demo_contract, sb_attempt = demo_attempt generator,
     sb_reviewer_key = reviewer_hex, sb_reviewer_signature = []\<rparr>"

lemma demo_registered: "reviewer_registered demo_env reviewer_hex = Inr True"
proof -
  have "loads (dumps compact_ascii (JArr [JStr reviewer_hex])) = Some (JArr [JStr reviewer_hex])"
    by (rule loads_dumps) simp_all
  then show ?thesis by (simp add: reviewer_registered_def demo_env_def)
qed

lemma demo_fields:
  "field demo_contract ''claim_id'' = JStr ''c''" "field demo_contract ''claim_version'' = JStr ''v1''"
  "field demo_contract ''criteria_version'' = JNull" "field demo_contract ''budget_usd'' = JInt 5"
  "dict_get_default demo_contract ''required_checks'' (JArr []) = JArr [JStr ''test'']"
  "dict_get_default demo_contract ''evidence_requirements'' (JArr []) = JArr [JStr ''input'']"
  by (simp_all add: demo_contract_def dict_get_default_def)

lemma demo_attempt_fields:
  "field (demo_attempt g) ''claim_id'' = JStr ''c''" "field (demo_attempt g) ''claim_version'' = JStr ''v1''"
  "field (demo_attempt g) ''criteria_version'' = JNull" "field (demo_attempt g) ''generator_public_key'' = JStr g"
  "field (demo_attempt g) ''executed'' = JBool True" "field (demo_attempt g) ''decision'' = JStr ''REQUIREMENTS_SATISFIED''"
  "field (demo_attempt g) ''checks_failed'' = JNull" "field (demo_attempt g) ''blocking_issues'' = JNull"
  "dict_get_default (demo_attempt g) ''checks_passed'' (JArr []) = JArr [JStr ''test'']"
  "dict_get_default (demo_attempt g) ''evidence'' (JObj []) = JObj [(''input'', JStr ''sha256:00'')]"
  "field (demo_attempt g) ''spent_usd'' = JInt 1"
  by (simp_all add: demo_attempt_def dict_get_default_def)

lemma demo_finite: "finite_json (JObj demo_contract)" "finite_json (JObj (demo_attempt g))" "json_ok (JObj demo_contract)"
  by (simp_all add: demo_contract_def demo_attempt_def)

lemma demo_checks:
  assumes "g \<noteq> reviewer_hex"
  shows "submit_checks plain_ed demo_env (demo_submission g) = Inr ()"
proof -
  have "from_hex [] = Some []" by simp
  then have s: "signed_canon plain_ed (JStr reviewer_hex) (JStr []) (reviewed_json demo_contract (demo_attempt g)) = Inr ()"
    using demo_finite by (simp add: signed_canon_ok reviewer_hex_def json_from_hex_def plain_ed_def reviewed_json_def proof_canon_Inr
        del: from_hex.simps sort_keys.simps)
  have b: "within_budget (JInt 1) (JInt 5)" by (simp add: within_budget_def)
  have c: "checks_pass (JArr [JStr ''test'']) (JArr [JStr ''test'']) = Inr True"
    by (simp add: checks_pass_def py_set_def set_subset_def)
  have e: "evidence_loop (JObj [(''input'', JStr ''sha256:00'')]) [JStr ''input''] = Inr ()"
    by (simp add: py_get_def dict_get_default_def starts_with_def)
  show ?thesis
    using assms
    by (simp add: submit_checks_def Let_def demo_submission_def demo_registered demo_fields demo_attempt_fields s b c e
        same_claim_def attempt_satisfied_def del: evidence_loop.simps)
qed

lemma finite_default: "finite_json (JObj d) \<Longrightarrow> finite_json x \<Longrightarrow> finite_json (dict_get_default d k x)"
  by (auto simp: dict_get_default_eq list_all_iff split: option.splits dest: dict_get_in)

text \<open>A submission that passes the checks, whose claim and version are texts, is answered.\<close>

lemma checked_answered:
  assumes "submit_checks plain_ed demo_env d = Inr ()"
    and f: "finite_json (JObj (sb_contract d))" "finite_json (JObj (sb_attempt d))"
    and "field (sb_contract d) ''claim_id'' = JStr i" and "field (sb_contract d) ''claim_version'' = JStr v"
  shows "\<exists>bundle db'. proof_submit plain_ed demo_env d \<lparr>pd_issued = [], pd_events = []\<rparr> = (Inr bundle, db')"
proof -
  let ?sk = "replicate 32 1"
  have st: "proof_state demo_env = Inr ?sk" by (simp add: proof_state_def demo_env_def)
  have b: "finite_json (JObj (cert_body plain_ed ?sk d ch ah))" for ch ah
    using finite_default [OF f(1)] by (simp add: cert_body_def Let_def)
  obtain cert where cert: "make_cert plain_ed ?sk d = Inr cert"
    using f b by (auto simp: make_cert_def proof_digest_def proof_canon_def proof_text_def Let_def
        simp del: sort_keys.simps finite_json.simps)
  have "finite_json (JObj cert)" by (rule make_cert_cases [OF cert]) (use b in auto)
  moreover obtain u where "dict_get cert ''ur1_receipt'' = Some (JStr u)" using cert_receipt_string [OF cert] by blast
  ultimately obtain db' where "issue_cert demo_env d cert \<lparr>pd_issued = [], pd_events = []\<rparr> = Inr db'"
    by (auto simp: issue_cert_def assms(4,5) insert_issued_def add_event_def event_json_def
        proof_digest_def proof_canon_def proof_text_def dict_get_default_eq [of cert] Let_def simp del: sort_keys.simps)
  then show ?thesis using assms(1) st cert by (auto simp: proof_submit_def)
qed

lemma demo_submit:
  assumes "g \<noteq> reviewer_hex"
  shows "\<exists>bundle db'. proof_submit plain_ed demo_env (demo_submission g) \<lparr>pd_issued = [], pd_events = []\<rparr> = (Inr bundle, db')"
  by (rule checked_answered [OF demo_checks [OF assms]])
    (simp_all add: demo_submission_def demo_finite demo_fields del: finite_json.simps)

section \<open>The theorems on it\<close>

abbreviation no_db :: proof_db where
  "no_db \<equiv> \<lparr>pd_issued = [], pd_events = []\<rparr>"

abbreviation demo_run :: "(string option \<times> submission) list" where
  "demo_run \<equiv> [(Some ''Bearer t'', demo_submission [])]"

lemma other_generator: "[] \<noteq> reviewer_hex"
  using length_hex [of "replicate 32 (7 :: byte)"] unfolding reviewer_hex_def by force

lemma demo_auth: "proof_auth demo_env (Some ''Bearer t'') = Inr ()"
  by (simp add: proof_auth_def demo_env_def is_ascii_def code_def)

theorem proof_log_matches_certificates_witness:
  "\<exists>db. db = proof_run plain_ed demo_env no_db demo_run \<and> pd_issued db \<noteq> [] \<and>
     map event_receipt (pd_events db) = map cert_receipt (pd_issued db)"
proof -
  obtain y db' where s: "proof_submit plain_ed demo_env (demo_submission []) no_db = (Inr y, db')"
    using demo_submit [OF other_generator] by blast
  have r: "proof_run plain_ed demo_env no_db demo_run = db'"
    by (simp add: api_submit_def demo_auth s)
  have "pd_issued db' \<noteq> []" using proof_submit_appends [OF s] by auto
  moreover have "\<forall>data\<in>snd ` set demo_run. json_ok (JObj (sb_contract data))"
    using demo_finite(3) by (simp add: demo_submission_def)
  from proof_log_matches_certificates [OF this refl, where C = plain_ed and E = demo_env] have
    "map event_receipt (pd_events db') = map cert_receipt (pd_issued db')" unfolding r by simp
  ultimately show ?thesis using r by blast
qed

theorem certificate_lasts_witness:
  "\<exists>y db'. proof_submit plain_ed demo_env (demo_submission []) no_db = (Inr y, db') \<and>
     dict_get (proof_verify plain_ed y) ''integrity_verified'' = Some (JBool True)"
proof -
  obtain y db' where s: "proof_submit plain_ed demo_env (demo_submission []) no_db = (Inr y, db')"
    using demo_submit [OF other_generator] by blast
  have "json_ok (JObj (sb_contract (demo_submission [])))" using demo_finite(3) by (simp add: demo_submission_def)
  from certificate_lasts [OF plain_ed_correct this s] s show ?thesis by blast
qed

theorem certified_is_satisfied_witness:
  "decide_attempt demo_contract (demo_attempt []) = Inr ''CHECKS_SATISFIED_NOT_SIGNED''"
proof -
  obtain y db' where s: "proof_submit plain_ed demo_env (demo_submission []) no_db = (Inr y, db')"
    using demo_submit [OF other_generator] by blast
  have "demo_contract = dict_set ''required_checks'' (dict_get_default demo_contract ''required_checks'' (JArr []))
      (dict_set ''required_evidence'' (dict_get_default demo_contract ''evidence_requirements'' (JArr [])) demo_contract)"
    by (simp add: demo_contract_def dict_set_def dict_get_default_def)
  with certified_is_satisfied [OF s refl] show ?thesis by (simp add: demo_submission_def)
qed

definition demo_cert :: "(string, json) dict" where
  "demo_cert = (case make_cert plain_ed (replicate 32 1) (demo_submission []) of Inr c \<Rightarrow> c | Inl _ \<Rightarrow> [])"

definition demo_body :: "(string, json) dict" where
  "demo_body = without [''signature'', ''ur1_receipt''] demo_cert"

text \<open>The reviewer's key verifies the reviewed text only, every other key the certificate's body only.\<close>

definition demo_ed :: ed25519 where
  "demo_ed = plain_ed\<lparr>ed_verify := (\<lambda>pk s t.
     proof_canon (if pk = replicate 32 7 then reviewed_json demo_contract (demo_attempt []) else JObj demo_body) = Inr t)\<rparr>"

lemma demo_ed_simps:
  "ed_load demo_ed pk" "ed_verify demo_ed pk s t \<longleftrightarrow>
     proof_canon (if pk = replicate 32 7 then reviewed_json demo_contract (demo_attempt []) else JObj demo_body) = Inr t"
  by (simp_all add: demo_ed_def plain_ed_def)

lemma demo_cert_made: "make_cert plain_ed (replicate 32 1) (demo_submission []) = Inr demo_cert"
proof -
  obtain y db' where "proof_submit plain_ed demo_env (demo_submission []) no_db = (Inr y, db')"
    using demo_submit [OF other_generator] by blast
  then show ?thesis by (auto simp: proof_submit_Inr proof_state_def demo_env_def demo_cert_def)
qed

lemma demo_parts:
  "json_ok (JObj demo_cert)" "finite_json (JObj demo_body)"
  "dict_get demo_body ''issuer_public_key'' = Some (JStr (hex (replicate 32 0)))"
  "dict_get demo_body ''reviewer_public_key'' = Some (JStr reviewer_hex)"
  "\<exists>s. field demo_cert ''signature'' = JStr (hex s)"
proof -
  obtain ch ah m d where d: "proof_digest (JObj (cert_body plain_ed (replicate 32 1) (demo_submission []) ch ah)) = Inr d"
    and cert: "demo_cert = cert_body plain_ed (replicate 32 1) (demo_submission []) ch ah @
      [(''signature'', JStr (hex (ed_sign plain_ed (replicate 32 1) m))), (''ur1_receipt'', JStr (''urn:ur1:'' @ d))]"
    using make_cert_cases [OF demo_cert_made] by metis
  have b: "demo_body = cert_body plain_ed (replicate 32 1) (demo_submission []) ch ah"
    unfolding demo_body_def cert by (rule cert_parts(1) [OF refl])
  show "json_ok (JObj demo_cert)"
    using demo_finite(3) by (intro json_ok_cert [OF demo_cert_made]) (simp add: demo_submission_def)
  show "finite_json (JObj demo_body)" using d by (simp add: b proof_digest_Inr)
  show "dict_get demo_body ''issuer_public_key'' = Some (JStr (hex (replicate 32 0)))"
    "dict_get demo_body ''reviewer_public_key'' = Some (JStr reviewer_hex)"
    by (simp_all add: b cert_body_def Let_def dict_get_def plain_ed_def demo_submission_def)
  show "\<exists>s. field demo_cert ''signature'' = JStr (hex s)"
    by (auto simp: cert cert_body_def Let_def dict_get_default_def)
qed

lemma demo_bundle_verifies: "verify_bundle demo_ed (cert_bundle (demo_submission []) demo_cert) = Inr ()"
proof (rule made_bundle_verifies [OF demo_cert_made])
  obtain s where s: "field demo_cert ''signature'' = JStr (hex s)" using demo_parts(5) by blast
  show "signed_canon demo_ed (JStr (hex (ed_public plain_ed (replicate 32 1)))) (field demo_cert ''signature'')
      (JObj (without [''signature'', ''ur1_receipt''] demo_cert)) = Inr ()"
    using demo_parts(2) unfolding s signed_canon_ok demo_body_def [symmetric]
    by (simp add: demo_ed_simps plain_ed_def proof_canon_Inr del: sort_keys.simps finite_json.simps)
  show "signed_canon demo_ed (JStr (sb_reviewer_key (demo_submission []))) (JStr (sb_reviewer_signature (demo_submission [])))
      (reviewed_json (sb_contract (demo_submission [])) (sb_attempt (demo_submission []))) = Inr ()"
    using demo_finite unfolding signed_canon_ok
    by (simp add: demo_ed_simps demo_submission_def reviewer_hex_def reviewed_json_def proof_canon_Inr json_from_hex_def
        del: sort_keys.simps)
qed

theorem verified_bundle_was_issued_witness:
  "\<exists>cert. dict_get (cert_bundle (demo_submission []) demo_cert) ''certification'' = Some (JObj cert) \<and>
     (\<exists>crt. make_cert demo_ed (replicate 32 1) (demo_submission []) = Inr crt \<and>
        dict_get cert ''ur1_receipt'' = dict_get crt ''ur1_receipt'')"
proof -
  let ?y = "cert_bundle (demo_submission []) demo_cert" and ?d = "demo_submission []"
  have mk: "make_cert demo_ed (replicate 32 1) ?d = Inr demo_cert"
    using demo_cert_made by (simp add: make_cert_def cert_body_def demo_ed_def)
  have parts: "sb_contract ?d = demo_contract" "sb_attempt ?d = demo_attempt []" by (simp_all add: demo_submission_def)
  have ok: "json_ok (JObj ?y)" "json_ok (JObj demo_contract)" "json_ok (JObj (demo_attempt []))"
    using demo_parts(1) demo_finite(3) by (simp_all add: cert_bundle_def parts) (simp_all add: demo_attempt_def)
  have f: "dict_get ?y ''contract'' = Some (JObj demo_contract)" "dict_get ?y ''attempt'' = Some (JObj (demo_attempt []))"
    "dict_get ?y ''certification'' = Some (JObj demo_cert)"
    by (simp_all add: cert_bundle_def dict_get_def parts)
  have single: "no_collision {m. \<exists>v\<in>insert w ((\<lambda>data. w) ` {?d}). proof_canon v = Inr m}" for w
    by (cases "proof_canon w") (simp_all add: no_collision_def inj_on_def)
  have k: "replicate 32 (0 :: byte) \<noteq> replicate 32 7" by simp
  have "\<exists>data\<in>{?d}. \<exists>crt. make_cert demo_ed (replicate 32 1) data = Inr crt \<and>
     sort_keys (JObj demo_contract) = sort_keys (JObj (sb_contract data)) \<and>
     sort_keys (JObj (demo_attempt [])) = sort_keys (JObj (sb_attempt data)) \<and>
     sort_keys (JObj demo_body) = sort_keys (JObj (without [''signature'', ''ur1_receipt''] crt)) \<and>
     dict_get demo_cert ''ur1_receipt'' = dict_get crt ''ur1_receipt'' \<and>
     signed_canon demo_ed (JStr (sb_reviewer_key data)) (JStr (sb_reviewer_signature data))
       (JObj [(''contract'', JObj demo_contract), (''attempt'', JObj (demo_attempt []))]) = Inr ()"
  proof (rule verified_bundle_was_issued [OF _ ok(1) f demo_body_def demo_parts(3) from_hex_hex])
    show "dict_get (proof_verify demo_ed ?y) ''integrity_verified'' = Some (JBool True)"
      using demo_bundle_verifies by (simp add: proof_verify_true)
  qed (use ok k mk single parts in \<open>simp_all add: demo_ed_simps demo_body_def [symmetric] del: sort_keys.simps json_ok.simps\<close>)
  then show ?thesis using f(3) by blast
qed

section \<open>The fixture's own contract\<close>

text \<open>
  A contract that lists its evidence as the fixture does, under \<open>required_evidence\<close> only, and an
  attempt without evidence: the service certifies it, the fixture does not. The fixture's test
  \<open>test_missing_evidence\<close> expects \<open>NOT_CERTIFIED\<close> for such an attempt.
\<close>

definition fixture_contract :: "(string, json) dict" where
  "fixture_contract = [(''claim_id'', JStr ''demo''), (''claim_version'', JStr ''v1''),
     (''required_checks'', JArr [JStr ''test'']), (''required_evidence'', JArr [JStr ''input'']), (''budget_usd'', JInt 5)]"

definition bare_attempt :: "(string, json) dict" where
  "bare_attempt = [(''claim_id'', JStr ''demo''), (''claim_version'', JStr ''v1''), (''executed'', JBool True),
     (''decision'', JStr ''REQUIREMENTS_SATISFIED''), (''checks_passed'', JArr [JStr ''test'']),
     (''evidence'', JObj []), (''spent_usd'', JInt 1)]"

lemma fixture_fields:
  "field fixture_contract ''claim_id'' = JStr ''demo''" "field fixture_contract ''claim_version'' = JStr ''v1''"
  "field fixture_contract ''criteria_version'' = JNull" "field fixture_contract ''budget_usd'' = JInt 5"
  "dict_get_default fixture_contract ''required_checks'' (JArr []) = JArr [JStr ''test'']"
  "dict_get_default fixture_contract ''evidence_requirements'' (JArr []) = JArr []"
  "field bare_attempt ''claim_id'' = JStr ''demo''" "field bare_attempt ''claim_version'' = JStr ''v1''"
  "field bare_attempt ''criteria_version'' = JNull" "field bare_attempt ''generator_public_key'' = JNull"
  "field bare_attempt ''executed'' = JBool True" "field bare_attempt ''decision'' = JStr ''REQUIREMENTS_SATISFIED''"
  "field bare_attempt ''checks_failed'' = JNull" "field bare_attempt ''blocking_issues'' = JNull"
  "dict_get_default bare_attempt ''checks_passed'' (JArr []) = JArr [JStr ''test'']"
  "dict_get_default bare_attempt ''evidence'' (JObj []) = JObj []" "field bare_attempt ''spent_usd'' = JInt 1"
  by (simp_all add: fixture_contract_def bare_attempt_def dict_get_default_def)

lemma fixture_refuses: "decide_attempt fixture_contract bare_attempt = Inr not_certified"
proof -
  have s: "subscript fixture_contract ''claim_id'' = Inr (JStr ''demo'')"
    "subscript fixture_contract ''claim_version'' = Inr (JStr ''v1'')"
    "subscript fixture_contract ''required_checks'' = Inr (JArr [JStr ''test''])"
    "subscript fixture_contract ''required_evidence'' = Inr (JArr [JStr ''input''])"
    by (simp_all add: fixture_contract_def subscript_def dict_get_def)
  have "all_present (JObj []) [JStr ''input''] = Inr False" by (simp add: py_get_def dict_get_default_def)
  then show ?thesis
    by (simp add: decide_attempt_def s fixture_fields py_set_def set_subset_def del: all_present.simps)
qed

lemma service_certifies:
  "\<exists>y db'. proof_submit plain_ed demo_env
     \<lparr>sb_contract = fixture_contract, sb_attempt = bare_attempt, sb_reviewer_key = reviewer_hex, sb_reviewer_signature = []\<rparr>
     no_db = (Inr y, db')"
proof (rule checked_answered)
  have f: "finite_json (JObj fixture_contract)" "finite_json (JObj bare_attempt)"
    by (simp_all add: fixture_contract_def bare_attempt_def)
  have "from_hex [] = Some []" by simp
  then have s: "signed_canon plain_ed (JStr reviewer_hex) (JStr []) (reviewed_json fixture_contract bare_attempt) = Inr ()"
    using f by (simp add: signed_canon_ok reviewer_hex_def json_from_hex_def plain_ed_def reviewed_json_def proof_canon_Inr
        del: from_hex.simps sort_keys.simps)
  have b: "within_budget (JInt 1) (JInt 5)" by (simp add: within_budget_def)
  have c: "checks_pass (JArr [JStr ''test'']) (JArr [JStr ''test'']) = Inr True"
    by (simp add: checks_pass_def py_set_def set_subset_def)
  show "submit_checks plain_ed demo_env
      \<lparr>sb_contract = fixture_contract, sb_attempt = bare_attempt, sb_reviewer_key = reviewer_hex, sb_reviewer_signature = []\<rparr> = Inr ()"
    by (simp add: submit_checks_def Let_def demo_registered fixture_fields s b c same_claim_def attempt_satisfied_def)
  show "finite_json (JObj (sb_contract \<lparr>sb_contract = fixture_contract, sb_attempt = bare_attempt,
      sb_reviewer_key = reviewer_hex, sb_reviewer_signature = []\<rparr>))"
    "finite_json (JObj (sb_attempt \<lparr>sb_contract = fixture_contract, sb_attempt = bare_attempt,
      sb_reviewer_key = reviewer_hex, sb_reviewer_signature = []\<rparr>))"
    using f by simp_all
qed (simp_all add: fixture_fields)

section \<open>Self-review\<close>

text \<open>
  The rule that a generator cannot review compares the two keys as texts, while a key is what its
  hexadecimal text denotes: a generator whose key is written with a leading space (or in the other
  letter case) is the reviewer's own key and passes.
\<close>

theorem self_review_passes:
  "\<exists>data y db'. proof_submit plain_ed demo_env data no_db = (Inr y, db') \<and>
     (\<exists>g. field (sb_attempt data) ''generator_public_key'' = JStr g \<and> from_hex g = from_hex (sb_reviewer_key data))"
proof -
  let ?g = "CHR '' '' # reviewer_hex"
  obtain y db' where s: "proof_submit plain_ed demo_env (demo_submission ?g) no_db = (Inr y, db')"
    using demo_submit [of ?g] by auto
  have "from_hex ?g = from_hex reviewer_hex" by (simp add: is_py_space_def code_def)
  then show ?thesis
    using s demo_attempt_fields(4) [of ?g] by (intro exI [of _ "demo_submission ?g"]) (auto simp: demo_submission_def)
qed

end
