(* ===== verification/Accelerator.thy ===== *)
theory Accelerator
  imports Py_Convert
begin

text \<open>
  Accelerator discovery, \<open>matrix/accelerator.py\<close>. What the optional packages report is the record \<open>host\<close>:
  \<^term>\<open>None\<close> for a package that cannot be imported, and for a DirectML call the exception it raises.
\<close>

text \<open>A \<open>torch\<close> name is a text, or the opaque device object of DirectML, known by its printed form.\<close>

datatype device_ref = DeviceName string | DirectmlDevice string

record device =
  dv_kind :: string
  dv_torch_name :: device_ref
  dv_label :: string
  dv_available :: bool
  dv_enable :: string

record torch =
  to_cuda :: bool
  to_cuda_name :: string
  to_mps :: "bool option"
  to_threads :: int

record directml =
  dm_count :: "int result"
  dm_device :: "string result"

record host =
  ho_torch :: "torch option"
  ho_directml :: "directml option"
  ho_xla :: bool
  ho_cpus :: "int option"
  ho_system :: string
  ho_machine :: string
  ho_python :: string

definition probe_cuda :: "torch option \<Rightarrow> device" where
  "probe_cuda t =
     (case t of
        Some x \<Rightarrow>
          if to_cuda x
          then \<lparr>dv_kind = ''cuda'', dv_torch_name = DeviceName ''cuda'', dv_label = ''CUDA: '' @ to_cuda_name x,
                dv_available = True, dv_enable = []\<rparr>
          else \<lparr>dv_kind = ''cuda'', dv_torch_name = DeviceName ''cpu'', dv_label = ''CUDA'', dv_available = False,
                dv_enable = ''install a CUDA-enabled PyTorch build''\<rparr>
      | None \<Rightarrow> \<lparr>dv_kind = ''cuda'', dv_torch_name = DeviceName ''cpu'', dv_label = ''CUDA'', dv_available = False,
                dv_enable = ''install a CUDA-enabled PyTorch build''\<rparr>)"

definition probe_mps :: "torch option \<Rightarrow> device" where
  "probe_mps t =
     (let available = (case t of None \<Rightarrow> False | Some x \<Rightarrow> (case to_mps x of None \<Rightarrow> False | Some b \<Rightarrow> b))
      in \<lparr>dv_kind = ''mps'', dv_torch_name = DeviceName (if available then ''mps'' else ''cpu''),
          dv_label = ''Apple MPS'', dv_available = available, dv_enable = ''requires Apple Silicon''\<rparr>)"

definition no_directml :: device where
  "no_directml = \<lparr>dv_kind = ''directml'', dv_torch_name = DeviceName ''cpu'', dv_label = ''DirectML'',
     dv_available = False, dv_enable = ''install torch-directml on Windows''\<rparr>"

text \<open>A \<open>RuntimeError\<close> of the package counts as its absence; any other exception leaves the probe.\<close>

definition probe_directml :: "directml option \<Rightarrow> device result" where
  "probe_directml d =
     (case d of
        None \<Rightarrow> Inr no_directml
      | Some x \<Rightarrow>
          (case bindR (dm_count x) (\<lambda>n.
                  if 0 < n
                  then bindR (dm_device x) (\<lambda>dev. Inr (Some
                    \<lparr>dv_kind = ''directml'', dv_torch_name = DirectmlDevice dev, dv_label = ''DirectML'',
                     dv_available = True, dv_enable = []\<rparr>))
                  else Inr None) of
             Inr (Some dev) \<Rightarrow> Inr dev
           | Inr None \<Rightarrow> Inr no_directml
           | Inl e \<Rightarrow> if is_RuntimeError e then Inr no_directml else Inl e))"

definition probe_tpu :: "bool \<Rightarrow> device" where
  "probe_tpu xla =
     (if xla then \<lparr>dv_kind = ''tpu'', dv_torch_name = DeviceName ''xla'', dv_label = ''Google TPU'', dv_available = True,
                   dv_enable = []\<rparr>
      else \<lparr>dv_kind = ''tpu'', dv_torch_name = DeviceName ''cpu'', dv_label = ''Google TPU'', dv_available = False,
            dv_enable = ''install torch_xla on a TPU VM''\<rparr>)"

definition probe_cpu :: "torch option \<Rightarrow> int option \<Rightarrow> device" where
  "probe_cpu t cpus =
     (let threads = (case t of Some x \<Rightarrow> to_threads x
                     | None \<Rightarrow> (case cpus of None \<Rightarrow> 1 | Some n \<Rightarrow> if n = 0 then 1 else n))
      in \<lparr>dv_kind = ''cpu'', dv_torch_name = DeviceName ''cpu'', dv_label = ''CPU ('' @ int_str threads @ '' threads)'',
          dv_available = True, dv_enable = []\<rparr>)"

definition probe_all :: "host \<Rightarrow> device list result" where
  "probe_all h =
     bindR (probe_directml (ho_directml h)) (\<lambda>dml.
       Inr [probe_cuda (ho_torch h), probe_mps (ho_torch h), dml, probe_tpu (ho_xla h),
            probe_cpu (ho_torch h) (ho_cpus h)])"

text \<open>\<open>next\<close> on a generator that yields nothing raises \<open>StopIteration\<close>.\<close>

definition first_available :: "device list \<Rightarrow> device result" where
  "first_available ds = (case find dv_available ds of None \<Rightarrow> Inl StopIteration | Some d \<Rightarrow> Inr d)"

definition best_device :: "host \<Rightarrow> device result" where
  "best_device h = bindR (probe_all h) first_available"

fun ref_text :: "device_ref \<Rightarrow> string" where
  "ref_text (DeviceName s) = s"
| "ref_text (DirectmlDevice s) = s"

definition device_json :: "device \<Rightarrow> json" where
  "device_json d = JObj
     [(''kind'', JStr (dv_kind d)), (''torch_name'', JStr (ref_text (dv_torch_name d))), (''label'', JStr (dv_label d)),
      (''available'', JBool (dv_available d)), (''enable'', JStr (dv_enable d))]"

definition device_summary :: "host \<Rightarrow> json result" where
  "device_summary h =
     bindR (probe_all h) (\<lambda>devices.
     bindR (first_available devices) (\<lambda>d.
       Inr (JObj [(''best'', device_json d), (''all'', JArr (map device_json devices)),
                  (''platform'', JObj [(''system'', JStr (ho_system h)), (''machine'', JStr (ho_machine h)),
                                       (''python'', JStr (ho_python h))])])))"

text \<open>What the module prints when it is run.\<close>

definition accelerator_main :: "host \<Rightarrow> string result" where
  "accelerator_main h = bindR (device_summary h) (\<lambda>v. Inr (dumps pretty v @ [CHR 10]))"

section \<open>Choosing a device\<close>

lemma cpu_available [simp]: "dv_available (probe_cpu t cpus)"
  by (simp add: probe_cpu_def Let_def)

lemma find_split: "find P xs = Some d \<Longrightarrow> \<exists>a b. xs = a @ d # b \<and> P d \<and> (\<forall>x\<in>set a. \<not> P x)"
proof (induction xs)
  case (Cons x xs)
  show ?case
  proof (cases "P x")
    case True
    with Cons.prems show ?thesis by (intro exI [of _ "[]"] exI [of _ xs]) simp
  next
    case False
    with Cons obtain a b where "xs = a @ d # b" "P d" "\<forall>y\<in>set a. \<not> P y" by auto
    with False show ?thesis by (intro exI [of _ "x # a"] exI [of _ b]) simp
  qed
qed simp

text \<open>Choosing a device always ends with one that is available, the first in the fixed order of preference:
  \<open>StopIteration\<close> never escapes, for the CPU is always available, and the only way to fail is an
  exception of DirectML that is no \<open>RuntimeError\<close>.\<close>

theorem best_device_found:
  "case best_device h of
     Inr d \<Rightarrow> dv_available d \<and>
       (\<exists>before after. probe_all h = Inr (before @ d # after) \<and> (\<forall>x\<in>set before. \<not> dv_available x))
   | Inl e \<Rightarrow> (\<exists>x. ho_directml h = Some x \<and> \<not> is_RuntimeError e \<and> (dm_count x = Inl e \<or> dm_device x = Inl e))"
proof (cases "probe_directml (ho_directml h)")
  case (Inl e)
  then show ?thesis
    by (auto simp: best_device_def probe_all_def probe_directml_def bindR_Inl_iff
        split: option.splits sum.splits if_splits)
next
  case (Inr dml)
  define ds where "ds = [probe_cuda (ho_torch h), probe_mps (ho_torch h), dml, probe_tpu (ho_xla h)]"
  let ?cpu = "probe_cpu (ho_torch h) (ho_cpus h)"
  have all: "probe_all h = Inr (ds @ [?cpu])" by (simp add: probe_all_def Inr ds_def)
  obtain d where d: "find dv_available (ds @ [?cpu]) = Some d"
    by (cases "find dv_available (ds @ [?cpu])") (auto simp: find_None_iff)
  then obtain a b where ab: "ds @ [?cpu] = a @ d # b" "dv_available d" "\<forall>x\<in>set a. \<not> dv_available x"
    using find_split [of dv_available "ds @ [?cpu]"] by blast
  have bd: "best_device h = Inr d" by (simp only: best_device_def all bindR_simps first_available_def d option.case)
  show ?thesis
    unfolding bd sum.case all ab(1) using ab(2,3) by (intro conjI exI [of _ a] exI [of _ b]) simp_all
qed

end
