(* ===== verification/Py_Decimal.thy ===== *)
theory Py_Decimal
  imports Py_Convert
begin

text \<open>
  Python's \<open>decimal.Decimal\<close> as the benchmark uses it: a sign, a coefficient and an exponent; division
  rounded half-even to 80 digits, as \<open>getcontext().prec = 80\<close> asks; and the text of a result. Exponents stay
  far inside the context's limits, so overflow and underflow are left out, and so are the special values.
\<close>

record pydecimal =
  dc_neg :: bool
  dc_coeff :: nat
  dc_exp :: int

definition dec_value :: "pydecimal \<Rightarrow> rat" where
  "dec_value d = (if dc_neg d then - 1 else 1) * of_nat (dc_coeff d) * pow10 (dc_exp d)"

definition digits_of :: "nat \<Rightarrow> nat" where
  "digits_of n = length (nat_str n)"

definition dec_of_int :: "int \<Rightarrow> pydecimal" where
  "dec_of_int i = \<lparr>dc_neg = (i < 0), dc_coeff = nat \<bar>i\<bar>, dc_exp = 0\<rparr>"

text \<open>The number in a text of the form that \<open>str\<close> gives a float.\<close>

definition dec_unsigned :: "bool \<Rightarrow> string \<Rightarrow> pydecimal option" where
  "dec_unsigned neg s =
     (case p_int_part s of
        None \<Rightarrow> None
      | Some (ip, s1) \<Rightarrow>
          (let (fr, s2) = p_frac s1; (ex, s3) = p_exp s2;
               f = (case fr of None \<Rightarrow> [] | Some f \<Rightarrow> f);
               e = (case ex of None \<Rightarrow> 0 | Some e \<Rightarrow> e)
           in if s3 \<noteq> [] then None
              else Some \<lparr>dc_neg = neg, dc_coeff = nat (digits_int (ip @ f)), dc_exp = e - int (length f)\<rparr>))"

definition dec_of_text :: "string \<Rightarrow> pydecimal option" where
  "dec_of_text s = (if starts_with ''-'' s then dec_unsigned True (drop 1 s) else dec_unsigned False s)"

definition dec_prec :: nat where
  "dec_prec = 80"

text \<open>Rounding to the precision, ties to even; a carry into one more digit is divided out again.\<close>

definition dec_fix :: "pydecimal \<Rightarrow> pydecimal" where
  "dec_fix d =
     (let n = digits_of (dc_coeff d) in
      if n \<le> dec_prec then d
      else let k = n - dec_prec;
               q = dc_coeff d div 10 ^ k;
               r = dc_coeff d mod 10 ^ k;
               c = (if 2 * r > 10 ^ k \<or> (2 * r = 10 ^ k \<and> odd q) then q + 1 else q);
               e = dc_exp d + int k
           in if dec_prec < digits_of c then d\<lparr>dc_coeff := c div 10, dc_exp := e + 1\<rparr>
              else d\<lparr>dc_coeff := c, dc_exp := e\<rparr>)"

text \<open>An exact quotient loses trailing zeros until its exponent is the ideal one.\<close>

function strip_to :: "int \<Rightarrow> nat \<Rightarrow> int \<Rightarrow> nat \<times> int" where
  "strip_to ideal c e = (if e < ideal \<and> c mod 10 = 0 then strip_to ideal (c div 10) (e + 1) else (c, e))"
  by pat_completeness auto
termination
  by (relation "measure (\<lambda>(ideal, c, e). nat (ideal - e))") auto

declare strip_to.simps [simp del]

definition dec_div :: "pydecimal \<Rightarrow> pydecimal \<Rightarrow> pydecimal result" where
  "dec_div a b =
     (let sign = (dc_neg a \<noteq> dc_neg b) in
      if dc_coeff b = 0 then Inl (if dc_coeff a = 0 then InvalidOperation else ZeroDivisionError)
      else if dc_coeff a = 0 then Inr (dec_fix \<lparr>dc_neg = sign, dc_coeff = 0, dc_exp = dc_exp a - dc_exp b\<rparr>)
      else let shift = int (digits_of (dc_coeff b)) - int (digits_of (dc_coeff a)) + int dec_prec + 1;
               num = (if 0 \<le> shift then dc_coeff a * 10 ^ nat shift else dc_coeff a);
               den = (if 0 \<le> shift then dc_coeff b else dc_coeff b * 10 ^ nat (- shift));
               coeff = num div den;
               e = dc_exp a - dc_exp b - shift;
               (c, e') = (if num mod den \<noteq> 0 then (if coeff mod 5 = 0 then coeff + 1 else coeff, e)
                          else strip_to (dc_exp a - dc_exp b) coeff e)
           in Inr (dec_fix \<lparr>dc_neg = sign, dc_coeff = c, dc_exp = e'\<rparr>))"

definition signed_int_str :: "int \<Rightarrow> string" where
  "signed_int_str i = (if i < 0 then int_str i else ''+'' @ int_str i)"

definition dec_str :: "pydecimal \<Rightarrow> string" where
  "dec_str d =
     (let ds = nat_str (dc_coeff d);
          leftdigits = dc_exp d + int (length ds);
          dotplace = (if dc_exp d \<le> 0 \<and> - 6 < leftdigits then leftdigits else 1);
          mantissa = (if dotplace \<le> 0 then ''0.'' @ replicate (nat (- dotplace)) (CHR ''0'') @ ds
                      else if int (length ds) \<le> dotplace then ds @ replicate (nat dotplace - length ds) (CHR ''0'')
                      else take (nat dotplace) ds @ ''.'' @ drop (nat dotplace) ds)
      in (if dc_neg d then ''-'' else []) @ mantissa @
         (if leftdigits = dotplace then [] else ''E'' @ signed_int_str (leftdigits - dotplace)))"

end
