(* ===== verification/Bounded_Run.thy ===== *)
theory Bounded_Run
  imports Py_Decimal Sha256 "HOL-Library.While_Combinator"
begin

text \<open>
  The bounded benchmark, \<open>tools/decillion_bounded_run.py\<close>: a caller-selected number of chained SHA-256
  rounds, and the receipt that relates them to the target of \<open>10^45\<close> operations. The readings of the
  performance counter and the names of the platform are arguments.
\<close>

definition target_operations :: int where
  "target_operations = 10 ^ 45"

definition universe_age_years :: pydecimal where
  "universe_age_years = \<lparr>dc_neg = False, dc_coeff = 138, dc_exp = 8\<rparr>"

definition seconds_per_year :: pydecimal where
  "seconds_per_year = \<lparr>dc_neg = False, dc_coeff = 31557600, dc_exp = 0\<rparr>"

section \<open>The run\<close>

definition run_seed :: bytes where
  "run_seed = sha256 (utf8_encode ''decillion-seed'')"

text \<open>The loop over \<open>range(iterations)\<close>: the index and the digest; \<^term>\<open>None\<close> would be a loop that never ends.\<close>

definition run_loop :: "int \<Rightarrow> (int \<times> bytes) option" where
  "run_loop iterations =
     while_option (\<lambda>(i, d). i < iterations) (\<lambda>(i, d). (i + 1, sha256 d)) (0, run_seed)"

definition run_sha256 :: "int \<Rightarrow> pyfloat \<Rightarrow> pyfloat \<Rightarrow> (pyfloat \<times> string) option" where
  "run_sha256 iterations started finished =
     map_option (\<lambda>(i, d). (fl_sub finished started, ''sha256:'' @ hex d)) (run_loop iterations)"

section \<open>The receipt\<close>

definition run_proves :: "int \<Rightarrow> json" where
  "run_proves iterations = JArr
     [JStr (int_str iterations @ '' chained SHA-256 operations completed on this execution host''),
      JStr ''the final digest is recomputable from the fixed seed and operation count'',
      JStr ''the throughput and target gap are recorded from measured wall time'']"

definition run_does_not_prove :: json where
  "run_does_not_prove = JArr
     [JStr ''that 10^45 operations ran'',
      JStr ''that 10^45 operations are physically achievable'',
      JStr ''that Ray distributed this run'',
      JStr ''that io.net supplied any GPU or worker'',
      JStr ''that Red Hat AI/llm-d served any inference'',
      JStr ''that Vonage handled any communication'',
      JStr ''that hardware attestation occurred'',
      JStr ''that a Bitcoin or other external anchor exists'']"

definition run_disclosures :: json where
  "run_disclosures = JArr
     [JStr (''provider fields remain NOT_CONNECTED unless a real authenticated '' @ ''integration is executed''),
      JStr ''this benchmark is not a simulation of 10^45 physical operations'',
      JStr ''10^45 is a target scale, not an executed count'']"

definition run_infrastructure :: json where
  "run_infrastructure = JObj
     [(''execution_mode'', JStr ''LOCAL_BOUNDED''), (''ray'', JStr ''NOT_CONNECTED''), (''io_net'', JStr ''NOT_CONNECTED''),
      (''red_hat_ai_llm_d'', JStr ''NOT_CONNECTED''), (''vonage'', JStr ''NOT_CONNECTED'')]"

record run_rates =
  rr_rate :: pydecimal
  rr_remaining :: int
  rr_years :: pydecimal
  rr_multiples :: pydecimal

definition measure_run :: "int \<Rightarrow> pyfloat \<Rightarrow> run_rates result" where
  "measure_run iterations elapsed =
     (case dec_of_text (float_str elapsed) of
        None \<Rightarrow> Inl InvalidOperation
      | Some seconds \<Rightarrow>
          bindR (dec_div (dec_of_int iterations) seconds) (\<lambda>rate.
          let remaining = target_operations - iterations in
          bindR (dec_div (dec_of_int remaining) rate) (\<lambda>remaining_seconds.
          bindR (dec_div remaining_seconds seconds_per_year) (\<lambda>years.
          bindR (dec_div years universe_age_years) (\<lambda>multiples.
            Inr \<lparr>rr_rate = rate, rr_remaining = remaining, rr_years = years, rr_multiples = multiples\<rparr>)))))"

definition build_receipt :: "string \<Rightarrow> string \<Rightarrow> int \<Rightarrow> pyfloat \<Rightarrow> string \<Rightarrow> json result" where
  "build_receipt python platform iterations elapsed digest =
     bindR (measure_run iterations elapsed) (\<lambda>r. Inr (JObj
       [(''spec'', JStr ''innovulis-decillion-bounded-run/1.0''),
        (''claim'', JStr ''benchmark a finite execution against a 10^45 operation target''),
        (''target_operations'', JStr (int_str target_operations)),
        (''execution'', JObj
          [(''operations_completed'', JInt iterations), (''elapsed_seconds'', JFloat elapsed),
           (''ops_per_second'', JStr (dec_str (rr_rate r))), (''final_digest'', JStr digest),
           (''implementation'', JStr ''Python hashlib.sha256 chained digest'')]),
        (''gap_to_target'', JObj
          [(''remaining_operations'', JStr (int_str (rr_remaining r))),
           (''estimated_years_at_measured_rate'', JStr (dec_str (rr_years r))),
           (''multiple_of_universe_age_at_measured_rate'', JStr (dec_str (rr_multiples r)))]),
        (''infrastructure'', run_infrastructure),
        (''status'', JStr ''BOUNDED_RUN_ONLY''),
        (''proves'', run_proves iterations),
        (''does_not_prove'', run_does_not_prove),
        (''disclosures'', run_disclosures),
        (''environment'', JObj [(''python'', JStr python), (''platform'', JStr platform)]),
        (''genesis_authority'', JNull), (''merkle_root'', JNull), (''bitcoin_anchor'', JNull),
        (''hardware_attestation'', JNull)]))"

text \<open>
  The command: it refuses fewer than one operation, and otherwise prints the receipt, which it also
  writes to the output file if one is named. The result is the printed text.
\<close>

definition run_main :: "string \<Rightarrow> string \<Rightarrow> int \<Rightarrow> pyfloat \<Rightarrow> pyfloat \<Rightarrow> string result option" where
  "run_main python platform operations started finished =
     (if operations < 1 then Some (Inl (SystemExit ''--operations must be >= 1''))
      else map_option (\<lambda>(elapsed, digest).
             bindR (build_receipt python platform operations elapsed digest) (\<lambda>receipt.
               Inr (dumps pretty (sort_keys receipt) @ [CHR 10])))
           (run_sha256 operations started finished))"

end
