(* ===== verification/Decimal_Accuracy.thy ===== *)
theory Decimal_Accuracy
  imports Py_Decimal Json_Roundtrip
begin

text \<open>
  Decimal division is accurate to 79 digits, and the decimal read from the text of a float has the
  float's value.
\<close>

section \<open>Powers and digits\<close>

lemma pow10_pos [simp]: "0 < pow10 e"
  by (simp add: pow10_def)

lemma pow10_nonzero [simp]: "pow10 e \<noteq> 0"
  by (metis less_irrefl pow10_pos)

lemma pow10_diff: "pow10 (a - b) * pow10 b = pow10 a"
proof (cases "0 \<le> b")
  case True
  then obtain n where "b = int n" by (metis nonneg_int_cases)
  then show ?thesis using pow10_add_nat [of "a - b" n] by (simp add: pow10_nonneg)
next
  case False
  then obtain n where n: "b = - int n" by (metis int_cases2 of_nat_0_le_iff)
  then have "pow10 a * 10 ^ n = pow10 (a - b)" using pow10_add_nat [of a n] by simp
  moreover have "pow10 b * 10 ^ n = 1" using pow10_add_nat [of b n] n by (simp add: pow10_def)
  ultimately show ?thesis by (metis mult.assoc mult.commute mult.right_neutral)
qed

lemma uint_str_bounds: "0 < i \<Longrightarrow> 10 ^ (length (uint_str i) - 1) \<le> i \<and> i < 10 ^ length (uint_str i)"
proof (induction i rule: uint_str.induct)
  case (1 i)
  show ?case
  proof (cases "i < 10")
    case True
    with 1 show ?thesis by (simp add: uint_str.simps [of i])
  next
    case False
    let ?n = "length (uint_str (i div 10))"
    have ih: "10 ^ (?n - 1) \<le> i div 10" "i div 10 < 10 ^ ?n" using 1 False by auto
    have n: "0 < ?n" by simp
    have "(10 :: int) ^ ?n = 10 * 10 ^ (?n - 1)" using n by (simp flip: power_Suc)
    moreover have "10 * (i div 10) \<le> i" "i < 10 * (i div 10) + 10" by auto
    ultimately have "10 ^ ?n \<le> i" "i < 10 * 10 ^ ?n" using ih by auto
    then show ?thesis using False by (simp add: uint_str.simps [of i])
  qed
qed

lemma digits_of_bounds: "0 < n \<Longrightarrow> 10 ^ (digits_of n - 1) \<le> n \<and> n < 10 ^ digits_of n"
  using uint_str_bounds [of "int n"] unfolding digits_of_def nat_str_def
  by (metis of_nat_0_less_iff of_nat_le_iff of_nat_less_iff of_nat_numeral of_nat_power)

lemma digits_of_pos [simp]: "0 < digits_of n"
  by (simp add: digits_of_def nat_str_def)

section \<open>Rounding\<close>

definition magnitude :: "pydecimal \<Rightarrow> rat" where
  "magnitude d = of_nat (dc_coeff d) * pow10 (dc_exp d)"

lemma dec_value_magnitude: "dec_value d = (if dc_neg d then - magnitude d else magnitude d)"
  by (simp add: dec_value_def magnitude_def)

lemma dec_fix_neg [simp]: "dc_neg (dec_fix d) = dc_neg d"
  by (simp add: dec_fix_def Let_def)

lemma round_half:
  fixes c :: nat
  assumes "b = (if 2 * (c mod d) > d \<or> (2 * (c mod d) = d \<and> odd (c div d)) then c div d + 1 else c div d)" and "0 < d"
  shows "\<bar>of_nat (b * d) - (of_nat c :: rat)\<bar> \<le> of_nat d / 2"
proof -
  have c: "(of_nat c :: rat) = of_nat (c div d) * of_nat d + of_nat (c mod d)"
    by (metis div_mult_mod_eq of_nat_add of_nat_mult)
  show ?thesis
  proof (cases "b = c div d")
    case True
    then have "2 * (c mod d) \<le> d" using assms by (auto split: if_splits)
    then have "2 * of_nat (c mod d) \<le> (of_nat d :: rat)" by (metis of_nat_le_iff of_nat_mult of_nat_numeral)
    then show ?thesis by (simp add: True c)
  next
    case False
    then have b: "b = c div d + 1" and "d \<le> 2 * (c mod d)" using assms by (auto split: if_splits)
    then have "(of_nat d :: rat) \<le> 2 * of_nat (c mod d)" by (metis of_nat_le_iff of_nat_mult of_nat_numeral)
    moreover have "c mod d < d" using assms(2) by simp
    then have "of_nat (c mod d) < (of_nat d :: rat)" by (simp only: of_nat_less_iff)
    ultimately show ?thesis by (simp add: b c algebra_simps)
  qed
qed

lemma dec_fix_magnitude:
  assumes "0 < dc_coeff d"
  shows "\<bar>magnitude (dec_fix d) - magnitude d\<bar> \<le>
    (if digits_of (dc_coeff d) \<le> dec_prec then 0 else pow10 (dc_exp d) * 10 ^ (digits_of (dc_coeff d) - dec_prec) / 2)"
proof (cases "digits_of (dc_coeff d) \<le> dec_prec")
  case True
  then show ?thesis by (simp add: dec_fix_def)
next
  case False
  define c where "c = dc_coeff d"
  define k where "k = digits_of c - dec_prec"
  define b where "b = (if 2 * (c mod 10 ^ k) > 10 ^ k \<or> (2 * (c mod 10 ^ k) = 10 ^ k \<and> odd (c div 10 ^ k))
    then c div 10 ^ k + 1 else c div 10 ^ k)"
  have m: "magnitude (dec_fix d) = of_nat b * pow10 (dc_exp d + int k)"
  proof (cases "dec_prec < digits_of b")
    case True
    have n: "digits_of c = k + dec_prec" using False by (simp add: k_def c_def)
    have "c < 10 ^ (k + dec_prec)" using digits_of_bounds [of c] assms n by (simp add: c_def)
    then have "c div 10 ^ k < 10 ^ dec_prec" by (simp add: power_add less_mult_imp_div_less mult.commute)
    then have "b \<le> 10 ^ dec_prec" by (auto simp: b_def)
    moreover have "0 < b" using True by (cases b) (auto simp: digits_of_def nat_str_def dec_prec_def)
    then have "10 ^ (digits_of b - 1) \<le> b" using digits_of_bounds by blast
    moreover have "(10 :: nat) ^ dec_prec \<le> 10 ^ (digits_of b - 1)"
      using True by (intro power_increasing) simp_all
    ultimately have b: "b = 10 ^ dec_prec" by linarith
    have "of_nat (b div 10) * (10 :: rat) = of_nat b"
      unfolding b by (simp add: dec_prec_def)
    then show ?thesis
      using True False pow10_add_nat [of "dc_exp d + int k" 1]
      by (simp add: dec_fix_def Let_def magnitude_def flip: c_def k_def b_def)
  next
    case small: False
    then show ?thesis using False
      by (simp add: dec_fix_def Let_def magnitude_def flip: c_def k_def b_def)
  qed
  have "\<bar>of_nat (b * 10 ^ k) - (of_nat c :: rat)\<bar> \<le> of_nat (10 ^ k) / 2"
    by (rule round_half) (simp_all add: b_def)
  then have "pow10 (dc_exp d) * \<bar>of_nat (b * 10 ^ k) - (of_nat c :: rat)\<bar> \<le> pow10 (dc_exp d) * (of_nat (10 ^ k) / 2)"
    by (intro mult_left_mono) (simp_all add: less_imp_le)
  moreover have "magnitude (dec_fix d) - magnitude d = pow10 (dc_exp d) * (of_nat (b * 10 ^ k) - of_nat c)"
    using pow10_add_nat [of "dc_exp d" k] unfolding m by (simp add: magnitude_def c_def algebra_simps)
  ultimately show ?thesis using False by (simp add: abs_mult less_imp_le k_def c_def)
qed

section \<open>Division\<close>

lemma strip_to_value: "strip_to ideal c e = (c', e') \<Longrightarrow> of_nat c' * pow10 e' = of_nat c * pow10 e \<and> (0 < c \<longrightarrow> 0 < c')"
proof (induction ideal c e rule: strip_to.induct)
  case (1 ideal c e)
  show ?case
  proof (cases "e < ideal \<and> c mod 10 = 0")
    case True
    then have "strip_to ideal (c div 10) (e + 1) = (c', e')" using "1.prems" by (simp add: strip_to.simps [of ideal c])
    from "1.IH" [OF True this] have "of_nat c' * pow10 e' = of_nat (c div 10) * pow10 (e + 1)"
      and p: "0 < c div 10 \<longrightarrow> 0 < c'" by auto
    moreover have "10 * (c div 10) = c" using True by auto
    then have "of_nat (c div 10) * (10 :: rat) = of_nat c" by (metis mult.commute of_nat_mult of_nat_numeral)
    ultimately show ?thesis using pow10_add_nat [of e 1] True by (auto simp: algebra_simps)
  next
    case False
    with "1.prems" show ?thesis by (auto simp: strip_to.simps [of ideal c] split: if_splits)
  qed
qed

text \<open>A value known to 81 digits or exactly, then rounded, is off by less than one part in \<open>10^79\<close>.\<close>

lemma dec_fix_relative:
  assumes x: "0 < dc_coeff d" "0 \<le> x"
    and c: "of_nat (dc_coeff d) = x \<or> (\<bar>of_nat (dc_coeff d) - x\<bar> \<le> 1 \<and> 10 ^ dec_prec \<le> dc_coeff d)"
  shows "\<bar>magnitude (dec_fix d) - x * pow10 (dc_exp d)\<bar> \<le> x * pow10 (dc_exp d) / 10 ^ 79"
proof -
  let ?c = "of_nat (dc_coeff d) :: rat" and ?n = "digits_of (dc_coeff d)" and ?p = "pow10 (dc_exp d)"
  have fx: "\<bar>magnitude (dec_fix d) - ?c * ?p\<bar> \<le> (if ?n \<le> dec_prec then 0 else ?p * 10 ^ (?n - dec_prec) / 2)"
    using dec_fix_magnitude [OF x(1)] by (simp add: magnitude_def)
  show ?thesis
  proof (cases "?n \<le> dec_prec")
    case True
    have "dc_coeff d < 10 ^ dec_prec"
      using digits_of_bounds [OF x(1)] True by (meson less_le_trans one_le_numeral power_increasing)
    then have "?c = x" using c by auto
    then show ?thesis using fx True x(2) by (simp add: less_imp_le)
  next
    case False
    define k where "k = ?n - dec_prec"
    have k: "0 < k" "?n - 1 = 79 + k" using False by (simp_all add: k_def dec_prec_def)
    have "(10 :: nat) ^ (79 + k) \<le> dc_coeff d" using digits_of_bounds [OF x(1)] k by simp
    then have cb: "10 ^ 79 * 10 ^ k \<le> ?c" by (metis of_nat_le_iff of_nat_numeral of_nat_power power_add)
    have t: "(10 :: rat) \<le> 10 ^ k" using k(1) power_increasing [of 1 k "10 :: rat"] by simp
    have "\<bar>?c - x\<bar> + 10 ^ k / 2 \<le> x / 10 ^ 79"
      using c
    proof
      assume "?c = x"
      then show ?thesis using cb by (simp add: field_simps)
    next
      assume h: "\<bar>?c - x\<bar> \<le> 1 \<and> 10 ^ dec_prec \<le> dc_coeff d"
      then have "10 ^ 79 * 10 ^ k - 1 \<le> x" using cb by linarith
      then have "10 ^ k - 1 / 10 ^ 79 \<le> x / 10 ^ 79" by (simp add: field_simps)
      moreover have "(1 :: rat) / 10 ^ 79 \<le> 1" by simp
      ultimately show ?thesis using h t by linarith
    qed
    then have "?p * (\<bar>?c - x\<bar> + 10 ^ k / 2) \<le> ?p * (x / 10 ^ 79)" by (intro mult_left_mono) (simp_all add: less_imp_le)
    moreover have "\<bar>?c * ?p - x * ?p\<bar> = ?p * \<bar>?c - x\<bar>" by (simp add: abs_mult less_imp_le flip: left_diff_distrib)
    moreover have "\<bar>magnitude (dec_fix d) - x * ?p\<bar> \<le> \<bar>magnitude (dec_fix d) - ?c * ?p\<bar> + \<bar>?c * ?p - x * ?p\<bar>"
      using abs_triangle_ineq [of "magnitude (dec_fix d) - ?c * ?p" "?c * ?p - x * ?p"] by simp
    moreover have "\<bar>magnitude (dec_fix d) - ?c * ?p\<bar> \<le> ?p * (10 ^ k / 2)" using fx False by (simp add: k_def)
    ultimately have "\<bar>magnitude (dec_fix d) - x * ?p\<bar> \<le> ?p * (x / 10 ^ 79)" unfolding distrib_left by linarith
    then show ?thesis by (simp only: times_divide_eq_right mult.commute)
  qed
qed

lemma scaled_quotient:
  assumes a: "0 < a" and b: "0 < b"
    and s: "shift = int (digits_of b) - int (digits_of a) + int dec_prec + 1"
    and n: "num = (if 0 \<le> shift then a * 10 ^ nat shift else a)"
    and d: "den = (if 0 \<le> shift then b else b * 10 ^ nat (- shift))"
  shows "10 ^ dec_prec * den \<le> num"
    and "of_nat num / of_nat den * pow10 (ea - eb - shift) = (of_nat a * pow10 ea) / (of_nat b * pow10 eb)"
proof -
  have la: "10 ^ (digits_of a - 1) \<le> a" and lb: "b \<le> 10 ^ digits_of b"
    using digits_of_bounds [OF a] digits_of_bounds [OF b] by auto
  have e: "pow10 (ea - eb) = pow10 ea / pow10 eb" 
    using pow10_diff [of ea eb] pow10_pos [of eb] by (metis less_irrefl nonzero_mult_div_cancel_right)
  have pos: "pow10 eb \<noteq> 0" "of_nat b \<noteq> (0 :: rat)" using b by simp_all
  show "10 ^ dec_prec * den \<le> num"
  proof (cases "0 \<le> shift")
    case True
    have "digits_of b + dec_prec = (digits_of a - 1) + nat shift" using True s digits_of_pos [of a] by linarith
    then have "10 ^ dec_prec * 10 ^ digits_of b = (10 :: nat) ^ (digits_of a - 1) * 10 ^ nat shift"
      by (metis add.commute power_add)
    also have "\<dots> \<le> a * 10 ^ nat shift" using la by simp
    finally have "10 ^ dec_prec * b \<le> a * 10 ^ nat shift" using lb by (meson le_trans mult_le_mono2)
    then show ?thesis using True n d by simp
  next
    case False
    have "dec_prec + digits_of b + nat (- shift) = digits_of a - 1" using False s digits_of_pos [of a] by linarith
    then have "10 ^ dec_prec * 10 ^ digits_of b * 10 ^ nat (- shift) \<le> a" using la by (metis power_add)
    moreover have "10 ^ dec_prec * (b * 10 ^ nat (- shift)) \<le> 10 ^ dec_prec * 10 ^ digits_of b * 10 ^ nat (- shift)"
      using lb by simp
    ultimately have "10 ^ dec_prec * (b * 10 ^ nat (- shift)) \<le> a" by (rule order_trans [rotated])
    then show ?thesis using False n d by simp
  qed
  show "of_nat num / of_nat den * pow10 (ea - eb - shift) = (of_nat a * pow10 ea) / (of_nat b * pow10 eb)"
  proof (cases "0 \<le> shift")
    case True
    have "pow10 (ea - eb - shift) * 10 ^ nat shift = pow10 (ea - eb)"
      using pow10_add_nat [of "ea - eb - shift" "nat shift"] True by simp
    then show ?thesis using True n d pos e by (simp add: field_simps)
  next
    case False
    have "pow10 (ea - eb - shift) = pow10 (ea - eb) * 10 ^ nat (- shift)"
      using pow10_add_nat [of "ea - eb" "nat (- shift)"] False by simp
    then show ?thesis using False n d pos e by (simp add: field_simps)
  qed
qed

lemma dec_div_cases:
  assumes "dec_div a b = Inr q" and "0 < dc_coeff a"
  obtains x c e where "q = dec_fix \<lparr>dc_neg = (dc_neg a \<noteq> dc_neg b), dc_coeff = c, dc_exp = e\<rparr>"
    and "0 < c" and "0 \<le> x" and "of_nat c = x \<or> (\<bar>of_nat c - x\<bar> \<le> 1 \<and> 10 ^ dec_prec \<le> c)"
    and "x * pow10 e = magnitude a / magnitude b"
proof -
  define shift where "shift = int (digits_of (dc_coeff b)) - int (digits_of (dc_coeff a)) + int dec_prec + 1"
  define num where "num = (if 0 \<le> shift then dc_coeff a * 10 ^ nat shift else dc_coeff a)"
  define den where "den = (if 0 \<le> shift then dc_coeff b else dc_coeff b * 10 ^ nat (- shift))"
  define e0 where "e0 = dc_exp a - dc_exp b - shift"
  have b: "0 < dc_coeff b" using assms by (auto simp: dec_div_def Let_def split: if_splits)
  note sq = scaled_quotient [OF assms(2) b shift_def num_def den_def]
  have den: "0 < den" using b by (simp add: den_def)
  have mag: "of_nat num / of_nat den * pow10 e0 = magnitude a / magnitude b"
    using sq(2) [of "dc_exp a" "dc_exp b"] by (simp add: magnitude_def e0_def)
  have big: "10 ^ dec_prec \<le> num div den"
    using sq(1) den by (metis div_le_mono div_mult_self_is_m)
  have nd: "(of_nat num :: rat) = of_nat (num div den) * of_nat den + of_nat (num mod den)"
    by (metis div_mult_mod_eq of_nat_add of_nat_mult)
  have nz: "dc_coeff b \<noteq> 0" "dc_coeff a \<noteq> 0" using b assms(2) by simp_all
  have dd: "dec_div a b =
      (case (if num mod den \<noteq> 0 then (if num div den mod 5 = 0 then num div den + 1 else num div den, e0)
             else strip_to (dc_exp a - dc_exp b) (num div den) e0) of
         (c, e') \<Rightarrow> Inr (dec_fix \<lparr>dc_neg = (dc_neg a \<noteq> dc_neg b), dc_coeff = c, dc_exp = e'\<rparr>))"
    unfolding dec_div_def Let_def shift_def [symmetric] num_def [symmetric] den_def [symmetric] e0_def [symmetric]
    by (simp only: nz if_False)
  show thesis
  proof (cases "num mod den = 0")
    case True
    obtain c e where st: "strip_to (dc_exp a - dc_exp b) (num div den) e0 = (c, e)" by fastforce
    note v = strip_to_value [OF st]
    have "(of_nat num / of_nat den :: rat) = of_nat (num div den)" using nd True den by simp
    then have "of_nat c * pow10 e = magnitude a / magnitude b" using v mag by simp
    moreover have "0 < c" using v big by (auto simp: dec_prec_def)
    ultimately show ?thesis using that [of c e "of_nat c"] dd st True assms(1) by simp
  next
    case False
    define c where "c = (if num div den mod 5 = 0 then num div den + 1 else num div den)"
    have "num mod den < den" using den by simp
    then have "of_nat (num mod den) / of_nat den < (1 :: rat)" using den by simp
    moreover have "(of_nat num / of_nat den :: rat) = of_nat (num div den) + of_nat (num mod den) / of_nat den"
      using den by (simp add: nd add_divide_distrib)
    moreover have "(0 :: rat) \<le> of_nat (num mod den) / of_nat den" by simp
    ultimately have "\<bar>of_nat c - (of_nat num / of_nat den :: rat)\<bar> \<le> 1" by (simp add: c_def)
    moreover have "10 ^ dec_prec \<le> c" using big by (simp add: c_def)
    moreover have "0 < c" using \<open>10 ^ dec_prec \<le> c\<close> by (auto simp: dec_prec_def)
    ultimately show ?thesis using that [of c e0 "of_nat num / of_nat den"] dd False mag assms(1)
      by (simp add: c_def)
  qed
qed

lemma magnitude_sign: "0 < dc_coeff d \<Longrightarrow> 0 < magnitude d"
  by (simp add: magnitude_def)

lemma dec_div_accurate_pos:
  assumes "dec_div a b = Inr q" and "0 < dc_coeff a"
  shows "\<bar>dec_value q - dec_value a / dec_value b\<bar> \<le> \<bar>dec_value a / dec_value b\<bar> / 10 ^ 79"
proof -
  obtain x c e where q: "q = dec_fix \<lparr>dc_neg = (dc_neg a \<noteq> dc_neg b), dc_coeff = c, dc_exp = e\<rparr>" (is "_ = dec_fix ?d")
    and c: "0 < c" "0 \<le> x" "of_nat c = x \<or> (\<bar>of_nat c - x\<bar> \<le> 1 \<and> 10 ^ dec_prec \<le> c)"
    and x: "x * pow10 e = magnitude a / magnitude b"
    by (rule dec_div_cases [OF assms])
  have m: "\<bar>magnitude q - magnitude a / magnitude b\<bar> \<le> (magnitude a / magnitude b) / 10 ^ 79"
    using dec_fix_relative [of ?d x] c x by (simp add: q)
  define t where "t = magnitude a / magnitude b"
  have t: "0 \<le> t" by (simp add: t_def magnitude_def less_imp_le)
  have n: "dec_value q = (if dc_neg a \<noteq> dc_neg b then - magnitude q else magnitude q)"
    by (simp add: q dec_value_magnitude)
  have ab: "dec_value a / dec_value b = (if dc_neg a \<noteq> dc_neg b then - t else t)"
    by (simp add: dec_value_magnitude t_def)
  have "\<bar>dec_value q - dec_value a / dec_value b\<bar> = \<bar>magnitude q - t\<bar>"
    by (simp add: n ab abs_minus_commute)
  moreover have "\<bar>dec_value a / dec_value b\<bar> = t" using t by (simp add: ab)
  ultimately show ?thesis using m by (simp only: t_def)
qed

lemma dec_div_ok: "dc_coeff b \<noteq> 0 \<Longrightarrow> \<exists>q. dec_div a b = Inr q"
  by (auto simp: dec_div_def Let_def split_beta)

lemma dec_value_zero: "dec_value d = 0 \<longleftrightarrow> dc_coeff d = 0"
  by (simp add: dec_value_def)

lemma dec_div_accurate:
  assumes "dec_div a b = Inr q"
  shows "\<bar>dec_value q - dec_value a / dec_value b\<bar> \<le> \<bar>dec_value a / dec_value b\<bar> / 10 ^ 79"
proof (cases "dc_coeff a = 0")
  case True
  have "digits_of 0 = 1" by (simp add: digits_of_def nat_str_def)
  then have "dc_coeff q = 0"
    using assms True by (auto simp: dec_div_def Let_def dec_fix_def dec_prec_def split: if_splits)
  then show ?thesis using True by (simp add: dec_value_def)
next
  case False
  then show ?thesis using dec_div_accurate_pos [OF assms] by simp
qed

section \<open>Reading the text of a float\<close>

lemma digits_int_nonneg: "0 \<le> digits_int ds"
  by (induction ds rule: rev_induct) simp_all

lemma dec_unsigned_value:
  assumes "p_unsigned neg s = Some (JFloat (Fin r), [])"
  shows "\<exists>d. dec_unsigned neg s = Some d \<and> dec_value d = r"
proof -
  obtain ip s1 where ip: "p_int_part s = Some (ip, s1)" using assms by (auto simp: p_unsigned_def split: option.splits)
  obtain fr s2 where fr: "p_frac s1 = (fr, s2)" by fastforce
  obtain ex s3 where ex: "p_exp s2 = (ex, s3)" by fastforce
  have nn: "\<not> (fr = None \<and> ex = None)"
    using assms by (cases fr; cases ex) (auto simp: p_unsigned_def ip fr ex)
  define f where "f = (case fr of None \<Rightarrow> [] | Some f \<Rightarrow> f)"
  define e where "e = (case ex of None \<Rightarrow> 0 | Some e \<Rightarrow> e)"
  have "r = (if neg then - 1 else 1) * of_int (digits_int (ip @ f)) * pow10 (e - int (length f))" and "s3 = []"
    using assms nn by (auto simp: p_unsigned_def ip fr ex Let_def f_def e_def split: if_splits)
  then show ?thesis
    using digits_int_nonneg [of "ip @ f"]
    by (simp add: dec_unsigned_def ip fr ex Let_def dec_value_def flip: f_def e_def)
qed

lemma dec_of_float:
  assumes "dec_scale r \<noteq> None"
  shows "\<exists>d. dec_of_text (float_str (Fin r)) = Some d \<and> dec_value d = r"
proof -
  have "p_atom (float_text r) = Some (JFloat (Fin r), [])" using float_text_read [OF assms, of "[]"] by simp
  then have "if starts_with ''-'' (float_text r) then p_unsigned True (drop 1 (float_text r)) = Some (JFloat (Fin r), [])
      else p_unsigned False (float_text r) = Some (JFloat (Fin r), [])"
    by (simp add: p_atom_def split: if_splits)
  then show ?thesis using dec_unsigned_value by (auto simp: dec_of_text_def split: if_splits)
qed

end
