(* ===== verification/Bounded_Proofs.thy ===== *)
theory Bounded_Proofs
  imports Bounded_Run Decimal_Accuracy
begin

text \<open>
  The benchmark ends after exactly the operations asked for, with a digest anyone can recompute, and
  the figures of its receipt are the measured ones to 79 digits.
\<close>

section \<open>The loop\<close>

lemma run_loop_from:
  "while_option (\<lambda>(i, d). i < n) (\<lambda>(i, d). (i + 1, sha256 d)) (i, d) =
     Some (max i n, (sha256 ^^ nat (n - i)) d)"
proof (induction "nat (n - i)" arbitrary: i d)
  case 0
  then show ?case by (subst while_option_unfold) simp
next
  case (Suc k)
  then have "i < n" and k: "k = nat (n - (i + 1))" by simp_all
  then have "nat (n - i) = Suc (nat (n - (i + 1)))" by simp
  then show ?case
    using Suc.hyps(1) [OF k, of "sha256 d"] \<open>i < n\<close>
    by (subst while_option_unfold) (simp add: funpow_swap1)
qed

text \<open>C38: The benchmark always ends: for every operation count, the loop over the range stops after exactly that
  many rounds (none for a count that is not positive) with the chained digest of the fixed seed; so a
  longer run continues a shorter one, and the digest can be recomputed from the count alone.\<close>

theorem bounded_run_ends:
  "run_loop n = Some (max 0 n, (sha256 ^^ nat n) run_seed) \<and>
   run_sha256 n started finished = Some (fl_sub finished started, ''sha256:'' @ hex ((sha256 ^^ nat n) run_seed)) \<and>
   (sha256 ^^ (k + nat n)) run_seed = (sha256 ^^ k) (snd (the (run_loop n))) \<and>
   run_main python platform n started finished \<noteq> None"
  by (simp add: run_loop_def run_loop_from run_sha256_def run_main_def funpow_add)

section \<open>The figures\<close>

lemma dec_of_int_value [simp]: "dec_value (dec_of_int i) = of_int i"
  by (simp add: dec_value_def dec_of_int_def pow10_def)

lemma constants_value:
  "dec_value seconds_per_year = 31557600" "dec_value universe_age_years = 13800000000"
  by (simp_all add: dec_value_def seconds_per_year_def universe_age_years_def pow10_def)

lemma relative_pos: "\<bar>q - t\<bar> \<le> \<bar>t\<bar> / 10 ^ 79 \<Longrightarrow> 0 < t \<Longrightarrow> 0 < (q :: rat)"
  by (simp add: abs_if split: if_splits)

text \<open>Two roundings after each other stay within three units.\<close>

lemma two_roundings:
  fixes q t y :: rat
  assumes "\<bar>q - t\<bar> \<le> \<bar>t\<bar> / 10 ^ 79" and "\<bar>y - q / c\<bar> \<le> \<bar>q / c\<bar> / 10 ^ 79" and "0 < c"
  shows "\<bar>y * c - t\<bar> \<le> \<bar>t\<bar> * 3 / 10 ^ 79"
proof -
  have "\<bar>y * c - q\<bar> = \<bar>y - q / c\<bar> * c" using assms(3) by (simp add: abs_if field_simps)
  also have "\<dots> \<le> \<bar>q / c\<bar> / 10 ^ 79 * c" using assms(2,3) by (intro mult_right_mono) simp_all
  also have "\<dots> = \<bar>q\<bar> / 10 ^ 79" using assms(3) by (simp add: abs_if field_simps)
  finally have y: "\<bar>y * c - q\<bar> \<le> \<bar>q\<bar> / 10 ^ 79" .
  have "\<bar>q\<bar> \<le> 2 * \<bar>t\<bar>" using assms(1) by (simp add: abs_if split: if_splits)
  then show ?thesis using y assms(1) by (simp add: abs_if split: if_splits)
qed

text \<open>C37: For a run of at least one operation and a positive measured time the receipt is built, its remaining
  operations are exact, and its decimals are right to one part in \<open>10^79\<close> per division: the rate is
  operations by seconds, the years times rate and seconds per year make up the gap to \<open>10^45\<close>, and
  the last figure is those years in ages of the universe. A measured time of zero is a division by zero.\<close>

theorem run_figures_accurate:
  assumes "1 \<le> n" and "0 < r" and "dec_scale r \<noteq> None"
  shows "(\<exists>f. measure_run n (Fin r) = Inr f \<and> rr_remaining f = 10 ^ 45 - n \<and>
     \<bar>dec_value (rr_rate f) - of_int n / r\<bar> \<le> (of_int n / r) / 10 ^ 79 \<and>
     \<bar>dec_value (rr_years f) * 31557600 - of_int (10 ^ 45 - n) / dec_value (rr_rate f)\<bar>
       \<le> \<bar>of_int (10 ^ 45 - n) / dec_value (rr_rate f)\<bar> * 3 / 10 ^ 79 \<and>
     \<bar>dec_value (rr_multiples f) - dec_value (rr_years f) / 13800000000\<bar>
       \<le> \<bar>dec_value (rr_years f) / 13800000000\<bar> / 10 ^ 79) \<and>
   measure_run n (Fin 0) = Inl ZeroDivisionError"
proof
  obtain s where s: "dec_of_text (float_str (Fin r)) = Some s" "dec_value s = r" using dec_of_float [OF assms(3)] by blast
  have "dc_coeff s \<noteq> 0" using s(2) assms(2) dec_value_zero [of s] by auto
  then obtain rate where rate: "dec_div (dec_of_int n) s = Inr rate" using dec_div_ok by blast
  note ra = dec_div_accurate [OF rate, unfolded s(2) dec_of_int_value]
  have "0 < of_int n / r" using assms(1,2) by simp
  then have "0 < dec_value rate" using relative_pos [OF ra] by simp
  then have "dc_coeff rate \<noteq> 0" using dec_value_zero [of rate] by auto
  then obtain secs where secs: "dec_div (dec_of_int (10 ^ 45 - n)) rate = Inr secs" using dec_div_ok by blast
  obtain years where years: "dec_div secs seconds_per_year = Inr years"
    using dec_div_ok [of seconds_per_year secs] by (auto simp: seconds_per_year_def)
  obtain mult where mult: "dec_div years universe_age_years = Inr mult"
    using dec_div_ok [of universe_age_years years] by (auto simp: universe_age_years_def)
  have ya: "\<bar>dec_value years * 31557600 - of_int (10 ^ 45 - n) / dec_value rate\<bar>
      \<le> \<bar>of_int (10 ^ 45 - n) / dec_value rate\<bar> * 3 / 10 ^ 79"
    by (rule two_roundings [OF dec_div_accurate [OF secs, unfolded dec_of_int_value]
        dec_div_accurate [OF years, unfolded constants_value]]) simp
  note ma = dec_div_accurate [OF mult, unfolded constants_value]
  have "measure_run n (Fin r) = Inr \<lparr>rr_rate = rate, rr_remaining = 10 ^ 45 - n, rr_years = years, rr_multiples = mult\<rparr>"
    using secs by (simp add: measure_run_def s(1) rate years mult target_operations_def del: float_str.simps)
  moreover have "\<bar>of_int n / r\<bar> = of_int n / r" using assms(1,2) by simp
  ultimately show "\<exists>f. measure_run n (Fin r) = Inr f \<and> rr_remaining f = 10 ^ 45 - n \<and>
     \<bar>dec_value (rr_rate f) - of_int n / r\<bar> \<le> (of_int n / r) / 10 ^ 79 \<and>
     \<bar>dec_value (rr_years f) * 31557600 - of_int (10 ^ 45 - n) / dec_value (rr_rate f)\<bar>
       \<le> \<bar>of_int (10 ^ 45 - n) / dec_value (rr_rate f)\<bar> * 3 / 10 ^ 79 \<and>
     \<bar>dec_value (rr_multiples f) - dec_value (rr_years f) / 13800000000\<bar>
       \<le> \<bar>dec_value (rr_years f) / 13800000000\<bar> / 10 ^ 79"
    using ra ya ma by (intro exI [of _ "\<lparr>rr_rate = rate, rr_remaining = 10 ^ 45 - n, rr_years = years, rr_multiples = mult\<rparr>"]) simp
  have "dec_of_text (float_str (Fin 0)) = Some \<lparr>dc_neg = False, dc_coeff = 0, dc_exp = - 1\<rparr>" by code_simp
  then show "measure_run n (Fin 0) = Inl ZeroDivisionError"
    using assms(1) by (simp add: measure_run_def dec_div_def Let_def dec_of_int_def del: float_str.simps)
qed

theorem run_figures_accurate_witness:
  "\<exists>f. measure_run 1000000 (Fin (3 / 10)) = Inr f \<and> rr_remaining f = 10 ^ 45 - 1000000"
proof -
  have "dec_scale (3 / 10) \<noteq> None" by (simp add: dec_scale_def find_None_iff) code_simp
  from run_figures_accurate [OF _ _ this, of 1000000] show ?thesis by auto
qed

end
