(* ===== verification/Vault_Cli.thy ===== *)
theory Vault_Cli
  imports Vault_Integrity Vault_Receipts Acl
begin

text \<open>
  The command line of the vault, \<open>vault/cli.py\<close>: each command opens the store and the receipt table and
  composes their operations. The result of a command is the lines it prints, how it ends, and the
  vault's files and receipt rows afterwards. The generated values (identifiers, keys, random bytes, clock
  readings) are arguments; the text of a size in megabytes, a rounded float, is one too.
\<close>

record cli_world =
  cw_files :: files
  cw_rows :: "vreceipt list"

type_synonym cli_result = "(string list \<times> unit result) \<times> cli_world"

definition shard_size_default :: int where
  "shard_size_default = 1024 * 1024"

definition cli_store :: "vault_env \<Rightarrow> cli_world \<Rightarrow> unit result \<times> cli_world" where
  "cli_store E w =
     (case vault_open E shard_size_default (cw_files w) of
        Inl e \<Rightarrow> (Inl e, w)
      | Inr fs \<Rightarrow> (Inr (), w\<lparr>cw_files := fs\<rparr>))"

definition cli_components :: "vault_env \<Rightarrow> cli_world \<Rightarrow> vault_receipts result \<times> cli_world" where
  "cli_components E w =
     (case cli_store E w of
        (Inl e, w1) \<Rightarrow> (Inl e, w1)
      | (Inr _, w1) \<Rightarrow> (bindR (receipt_key E (cw_files w1)) (\<lambda>key. vault_receipts_open key (cw_rows w1)), w1))"

definition acl_file :: path where
  "acl_file = ''acl.json''"

definition cmd_init :: "vault_env \<Rightarrow> string \<Rightarrow> cli_world \<Rightarrow> cli_result" where
  "cmd_init E root_name w =
     (case cli_components E w of
        (Inl e, w1) \<Rightarrow> (([], Inl e), w1)
      | (Inr _, w1) \<Rightarrow>
          (case acl_open acl_file (cw_files w1) of
             Inl e \<Rightarrow> (([], Inl e), w1)
           | Inr (_, fs) \<Rightarrow> (([''vault initialized: '' @ root_name], Inr ()), w1\<lparr>cw_files := fs\<rparr>)))"

definition add_payload :: "manifest \<Rightarrow> (string, json) dict" where
  "add_payload m = [(''size_bytes'', JInt (mm_size m)), (''n_shards'', JInt (mm_n_shards m)), (''merkle_root'', JStr (mm_root m))]"

definition cmd_add ::
    "vault_env \<Rightarrow> weight_file \<Rightarrow> string \<Rightarrow> string \<Rightarrow> string \<Rightarrow> string \<Rightarrow> pyfloat \<Rightarrow> cli_world \<Rightarrow> cli_result" where
  "cmd_add E f model source lic uuid clock w =
     (case cli_components E w of
        (Inl e, w1) \<Rightarrow> (([], Inl e), w1)
      | (Inr rcpts, w1) \<Rightarrow>
          (case add_file E shard_size_default f model source lic [] (cw_files w1) of
             (Inl e, fs) \<Rightarrow> (([], Inl e), w1\<lparr>cw_files := fs\<rparr>)
           | (Inr m, fs) \<Rightarrow>
               (case vr_emit ''vault.add'' (mm_model m) ''cli'' (add_payload m) uuid clock rcpts of
                  Inl e \<Rightarrow> (([], Inl e), w1\<lparr>cw_files := fs\<rparr>)
                | Inr (rid, rcpts') \<Rightarrow>
                    (([dumps pretty (JObj (dict_set ''receipt_id'' (JStr rid) (manifest_to_dict m)))], Inr ()),
                     \<lparr>cw_files = fs, cw_rows = vq_rows rcpts'\<rparr>))))"

definition ljust :: "nat \<Rightarrow> string \<Rightarrow> string" where
  "ljust n s = s @ replicate (n - length s) (CHR '' '')"

definition rjust :: "nat \<Rightarrow> string \<Rightarrow> string" where
  "rjust n s = replicate (n - length s) (CHR '' '') @ s"

definition list_line :: "(int \<Rightarrow> string) \<Rightarrow> manifest \<Rightarrow> string" where
  "list_line megabytes m = ljust 60 (mm_model m) @ '' '' @ rjust 10 (megabytes (mm_size m)) @ '' MB '' @
     rjust 5 (int_str (mm_n_shards m)) @ '' shards '' @ mm_license m"

definition cmd_list :: "vault_env \<Rightarrow> (int \<Rightarrow> string) \<Rightarrow> cli_world \<Rightarrow> cli_result" where
  "cmd_list E megabytes w =
     (case cli_store E w of
        (Inl e, w1) \<Rightarrow> (([], Inl e), w1)
      | (Inr _, w1) \<Rightarrow>
          (case list_manifests E (cw_files w1) of
             Inl e \<Rightarrow> (([], Inl e), w1)
           | Inr ms \<Rightarrow> ((map (list_line megabytes) ms, Inr ()), w1)))"

definition pass_text :: "bool \<Rightarrow> string" where
  "pass_text ok = (if ok then ''OK'' else ''FAIL'')"

definition verify_lines :: "files \<Rightarrow> manifest \<Rightarrow> string list" where
  "verify_lines fs m =
     (let (ok, errors) = vault_verify m fs
      in (mm_model m @ '': '' @ pass_text ok) # map ((@) ''  '') errors)"

definition chain_line :: "bool \<Rightarrow> vault_receipts \<Rightarrow> string \<Rightarrow> string" where
  "chain_line ok rcpts head = ''receipt chain: '' @ pass_text ok @ '' ('' @ int_str (vr_count rcpts) @ '' receipts; '' @
     take 12 head @ '')''"

definition verify_selection :: "vault_env \<Rightarrow> string option \<Rightarrow> files \<Rightarrow> manifest option list result" where
  "verify_selection E model fs =
     (case model of
        Some name \<Rightarrow>
          if name \<noteq> [] then bindR (get_manifest E name fs) (\<lambda>m. Inr [m])
          else bindR (list_manifests E fs) (\<lambda>ms. Inr (map Some ms))
      | None \<Rightarrow> bindR (list_manifests E fs) (\<lambda>ms. Inr (map Some ms)))"

definition cmd_verify :: "vault_env \<Rightarrow> string option \<Rightarrow> cli_world \<Rightarrow> cli_result" where
  "cmd_verify E model w =
     (case cli_components E w of
        (Inl e, w1) \<Rightarrow> (([], Inl e), w1)
      | (Inr rcpts, w1) \<Rightarrow>
          (case verify_selection E model (cw_files w1) of
             Inl e \<Rightarrow> (([], Inl e), w1)
           | Inr found \<Rightarrow>
               (case those found of
                  None \<Rightarrow> (([], Inl (SystemExit (''not found: '' @ (case model of None \<Rightarrow> ''None'' | Some n \<Rightarrow> n)))), w1)
                | Some ms \<Rightarrow>
                    (let lines = concat (map (verify_lines (cw_files w1)) ms);
                         sound = list_all (\<lambda>m. fst (vault_verify m (cw_files w1))) ms
                     in (case verify_chain rcpts of
                           Inl e \<Rightarrow> ((lines, Inl e), w1)
                         | Inr (chain_ok, head) \<Rightarrow>
                             ((lines @ [chain_line chain_ok rcpts head],
                               if sound \<and> chain_ok then Inr () else Inl (SystemExit ''1'')), w1))))))"

definition stats_json :: "vault_stats \<Rightarrow> json" where
  "stats_json s = JObj [(''models'', JInt (st_models s)), (''total_plaintext_bytes'', JInt (st_plaintext s)),
     (''total_shards'', JInt (st_shards s)), (''unique_shard_files'', JInt (st_unique s)),
     (''exact_ciphertext_reuse'', JInt (st_reuse s))]"

definition cmd_stats :: "vault_env \<Rightarrow> cli_world \<Rightarrow> cli_result" where
  "cmd_stats E w =
     (case cli_store E w of
        (Inl e, w1) \<Rightarrow> (([], Inl e), w1)
      | (Inr _, w1) \<Rightarrow>
          (case stats E (cw_files w1) of
             Inl e \<Rightarrow> (([], Inl e), w1)
           | Inr s \<Rightarrow> (([dumps pretty (stats_json s)], Inr ()), w1)))"

section \<open>The smoke test\<close>

text \<open>What the smoke test draws: the bytes of the weight file, a signing key and the values of its calls.\<close>

record smoke_draw =
  sm_bytes :: bytes
  sm_key :: bytes
  sm_add_id :: string
  sm_open_id :: string
  sm_nonce :: string
  sm_signed_at :: rat
  sm_checked_at :: rat
  sm_add_clock :: pyfloat
  sm_open_clock :: pyfloat

definition smoke_model :: string where
  "smoke_model = ''smoke/fake-model''"

definition smoke_file :: "smoke_draw \<Rightarrow> weight_file" where
  "smoke_file d = \<lparr>wf_suffix = ''.safetensors'', wf_regular = True, wf_bytes = sm_bytes d\<rparr>"

definition check :: "bool \<Rightarrow> unit result" where
  "check b = (if b then Inr () else Inl AssertionError)"

text \<open>\<open>b"".join\<close> over the generator: the exception that ends it, if one does.\<close>

definition restored_bytes :: "vault_env \<Rightarrow> manifest \<Rightarrow> files \<Rightarrow> bytes result" where
  "restored_bytes E m fs = (case stream_plaintext E m fs of (parts, None) \<Rightarrow> Inr (concat parts) | (_, Some e) \<Rightarrow> Inl e)"

text \<open>The part of the test after the file has been added: the steps and assertions in order.\<close>

definition smoke_rest ::
    "ed25519 \<Rightarrow> vault_env \<Rightarrow> smoke_draw \<Rightarrow> manifest \<Rightarrow> files \<Rightarrow> vault_receipts \<Rightarrow> (string list \<times> files \<times> vault_receipts) result" where
  "smoke_rest C E d m fs rcpts0 =
     bindR (vr_emit ''vault.add'' (mm_model m) ''smoke'' (manifest_to_dict m) (sm_add_id d) (sm_add_clock d) rcpts0) (\<lambda>(_, rcpts).
     bindR (check (fst (vault_verify m fs))) (\<lambda>_.
     bindR (restored_bytes E m fs) (\<lambda>restored.
     bindR (check (sha_hex restored = sha_hex (sm_bytes d))) (\<lambda>_.
       let request = sign_request C (sm_key d) (mm_model m) ''read'' None None (sm_nonce d) (Fin (sm_signed_at d)) in
     bindR (check (verify_request C (Fin (sm_checked_at d)) (Fin 300) request = (True, ''ok''))) (\<lambda>_.
     bindR (acl_open acl_file fs) (\<lambda>(a, fs1).
     bindR (acl_allow (mm_model m) (ar_requester request) a fs1) (\<lambda>(a', fs2).
     bindR (check (is_allowed a' (mm_model m) (ar_requester request))) (\<lambda>_.
     bindR (vr_emit ''vault.open'' (mm_model m) (ar_requester request) [(''purpose'', JStr ''read'')] (sm_open_id d)
              (sm_open_clock d) rcpts) (\<lambda>(_, rcpts').
     bindR (verify_chain rcpts') (\<lambda>(chain_ok, _).
     bindR (check chain_ok) (\<lambda>_.
     bindR (stats E fs2) (\<lambda>s.
       Inr ([dumps pretty (stats_json s), ''SMOKE TEST: BUILD GREEN''], fs2, rcpts')))))))))))))"

definition smoke_run :: "ed25519 \<Rightarrow> vault_env \<Rightarrow> smoke_draw \<Rightarrow> cli_world \<Rightarrow> (string list \<times> files \<times> vault_receipts) result" where
  "smoke_run C E d w =
     (case cli_components E w of
        (Inl e, _) \<Rightarrow> Inl e
      | (Inr rcpts, w1) \<Rightarrow>
          (case add_file E shard_size_default (smoke_file d) smoke_model ''file://smoke'' ''MIT'' [] (cw_files w1) of
             (Inl e, _) \<Rightarrow> Inl e
           | (Inr m, fs) \<Rightarrow> smoke_rest C E d m fs rcpts))"

end
