(* ===== verification/Cli_Proofs.thy ===== *)
theory Cli_Proofs
  imports Vault_Cli
begin

text \<open>
  What the vault's commands add up to: what \<open>add\<close> wrote, a later \<open>verify\<close> reports as sound, and no
  assertion of the smoke test can fail.
\<close>

section \<open>Opening again\<close>

lemma ensure_config_again:
  assumes "vault_env_ok E" and "length (ve_salt E) = 16" and "vault_open E n fs = Inr fs1" and "0 < n"
    and "dict_get fs2 config_path = dict_get fs1 config_path"
  shows "vault_open E n fs2 = Inr fs2" and "dict_get fs1 config_path \<noteq> None"
proof -
  define accepts where "accepts = (\<lambda>v. case v of
      JObj d \<Rightarrow> if (case dict_get d ''format_version'' of None \<Rightarrow> False | Some x \<Rightarrow> json_eq_int x 1)
        then bindR (config_salt v) (\<lambda>salt. if length salt = 16 then Inr ()
               else Inl (RuntimeError ''unsupported or corrupt vault configuration''))
        else Inl (RuntimeError ''unsupported or corrupt vault configuration'')
    | _ \<Rightarrow> Inl AttributeError)"
  have present: "vault_open E n x = bindR (bindR (read_json x config_path) accepts) (\<lambda>_. Inr x)"
    if "dict_get x config_path \<noteq> None" for x
    using that assms(4)
    by (cases "read_json x config_path")
      (auto simp: vault_open_def ensure_config_def accepts_def bindR_def split: json.splits option.splits sum.splits)
  have cong: "vault_open E n fs2 = Inr fs2" if o: "vault_open E n fs1 = Inr fs1" and c: "dict_get fs1 config_path \<noteq> None"
  proof -
    have "read_json fs2 config_path = read_json fs1 config_path" using assms(5) by (simp add: read_json_def)
    moreover have "dict_get fs2 config_path \<noteq> None" using c assms(5) by simp
    ultimately show ?thesis using o present [OF c] present [of fs2] by (auto simp: bindR_Inr_iff)
  qed
  have "vault_open E n fs1 = Inr fs1 \<and> dict_get fs1 config_path \<noteq> None"
  proof (cases "dict_get fs config_path")
    case None
    have "vault_open E n fs1 = Inr fs1"
      using vault_reopen [OF assms(1,2) None assms(3,4), of E] by simp
    moreover have "dict_get fs1 config_path \<noteq> None"
      using assms(1,3) None by (auto simp: vault_open_def ensure_config_def vault_put_get split: if_splits)
    ultimately show ?thesis ..
  next
    case (Some b)
    then have "fs1 = fs"
      using assms(3) present [of fs] by (auto simp: bindR_Inr_iff)
    then show ?thesis using assms(3) Some by simp
  qed
  then show "vault_open E n fs2 = Inr fs2" and "dict_get fs1 config_path \<noteq> None" using cong by auto
qed

lemma receipt_key_config:
  assumes "dict_get fs2 config_path = dict_get fs1 config_path"
  shows "receipt_key E fs2 = receipt_key E fs1"
proof -
  have "read_json fs2 config_path = read_json fs1 config_path" using assms by (simp add: read_json_def)
  then show ?thesis by (simp only: receipt_key_def master_key_def)
qed

lemma add_keeps_config:
  assumes "vault_env_ok E" and "add_file E n f model source lic md fs = (r, fs')" and "dict_get fs config_path \<noteq> None"
  shows "dict_get fs' config_path = dict_get fs config_path"
  using add_file_keeps [OF assms(1), of config_path fs _ n f model source lic md] assms(2,3) by force

lemma cli_components_Inr:
  assumes "cli_components E w = (Inr rcpts, w1)"
  obtains fs key where "vault_open E shard_size_default (cw_files w) = Inr fs" and "w1 = w\<lparr>cw_files := fs\<rparr>"
    and "receipt_key E fs = Inr key" and "vault_receipts_open key (cw_rows w) = Inr rcpts"
  using assms that by (auto simp: cli_components_def cli_store_def bindR_Inr_iff split: sum.splits prod.splits)

lemma receipts_open_rows:
  "vault_receipts_open key rows = Inr rcpts \<Longrightarrow> rcpts = \<lparr>vq_key = key, vq_rows = rows\<rparr> \<and>
     vault_receipts_open key rows' = Inr \<lparr>vq_key = key, vq_rows = rows'\<rparr>"
  by (auto simp: vault_receipts_open_def split: if_splits)

lemma cmd_add_cases:
  assumes "cmd_add E f model source lic uuid clock w = ((out, Inr ()), w')"
  obtains rcpts w1 m fs r where "cli_components E w = (Inr rcpts, w1)"
    and "add_file E shard_size_default f model source lic [] (cw_files w1) = (Inr m, fs)"
    and "vr_emit ''vault.add'' (mm_model m) ''cli'' (add_payload m) uuid clock rcpts = Inr (uuid, rcpts\<lparr>vq_rows := vq_rows rcpts @ [r]\<rparr>)"
    and "w' = \<lparr>cw_files = fs, cw_rows = vq_rows rcpts @ [r]\<rparr>"
proof -
  obtain rcpts w1 m fs rid rcpts' where c: "cli_components E w = (Inr rcpts, w1)"
    and a: "add_file E shard_size_default f model source lic [] (cw_files w1) = (Inr m, fs)"
    and e: "vr_emit ''vault.add'' (mm_model m) ''cli'' (add_payload m) uuid clock rcpts = Inr (rid, rcpts')"
    and w': "w' = \<lparr>cw_files = fs, cw_rows = vq_rows rcpts'\<rparr>"
    using assms by (auto simp: cmd_add_def split: sum.splits prod.splits)
  obtain r where r: "rcpts' = rcpts\<lparr>vq_rows := vq_rows rcpts @ [r]\<rparr>" "rid = uuid"
    using vr_emit_cases [OF e] by blast
  have "vr_emit ''vault.add'' (mm_model m) ''cli'' (add_payload m) uuid clock rcpts = Inr (uuid, rcpts\<lparr>vq_rows := vq_rows rcpts @ [r]\<rparr>)"
    using e unfolding r .
  moreover have "w' = \<lparr>cw_files = fs, cw_rows = vq_rows rcpts @ [r]\<rparr>" using w' by (simp add: r)
  ultimately show thesis using that c a by blast
qed

text \<open>C39: What \<open>add\<close> has added, \<open>verify\<close> reports as sound: if the receipt chain verified before, then after an
  \<open>add\<close> that succeeded \<open>verify --model-id\<close> prints OK for the model and for the chain, which is one receipt
  longer, exits normally and changes nothing.\<close>

theorem cli_add_then_verify:
  assumes "vault_env_ok E" and "length (ve_salt E) = 16"
    and "\<forall>rcpts w1. cli_components E w = (Inr rcpts, w1) \<longrightarrow> (\<exists>h. verify_chain rcpts = Inr (True, h))"
    and "cmd_add E f model source lic uuid clock w = ((out, Inr ()), w')"
  shows "\<exists>head. cmd_verify E (Some model) w' =
     (([model @ '': OK'',
        ''receipt chain: OK ('' @ int_str (int (length (cw_rows w)) + 1) @ '' receipts; '' @ take 12 head @ '')''], Inr ()), w')"
proof (rule cmd_add_cases [OF assms(4)])
  fix rcpts w1 m fs r
  assume c: "cli_components E w = (Inr rcpts, w1)"
    and add: "add_file E shard_size_default f model source lic [] (cw_files w1) = (Inr m, fs)"
    and em: "vr_emit ''vault.add'' (mm_model m) ''cli'' (add_payload m) uuid clock rcpts = Inr (uuid, rcpts\<lparr>vq_rows := vq_rows rcpts @ [r]\<rparr>)"
    and w': "w' = \<lparr>cw_files = fs, cw_rows = vq_rows rcpts @ [r]\<rparr>"
  let ?rcpts = "rcpts\<lparr>vq_rows := vq_rows rcpts @ [r]\<rparr>"
  obtain fs1 key where o: "vault_open E shard_size_default (cw_files w) = Inr fs1" and w1: "w1 = w\<lparr>cw_files := fs1\<rparr>"
    and k: "receipt_key E fs1 = Inr key" and ro: "vault_receipts_open key (cw_rows w) = Inr rcpts"
    by (rule cli_components_Inr [OF c])
  have n: "0 < shard_size_default" by (simp add: shard_size_default_def)
  have cfg1: "dict_get fs1 config_path \<noteq> None" using ensure_config_again(2) [OF assms(1,2) o n refl] .
  have cfg: "dict_get fs config_path = dict_get fs1 config_path"
    using add_keeps_config [OF assms(1) add] cfg1 by (simp add: w1)
  have rows: "rcpts = \<lparr>vq_key = key, vq_rows = cw_rows w\<rparr>" using receipts_open_rows [OF ro] by simp
  have comp: "cli_components E w' = (Inr ?rcpts, w')"
    using ensure_config_again(1) [OF assms(1,2) o n cfg] receipt_key_config [OF cfg] k receipts_open_rows [OF ro]
    by (simp add: cli_components_def cli_store_def w' rows)
  have model: "model \<noteq> []" using add_file_Inr [OF add] by simp
  have found: "get_manifest E model fs = Inr (Some (manifest_norm m))" by (rule add_file_found [OF assms(1) add]) simp
  note st = add_file_stored [OF assms(1) add]
  have ok: "vault_verify (manifest_norm m) fs = (True, [])"
    using model_stored_verifies [OF assms(1)] st(1) by simp
  obtain h where "verify_chain rcpts = Inr (True, h)" using assms(3) c by blast
  then have "vlog.valid_from (vq_key ?rcpts) ''genesis'' (vq_rows ?rcpts)"
    using vr_emit_valid [OF em] by (simp add: verify_chain_True_iff)
  then have chain: "verify_chain ?rcpts = Inr (True, vr_last_sig (vq_rows ?rcpts))" by (simp add: verify_chain_True_iff)
  have "cmd_verify E (Some model) w' =
     (([model @ '': OK'', chain_line True ?rcpts (vr_last_sig (vq_rows ?rcpts))], Inr ()), w')"
    using comp chain ok st(2) model found
    by (simp add: cmd_verify_def verify_selection_def w' verify_lines_def pass_text_def)
  then show ?thesis
    by (auto simp: chain_line_def pass_text_def vr_count_def rows algebra_simps)
qed

section \<open>Files the store does not write\<close>

lemma vault_put_absent:
  assumes "vault_env_ok E" and "vault_path p" and "q \<noteq> p" and "dict_get fs q = None"
  shows "dict_get (vault_put E p v fs) q = None"
  using assms by (auto simp: vault_put_def vault_env_ok_def atomic_put_ok_get)

lemma store_shards_absent:
  assumes E: "vault_env_ok E" and q: "\<forall>h. q \<noteq> shard_path h"
  shows "dict_get fs q = None \<Longrightarrow> dict_get (snd (store_shards E model i cs fs)) q = None"
proof (induction cs arbitrary: i fs)
  case (Cons chunk rest)
  obtain blob sh where s: "seal_shard E model i chunk = (blob, sh)" by fastforce
  obtain r fs1 where w: "write_shard E blob (sh_cipher_hash sh) fs = (r, fs1)" by fastforce
  have "dict_get fs1 q = None"
    using w Cons.prems q vault_put_absent [OF E] by (auto simp: write_shard_def split: option.splits if_splits)
  then show ?case using Cons.IH [of fs1 "Suc i"] s w by (auto split: sum.splits prod.splits)
qed simp

lemma add_file_absent:
  assumes E: "vault_env_ok E" and "add_file E n f model source lic md fs = (Inr m, fs')"
    and q: "\<not> vault_path q" "dict_get fs q = None"
  shows "dict_get fs' q = None"
proof -
  obtain shards fs1 fs2 where st: "store_shards E model 0 (chunks (nat n) (wf_bytes f)) fs = (Inr shards, fs1)"
    and wk: "wrap_key E (''k_'' @ ve_uuid E) (ve_data_key E) fs1 = Inr fs2"
    and fs': "fs' = vault_put E (manifest_path model) (utf8_encode (manifest_to_json m)) fs2"
    using add_file_Inr [OF assms(2)] by blast
  have ne: "\<forall>h. q \<noteq> shard_path h" "q \<noteq> key_path k" "q \<noteq> manifest_path x" for k x using q(1) by (auto simp: vault_path_def)
  have "dict_get fs1 q = None" using store_shards_absent [OF E ne(1) q(2)] st by (metis snd_conv)
  then have "dict_get fs2 q = None" using wk ne(2) vault_put_absent [OF E] by (auto simp: wrap_key_def bindR_Inr_iff)
  then show ?thesis using ne(3) vault_put_absent [OF E] by (simp add: fs')
qed

lemma acl_file_apart: "\<not> vault_path acl_file"
  by (auto simp: vault_path_def acl_file_def config_path_def shard_path_def manifest_path_def key_path_def)

section \<open>The smoke test\<close>

lemma allow_made_key:
  assumes "ed_correct C"
  shows "\<exists>a' fs'. acl_allow m (hex (ed_public C sk)) a fs = Inr (a', fs') \<and> is_allowed a' m (hex (ed_public C sk))"
  using ed_correctD(1) [OF assms, of sk]
  by (simp add: acl_allow_def Let_def is_allowed_def acl_keys_set)

lemma vr_emit_fresh:
  assumes "uuid \<notin> set (map vr_id (vq_rows st))"
  shows "\<exists>r. vr_emit kind model actor payload uuid clock st = Inr (uuid, st\<lparr>vq_rows := vq_rows st @ [r]\<rparr>) \<and> vr_id r = uuid"
  using assms by (auto simp: vr_emit_def Let_def)

text \<open>No assertion of the smoke test can fail: with correct cryptography, fresh receipt identifiers, a
  chain that verifies and clocks within the window, in a vault without access rules, once the file is
  added every check of the test holds and it ends by printing the statistics and BUILD GREEN.\<close>

theorem smoke_green:
  assumes "vault_env_ok E" and "ed_correct C" and "length (sm_nonce d) = 32"
    and "\<bar>sm_checked_at d - sm_signed_at d\<bar> \<le> 300"
    and "cli_components E w = (Inr rcpts, w1)" and "verify_chain rcpts = Inr (True, h)"
    and "distinct (sm_add_id d # sm_open_id d # map vr_id (vq_rows rcpts))"
    and "add_file E shard_size_default (smoke_file d) smoke_model ''file://smoke'' ''MIT'' [] (cw_files w1) = (Inr m, fs)"
    and "dict_get (cw_files w1) acl_file = None"
  shows "\<exists>fs2 rcpts'. smoke_run C E d w =
     bindR (stats E fs2) (\<lambda>s. Inr ([dumps pretty (stats_json s), ''SMOKE TEST: BUILD GREEN''], fs2, rcpts'))"
proof -
  have f1: "sm_add_id d \<notin> set (map vr_id (vq_rows rcpts))" using assms(7) by simp
  obtain r1 where e1: "vr_emit ''vault.add'' (mm_model m) ''smoke'' (manifest_to_dict m) (sm_add_id d) (sm_add_clock d) rcpts =
      Inr (sm_add_id d, rcpts\<lparr>vq_rows := vq_rows rcpts @ [r1]\<rparr>)" and i1: "vr_id r1 = sm_add_id d"
    using vr_emit_fresh [OF f1] by blast
  let ?r1 = "rcpts\<lparr>vq_rows := vq_rows rcpts @ [r1]\<rparr>" and ?pk = "hex (ed_public C (sm_key d))"
  have f2: "sm_open_id d \<notin> set (map vr_id (vq_rows ?r1))" using assms(7) i1 by auto
  obtain r2 where e2: "vr_emit ''vault.open'' (mm_model m) ?pk [(''purpose'', JStr ''read'')] (sm_open_id d) (sm_open_clock d) ?r1 =
      Inr (sm_open_id d, ?r1\<lparr>vq_rows := vq_rows ?r1 @ [r2]\<rparr>)"
    using vr_emit_fresh [OF f2] by blast
  let ?r2 = "?r1\<lparr>vq_rows := vq_rows ?r1 @ [r2]\<rparr>"
  have "vlog.valid_from (vq_key ?r2) ''genesis'' (vq_rows ?r2)"
    using vr_emit_valid [OF e2] vr_emit_valid [OF e1] assms(6) by (simp add: verify_chain_True_iff)
  then have chain: "verify_chain ?r2 = Inr (True, vr_last_sig (vq_rows ?r2))" by (simp add: verify_chain_True_iff)
  note st = add_file_stored [OF assms(1,8)]
  have ok: "vault_verify m fs = (True, [])" by (rule model_stored_verifies [OF assms(1) st(1)])
  have "concat (chunks (nat shard_size_default) (sm_bytes d)) = sm_bytes d"
    by (rule concat_chunks) (simp add: shard_size_default_def)
  then have rest: "restored_bytes E m fs = Inr (sm_bytes d)"
    using model_stored_streams [OF assms(1) st(1)] by (simp add: restored_bytes_def smoke_file_def)
  have req: "verify_request C (Fin (sm_checked_at d)) (Fin 300)
      (sign_request C (sm_key d) (mm_model m) ''read'' None None (sm_nonce d) (Fin (sm_signed_at d))) = (True, ''ok'')"
    by (rule signed_request_verifies) (use assms(2,3,4) st(2) in \<open>simp_all add: smoke_model_def\<close>)
  have "dict_get fs acl_file = None" by (rule add_file_absent [OF assms(1,8) acl_file_apart assms(9)])
  then obtain a fs1 where o: "acl_open acl_file fs = Inr (a, fs1)" by (simp add: acl_open_def Let_def)
  obtain a' fs2 where al: "acl_allow (mm_model m) ?pk a fs1 = Inr (a', fs2)" "is_allowed a' (mm_model m) ?pk"
    using allow_made_key [OF assms(2)] by blast
  have "smoke_run C E d w =
     bindR (stats E fs2) (\<lambda>s. Inr ([dumps pretty (stats_json s), ''SMOKE TEST: BUILD GREEN''], fs2, ?r2))"
    using e2 chain al by (simp add: smoke_run_def assms(5,8) o smoke_rest_def e1 ok rest req check_def Let_def)
  then show ?thesis by blast
qed

section \<open>A sample vault\<close>

abbreviation cli_start :: cli_world where
  "cli_start \<equiv> \<lparr>cw_files = sample_vault, cw_rows = []\<rparr>"

definition cli_key :: bytes where
  "cli_key = hkdf_derive sample_kdf receipt_info (scrypt_derive sample_kdf (replicate 16 0) (utf8_encode ''pw''))"

lemma cli_start_components: "cli_components sample_env cli_start = (Inr \<lparr>vq_key = cli_key, vq_rows = []\<rparr>, cli_start)"
proof -
  have o: "vault_open sample_env 4 [] = Inr sample_vault"
    by (simp add: sample_vault_def vault_open_def ensure_config_def dict_get_def)
  have "vault_open sample_env shard_size_default sample_vault = Inr sample_vault \<and>
     (\<forall>pass. pass \<noteq> [] \<longrightarrow> master_key (sample_env\<lparr>ve_pass := Some pass\<rparr>) sample_vault =
        Inr (scrypt_derive (ve_kdf sample_env) (ve_salt sample_env) (utf8_encode pass)))"
    by (rule vault_reopen [OF sample_env_ok _ _ o]) (simp_all add: sample_env_def dict_get_def shard_size_default_def)
  moreover have "sample_env\<lparr>ve_pass := Some ''pw''\<rparr> = sample_env" by (simp add: sample_env_def)
  ultimately have "vault_open sample_env shard_size_default sample_vault = Inr sample_vault"
    and "master_key sample_env sample_vault = Inr (scrypt_derive sample_kdf (replicate 16 0) (utf8_encode ''pw''))"
    by (auto simp: sample_env_def [THEN arg_cong [where f = ve_kdf]] sample_env_def [THEN arg_cong [where f = ve_salt]]
        dest!: spec [of _ "''pw''"])
  moreover have "length cli_key = 32" by (simp add: cli_key_def sample_kdf_def)
  ultimately show ?thesis
    by (simp add: cli_components_def cli_store_def receipt_key_def vault_receipts_open_def cli_key_def
        sample_env_def [THEN arg_cong [where f = ve_kdf]])
qed

lemma cli_sample_add:
  assumes "lower (wf_suffix f) \<in> set allowed_suffixes" and "wf_regular f" and "wf_bytes f = [1, 2, 3]"
    and "model \<noteq> []" and "length model \<le> 512"
  shows "\<exists>m fs. add_file sample_env shard_size_default f model source lic [] sample_vault = (Inr m, fs)"
proof (rule add_file_succeeds)
  show "master_key sample_env sample_vault =
      Inr (scrypt_derive (ve_kdf sample_env) (ve_salt sample_env) (utf8_encode ''pw''))"
    by (rule master_key_new) (simp_all add: sample_env_def [THEN arg_cong [where f = ve_pass]])
  have "sealed sample_env model 0 (chunks (nat shard_size_default) (wf_bytes f)) = [seal_shard sample_env model 0 [1, 2, 3]]"
    by (simp add: assms(3) chunks.simps shard_size_default_def)
  then show "no_collision (fst ` set (sealed sample_env model 0 (chunks (nat shard_size_default) (wf_bytes f))))"
    by simp
qed (use assms in \<open>simp_all add: shard_size_default_def\<close>)

theorem cli_add_then_verify_witness:
  "\<exists>out w' lines. cmd_add sample_env sample_file ''m'' ''s'' ''mit'' ''u1'' (Fin 7) cli_start = ((out, Inr ()), w') \<and>
     cmd_verify sample_env (Some ''m'') w' = ((''m: OK'' # lines, Inr ()), w')"
proof -
  have "\<exists>m fs. add_file sample_env shard_size_default sample_file ''m'' ''s'' ''mit'' [] sample_vault = (Inr m, fs)"
    by (rule cli_sample_add) (simp_all add: sample_file_def lower_def code_def allowed_suffixes_def)
  then obtain m fs where a: "add_file sample_env shard_size_default sample_file ''m'' ''s'' ''mit'' [] sample_vault = (Inr m, fs)"
    by blast
  obtain r where e: "vr_emit ''vault.add'' (mm_model m) ''cli'' (add_payload m) ''u1'' (Fin 7) \<lparr>vq_key = cli_key, vq_rows = []\<rparr> =
      Inr (''u1'', \<lparr>vq_key = cli_key, vq_rows = [r]\<rparr>)"
    using vr_emit_fresh [of "''u1''" "\<lparr>vq_key = cli_key, vq_rows = []\<rparr>"] by fastforce
  obtain out w' where c: "cmd_add sample_env sample_file ''m'' ''s'' ''mit'' ''u1'' (Fin 7) cli_start = ((out, Inr ()), w')"
    by (simp add: cmd_add_def cli_start_components a e)
  have "\<forall>rcpts w1. cli_components sample_env cli_start = (Inr rcpts, w1) \<longrightarrow> (\<exists>h. verify_chain rcpts = Inr (True, h))"
    by (simp add: cli_start_components verify_chain_def)
  from cli_add_then_verify [OF sample_env_ok _ this c] c show ?thesis
    by (auto simp: sample_env_def [THEN arg_cong [where f = ve_salt]])
qed

definition sample_draw :: smoke_draw where
  "sample_draw = \<lparr>sm_bytes = [1, 2, 3], sm_key = [1], sm_add_id = ''u1'', sm_open_id = ''u2'', sm_nonce = replicate 32 (CHR ''a''),
     sm_signed_at = 1000, sm_checked_at = 1001, sm_add_clock = Fin 999, sm_open_clock = Fin 1002\<rparr>"

lemma sample_vault_acl: "dict_get sample_vault acl_file = None"
proof -
  have "acl_file \<noteq> config_path" by (simp add: acl_file_def config_path_def)
  then show ?thesis
    using vault_put_absent [OF sample_env_ok, of config_path acl_file "[]"]
    by (simp add: sample_vault_def vault_open_def ensure_config_def dict_get_def [of "[]"])
qed

theorem smoke_green_witness:
  "\<exists>fs rcpts'. smoke_run sample_ed sample_env sample_draw cli_start =
     bindR (stats sample_env fs) (\<lambda>s. Inr ([dumps pretty (stats_json s), ''SMOKE TEST: BUILD GREEN''], fs, rcpts'))"
proof -
  have "\<exists>m fs. add_file sample_env shard_size_default (smoke_file sample_draw) smoke_model ''file://smoke'' ''MIT'' [] sample_vault = (Inr m, fs)"
    by (rule cli_sample_add) (simp_all add: smoke_file_def sample_draw_def lower_def code_def allowed_suffixes_def smoke_model_def)
  then obtain m fs where a: "add_file sample_env shard_size_default (smoke_file sample_draw) smoke_model ''file://smoke'' ''MIT'' []
      (cw_files cli_start) = (Inr m, fs)" by auto
  have "verify_chain \<lparr>vq_key = cli_key, vq_rows = []\<rparr> = Inr (True, ''genesis'')" by (simp add: verify_chain_def)
  from smoke_green [OF sample_env_ok sample_ed_correct _ _ cli_start_components this _ a] show ?thesis
    by (simp add: sample_draw_def sample_vault_acl)
qed

end
