(* ===== verification/Models_Cli.thy ===== *)
theory Models_Cli
  imports Model_Mirror
begin

text \<open>
  The command line \<open>decillion-models\<close>, the \<open>main\<close> of \<open>decillion/models.py\<close>, after its arguments have been
  parsed: each command composes the operations on the hub and the vault and prints JSON. The commands of
  one world name the same destination; \<open>mw_disk\<close> is what lies below it, \<open>mw_outputs\<close> the files that
  \<open>discover\<close> has written elsewhere. Where an output path leads is an argument: \<open>ms_below\<close> gives its
  components below the destination, if it lies there.
\<close>

record models_world =
  mw_root :: string
  mw_disk :: disk
  mw_outputs :: files

record models_io =
  ms_hub :: "hub option"
  ms_mirror :: mirror_io
  ms_init :: wv_io
  ms_free :: int
  ms_below :: "path \<Rightarrow> wpath option"
  ms_now :: "nat \<Rightarrow> string"

datatype models_command =
    Discover string int path
  | MirrorModel string string bool "string list option"
  | VaultInit int int
  | VaultStatus
  | VaultVerify string string

text \<open>The hub client is an optional package; without it the commands that need it end.\<close>

definition the_hub :: "hub option \<Rightarrow> hub result" where
  "the_hub h = (case h of
     None \<Rightarrow> Inl (SystemExit (''Install model support with: pip install -e '' @ [CHR 39] @ ''.[models]'' @ [CHR 39]))
   | Some H \<Rightarrow> Inr H)"

text \<open>\<open>json.dumps\<close> without options.\<close>

definition spaced :: json_cfg where
  "spaced = \<lparr>ensure_ascii = True, item_sep = '', '', key_sep = '': '', indent = None\<rparr>"

definition record_json :: "model_record \<Rightarrow> json" where
  "record_json x = JObj [(''model_id'', JStr (mx_model x)),
     (''revision'', case mx_revision x of None \<Rightarrow> JNull | Some s \<Rightarrow> JStr s), (''license'', JStr (mx_license x)),
     (''downloads'', JInt (mx_downloads x)), (''discovered_at'', JStr (mx_discovered x))]"

definition status_json :: "vault_status \<Rightarrow> json" where
  "status_json s = JObj [(''root'', JStr (vs_root s)), (''vault_id'', JStr (vs_id s)), (''quota_bytes'', JInt (vs_quota s)),
     (''reserve_bytes'', JInt (vs_reserve s)), (''used_bytes'', JInt (vs_used s)), (''free_bytes'', JInt (vs_free s)),
     (''model_snapshots'', JInt (vs_snapshots s))]"

type_synonym models_result = "(string list \<times> unit result) \<times> models_world"

definition printed :: "json result \<Rightarrow> models_world \<Rightarrow> models_result" where
  "printed r w = (case r of Inl e \<Rightarrow> (([], Inl e), w) | Inr v \<Rightarrow> (([dumps pretty v], Inr ()), w))"

text \<open>\<open>path.parent.mkdir(parents=True, exist_ok=True)\<close> and \<open>path.write_text\<close> below the destination.\<close>

definition write_below :: "wpath \<Rightarrow> bytes \<Rightarrow> disk \<Rightarrow> unit result \<times> disk" where
  "write_below p bs d =
     (case mkdirs (path_and_parents (butlast p)) d of
        (Inl e, d1) \<Rightarrow> (Inl e, d1)
      | (Inr _, d1) \<Rightarrow>
          if p = [] \<or> dict_get d1 p = Some FDir then (Inl (OSError ''Is a directory''), d1)
          else (case dict_get d1 p of
              Some (FLink _) \<Rightarrow> (Inr (), dict_set p (FLink (Some bs)) d1)
            | _ \<Rightarrow> (Inr (), dict_set p (FFile bs) d1)))"

definition records_text :: "model_record list \<Rightarrow> bytes" where
  "records_text values = utf8_encode (dumps pretty (JArr (map record_json values)) @ [CHR 10])"

definition run_discover :: "models_io \<Rightarrow> string \<Rightarrow> int \<Rightarrow> path \<Rightarrow> models_world \<Rightarrow> models_result" where
  "run_discover io license limit output w =
     (case bindR (the_hub (ms_hub io)) (\<lambda>H. discover H (ms_now io) license (max 1 (min limit 1000))) of
        Inl e \<Rightarrow> (([], Inl e), w)
      | Inr values \<Rightarrow>
          (let line = dumps spaced (JObj [(''models'', JInt (int (length values))), (''output'', JStr output)]) in
           (case ms_below io output of
              None \<Rightarrow> (([line], Inr ()), w\<lparr>mw_outputs := dict_set output (records_text values) (mw_outputs w)\<rparr>)
            | Some p \<Rightarrow>
                (case write_below p (records_text values) (mw_disk w) of
                   (Inl e, d) \<Rightarrow> (([], Inl e), w\<lparr>mw_disk := d\<rparr>)
                 | (Inr _, d) \<Rightarrow> (([line], Inr ()), w\<lparr>mw_disk := d\<rparr>)))))"

definition run_mirror :: "models_io \<Rightarrow> string \<Rightarrow> string \<Rightarrow> bool \<Rightarrow> string list option \<Rightarrow> models_world \<Rightarrow> models_result" where
  "run_mirror io model_id license include_weights patterns w =
     (case the_hub (ms_hub io) of
        Inl e \<Rightarrow> (([], Inl e), w)
      | Inr H \<Rightarrow>
          (let (r, d) = mirror H (ms_mirror io) model_id license (mw_root w) include_weights patterns (mw_disk w)
           in printed (bindR r (\<lambda>rec. Inr (JObj rec))) (w\<lparr>mw_disk := d\<rparr>)))"

definition run_init :: "models_io \<Rightarrow> int \<Rightarrow> int \<Rightarrow> models_world \<Rightarrow> models_result" where
  "run_init io quota reserve w =
     (let (r, d) = wv_initialize (ms_init io) (mw_root w) quota reserve (mw_disk w)
      in printed (bindR r (\<lambda>V. bindR (wv_status V (ms_free io) d) (\<lambda>s. Inr (status_json s)))) (w\<lparr>mw_disk := d\<rparr>))"

definition run_status :: "models_io \<Rightarrow> models_world \<Rightarrow> models_result" where
  "run_status io w =
     printed (bindR (wv_open (mw_root w) (mw_disk w)) (\<lambda>V.
       bindR (wv_status V (ms_free io) (mw_disk w)) (\<lambda>s. Inr (status_json s)))) w"

definition run_verify :: "string \<Rightarrow> string \<Rightarrow> models_world \<Rightarrow> models_result" where
  "run_verify model_id revision w =
     printed (bindR (wv_open (mw_root w) (mw_disk w)) (\<lambda>V.
       bindR (wv_verify V model_id revision (mw_disk w)) (\<lambda>manifest. Inr (JObj manifest)))) w"

fun run_models :: "models_io \<Rightarrow> models_command \<Rightarrow> models_world \<Rightarrow> models_result" where
  "run_models io (Discover license limit output) w = run_discover io license limit output w"
| "run_models io (MirrorModel model_id license include_weights patterns) w =
     run_mirror io model_id license include_weights patterns w"
| "run_models io (VaultInit quota reserve) w = run_init io quota reserve w"
| "run_models io VaultStatus w = run_status io w"
| "run_models io (VaultVerify model_id revision) w = run_verify model_id revision w"

end
