(* ===== verification/Models_Cli_Proofs.thy ===== *)
theory Models_Cli_Proofs
  imports Models_Cli Mirror_Examples
begin

text \<open>What sessions of the command line \<open>decillion-models\<close> amount to.\<close>

section \<open>A fresh vault\<close>

definition init_config :: "wv_io \<Rightarrow> int \<Rightarrow> int \<Rightarrow> (string, json) dict" where
  "init_config io quota reserve = [(''format_version'', JInt format_version), (''vault_id'', JStr (wi_uuid io)),
     (''created_at'', JStr (wi_now io)), (''quota_bytes'', JInt quota), (''reserve_bytes'', JInt reserve)]"

lemma mkdir_new_Inr: "mkdir_new p d = (Inr u, d') \<longleftrightarrow> dict_get d p = None \<and> d' = dict_set p FDir d"
  by (auto simp: mkdir_new_def)

lemma init_fresh:
  assumes "wv_initialize io home quota reserve [] = (Inr V, d)" and "wi_tmp io \<noteq> [marker]"
  shows "V = \<lparr>wv_root = home, wv_config = init_config io quota reserve\<rparr>" (is ?V)
    and "dict_get d p = (if p = [marker] then Some (FFile (json_file (JObj (init_config io quota reserve))))
      else if p \<in> {[''models''], [''.staging''], [''.locks'']} then Some FDir else None)" (is ?get)
    and "dict_ok d" (is ?ok)
proof -
  let ?a = "atomic_json (wi_fault io) (wi_tmp io) [marker] (JObj (init_config io quota reserve)) []"
  have no: "\<not> path_exists [] [marker]" by (simp add: path_exists_def dict_get_def)
  obtain d1 where a: "?a = (Inr (), d1)"
    and d: "d = dict_set [''.locks''] FDir (dict_set [''.staging''] FDir (dict_set [''models''] FDir d1))"
    and V: "wv_new home (JObj (init_config io quota reserve)) = Inr V"
    using assms(1) no
    by (cases ?a rule: prod.exhaust)
      (auto simp: wv_initialize_def Let_def mkdir_new_Inr init_config_def split: if_splits sum.splits prod.splits)
  have "dict_get d1 q = (if q = [marker] then Some (FFile (json_file (JObj (init_config io quota reserve)))) else None)" for q
    using atomic_json_get [OF assms(2), of "[]" "wi_fault io" "JObj (init_config io quota reserve)" q] a
    by (simp add: dict_get_def)
  then show ?get by (simp add: d dict.lookup_store marker_def)
  show ?V using V by (auto simp: wv_new_def split: if_splits)
  have "dict_ok d1" using atomic_json_ok [of "[]" "wi_fault io" "wi_tmp io" "[marker]" "JObj (init_config io quota reserve)"] a by simp
  then show ?ok by (simp add: d dict.wf_store)
qed


lemma init_config_get:
  "dict_get (sorted_dict (init_config io quota reserve)) k = dict_get (init_config io quota reserve) k"
proof -
  have "dict_get (sorted_dict (init_config io quota reserve)) k = map_option sort_keys (dict_get (init_config io quota reserve) k)"
    by (rule sorted_dict_get) (simp add: init_config_def)
  then show ?thesis by (simp add: init_config_def dict_get_def)
qed

lemma init_fresh_open:
  assumes "wv_initialize io home quota reserve [] = (Inr V, d)" and "wi_tmp io \<noteq> [marker]"
  shows "\<exists>V'. wv_open home d = Inr V' \<and> wv_status V' free d = wv_status V free d"
proof -
  have "json_ok (JObj (init_config io quota reserve))" by (simp add: init_config_def)
  then have "wv_open home d = Inr \<lparr>wv_root = home, wv_config = sorted_dict (init_config io quota reserve)\<rparr>"
    using read_json_file [of "init_config io quota reserve"]
    by (simp add: wv_open_def read_file_def init_fresh(2) [OF assms] wv_new_def init_config_get)
      (simp add: init_config_def dict_get_def eq_int_def format_version_def)
  moreover have "wv_status \<lparr>wv_root = home, wv_config = sorted_dict (init_config io quota reserve)\<rparr> free d = wv_status V free d"
    by (simp add: wv_status_def init_fresh(1) [OF assms] init_config_get dict_get_default_eq cong: option.case_cong)
  ultimately show ?thesis by blast
qed

text \<open>What \<open>vault-init\<close> prints is what \<open>vault-status\<close> then prints.\<close>

lemma init_then_status:
  assumes "run_models io (VaultInit quota reserve) \<lparr>mw_root = home, mw_disk = [], mw_outputs = outs\<rparr> = ((lines, Inr ()), w)"
    and "wi_tmp (ms_init io) \<noteq> [marker]"
  shows "run_models io VaultStatus w = ((lines, Inr ()), w)"
proof -
  obtain V d where i: "wv_initialize (ms_init io) home quota reserve [] = (Inr V, d)"
      "w = \<lparr>mw_root = home, mw_disk = d, mw_outputs = outs\<rparr>" "printed (bindR (wv_status V (ms_free io) d) (\<lambda>s. Inr (status_json s))) w = ((lines, Inr ()), w)"
    using assms(1)
    by (cases "wv_initialize (ms_init io) home quota reserve []" rule: prod.exhaust; cases "fst (wv_initialize (ms_init io) home quota reserve [])")
      (auto simp: run_init_def printed_def bindR_def split: sum.splits)
  then show ?thesis using init_fresh_open [OF i(1) assms(2), of "ms_free io"] by (auto simp: run_status_def)
qed

section \<open>Sessions\<close>

text \<open>A vault as the commands leave it, and what one command keeps of it.\<close>

definition vault_ready :: "models_world \<Rightarrow> bool" where
  "vault_ready w \<longleftrightarrow> disk_ok (mw_disk w) \<and> dict_get (mw_disk w) [''.staging''] = Some FDir \<and> path_exists (mw_disk w) [marker]"











section \<open>Properties\<close>


text \<open>Why the condition: \<open>discover\<close> writes wherever it is told, also over the marker of the vault, and then
  no command opens the vault any more.\<close>

lemma records_text_read: "loads_bytes (records_text values) = Inr (JArr (map record_json values))"
proof -
  have "json_ok (JArr (map record_json values))"
    by (auto simp: record_json_def list_all_iff split: option.split)
  then show ?thesis
    unfolding loads_bytes_def records_text_def
    by (simp add: loads_dumps_ws is_ws_def code_def del: json_ok.simps)
qed

lemma discover_over_marker:
  assumes "run_models io (Discover lic limit output) w = ((lines, Inr ()), w')" and "ms_below io output = Some [marker]"
    and "vault_ready w"
  shows "run_models io' (VaultVerify m r) w' = (([], Inl AttributeError), w')"
proof -
  obtain vs d where d: "write_below [marker] (records_text vs) (mw_disk w) = (Inr (), d)" "w' = w\<lparr>mw_disk := d\<rparr>"
    using assms(1,2) by (auto simp: run_discover_def Let_def split: sum.splits prod.splits)
  have "read_file d [marker] = Some (records_text vs)"
    using d(1) by (auto simp: write_below_def path_and_parents_def read_file_def dict.lookup_store split: if_splits option.splits node.splits)
  then have "wv_open (mw_root w) d = Inl AttributeError" by (simp add: wv_open_def records_text_read wv_new_def)
  then show ?thesis by (simp add: d(2) run_verify_def printed_def)
qed




end
