(* ===== verification/Py_Regex.thy ===== *)
theory Py_Regex
  imports Py_Convert
begin

text \<open>
  Text as Python reads it from a file, in full Unicode (a list of code points), and the fragment of
  \<open>re\<close> that occurs in the source: literal text, bounded repetitions of a character class, sequences and
  alternatives. \<open>rests\<close> computes what each match at the front leaves over, \<open>rx_search\<close> is the truth of
  \<open>pattern.search(text)\<close>; the lemmas relate both to the language of the pattern.
\<close>

section \<open>Text files\<close>

type_synonym utext = "nat list"

definition utf8_tail :: "8 word \<Rightarrow> bool" where
  "utf8_tail b \<longleftrightarrow> 0x80 \<le> unat b \<and> unat b < 0xC0"

definition utf8_cons :: "bool \<Rightarrow> nat \<Rightarrow> utext option \<Rightarrow> utext option" where
  "utf8_cons ok c t = (if ok then map_option ((#) c) t else None)"

text \<open>Strict UTF-8: no overlong forms, no surrogates, nothing past 10FFFF.\<close>

fun utf8_points :: "bytes \<Rightarrow> utext option" where
  "utf8_points [] = Some []"
| "utf8_points (b # bs) =
     (let n = unat b in
      if n < 0x80 then utf8_cons True n (utf8_points bs)
      else (case bs of
          [] \<Rightarrow> None
        | b1 # bs1 \<Rightarrow>
            let n1 = unat b1 - 0x80 in
            if 0xC0 \<le> n \<and> n < 0xE0 then
              let c = (n - 0xC0) * 64 + n1 in utf8_cons (utf8_tail b1 \<and> 0x80 \<le> c) c (utf8_points bs1)
            else (case bs1 of
                [] \<Rightarrow> None
              | b2 # bs2 \<Rightarrow>
                  let n2 = unat b2 - 0x80 in
                  if 0xE0 \<le> n \<and> n < 0xF0 then
                    let c = ((n - 0xE0) * 64 + n1) * 64 + n2
                    in utf8_cons (utf8_tail b1 \<and> utf8_tail b2 \<and> 0x800 \<le> c \<and> \<not> (0xD800 \<le> c \<and> c < 0xE000)) c (utf8_points bs2)
                  else (case bs2 of
                      [] \<Rightarrow> None
                    | b3 # bs3 \<Rightarrow>
                        let c = (((n - 0xF0) * 64 + n1) * 64 + n2) * 64 + (unat b3 - 0x80)
                        in utf8_cons (0xF0 \<le> n \<and> utf8_tail b1 \<and> utf8_tail b2 \<and> utf8_tail b3 \<and> 0x10000 \<le> c \<and> c < 0x110000) c
                             (utf8_points bs3)))))"

text \<open>Reading in text mode turns the line ends \<open>\r\n\<close> and \<open>\r\<close> into \<open>\n\<close>.\<close>

fun universal_newlines :: "utext \<Rightarrow> utext" where
  "universal_newlines [] = []"
| "universal_newlines [c] = [if c = 13 then 10 else c]"
| "universal_newlines (c # d # t) =
     (if c = 13 then 10 # (if d = 10 then universal_newlines t else universal_newlines (d # t))
      else c # universal_newlines (d # t))"

definition read_text :: "bytes \<Rightarrow> utext option" where
  "read_text bs = map_option universal_newlines (utf8_points bs)"

text \<open>The code points of a text of the model.\<close>

definition points :: "string \<Rightarrow> utext" where
  "points s = map code s"

text \<open>On the code points of the other theories the two decoders agree.\<close>

lemma utf8_points_char: "utf8_points (utf8_char c @ bs) = map_option ((#) (code c)) (utf8_points bs)"
proof (cases "code c < 128")
  case True
  then show ?thesis by (simp add: utf8_char_def utf8_cons_def)
next
  case False
  have c: "code c < 256" by simp
  define q r where "q = code c div 64" and "r = code c mod 64"
  have qr: "2 \<le> q" "q < 4" "r < 64" "q * 64 + r = code c"
    using False c unfolding q_def r_def by (auto simp del: code_less)
  then show ?thesis
    using False by (simp add: utf8_char_def utf8_cons_def utf8_tail_def Let_def flip: q_def r_def)
qed

lemma utf8_points_encode [simp]: "utf8_points (utf8_encode s) = Some (points s)"
  by (induction s) (simp_all add: utf8_encode_def points_def utf8_points_char)

section \<open>Patterns\<close>

type_synonym char_class = "(nat \<times> nat) list"

definition in_class :: "char_class \<Rightarrow> nat \<Rightarrow> bool" where
  "in_class cs c \<longleftrightarrow> list_ex (\<lambda>(lo, hi). lo \<le> c \<and> c \<le> hi) cs"

datatype rx =
    Lit utext
  | Many char_class nat "nat option"
  | Cat rx rx
  | Alt rx rx

text \<open>What is left of the text after each way the pattern matches a prefix of it.\<close>

fun rests :: "rx \<Rightarrow> utext \<Rightarrow> utext list" where
  "rests (Lit w) t = (if take (length w) t = w then [drop (length w) t] else [])"
| "rests (Many cs lo hi) t =
     (let k = length (takeWhile (in_class cs) t); most = (case hi of None \<Rightarrow> k | Some h \<Rightarrow> min h k)
      in map (\<lambda>j. drop j t) [lo..<Suc most])"
| "rests (Cat r s) t = concat (map (rests s) (rests r t))"
| "rests (Alt r s) t = rests r t @ rests s t"

fun rx_search :: "rx \<Rightarrow> utext \<Rightarrow> bool" where
  "rx_search r [] = (rests r [] \<noteq> [])"
| "rx_search r (c # t) = (rests r (c # t) \<noteq> [] \<or> rx_search r t)"

definition optional :: "rx \<Rightarrow> rx" where
  "optional r = Alt r (Lit [])"

section \<open>The language of a pattern\<close>

fun rx_lang :: "rx \<Rightarrow> utext set" where
  "rx_lang (Lit w) = {w}"
| "rx_lang (Many cs lo hi) =
     {w. list_all (in_class cs) w \<and> lo \<le> length w \<and> (case hi of None \<Rightarrow> True | Some h \<Rightarrow> length w \<le> h)}"
| "rx_lang (Cat r s) = {u @ v | u v. u \<in> rx_lang r \<and> v \<in> rx_lang s}"
| "rx_lang (Alt r s) = rx_lang r \<union> rx_lang s"

lemma length_takeWhile_ge: "list_all P w \<Longrightarrow> length w \<le> length (takeWhile P (w @ u))"
  by (induction w) auto

lemma take_takeWhile_all: "j \<le> length (takeWhile P t) \<Longrightarrow> list_all P (take j t)"
  by (induction t arbitrary: j) (auto simp: take_Cons' split: if_splits)

lemma rests_Many: "u \<in> set (rests (Many cs lo hi) t) \<longleftrightarrow> (\<exists>w\<in>rx_lang (Many cs lo hi). t = w @ u)" (is "?L \<longleftrightarrow> ?R")
proof
  assume ?L
  then obtain j where j: "u = drop j t" "lo \<le> j" "j \<le> length (takeWhile (in_class cs) t)" "case hi of None \<Rightarrow> True | Some h \<Rightarrow> j \<le> h"
    by (auto simp: Let_def less_Suc_eq_le split: option.splits)
  have "j \<le> length t" using j(3) length_takeWhile_le [of "in_class cs" t] by linarith
  then have "take j t \<in> rx_lang (Many cs lo hi)" using j take_takeWhile_all by (simp split: option.splits)
  moreover have "t = take j t @ u" by (simp add: j(1))
  ultimately show ?R by blast
next
  assume ?R
  then obtain w where w: "list_all (in_class cs) w" "lo \<le> length w" "case hi of None \<Rightarrow> True | Some h \<Rightarrow> length w \<le> h" "t = w @ u"
    by auto
  have "length w \<in> set [lo..<Suc (case hi of None \<Rightarrow> length (takeWhile (in_class cs) t) | Some h \<Rightarrow> min h (length (takeWhile (in_class cs) t)))]"
    using w length_takeWhile_ge [OF w(1), of u] by (auto split: option.splits)
  moreover have "u = drop (length w) t" by (simp add: w(4))
  ultimately show ?L unfolding rests.simps Let_def set_map by blast
qed

lemma rests_iff: "u \<in> set (rests r t) \<longleftrightarrow> (\<exists>w\<in>rx_lang r. t = w @ u)"
proof (induction r arbitrary: t u)
  case (Lit w)
  show ?case by (auto simp: append_eq_conv_conj) (metis append_take_drop_id)
next
  case (Many cs lo hi)
  show ?case by (rule rests_Many)
next
  case (Cat r s)
  show ?case by (auto simp: Cat.IH) (metis append.assoc)+
next
  case (Alt r s)
  show ?case by (auto simp: Alt.IH)
qed

lemma rests_nonempty: "rests r t \<noteq> [] \<longleftrightarrow> (\<exists>w\<in>rx_lang r. \<exists>q. t = w @ q)"
proof -
  have "rests r t \<noteq> [] \<longleftrightarrow> (\<exists>u. u \<in> set (rests r t))" by (cases "rests r t") auto
  then show ?thesis by (auto simp: rests_iff)
qed

text \<open>The search finds exactly the texts that contain a word of the language.\<close>

lemma rx_search_iff: "rx_search r t \<longleftrightarrow> (\<exists>p q. \<exists>w\<in>rx_lang r. t = p @ w @ q)"
proof (induction t)
  case Nil
  show ?case by (simp add: rests_nonempty)
next
  case (Cons c t)
  have "(\<exists>p q. \<exists>w\<in>rx_lang r. c # t = p @ w @ q) \<longleftrightarrow>
      (\<exists>q. \<exists>w\<in>rx_lang r. c # t = w @ q) \<or> (\<exists>p q. \<exists>w\<in>rx_lang r. t = p @ w @ q)"
  proof
    assume "\<exists>p q. \<exists>w\<in>rx_lang r. c # t = p @ w @ q"
    then obtain p q w where w: "w \<in> rx_lang r" "c # t = p @ w @ q" by blast
    show "(\<exists>q. \<exists>w\<in>rx_lang r. c # t = w @ q) \<or> (\<exists>p q. \<exists>w\<in>rx_lang r. t = p @ w @ q)"
    proof (cases p)
      case Nil
      then show ?thesis using w by auto
    next
      case (Cons d p')
      then have "t = p' @ w @ q" using w(2) by simp
      then show ?thesis using w(1) by blast
    qed
  next
    assume "(\<exists>q. \<exists>w\<in>rx_lang r. c # t = w @ q) \<or> (\<exists>p q. \<exists>w\<in>rx_lang r. t = p @ w @ q)"
    then show "\<exists>p q. \<exists>w\<in>rx_lang r. c # t = p @ w @ q" by (metis append_Cons append_Nil)
  qed
  then show ?case unfolding rx_search.simps Cons.IH rests_nonempty by blast
qed

lemma rx_lang_optional [simp]: "rx_lang (optional r) = insert [] (rx_lang r)"
  by (auto simp: optional_def)

end
