(* ===== verification/Telepath_Cli.thy ===== *)
theory Telepath_Cli
  imports Node_Client Vault_Cli
begin

text \<open>
  The command line \<open>decillion-telepath\<close>, \<open>telepath/cli.py\<close>: a node is started over a vault, a client
  pulls a model, and the smoke test runs one against the other. Keys, ports given by the system, clocks
  and identifiers are arguments. A node shares its access list and receipts with the command that made
  it, so what the command changes there the node sees.
\<close>

definition local_host :: string where
  "local_host = ''127.0.0.1''"

text \<open>\<open>TelepathNode.start\<close>: a port of 0 becomes the one the socket was given.\<close>

definition node_started :: "int \<Rightarrow> node \<Rightarrow> node" where
  "node_started bound nd = (if nd_port nd = 0 then nd\<lparr>nd_port := bound\<rparr> else nd)"

section \<open>serve\<close>

definition vault_parts :: "vault_env \<Rightarrow> cli_world \<Rightarrow> (acl \<times> vault_receipts) result \<times> cli_world" where
  "vault_parts E w =
     (case cli_store E w of
        (Inl e, w1) \<Rightarrow> (Inl e, w1)
      | (Inr _, w1) \<Rightarrow>
          (case acl_open acl_file (cw_files w1) of
             Inl e \<Rightarrow> (Inl e, w1)
           | Inr (a, fs) \<Rightarrow>
               (bindR (receipt_key E fs) (\<lambda>key. bindR (vault_receipts_open key (cw_rows w1)) (\<lambda>r. Inr (a, r))),
                w1\<lparr>cw_files := fs\<rparr>)))"

definition serve_line :: "ed25519 \<Rightarrow> string \<Rightarrow> string \<Rightarrow> node \<Rightarrow> string" where
  "serve_line C name host nd = name @ '' listening on '' @ host @ '':'' @ int_str (nd_port nd) @ ''; pubkey='' @ hex (ed_public C (nd_sk nd))"

text \<open>The line printed and the node that then serves; \<open>vault\<close> is the text of the option, if it was given.\<close>

definition telepath_serve ::
    "node_env \<Rightarrow> string \<Rightarrow> int \<Rightarrow> string \<Rightarrow> string option \<Rightarrow> bytes \<Rightarrow> int \<Rightarrow> cli_world \<Rightarrow> (string \<times> node) result \<times> cli_world" where
  "telepath_serve V host port name vault sk bound w =
     (let served = (\<lambda>rcpts fs a. let nd = node_started bound (node_new name host port sk rcpts fs a)
                               in (serve_line (ne_ed V) name host nd, nd)) in
      if vault = None \<or> vault = Some [] then (Inr (served None None None), w)
      else (case vault_parts (ne_vault V) w of
          (Inl e, w1) \<Rightarrow> (Inl e, w1)
        | (Inr (a, r), w1) \<Rightarrow> (Inr (served (Some r) (Some (cw_files w1)) (Some a)), w1)))"

section \<open>pull-model\<close>

definition client_node :: "string \<Rightarrow> bytes \<Rightarrow> int \<Rightarrow> node" where
  "client_node name sk bound = node_started bound (node_new name local_host 0 sk None None None)"

text \<open>The client connects, pulls and prints the result.\<close>

definition connect_and_pull ::
    "ed25519 \<Rightarrow> 'w network \<Rightarrow> client_io \<Rightarrow> 'v network \<Rightarrow> ('w \<Rightarrow> 'v) \<Rightarrow> (nat \<Rightarrow> client_io) \<Rightarrow> string \<Rightarrow> int \<Rightarrow> string \<Rightarrow> string \<Rightarrow>
     node \<Rightarrow> 'w \<Rightarrow> files \<Rightarrow> ((string, json) dict \<times> node \<times> 'v \<times> files) result" where
  "connect_and_pull C hello_net hello net next ios host port model dest nd w fs =
     (case connect C hello_net hello host port nd w of
        (Inl e, _, _) \<Rightarrow> Inl e
      | (Inr peer, nd1, w1) \<Rightarrow>
          (case pull_model C net ios peer model dest nd1 (next w1) fs of
             (Inl e, _, _, _) \<Rightarrow> Inl e
           | (Inr r, nd2, w2, fs2) \<Rightarrow> Inr (r, nd2, w2, fs2)))"

definition telepath_pull ::
    "ed25519 \<Rightarrow> 'w network \<Rightarrow> client_io \<Rightarrow> (nat \<Rightarrow> client_io) \<Rightarrow> string \<Rightarrow> int \<Rightarrow> string \<Rightarrow> string \<Rightarrow> string \<Rightarrow> bytes \<Rightarrow> int \<Rightarrow>
     'w \<Rightarrow> files \<Rightarrow> (string list \<times> 'w \<times> files) result" where
  "telepath_pull C net hello ios peer_host peer_port name model dest sk bound w fs =
     bindR (connect_and_pull C net hello net (\<lambda>w. w) ios peer_host peer_port model dest (client_node name sk bound) w fs)
       (\<lambda>(r, _, w', fs'). Inr ([py_repr (JObj r)], w', fs'))"

section \<open>vault-smoke\<close>

text \<open>What the test draws, and the clocks and identifiers of the exchange of HELLO and of the pull.\<close>

record telepath_draw =
  td_source :: bytes
  td_server_key :: bytes
  td_client_key :: bytes
  td_server_port :: int
  td_client_port :: int
  td_hello :: client_io
  td_greeted :: node_io
  td_requests :: "nat \<Rightarrow> client_io"
  td_answers :: "nat \<Rightarrow> node_io"
  td_dest :: string
  td_now :: rat

definition telepath_source :: "telepath_draw \<Rightarrow> weight_file" where
  "telepath_source d = \<lparr>wf_suffix = ''.safetensors'', wf_regular = True, wf_bytes = td_source d\<rparr>"

definition telepath_model :: string where
  "telepath_model = ''smoke/model''"

definition read_bytes :: "json \<Rightarrow> files \<Rightarrow> bytes result" where
  "read_bytes p fs = (case p of
     JStr s \<Rightarrow> (case dict_get fs s of None \<Rightarrow> Inl FileNotFoundError | Some b \<Rightarrow> Inr b)
   | _ \<Rightarrow> Inl TypeError)"

text \<open>The assertions after the pull.\<close>

definition telepath_checks ::
    "ed25519 \<Rightarrow> telepath_draw \<Rightarrow> (string, json) dict \<times> node \<times> (node \<times> nat) \<times> files \<Rightarrow> (node_state \<times> string) result" where
  "telepath_checks C d pulled =
     (case pulled of (r, client, (server, _), files) \<Rightarrow>
        bindR (bindR (subscript r ''path'') (\<lambda>p. read_bytes p files)) (\<lambda>content.
        bindR (check (content = td_source d)) (\<lambda>_.
        bindR (case nd_receipts server of None \<Rightarrow> Inl AttributeError | Some rs \<Rightarrow> verify_chain rs) (\<lambda>(ok, _).
        bindR (check ok) (\<lambda>_.
        bindR (case rep_summary (nd_reputation client) of [] \<Rightarrow> Inl (IndexError 0) | (_, s, _) # _ \<Rightarrow> Inr s) (\<lambda>s.
        bindR (check (s = 1)) (\<lambda>_.
          Inr (fst (node_state_of C (td_now d) client), ''SMOKE TEST: BUILD GREEN''))))))))"

text \<open>The test from the added file on: both nodes, the access rule, the pull and the assertions.\<close>

definition telepath_rest ::
    "node_env \<Rightarrow> telepath_draw \<Rightarrow> string \<Rightarrow> acl \<Rightarrow> vault_receipts \<Rightarrow> files \<Rightarrow> (node_state \<times> string) result" where
  "telepath_rest V d model a rcpts fs =
     (let client = client_node ''bravo'' (td_client_key d) (td_client_port d) in
      bindR (acl_allow model (hex (ed_public (ne_ed V) (td_client_key d))) a fs) (\<lambda>(a', fs').
        let server = node_started (td_server_port d)
              (node_new ''alpha'' local_host 0 (td_server_key d) (Some rcpts) (Some fs') (Some a')) in
        bindR (connect_and_pull (ne_ed V) (peer_net V (\<lambda>_. td_greeted d) local_host) (td_hello d)
                 (peer_net V (td_answers d) local_host) (\<lambda>(nd, _). (nd, 0)) (td_requests d) local_host (nd_port server)
                 model (td_dest d) client (server, 0) [])
          (telepath_checks (ne_ed V) d)))"

text \<open>The working directory has been emptied before.\<close>

definition telepath_smoke :: "node_env \<Rightarrow> telepath_draw \<Rightarrow> (node_state \<times> string) result" where
  "telepath_smoke V d =
     (case cli_store (ne_vault V) \<lparr>cw_files = [], cw_rows = []\<rparr> of
        (Inl e, _) \<Rightarrow> Inl e
      | (Inr _, w1) \<Rightarrow>
          (case add_file (ne_vault V) shard_size_default (telepath_source d) telepath_model ''file://smoke'' ''MIT'' [] (cw_files w1) of
             (Inl e, _) \<Rightarrow> Inl e
           | (Inr m, fs) \<Rightarrow>
               bindR (acl_open acl_file fs) (\<lambda>(a, fs1).
               bindR (bindR (receipt_key (ne_vault V) fs1) (\<lambda>key. vault_receipts_open key (cw_rows w1))) (\<lambda>rcpts.
                 telepath_rest V d (mm_model m) a rcpts fs1))))"

end
