(* ===== verification/Telepath_Cli_Proofs.thy ===== *)
theory Telepath_Cli_Proofs
  imports Telepath_Cli Node_Honest Cli_Proofs Pull_Examples
begin

text \<open>
  The smoke test of the telepath command line cannot fail: a fresh vault, an added file, a HELLO, a session
  and a pull between two nodes of this code, and the three assertions at the end.
\<close>

section \<open>HELLO\<close>

definition hello_ready :: "node \<Rightarrow> bool" where
  "hello_ready nd \<longleftrightarrow> length (nd_name nd) \<le> 64 \<and> 0 < nd_port nd \<and> nd_port nd < 65536"

lemma hello_payload_ok:
  assumes "hello_ready nd"
  shows "json_ok (JObj (hello_payload nd)) \<and> sum_list (map member_size (hello_payload nd)) \<le> 1900000 \<and>
     dict_get (hello_payload nd) ''request_nonce'' = None"
proof -
  have caps: "json_ok (capabilities nd) \<and> length (emit compact_ascii 0 (capabilities nd)) \<le> 100"
  proof (cases "nd_vault nd")
    case None
    moreover have "length (emit compact_ascii 0 (JArr (map JStr [''signed-tcp'', ''session'', ''shard'']))) \<le> 100" by code_simp
    ultimately show ?thesis by (simp add: capabilities_def)
  next
    case (Some fs)
    moreover have "length (emit compact_ascii 0 (JArr (map JStr [''signed-tcp'', ''session'', ''shard'', ''vault'']))) \<le> 100" by code_simp
    ultimately show ?thesis by (simp add: capabilities_def)
  qed
  have "member_size (''capabilities'', capabilities nd) \<le> 200"
    using caps length_quote_le [of True "''capabilities''"] by (simp add: member_size_def)
  then show ?thesis
    using assms caps member_size_JStr [of "''name''" "nd_name nd"] member_size_JInt [of "nd_port nd" 5 "''port''"]
    by (simp add: hello_payload_def hello_ready_def dict_get_def)
qed

lemma connect_honest:
  assumes ed: "ed_short (ne_ed V)" and ex: "exchange_ok c s" and ready: "hello_ready cl" "hello_ready nd"
    and fresh: "nonce_fresh (nd_nonces nd) (node_key (ne_ed V) cl, ci_uuid c) (io_nonce s)"
  shows "\<exists>cl' nd'. connect (ne_ed V) (peer_net V (\<lambda>_. s) ip) c host port cl (nd, 0) = (Inr (node_key (ne_ed V) nd), cl', (nd', 1)) \<and>
     (\<exists>info. cl' = cl\<lparr>nd_peers := dict_set (node_key (ne_ed V) nd) (host, port) (nd_peers cl), nd_peer_info := info\<rparr>) \<and>
     (\<exists>peers info. nd' = (noted s (node_key (ne_ed V) cl) (ci_uuid c) nd)\<lparr>nd_peers := peers, nd_peer_info := info\<rparr>)"
proof -
  let ?key = "node_key (ne_ed V) cl" and ?m = "client_message (ne_ed V) c cl ''HELLO'' (hello_payload cl)"
  let ?nd = "noted s ?key (ci_uuid c) nd"
  define nd' where "nd' = ?nd\<lparr>nd_peers := dict_set ?key (ip, nd_port cl) (nd_peers ?nd),
      nd_peer_info := dict_set ?key (JObj (hello_payload cl)) (nd_peer_info ?nd)\<rparr>"
  have pl: "tm_payload ?m = JObj (hello_payload cl)" "tm_sender ?m = JStr ?key" "tm_type ?m = JStr ''HELLO''"
    by (simp_all add: client_message_def node_key_def)
  have "bindR (payload_get (JObj (hello_payload cl)) ''port'' (JInt 0)) py_int = Inr (nd_port cl)"
    by (simp add: payload_get_def hello_payload_def dict_get_default_def)
  then have d: "dispatch V s ip ?m ?nd = (Inr (node_reply V s nd' ''HELLO'' (hello_payload nd')), nd')"
    using ready(1) pl by (simp add: dispatch_def on_hello_def nd'_def hello_ready_def Let_def)
  have same: "node_key (ne_ed V) nd = node_key (ne_ed V) nd'" "hello_ready nd'"
    using ready(2) by (simp_all add: nd'_def noted_def node_key_def hello_ready_def)
  obtain r where r: "request (ne_ed V) (peer_net V (\<lambda>_. s) ip) c host port ?m None (nd, 0) = (Inr r, (nd', Suc 0))"
      "tm_type r = JStr ''HELLO''" "tm_sender r = JStr (node_key (ne_ed V) nd)"
    using request_honest [where sios = "\<lambda>_. s" and j = 0 and expected = None and host = host and port = port,
        OF ed ex _ _ _ fresh d same(1)] hello_payload_ok [OF ready(1)] hello_payload_ok [OF same(2)] by auto
  then show ?thesis by (auto simp: connect_def nd'_def Let_def)
qed

section \<open>The reputation after the pull\<close>

lemma rep_run_single:
  "obs \<noteq> [] \<Longrightarrow> \<forall>b\<in>set obs. ob_peer b = p \<Longrightarrow> \<exists>row. rep_run obs [] = [(p, row)]"
proof (induction obs rule: rev_induct)
  case (snoc b obs)
  then show ?case
    by (cases "obs = []") (auto simp: rep_run_snoc rep_record_def dict_set_def, simp add: rep_run_def rep_record_def dict_set_def)
qed simp

lemma pull_score:
  assumes "cs \<noteq> []"
  shows "\<exists>row. rep_summary (rep_run (pull_observations ios peer 0 cs) []) = [(take 8 peer, 1, row)]"
proof -
  let ?obs = "pull_observations ios peer 0 cs"
  have one: "\<forall>b\<in>set ?obs. ob_peer b = peer \<and> ob_outcome b = ''success''"
    by (auto simp: pull_observations_def shard_observation_def)
  have ne: "?obs \<noteq> []" using assms by (simp add: pull_observations_def enumerate_eq_zip)
  obtain row where row: "rep_run ?obs [] = [(peer, row)]" using rep_run_single [OF ne] one by blast
  have mine: "obs_of peer ?obs = ?obs" "successes ?obs = ?obs"
    using one by (auto simp: obs_of_def successes_def filter_id_conv)
  have "dict_get_default (rep_run ?obs []) peer peer_record_new = row" by (simp add: row dict_get_default_def)
  then have "score row = 1" using reputation_score_range [of ?obs peer] ne mine by (simp add: Let_def)
  then show ?thesis by (simp add: row rep_summary_def round3_def Let_def)
qed

section \<open>Files of a fresh vault\<close>

lemma fresh_vault_absent:
  assumes "vault_env_ok E" and "vault_open E n [] = Inr fs" and "q \<noteq> config_path"
  shows "dict_get fs q = None"
proof -
  have "vault_path config_path" by (simp add: vault_path_def)
  then show ?thesis
    using assms(2) vault_put_absent [OF assms(1) _ assms(3), of "[]"]
    by (auto simp: vault_open_def ensure_config_def dict_get_def [of "[]"] split: if_splits)
qed

lemma acl_paths_apart: "vault_path q \<Longrightarrow> q \<noteq> acl_file \<and> q \<noteq> acl_tmp acl_file"
  by (auto simp: vault_path_def acl_file_def acl_tmp_def config_path_def shard_path_def manifest_path_def key_path_def)

lemma acl_open_new: "dict_get fs p = None \<Longrightarrow> acl_open p fs = Inr (\<lparr>acl_path = p, acl_rules = []\<rparr>, acl_save \<lparr>acl_path = p, acl_rules = []\<rparr> fs)"
  by (simp add: acl_open_def Let_def)

text \<open>Opening the list and allowing a made key changes no file of the store.\<close>

lemma acl_allow_made:
  assumes "ed_correct C"
  shows "\<exists>a' fs'. acl_allow m (hex (ed_public C sk)) a fs = Inr (a', fs') \<and> is_allowed a' m (hex (ed_public C sk)) \<and>
     (\<forall>q. q \<noteq> acl_path a \<longrightarrow> q \<noteq> acl_tmp (acl_path a) \<longrightarrow> dict_get fs' q = dict_get fs q)"
  using ed_correctD(1) [OF assms, of sk]
  by (simp add: acl_allow_def Let_def is_allowed_def acl_keys_set acl_save_get)

section \<open>The checks\<close>

lemma telepath_checks_pass:
  assumes "dict_get r ''path'' = Some (JStr p)" and "dict_get files p = Some (td_source d)"
    and "audit_ok True (nd_receipts (fst w))" and "rep_summary (nd_reputation cl) = [(k, 1, row)]"
  shows "telepath_checks C d (r, cl, w, files) = Inr (fst (node_state_of C (td_now d) cl), ''SMOKE TEST: BUILD GREEN'')"
  using assms
  by (cases w) (auto simp: telepath_checks_def subscript_def read_bytes_def check_def audit_ok_def split: option.splits)

section \<open>Two fresh nodes\<close>

text \<open>The clocks and identifiers of the test: the HELLO, the session request and \<open>n\<close> shard requests.\<close>

definition telepath_draw_ok :: "telepath_draw \<Rightarrow> string \<Rightarrow> nat \<Rightarrow> bool" where
  "telepath_draw_ok d key n \<longleftrightarrow>
     0 < td_server_port d \<and> td_server_port d < 65536 \<and> 0 < td_client_port d \<and> td_client_port d < 65536 \<and>
     exchange_ok (td_hello d) (td_greeted d) \<and> exchange_ok (td_requests d 0) (td_answers d 0) \<and>
     length (io_session_id (td_answers d 0)) \<le> 64 \<and>
     timely (td_requests d) (td_answers d)
       (session_granted (td_answers d 0) key telepath_model ''pull'' 1000000 (Fin 3600)) 1 n \<and>
     inj_on (\<lambda>i. ci_uuid (td_requests d i)) {0..<Suc n} \<and> inj_on (\<lambda>i. io_receipt_id (td_answers d i)) {0..<Suc n} \<and>
     (\<forall>i<Suc n. ci_uuid (td_requests d i) \<noteq> ci_uuid (td_hello d))"

lemma hello_ready_started: "length name \<le> 64 \<Longrightarrow> 0 < bound \<Longrightarrow> bound < 65536 \<Longrightarrow>
    hello_ready (node_started bound (node_new name host 0 sk rs fs a))"
  by (simp add: hello_ready_def node_started_def node_new_def)

lemma node_key_started [simp]: "node_key C (node_started b nd) = node_key C nd"
  by (simp add: node_key_def node_started_def)

lemma node_key_new [simp]: "node_key C (node_new name host port sk rs fs a) = hex (ed_public C sk)"
  by (simp add: node_key_def node_new_def)

lemma started_parts [simp]:
  "nd_vault (node_started b nd) = nd_vault nd" "nd_receipts (node_started b nd) = nd_receipts nd"
  "nd_sessions (node_started b nd) = nd_sessions nd" "nd_acl (node_started b nd) = nd_acl nd"
  "nd_nonces (node_started b nd) = nd_nonces nd" "nd_peers (node_started b nd) = nd_peers nd"
  "nd_cache (node_started b nd) = nd_cache nd" "nd_reputation (node_started b nd) = nd_reputation nd"
  by (simp_all add: node_started_def)

lemma client_node_parts:
  "cache_ok (nd_cache (client_node name sk b))" "sc_entries (nd_cache (client_node name sk b)) = []"
  "nd_receipts (client_node name sk b) = None" "nd_reputation (client_node name sk b) = []"
  "node_key C (client_node name sk b) = hex (ed_public C sk)"
  by (simp_all add: client_node_def node_new_def cache_ok_new)
    (simp_all add: node_key_def node_started_def shard_cache_new_def)

lemma telepath_rest_green:
  assumes ed: "ed_short (ne_ed V)" and d: "telepath_draw_ok d (hex (ed_public (ne_ed V) (td_client_key d))) (length cs)"
    and few: "length cs < 99999" and cs: "cs \<noteq> []" "concat cs = td_source d"
    and st: "\<And>fs'. (\<forall>q. q \<noteq> acl_path a \<longrightarrow> q \<noteq> acl_tmp (acl_path a) \<longrightarrow> dict_get fs' q = dict_get fs q) \<Longrightarrow>
      stores_model V telepath_model mf cs fs'"
    and rc: "vq_rows rcpts = []"
  shows "\<exists>s. telepath_rest V d telepath_model a rcpts fs = Inr (s, ''SMOKE TEST: BUILD GREEN'')"
proof -
  let ?C = "ne_ed V" and ?ck = "hex (ed_public (ne_ed V) (td_client_key d))" and ?sk = "hex (ed_public (ne_ed V) (td_server_key d))"
  let ?cl = "client_node ''bravo'' (td_client_key d) (td_client_port d)"
  have c: "ed_correct ?C" using ed by (simp add: ed_short_def)
  obtain a' fs' where al: "acl_allow telepath_model ?ck a fs = Inr (a', fs')" "is_allowed a' telepath_model ?ck"
      "stores_model V telepath_model mf cs fs'"
    using acl_allow_made [OF c, of telepath_model "td_client_key d" a fs] st by blast
  define srv where "srv = node_started (td_server_port d) (node_new ''alpha'' local_host 0 (td_server_key d) (Some rcpts) (Some fs') (Some a'))"
  have ready: "hello_ready ?cl" "hello_ready srv" using d by (simp_all add: telepath_draw_ok_def client_node_def srv_def hello_ready_started)
  have keys: "node_key ?C ?cl = ?ck" "node_key ?C srv = ?sk" by (simp_all add: client_node_def srv_def)
  have parts: "nd_vault srv = Some fs'" "nd_receipts srv = Some rcpts" "nd_sessions srv = registry_new" "nd_acl srv = Some a'"
      "nc_seen (nd_nonces srv) = []" "nc_max (nd_nonces srv) = 100000"
    by (simp_all add: srv_def node_new_def nonce_cache_new_def)
  have "nonce_fresh (nd_nonces srv) (node_key ?C ?cl, ci_uuid (td_hello d)) (io_nonce (td_greeted d))"
    using d parts by (simp add: nonce_fresh_def telepath_draw_ok_def exchange_ok_def dict_get_def)
  then obtain cl1 srv1 where h: "connect ?C (peer_net V (\<lambda>_. td_greeted d) local_host) (td_hello d) local_host (nd_port srv) ?cl (srv, 0) =
        (Inr ?sk, cl1, (srv1, 1))"
      and cl1: "\<exists>info. cl1 = ?cl\<lparr>nd_peers := dict_set ?sk (local_host, nd_port srv) (nd_peers ?cl), nd_peer_info := info\<rparr>"
      and srv1: "\<exists>peers info. srv1 = (noted (td_greeted d) ?ck (ci_uuid (td_hello d)) srv)\<lparr>nd_peers := peers, nd_peer_info := info\<rparr>"
    using connect_honest [OF ed _ ready, of "td_hello d" "td_greeted d" local_host local_host "nd_port srv"] d
    unfolding keys by (auto simp: telepath_draw_ok_def)
  have s1: "nd_vault srv1 = Some fs'" "nd_receipts srv1 = Some rcpts" "nd_sessions srv1 = registry_new" "nd_acl srv1 = Some a'"
      "node_key ?C srv1 = ?sk" "nc_max (nd_nonces srv1) = 100000" "length (nc_seen (nd_nonces srv1)) = 1"
      "\<And>k u. u \<noteq> ci_uuid (td_hello d) \<Longrightarrow> dict_get (nc_seen (nd_nonces srv1)) (k, u) = None"
    using srv1 parts keys by (auto simp: noted_def node_key_def dict_get_def)
  have c1: "node_key ?C cl1 = ?ck" "client_ready ?sk telepath_model 0 (local_host, nd_port srv) cl1" "nd_reputation cl1 = []"
    using cl1 client_node_parts [where name = "''bravo''" and sk = "td_client_key d" and b = "td_client_port d"]
    by (auto simp: client_ready_def dict.lookup_store node_key_def dict_get_def [of "[]"])
  have room: "room ?ck (td_requests d) 0 (Suc (length cs)) srv1"
    using few s1 d by (simp add: room_def telepath_draw_ok_def)
  have audit: "audit_ready (td_answers d) 0 (Suc (length cs)) True (nd_receipts srv1)"
    using d rc by (simp add: audit_ready_def audit_ok_def s1 verify_chain_def telepath_draw_ok_def)
  obtain r cl2 w files where p: "pull_model ?C (peer_net V (td_answers d) local_host) (td_requests d) ?sk telepath_model (td_dest d)
        cl1 (srv1, 0) [] = (Inr r, cl2, w, files)"
      "dict_get files (pull_target (td_dest d) telepath_model) = Some (concat cs)"
      "dict_get r ''path'' = Some (JStr (pull_target (td_dest d) telepath_model))" "audit_ok True (nd_receipts (fst w))"
      "nd_reputation cl2 = rep_run (pull_observations (td_requests d) ?sk 0 cs) []"
    using pull_model_honest [where ios = "td_requests d" and sios = "td_answers d" and ip = local_host and dest = "td_dest d"
        and files = "[]", OF ed al(3) c1(1) [symmetric] s1(5) s1(1) audit _ _ room _ _ _ _ c1(2)] d al(2) s1(3,4) c1(3)
    by (auto simp: telepath_draw_ok_def is_allowed_opt_def)
  obtain row where "rep_summary (nd_reputation cl2) = [(take 8 ?sk, 1, row)]" using pull_score [OF cs(1)] p(5) by auto
  then have "telepath_checks ?C d (r, cl2, w, files) = Inr (fst (node_state_of ?C (td_now d) cl2), ''SMOKE TEST: BUILD GREEN'')"
    using p cs(2) by (intro telepath_checks_pass) auto
  then show ?thesis using h p(1) by (simp add: telepath_rest_def al(1) Let_def srv_def [symmetric] connect_and_pull_def)
qed

section \<open>Properties\<close>

lemma telepath_smoke_parts:
  assumes E: "vault_env_ok E" "length (ve_salt E) = 16" and o: "vault_open E shard_size_default [] = Inr fs0"
    and add: "add_file E shard_size_default f model source lic [] fs0 = (Inr m, fs)"
  shows "acl_open acl_file fs = Inr (\<lparr>acl_path = acl_file, acl_rules = []\<rparr>, acl_save \<lparr>acl_path = acl_file, acl_rules = []\<rparr> fs)"
    and "receipt_key E (acl_save \<lparr>acl_path = acl_file, acl_rules = []\<rparr> fs) = receipt_key E fs0"
proof -
  have n: "0 < shard_size_default" by (simp add: shard_size_default_def)
  have "acl_file \<noteq> config_path" by (simp add: acl_file_def config_path_def)
  then have "dict_get fs acl_file = None"
    using add_file_absent [OF E(1) add acl_file_apart] fresh_vault_absent [OF E(1) o] by simp
  then show "acl_open acl_file fs = Inr (\<lparr>acl_path = acl_file, acl_rules = []\<rparr>, acl_save \<lparr>acl_path = acl_file, acl_rules = []\<rparr> fs)"
    by (rule acl_open_new)
  have "dict_get fs config_path = dict_get fs0 config_path"
    by (rule add_keeps_config [OF E(1) add ensure_config_again(2) [OF E o n refl]])
  moreover have "config_path \<noteq> acl_file" "config_path \<noteq> acl_tmp acl_file"
    using acl_paths_apart [of config_path] by (auto simp: vault_path_def)
  ultimately show "receipt_key E (acl_save \<lparr>acl_path = acl_file, acl_rules = []\<rparr> fs) = receipt_key E fs0"
    by (intro receipt_key_config) (simp add: acl_save_get)
qed

text \<open>C11: The telepath smoke test cannot fail once its file is in the vault: with correct cryptography, clocks
  within the windows and fresh identifiers, the two fresh nodes greet each other, the access rule just
  made lets the client open its session, the pull brings back every byte, the receipt chain of the
  server verifies, the client rates the server 1.0, and the test ends by printing BUILD GREEN.\<close>

theorem telepath_smoke_green:
  assumes "ed_short (ne_ed V)" and "vault_env_ok (ne_vault V)" and "length (ve_salt (ne_vault V)) = 16"
    and "vault_open (ne_vault V) shard_size_default [] = Inr fs0"
    and "add_file (ne_vault V) shard_size_default (telepath_source d) telepath_model ''file://smoke'' ''MIT'' [] fs0 = (Inr m, fs)"
    and "receipt_key (ne_vault V) fs0 = Inr key" and "vault_receipts_open key [] = Inr rcpts"
    and "N = length (chunks (nat shard_size_default) (td_source d))" and "0 < N" and "N < 99999"
    and "telepath_draw_ok d (hex (ed_public (ne_ed V) (td_client_key d))) N"
  shows "\<exists>s. telepath_smoke V d = Inr (s, ''SMOKE TEST: BUILD GREEN'')"
proof -
  let ?cs = "chunks (nat shard_size_default) (td_source d)"
  let ?a = "\<lparr>acl_path = acl_file, acl_rules = []\<rparr>"
  have n: "0 < shard_size_default" "shard_size_default \<le> 1024 * 1024" by (simp_all add: shard_size_default_def)
  note parts = telepath_smoke_parts [OF assms(2-5)]
  have st: "stores_model V telepath_model (manifest_norm m) ?cs fs'"
    if same: "\<forall>q. q \<noteq> acl_path ?a \<longrightarrow> q \<noteq> acl_tmp (acl_path ?a) \<longrightarrow> dict_get fs' q = dict_get (acl_save ?a fs) q" for fs'
  proof -
    have keep: "dict_get fs' q = Some b" if "vault_path q" "dict_get fs q = Some b" for q b
      using that same acl_paths_apart [OF that(1)] by (simp add: acl_save_get)
    have bytes: "wf_bytes (telepath_source d) = td_source d" by (simp add: telepath_source_def)
    have few: "length (chunks (nat shard_size_default) (wf_bytes (telepath_source d))) \<le> 1000000"
      using assms(8,10) unfolding bytes by linarith
    have md: "json_ok (JObj [])" by simp
    show ?thesis using stored_by_add_file [OF assms(2) n md assms(5) keep few] unfolding bytes .
  qed
  have "?cs \<noteq> []" "concat ?cs = td_source d" "vq_rows rcpts = []"
    using assms(8,9) n(1) receipts_open_rows [OF assms(7)] by (auto simp: concat_chunks)
  then obtain s where "telepath_rest V d telepath_model ?a rcpts (acl_save ?a fs) = Inr (s, ''SMOKE TEST: BUILD GREEN'')"
    using telepath_rest_green [OF assms(1) _ _ _ _ st, where d = d and rcpts = rcpts] assms(8,10,11) by blast
  moreover have "mm_model m = telepath_model" by (rule add_file_stored(2) [OF assms(2,5)])
  ultimately show ?thesis
    using assms(4-7) parts by (simp add: telepath_smoke_def cli_store_def)
qed

definition sample_telepath :: telepath_draw where
  "sample_telepath = \<lparr>td_source = [1, 2, 3], td_server_key = [9], td_client_key = [8], td_server_port = 7001, td_client_port = 7002,
     td_hello = (sample_requests 0)\<lparr>ci_uuid := replicate 16 (CHR ''h'')\<rparr>, td_greeted = sample_io 1,
     td_requests = sample_requests, td_answers = (\<lambda>i. (sample_io 1)\<lparr>io_receipt_id := replicate i (CHR ''r'')\<rparr>),
     td_dest = ''d'', td_now = 2\<rparr>"

lemma sample_answers: "i \<le> 40 \<Longrightarrow> exchange_ok (sample_requests i) ((sample_io 1)\<lparr>io_receipt_id := x\<rparr>)"
  using sample_exchange [of i] by (simp add: exchange_ok_def)

lemma sample_telepath_ok: "telepath_draw_ok sample_telepath zero_key 1"
proof -
  have "exchange_ok ((sample_requests 0)\<lparr>ci_uuid := replicate 16 (CHR ''h'')\<rparr>) (sample_io 1)"
    using sample_exchange [of 0] by (simp add: exchange_ok_def sample_requests_def)
  moreover have "ci_uuid (sample_requests i) \<noteq> replicate 16 (CHR ''h'')" for i
    by (simp add: sample_requests_def replicate_eq_replicate)
  moreover have "inj_on (\<lambda>i. replicate i (CHR ''r'')) S" for S by (rule inj_onI) simp
  ultimately show ?thesis
    using sample_answers sample_distinct
    by (simp add: telepath_draw_ok_def sample_telepath_def timely_def)
qed

theorem telepath_smoke_green_witness:
  "\<exists>s. telepath_smoke sample_node_env sample_telepath = Inr (s, ''SMOKE TEST: BUILD GREEN'')"
proof -
  obtain fs0 where o: "vault_open sample_env shard_size_default [] = Inr fs0"
    by (simp add: vault_open_def ensure_config_def dict_get_def shard_size_default_def)
  have get: "dict_get fs0 q = (if q = config_path then Some (utf8_encode (dumps pretty (new_config sample_env shard_size_default)) @ [10]) else None)"
    if "vault_path q" for q
    using o that by (auto simp: vault_open_def ensure_config_def vault_put_get dict_get_def [of "[]"] split: if_splits)
  have cfg: "dict_get fs0 config_path = Some (utf8_encode (dumps pretty (new_config sample_env shard_size_default)) @ [10])"
    by (simp add: get vault_path_def)
  have mk: "master_key sample_env fs0 = Inr (scrypt_derive (ve_kdf sample_env) (ve_salt sample_env) (utf8_encode ''pw''))"
    by (rule master_key_new [OF cfg]) (simp_all add: sample_env_def [THEN arg_cong [where f = ve_pass]])
  have chunk: "chunks (nat shard_size_default) [1, 2, 3] = [[1, 2, 3]]" by (simp add: chunks.simps shard_size_default_def)
  have "\<exists>m fs. add_file sample_env shard_size_default (telepath_source sample_telepath) telepath_model ''file://smoke'' ''MIT'' [] fs0 = (Inr m, fs)"
  proof (rule add_file_succeeds [OF sample_env_ok _ _ _ _ _ _ _ mk])
    show "0 < shard_size_default" by (simp add: shard_size_default_def)
    have p: "vault_path (shard_path h)" "vault_path (manifest_path x)" "shard_path h \<noteq> config_path" "manifest_path x \<noteq> config_path" for h x
      by (auto simp: vault_path_def shard_path_def manifest_path_def config_path_def)
    show "dict_get fs0 (manifest_path telepath_model) = None" using p by (simp add: get)
    show "c = b" if "dict_get fs0 (shard_path (sha_hex b)) = Some c" for b c using that p by (simp add: get)
  qed (simp_all add: telepath_source_def sample_telepath_def telepath_model_def chunk lower_def code_def allowed_suffixes_def)
  then obtain m fs where a: "add_file sample_env shard_size_default (telepath_source sample_telepath) telepath_model ''file://smoke'' ''MIT'' [] fs0 = (Inr m, fs)"
    by blast
  obtain key where k: "receipt_key sample_env fs0 = Inr key" "length key = 32"
    using mk by (simp add: receipt_key_def sample_env_def [THEN arg_cong [where f = ve_kdf]]) (simp add: sample_kdf_def)
  obtain rcpts where r: "vault_receipts_open key [] = Inr rcpts" using k(2) by (simp add: vault_receipts_open_def)
  have "\<exists>s. telepath_smoke sample_node_env sample_telepath = Inr (s, ''SMOKE TEST: BUILD GREEN'')"
  proof (rule telepath_smoke_green [where N = 1 and m = m and fs = fs and ?fs0.0 = fs0 and key = key and rcpts = rcpts])
    show "1 = length (chunks (nat shard_size_default) (td_source sample_telepath))" by (simp add: sample_telepath_def chunk)
    have "hex (ed_public plain_ed sk) = zero_key" for sk using sample_key [of "node_new [] [] 0 sk None None None"] by simp
    then show "telepath_draw_ok sample_telepath (hex (ed_public (ne_ed sample_node_env) (td_client_key sample_telepath))) 1"
      using sample_telepath_ok by simp
    show "length (ve_salt (ne_vault sample_node_env)) = 16" by (simp add: sample_env_def)
  qed (use o a k r in simp_all)
  then show ?thesis .
qed

end
