(* ===== verification/Smoke_Scripts.thy ===== *)
theory Smoke_Scripts
  imports Storage_Proofs Vault_Cli
begin

text \<open>
  The demonstration of the storage engine, \<open>scripts/smoke.py\<close>, and the command that prints a fresh master
  key, \<open>decillion/cli.py\<close>. The object store is new and empty; the master key, the signing key and what
  each upload draws are arguments.
\<close>

definition key_command :: "bytes \<Rightarrow> string list" where
  "key_command key = [generate_master_key key]"

section \<open>Ten objects through the storage engine\<close>

definition smoke_wallet :: string where
  "smoke_wallet = ''smoke-wallet''"

definition storage_step :: "storage \<Rightarrow> upload_io \<Rightarrow> nat \<Rightarrow> files \<Rightarrow> (receipt \<times> files) result" where
  "storage_step G io index fs =
     (let content = utf8_encode (''receipt-'' @ nat_str index); name = nat_str index @ ''.txt'' in
      case storage_upload G io smoke_wallet name content fs of
        (Inl e, _) \<Rightarrow> Inl e
      | (Inr r, fs1) \<Rightarrow>
          bindR (verify_receipt (sg_ed G) r (ed_public (sg_ed G) (sg_sk G))) (\<lambda>_.
          bindR (storage_download G r smoke_wallet name None fs1) (\<lambda>actual.
          bindR (check (actual = content)) (\<lambda>_. Inr (r, fs1)))))"

fun storage_steps :: "storage \<Rightarrow> (nat \<Rightarrow> upload_io) \<Rightarrow> nat list \<Rightarrow> files \<Rightarrow> receipt list result" where
  "storage_steps G ios [] fs = Inr []"
| "storage_steps G ios (i # is) fs =
     bindR (storage_step G (ios i) i fs) (\<lambda>(r, fs1). bindR (storage_steps G ios is fs1) (\<lambda>rs. Inr (r # rs)))"

definition storage_smoke :: "ed25519 \<Rightarrow> aead \<Rightarrow> bytes \<Rightarrow> bytes \<Rightarrow> (nat \<Rightarrow> upload_io) \<Rightarrow> string result" where
  "storage_smoke C A master sk ios =
     bindR (local_key_provider master False) (\<lambda>K.
     bindR (storage_steps \<lparr>sg_ed = C, sg_aead = A, sg_keys = K, sg_sk = sk\<rparr> ios [0..<10] []) (\<lambda>values.
       let root = receipts_root values in
       bindR (check (length root = 64)) (\<lambda>_. Inr (''DECILLION_SMOKE_PASS objects=10 merkle_root='' @ root))))"

lemma upload_then_download:
  assumes "aead_correct (sg_aead G)" and "ed_correct (sg_ed G)" and "\<not> kp_require (sg_keys G)" and "upload_ok io"
    and "up_fault io = NoFault" and "owner \<noteq> []" and "length owner \<le> 512" and "name \<noteq> []" and "length name \<le> 1024"
  shows "\<exists>fs1. storage_upload G io owner name content fs = (Inr (uploaded G io owner name content), fs1) \<and>
     storage_download G (uploaded G io owner name content) owner name None fs1 = Inr content"
proof -
  let ?pl = "storage_payload (sg_aead G) io owner name content"
  obtain p where p: "object_path (sha_hex ?pl) = Inr p" using sha_hex_object by blast
  obtain fs1 where "object_put (up_fault io) (up_tmp io) (sha_hex ?pl) ?pl fs = (Inr (), fs1)"
    by (simp add: object_put_def p assms(5) atomic_put_def Let_def)
  then obtain r where r: "storage_upload G io owner name content fs = (Inr r, fs1)"
    using assms(6-9) by (simp add: storage_upload_def Let_def)
  note u = storage_upload_Inr [OF r assms(4)]
  then have "object_get (sha_hex ?pl) fs1 = Inr ?pl" using p by (auto simp: object_get_def)
  then have "storage_download G (uploaded G io owner name content) owner name None fs1 = Inr content"
    using assms(4) by (intro download_uploaded [OF assms(1,2)]) (simp_all add: upload_ok_def attested_def assms(3))
  then show ?thesis using r u by blast
qed

lemma storage_step_passes:
  assumes "aead_correct (sg_aead G)" and "ed_correct (sg_ed G)" and "\<not> kp_require (sg_keys G)" and "upload_ok io"
    and "up_fault io = NoFault" and "index < 10"
  shows "\<exists>r fs1. storage_step G io index fs = Inr (r, fs1)"
proof -
  have "length (nat_str index) = 1" using assms(6) by (simp add: nat_str_def uint_str.simps)
  then have sizes: "nat_str index @ ''.txt'' \<noteq> []" "length (nat_str index @ ''.txt'') \<le> 1024"
    by simp_all
  have wallet: "smoke_wallet \<noteq> []" "length smoke_wallet \<le> 512" by (simp_all add: smoke_wallet_def)
  show ?thesis
    using upload_then_download [OF assms(1-5) wallet sizes, of "utf8_encode (''receipt-'' @ nat_str index)" fs]
      uploaded_verifies [OF assms(2)]
    by (auto simp: storage_step_def Let_def check_def)
qed

lemma storage_steps_pass:
  assumes "aead_correct (sg_aead G)" and "ed_correct (sg_ed G)" and "\<not> kp_require (sg_keys G)"
  shows "\<forall>i\<in>set is. upload_ok (ios i) \<and> up_fault (ios i) = NoFault \<and> i < 10 \<Longrightarrow>
     \<exists>rs. storage_steps G ios is fs = Inr rs \<and> length rs = length is"
proof (induction "is" arbitrary: fs)
  case (Cons i js)
  obtain r fs1 where "storage_step G (ios i) i fs = Inr (r, fs1)"
    using storage_step_passes [OF assms, of "ios i" i fs] Cons.prems by auto
  moreover obtain rs where "storage_steps G ios js fs1 = Inr rs" "length rs = length js"
    using Cons.IH [of fs1] Cons.prems by auto
  ultimately show ?case by simp
qed simp

text \<open>The storage demonstration cannot fail: with correct cryptography and a writable directory each of the ten
  receipts verifies, each download returns what was uploaded, and the aggregate is a digest.\<close>

theorem storage_smoke_passes:
  assumes "aead_correct A" and "ed_correct C" and "length master = 32"
    and "\<forall>i<10. upload_ok (ios i) \<and> up_fault (ios i) = NoFault"
  shows "\<exists>root. storage_smoke C A master sk ios = Inr (''DECILLION_SMOKE_PASS objects=10 merkle_root='' @ root) \<and> length root = 64"
proof -
  let ?K = "\<lparr>kp_master = master, kp_require = False\<rparr>"
  let ?G = "\<lparr>sg_ed = C, sg_aead = A, sg_keys = ?K, sg_sk = sk\<rparr>"
  have "\<exists>rs. storage_steps ?G ios [0..<10] [] = Inr rs \<and> length rs = length [0..<10]"
    by (rule storage_steps_pass) (use assms in simp_all)
  then obtain rs where rs: "storage_steps ?G ios [0..<10] [] = Inr rs" "rs \<noteq> []" by force
  have "length (merkle_root (map receipt_leaf rs)) = 32" by (rule length_merkle_root) (simp add: receipt_leaf_def)
  then have "length (receipts_root rs) = 64" using rs(2) by (simp add: receipts_root_is_merkle_root)
  then show ?thesis using assms(3) rs(1) by (simp add: storage_smoke_def local_key_provider_def check_def Let_def)
qed

end
