(* ===== verification/Spec2Isabelle.thy ===== *)
theory Spec2Isabelle
  imports Pull_Examples Server_Examples Gateway_Examples Mirror_Examples Proof_Examples Bridge_Safety
    Accelerator Bounded_Proofs Cli_Proofs Models_Cli_Proofs Repo_Policy Telepath_Cli_Proofs
    Smoke_Scripts
begin

text \<open>
  Decillion: a verification library for its storage, transfer and proof components.

  The program. Decillion keeps model weights in encrypted, verifiable form and moves them between
  machines. The \<^emph>\<open>vault\<close> (src/src/vault) cuts a file into shards, seals each with AES-GCM and describes it
  by a manifest with a Merkle root; access to it is granted by an access list and Ed25519-signed requests,
  and audited by a chain of HMAC receipts, through an HTTP service (server.py) and a command line. The
  \<^emph>\<open>telepath\<close> nodes (src/src/telepath) open metered sessions with each other over TCP frames and pull
  models shard by shard. The \<^emph>\<open>gateway\<close> (src/src/decillion: objects, keys, receipts, engine, catalog, api)
  stores encrypted objects by content with signed receipts. The \<^emph>\<open>weight vault\<close> (vault.py, models.py there)
  mirrors licensed models into verified snapshots on one disk. The \<^emph>\<open>proof process\<close> (src/proof-process,
  src/src/proof_process) signs receipts of provider responses and issues reviewed certificates.
  src/src/matrix finds accelerators and src/tools runs a bounded benchmark.

  The model follows the code function by function. A Python \<open>str\<close> is a \<open>string\<close>, \<open>bytes\<close> a list of 8-bit
  words, a \<open>dict\<close> an insertion-ordered association list, an exception the left side of a sum, a file
  system a dictionary from paths to contents, a database table the list of its rows. State is passed
  explicitly; values the code draws or reads from outside (random bytes, identifiers, clocks, environment
  variables, what a peer or a hub answers) are arguments. The \<open>cryptography\<close> package, the JWT library, the
  model hub and the optional accelerator packages are parameters; what is assumed of them is stated by
  \<open>ed_correct\<close>, \<open>aead_correct\<close> and \<open>kdf_correct\<close> (theory Crypto), each with an instance that satisfies it.
  SHA-256 and HMAC are defined and executable.

  Theories and the code they model.

  \<^item> Language and library: Prelude (exceptions of decillion/errors.py and of Python, dictionaries, chunked
    reads; locale \<open>keyed_store\<close>), Py_Float, Py_Text, Py_Convert, Py_Values (conversions, truth, equality and
    iteration of values of unknown type), Py_Decimal (80-digit decimals), Json and Json_Roundtrip (dumps,
    loads, and that loads reads what dumps wrote), Base64, Base64_Url, Sha256, Crypto, File_System (atomic
    replacement of vault/store.py and its crash states), Linked_Log (locale of sealed chains).
  \<^item> Vault: Merkle, Nonce_Cache, Request_Nonce, Access, Acl (vault/access.py), Manifest (manifest.py),
    Vault_Store (store.py), Vault_Receipts (receipts.py), Vault_Server (server.py), Vault_Cli (cli.py).
    Vault_Proofs and Vault_Integrity prove what add, read and verify guarantee; Server_Safety what the
    service discloses, audits and refuses; Cli_Proofs what the commands add up to.
  \<^item> Telepath: Shard_Cache (cache.py), Sessions (session.py), Reputation (reputation.py), Tiers (tiers.py),
    Protocol (protocol.py, transport.py), Node_Server and Node_Client (the two sides of node.py). Node_Safety,
    Node_Pull, Node_Serve, Wire_Size and Node_Honest prove who is served, that a pull never installs a
    wrong file, and that between honest nodes it installs the right one and leaves the audit log of the
    server sound. Telepath_Cli (cli.py) composes them with the vault; Telepath_Cli_Proofs runs the smoke test.
  \<^item> Gateway: Storage (objects.py, keys.py, receipts.py, engine.py) and Storage_Api (catalog.py, api.py);
    Storage_Proofs and Gateway_Safety prove authenticity and durability of what is downloaded.
  \<^item> Weight vault: Weight_Vault (vault.py) and Model_Mirror (models.py); Weight_Vault_Proofs,
    Weight_Vault_Safety, Mirror_Safety and Download_Slots prove what verification detects, that a mirror
    changes all or nothing, and that slots exclude each other. Models_Cli (main of models.py) is the command
    line over them, Models_Cli_Proofs its sessions from a fresh vault on.
  \<^item> Proof process: Proof_Bridge (vonage_pop_bridge.py, of which the repository has two identical copies),
    Proof_Service (backend.py and contract_fixture.py); Bridge_Safety, Proof_Safety and Proof_Review prove
    what an accepted receipt, an issued certificate and a verifying bundle stand for.
  \<^item> Others: Accelerator (matrix/accelerator.py), Bounded_Run (tools/decillion_bounded_run.py) with
    Decimal_Accuracy and Bounded_Proofs; Repo_Policy (scripts/verify_repo.py) over Py_Regex, which has UTF-8 in
    full, a matcher for the patterns in use and the proof that it decides their language. Smoke_Scripts
    (scripts/smoke.py, decillion/cli.py) runs the gateway's demonstration and proves that it passes.
  \<^item> The theories named Examples hold the concrete instances of the larger theorems.

  Interfaces. Dictionaries meet \<open>keyed_store\<close>, the two crash-safe writers \<open>crash_safe\<close> (File_System), and
  vault receipts and proof events \<open>linked_log\<close>; the components use only the laws proved there.

  Kinds of statement. State invariants over arbitrary runs (sessions, caches, receipts, certificates,
  mirrored snapshots), exact conditions for acceptance and refusal, safety against whatever the disk or
  the peer holds (what is returned was added, what is accepted was signed, provided SHA-256 does not
  collide on the texts involved, where a statement says so), durability of what was stored, refinement
  (the cache of a bounded store, the service of the fixture), round trips, and bounds.

  Fuel and loops. The JSON parser carries one unit of fuel more than its text has characters, and every
  step consumes a character; \<open>loads_dumps\<close> shows it is enough for every printed value. The pull loop and all
  other loops recurse on the data they consume. The benchmark loop is \<open>while_option\<close>, proved to end.

  Bounds of the model. Outside Py_Regex text is limited to code points below 256: an escape or a UTF-8 sequence above that
  is refused like a malformed one. A finite float is the rational its text shows; rounding of float
  arithmetic is not modelled, nor is a JSON number too large for a float or an integer literal of
  more than 4300 digits inside JSON. Requests are handled one at a time, connections one after the other.
  Failing writes are modelled in the atomic writers, elsewhere writes succeed; a crash is the interruption of
  the process between two calls, so flushing to the medium and file modes are left out; directories are implied by
  the paths below them; a symbolic link in the weight vault leads to a regular file or nowhere. A field
  of the wrong type in a stored manifest or receipt counts as a TypeError. Timeouts are exceptions of
  the network argument.

  Not modelled: sockets and servers (closing them, waiting for signals), argument parsing, the smoke script
  of the weight vault, which only calls operations modelled here, and FastAPI's own request validation,
  which hands the handlers typed arguments.
\<close>

end
